(* ===== verification/Prelude.thy ===== *)
theory Prelude
  imports Main "HOL-Library.Word" "HOL-Library.List_Lexorder"
begin

text \<open>
  Shared vocabulary of the development: byte strings, Rust's \<^verbatim>\<open>Result\<close>, the state and error
  monad in which the stateful code is written, relations that a computation keeps (the locale
  \<open>kept\<close>), fuel approximation, decimal formatting and parsing of integers, big endian bytes
  and UTF-8.  Nothing here is specific to one component; everything models the Rust language
  or its standard library as the sources use it.
\<close>

section \<open>Collections of rules\<close>

named_theorems m_simps \<open>unfolding the monad on a state\<close>
named_theorems kept_intros \<open>computations that keep a relation\<close>
named_theorems approx_intros \<open>computations ordered by their fuel\<close>

section \<open>Bytes, machine integers and strings\<close>

type_synonym byte = "8 word"
type_synonym bytes = "8 word list"
type_synonym u32 = "32 word"
type_synonym u64 = "64 word"
type_synonym u128 = "128 word"

text \<open>A Rust \<^verbatim>\<open>String\<close> is the list of its UTF-8 code units.\<close>

definition str_bytes :: "string \<Rightarrow> bytes" where
  "str_bytes s = map (\<lambda>c. of_nat (of_char c)) s"

definition bytes_str :: "bytes \<Rightarrow> string" where
  "bytes_str bs = map (\<lambda>b. char_of (unat b)) bs"

lemma bytes_str_str_bytes [simp]: "bytes_str (str_bytes s) = s"
proof -
  have "char_of (unat (of_nat (of_char c) :: byte)) = c" for c :: char
    by (simp add: unat_of_nat)
  then show ?thesis
    by (simp add: bytes_str_def str_bytes_def comp_def)
qed

lemma str_bytes_inj: "str_bytes s = str_bytes t \<longleftrightarrow> s = t"
  by (metis bytes_str_str_bytes)

lemma str_bytes_append: "str_bytes (s @ t) = str_bytes s @ str_bytes t"
  by (simp add: str_bytes_def)

lemma length_str_bytes [simp]: "length (str_bytes s) = length s"
  by (simp add: str_bytes_def)

section \<open>Results, outcomes and the state and error monad\<close>

text \<open>
  \<open>('e, 'a) result\<close> is Rust's \<^verbatim>\<open>Result<A, E>\<close>.  A computation that may mutate its
  state ends in an \<open>outcome\<close>: a returned value, an early return with an error (the \<^verbatim>\<open>?\<close>
  operator), a panic, or no result within the fuel it was given.  The state reached is kept
  in every case, because an early return in Rust leaves the mutations made so far in place.
\<close>

datatype ('e, 'a) result = Ok 'a | Err 'e

datatype ('e, 'a) outcome = Ret 'a | Fail 'e | Panic | Diverge

type_synonym ('s, 'e, 'a) M = "'s \<Rightarrow> ('e, 'a) outcome \<times> 's"

definition returnM :: "'a \<Rightarrow> ('s, 'e, 'a) M" where
  [m_simps]: "returnM a s = (Ret a, s)"

definition failM :: "'e \<Rightarrow> ('s, 'e, 'a) M" where
  [m_simps]: "failM e s = (Fail e, s)"

definition panicM :: "('s, 'e, 'a) M" where
  [m_simps]: "panicM s = (Panic, s)"

definition divergeM :: "('s, 'e, 'a) M" where
  [m_simps]: "divergeM s = (Diverge, s)"

definition bindM :: "('s, 'e, 'a) M \<Rightarrow> ('a \<Rightarrow> ('s, 'e, 'b) M) \<Rightarrow> ('s, 'e, 'b) M" where
  [m_simps]: "bindM m f s =
     (case m s of
        (Ret a, s') \<Rightarrow> f a s'
      | (Fail e, s') \<Rightarrow> (Fail e, s')
      | (Panic, s') \<Rightarrow> (Panic, s')
      | (Diverge, s') \<Rightarrow> (Diverge, s'))"

definition thenM :: "('s, 'e, 'a) M \<Rightarrow> ('s, 'e, 'b) M \<Rightarrow> ('s, 'e, 'b) M" where
  [m_simps]: "thenM m k = bindM m (\<lambda>_. k)"

definition getM :: "('s \<Rightarrow> 'a) \<Rightarrow> ('s, 'e, 'a) M" where
  [m_simps]: "getM f s = (Ret (f s), s)"

definition modifyM :: "('s \<Rightarrow> 's) \<Rightarrow> ('s, 'e, unit) M" where
  [m_simps]: "modifyM f s = (Ret (), f s)"

text \<open>A mutation that also returns a value, such as a method taking \<^verbatim>\<open>&mut self\<close>.\<close>

definition updateM :: "('s \<Rightarrow> 'a \<times> 's) \<Rightarrow> ('s, 'e, 'a) M" where
  [m_simps]: "updateM f s = (Ret (fst (f s)), snd (f s))"

definition liftR :: "('e, 'a) result \<Rightarrow> ('s, 'e, 'a) M" where
  [m_simps]: "liftR r = (case r of Ok a \<Rightarrow> returnM a | Err e \<Rightarrow> failM e)"

text \<open>\<^verbatim>\<open>map_err\<close>, and the conversion the \<^verbatim>\<open>?\<close> operator makes.\<close>

definition map_errR :: "('d \<Rightarrow> 'e) \<Rightarrow> ('d, 'a) result \<Rightarrow> ('e, 'a) result" where
  "map_errR f r = (case r of Ok a \<Rightarrow> Ok a | Err e \<Rightarrow> Err (f e))"

lemma map_errR_simps [simp]: "map_errR f (Ok a) = Ok a" "map_errR f (Err e) = Err (f e)"
  by (simp_all add: map_errR_def)

definition map_errM :: "('d \<Rightarrow> 'e) \<Rightarrow> ('s, 'd, 'a) M \<Rightarrow> ('s, 'e, 'a) M" where
  [m_simps]: "map_errM f m s =
     (case m s of
        (Ret a, s') \<Rightarrow> (Ret a, s')
      | (Fail e, s') \<Rightarrow> (Fail (f e), s')
      | (Panic, s') \<Rightarrow> (Panic, s')
      | (Diverge, s') \<Rightarrow> (Diverge, s'))"

text \<open>\<^verbatim>\<open>match\<close> on a \<^verbatim>\<open>Result\<close>: an error becomes a value and the computation goes on.\<close>

definition tryM :: "('s, 'd, 'a) M \<Rightarrow> ('s, 'e, ('d, 'a) result) M" where
  [m_simps]: "tryM m s =
     (case m s of
        (Ret a, s') \<Rightarrow> (Ret (Ok a), s')
      | (Fail e, s') \<Rightarrow> (Ret (Err e), s')
      | (Panic, s') \<Rightarrow> (Panic, s')
      | (Diverge, s') \<Rightarrow> (Diverge, s'))"

text \<open>\<^verbatim>\<open>unwrap\<close> on an \<^verbatim>\<open>Option\<close> and on a \<^verbatim>\<open>Result\<close>.\<close>

definition unwrapM :: "'a option \<Rightarrow> ('s, 'e, 'a) M" where
  [m_simps]: "unwrapM x = (case x of None \<Rightarrow> panicM | Some a \<Rightarrow> returnM a)"

definition unwrapR :: "('d, 'a) result \<Rightarrow> ('s, 'e, 'a) M" where
  [m_simps]: "unwrapR x = (case x of Err _ \<Rightarrow> panicM | Ok a \<Rightarrow> returnM a)"

text \<open>Running a computation on a part of the state: a method call on a field.\<close>

definition zoomM :: "('s \<Rightarrow> 't) \<Rightarrow> ('t \<Rightarrow> 's \<Rightarrow> 's) \<Rightarrow> ('t, 'e, 'a) M \<Rightarrow> ('s, 'e, 'a) M" where
  [m_simps]: "zoomM get put m s = (case m (get s) of (r, t) \<Rightarrow> (r, put t s))"

text \<open>A \<^verbatim>\<open>for\<close> loop with an early return on error.\<close>

primrec forM :: "('b \<Rightarrow> ('s, 'e, unit) M) \<Rightarrow> 'b list \<Rightarrow> ('s, 'e, unit) M" where
  "forM f [] = returnM ()"
| "forM f (x # xs) = thenM (f x) (forM f xs)"

lemma bindM_assoc: "bindM (bindM m f) g = bindM m (\<lambda>x. bindM (f x) g)"
  by (rule ext) (simp add: bindM_def split: prod.split outcome.split)

lemma bindM_return_left [simp]: "bindM (returnM a) f = f a"
  by (rule ext) (simp add: m_simps)

lemma bindM_return_right [simp]: "bindM m returnM = m"
  by (rule ext) (simp add: m_simps split: prod.split outcome.split)

lemma bindM_fail [simp]: "bindM (failM e) f = failM e"
  by (rule ext) (simp add: m_simps)

lemma bindM_panic [simp]: "bindM panicM f = panicM"
  by (rule ext) (simp add: m_simps)

lemma bindM_Ret_iff:
  "bindM m f s = (Ret b, s'') \<longleftrightarrow> (\<exists>a s'. m s = (Ret a, s') \<and> f a s' = (Ret b, s''))"
  by (auto simp: bindM_def split: prod.splits outcome.splits)

lemma bindM_eqI: "m s = (Ret a, s') \<Longrightarrow> bindM m f s = f a s'"
  by (simp add: bindM_def)

section \<open>Relations that a computation keeps\<close>

text \<open>
  \<open>keeps R m\<close>: whatever \<open>m\<close> ends in, the state it leaves is related by \<open>R\<close> to the
  state it started in.  An invariant \<open>I\<close> is the relation \<open>\<lambda>s t. I s \<longrightarrow> I t\<close>; a frame
  condition is equality of the parts that must not change.  The locale \<open>kept\<close> carries the
  relation through the monad for every preorder; components interpret it for their own
  relations.
\<close>

definition keeps :: "('s \<Rightarrow> 's \<Rightarrow> bool) \<Rightarrow> ('s, 'e, 'a) M \<Rightarrow> bool" where
  "keeps R m \<longleftrightarrow> (\<forall>s. R s (snd (m s)))"

lemma keepsI: "(\<And>s. R s (snd (m s))) \<Longrightarrow> keeps R m"
  by (simp add: keeps_def)

lemma keepsD: "keeps R m \<Longrightarrow> m s = (r, s') \<Longrightarrow> R s s'"
  by (metis keeps_def snd_conv)

lemma keeps_modify: "(\<And>s. R s (f s)) \<Longrightarrow> keeps R (modifyM f)"
  by (simp add: keeps_def m_simps)

lemma keeps_update: "(\<And>s. R s (snd (f s))) \<Longrightarrow> keeps R (updateM f)"
  by (simp add: keeps_def m_simps)

lemma keeps_zoom:
  assumes "keeps Q m" and "\<And>s t. Q (g s) t \<Longrightarrow> R s (p t s)"
  shows "keeps R (zoomM g p m)"
  using assms(2) by (intro keepsI) (auto simp: m_simps split: prod.splits dest: keepsD [OF assms(1)])

locale kept =
  fixes R :: "'s \<Rightarrow> 's \<Rightarrow> bool"
  assumes kept_refl: "R s s"
    and kept_trans: "R s t \<Longrightarrow> R t u \<Longrightarrow> R s u"
begin

lemma return [kept_intros]: "keeps R (returnM a)"
  by (simp add: keeps_def m_simps kept_refl)

lemma fail [kept_intros]: "keeps R (failM e)"
  by (simp add: keeps_def m_simps kept_refl)

lemma panic [kept_intros]: "keeps R panicM"
  by (simp add: keeps_def m_simps kept_refl)

lemma diverge [kept_intros]: "keeps R divergeM"
  by (simp add: keeps_def m_simps kept_refl)

lemma get [kept_intros]: "keeps R (getM f)"
  by (simp add: keeps_def m_simps kept_refl)

lemma bind [kept_intros]: "keeps R m \<Longrightarrow> (\<And>a. keeps R (f a)) \<Longrightarrow> keeps R (bindM m f)"
  by (intro keepsI)
    (auto simp: bindM_def split: prod.split outcome.split dest: keepsD intro: kept_trans,
     metis keeps_def kept_trans keepsD)

lemma seq [kept_intros]: "keeps R m \<Longrightarrow> keeps R k \<Longrightarrow> keeps R (thenM m k)"
  unfolding thenM_def by (rule bind)

lemma map_err [kept_intros]: "keeps R m \<Longrightarrow> keeps R (map_errM f m)"
  by (intro keepsI) (auto simp: map_errM_def split: prod.split outcome.split dest: keepsD)

lemma attempt [kept_intros]: "keeps R m \<Longrightarrow> keeps R (tryM m)"
  by (intro keepsI) (auto simp: tryM_def split: prod.split outcome.split dest: keepsD)

lemma lift_result [kept_intros]: "keeps R (liftR r)"
  by (cases r) (simp_all add: liftR_def return fail)

lemma unwrap_option [kept_intros]: "keeps R (unwrapM x)"
  by (cases x) (simp_all add: unwrapM_def return panic)

lemma unwrap_result [kept_intros]: "keeps R (unwrapR x)"
  by (cases x) (simp_all add: unwrapR_def return panic)

lemma for_each [kept_intros]: "(\<And>x. keeps R (f x)) \<Longrightarrow> keeps R (forM f xs)"
  by (induction xs) (simp_all add: return seq)

end

section \<open>Fuel\<close>

text \<open>
  \<open>approx m m'\<close>: \<open>m'\<close> does what \<open>m\<close> does wherever \<open>m\<close> does not run out of fuel.
\<close>

definition approx :: "('s, 'e, 'a) M \<Rightarrow> ('s, 'e, 'a) M \<Rightarrow> bool" where
  "approx m m' \<longleftrightarrow> (\<forall>s. fst (m s) = Diverge \<or> m' s = m s)"

lemma approxD: "approx m m' \<Longrightarrow> m s = (r, s') \<Longrightarrow> r \<noteq> Diverge \<Longrightarrow> m' s = (r, s')"
  unfolding approx_def by (metis fst_conv)

lemma approx_refl [approx_intros, simp]: "approx m m"
  by (simp add: approx_def)

lemma approx_trans: "approx a b \<Longrightarrow> approx b c \<Longrightarrow> approx a c"
  unfolding approx_def by metis

lemma approx_diverge [approx_intros]: "approx divergeM m"
  by (simp add: approx_def m_simps)

lemma approx_bind [approx_intros]:
  assumes "approx m m'" and "\<And>a. approx (f a) (f' a)"
  shows "approx (bindM m f) (bindM m' f')"
proof (unfold approx_def, intro allI)
  fix s
  obtain r t where m: "m s = (r, t)" by (cases "m s")
  show "fst (bindM m f s) = Diverge \<or> bindM m' f' s = bindM m f s"
  proof (cases r)
    case (Ret a)
    with m assms(1) have "m' s = (Ret a, t)" by (auto intro: approxD)
    with m Ret assms(2) show ?thesis by (auto simp: bindM_def approx_def)
  next
    case Diverge
    with m show ?thesis by (simp add: bindM_def)
  qed (use m assms(1) in \<open>auto simp: bindM_def dest!: approxD\<close>)
qed

lemma approx_then [approx_intros]:
  "approx m m' \<Longrightarrow> approx k k' \<Longrightarrow> approx (thenM m k) (thenM m' k')"
  unfolding thenM_def by (rule approx_bind)

lemma approx_cases:
  assumes "approx m m'"
  obtains s' where "m s = (Diverge, s')" | "m' s = m s"
  using assms unfolding approx_def by (metis surjective_pairing)

lemma approx_map_err [approx_intros]:
  assumes "approx m m'"
  shows "approx (map_errM f m) (map_errM f m')"
  unfolding approx_def
proof (intro allI)
  fix s
  from assms show "fst (map_errM f m s) = Diverge \<or> map_errM f m' s = map_errM f m s"
    by (rule approx_cases [of m m' s]) (simp_all add: map_errM_def)
qed

lemma approx_try [approx_intros]:
  assumes "approx m m'"
  shows "approx (tryM m) (tryM m')"
  unfolding approx_def
proof (intro allI)
  fix s
  from assms show "fst (tryM m s) = Diverge \<or> tryM m' s = tryM m s"
    by (rule approx_cases [of m m' s]) (simp_all add: tryM_def)
qed

lemma approx_zoom [approx_intros]:
  assumes "approx m m'"
  shows "approx (zoomM g p m) (zoomM g p m')"
  unfolding approx_def
proof (intro allI)
  fix s
  from assms show "fst (zoomM g p m s) = Diverge \<or> zoomM g p m' s = zoomM g p m s"
    by (rule approx_cases [of m m' "g s"]) (simp_all add: zoomM_def)
qed

end
