(* ===== verification/CwMath.thy ===== *)
theory CwMath
  imports Encoding
begin

text \<open>
  The integer types of \<^verbatim>\<open>cosmwasm_std::math\<close> that the simulator computes with, and
  \<^verbatim>\<open>Timestamp\<close>.  An unsigned integer keeps its width as a machine word.  The first section
  holds the checked, saturating and wrapping operations of Rust's primitive integers at any
  width; the following ones translate \<^verbatim>\<open>Uint128\<close>, \<^verbatim>\<open>Timestamp\<close> and \<^verbatim>\<open>Isqrt\<close>.  An
  operation that panics returns \<open>None\<close>.
\<close>

section \<open>Primitive unsigned integers\<close>

definition chk_add :: "'a :: len word \<Rightarrow> 'a word \<Rightarrow> 'a word option" where
  "chk_add a b = (if unat a + unat b < 2 ^ LENGTH('a) then Some (a + b) else None)"

definition chk_sub :: "'a :: len word \<Rightarrow> 'a word \<Rightarrow> 'a word option" where
  "chk_sub a b = (if b \<le> a then Some (a - b) else None)"

definition chk_mul :: "'a :: len word \<Rightarrow> 'a word \<Rightarrow> 'a word option" where
  "chk_mul a b = (if unat a * unat b < 2 ^ LENGTH('a) then Some (a * b) else None)"

definition chk_div :: "'a :: len word \<Rightarrow> 'a word \<Rightarrow> 'a word option" where
  "chk_div a b = (if b = 0 then None else Some (a div b))"

definition chk_rem :: "'a :: len word \<Rightarrow> 'a word \<Rightarrow> 'a word option" where
  "chk_rem a b = (if b = 0 then None else Some (a mod b))"

definition chk_shr :: "'a :: len word \<Rightarrow> u32 \<Rightarrow> 'a word option" where
  "chk_shr a n = (if unat n < LENGTH('a) then Some (drop_bit (unat n) a) else None)"

definition chk_pow :: "'a :: len word \<Rightarrow> nat \<Rightarrow> 'a word option" where
  "chk_pow a n = (if unat a ^ n < 2 ^ LENGTH('a) then Some (a ^ n) else None)"

definition sat_sub :: "'a :: len word \<Rightarrow> 'a word \<Rightarrow> 'a word" where
  "sat_sub a b = (case chk_sub a b of Some c \<Rightarrow> c | None \<Rightarrow> 0)"

definition sat_of :: "'a :: len word option \<Rightarrow> 'a word" where
  "sat_of x = (case x of Some c \<Rightarrow> c | None \<Rightarrow> - 1)"

text \<open>
  Plain \<^verbatim>\<open>+\<close> and \<^verbatim>\<open>-\<close> on primitive integers panic in a build with overflow checks and wrap
  in one without; the flag is the build's.
\<close>

definition prim_add :: "bool \<Rightarrow> 'a :: len word \<Rightarrow> 'a word \<Rightarrow> 'a word option" where
  "prim_add checks a b = (if checks then chk_add a b else Some (a + b))"

definition prim_sub :: "bool \<Rightarrow> 'a :: len word \<Rightarrow> 'a word \<Rightarrow> 'a word option" where
  "prim_sub checks a b = (if checks then chk_sub a b else Some (a - b))"

definition prim_mul :: "bool \<Rightarrow> 'a :: len word \<Rightarrow> 'a word \<Rightarrow> 'a word option" where
  "prim_mul checks a b = (if checks then chk_mul a b else Some (a * b))"

lemma unat_ucast_up:
  "LENGTH('a :: len) \<le> LENGTH('b :: len) \<Longrightarrow> unat (ucast (a :: 'a word) :: 'b word) = unat a"
proof -
  assume "LENGTH('a) \<le> LENGTH('b)"
  then have "(2 :: nat) ^ LENGTH('a) \<le> 2 ^ LENGTH('b)" by (rule power_increasing) simp
  with unsigned_less have "unat a < 2 ^ LENGTH('b)" by (rule order_less_le_trans)
  then show ?thesis by (simp add: unsigned_ucast_eq take_bit_nat_eq_self_iff)
qed

lemma ucast_of_nat_unat: "(ucast a :: 'b :: len word) = of_nat (unat (a :: 'a :: len word))"
  by (simp add: word_eq_iff_unsigned unsigned_ucast_eq unsigned_of_nat)

lemma unat_chk_add: "chk_add a b = Some c \<Longrightarrow> unat c = unat a + unat b"
  by (auto simp: chk_add_def unat_word_ariths split: if_splits)

lemma unat_chk_sub: "chk_sub a b = Some c \<Longrightarrow> unat c = unat a - unat b"
  by (auto simp: chk_sub_def unat_sub split: if_splits)

lemma unat_chk_mul: "chk_mul a b = Some c \<Longrightarrow> unat c = unat a * unat b"
  by (auto simp: chk_mul_def unat_word_ariths split: if_splits)

lemma unat_power_word: "unat (a ^ n :: 'a :: len word) = unat a ^ n mod 2 ^ LENGTH('a)"
  by (induction n) (simp_all add: unat_word_ariths mod_mult_right_eq)

lemma unat_chk_pow: "chk_pow a n = Some c \<Longrightarrow> unat c = unat a ^ n"
  by (auto simp: chk_pow_def unat_power_word split: if_splits)

lemma chk_sub_chk_add: "chk_sub a b = Some c \<Longrightarrow> chk_add c b = Some a"
proof -
  assume c: "chk_sub a b = Some c"
  then have le: "b \<le> a" by (auto simp: chk_sub_def split: if_splits)
  have "unat c + unat b = unat a"
    using unat_chk_sub [OF c] le by (simp add: word_le_nat_alt)
  moreover from c have "c + b = a" by (auto simp: chk_sub_def split: if_splits)
  ultimately show ?thesis using unsigned_less [of a] by (simp add: chk_add_def)
qed

section \<open>Errors of the arithmetic operations\<close>

datatype OverflowOperation = OpAdd | OpSub | OpMul | OpPow | OpShr | OpShl

record OverflowError =
  oe_operation :: OverflowOperation
  oe_operand1 :: string
  oe_operand2 :: string

record DivideByZeroError =
  dz_operand :: string

datatype CheckedMultiplyRatioError = CMR_DivideByZero | CMR_Overflow

definition OverflowError_new :: "OverflowOperation \<Rightarrow> string \<Rightarrow> string \<Rightarrow> OverflowError" where
  "OverflowError_new operation operand1 operand2 =
     \<lparr>oe_operation = operation, oe_operand1 = operand1, oe_operand2 = operand2\<rparr>"

definition DivideByZeroError_new :: "string \<Rightarrow> DivideByZeroError" where
  "DivideByZeroError_new operand = \<lparr>dz_operand = operand\<rparr>"

definition ok_or :: "'a option \<Rightarrow> 'e \<Rightarrow> ('e, 'a) result" where
  "ok_or x e = (case x of Some a \<Rightarrow> Ok a | None \<Rightarrow> Err e)"

lemma ok_or_Ok [simp]: "ok_or x e = Ok a \<longleftrightarrow> x = Some a"
  by (cases x) (simp_all add: ok_or_def)

lemma ok_or_Err [simp]: "ok_or x e = Err d \<longleftrightarrow> x = None \<and> d = e"
  by (cases x) (auto simp: ok_or_def)

section \<open>\<^verbatim>\<open>Uint128\<close>\<close>

type_synonym Uint128 = u128

definition Uint128_to_string :: "Uint128 \<Rightarrow> string" where
  "Uint128_to_string a = nat_str (unat a)"

definition Uint128_checked_add :: "Uint128 \<Rightarrow> Uint128 \<Rightarrow> (OverflowError, Uint128) result" where
  "Uint128_checked_add a b =
     ok_or (chk_add a b) (OverflowError_new OpAdd (Uint128_to_string a) (Uint128_to_string b))"

definition Uint128_checked_sub :: "Uint128 \<Rightarrow> Uint128 \<Rightarrow> (OverflowError, Uint128) result" where
  "Uint128_checked_sub a b =
     ok_or (chk_sub a b) (OverflowError_new OpSub (Uint128_to_string a) (Uint128_to_string b))"

definition Uint128_checked_mul :: "Uint128 \<Rightarrow> Uint128 \<Rightarrow> (OverflowError, Uint128) result" where
  "Uint128_checked_mul a b =
     ok_or (chk_mul a b) (OverflowError_new OpMul (Uint128_to_string a) (Uint128_to_string b))"

definition Uint128_checked_pow :: "Uint128 \<Rightarrow> u32 \<Rightarrow> (OverflowError, Uint128) result" where
  "Uint128_checked_pow a e =
     ok_or (chk_pow a (unat e)) (OverflowError_new OpPow (Uint128_to_string a) (nat_str (unat e)))"

definition Uint128_checked_div :: "Uint128 \<Rightarrow> Uint128 \<Rightarrow> (DivideByZeroError, Uint128) result" where
  "Uint128_checked_div a b = ok_or (chk_div a b) (DivideByZeroError_new (Uint128_to_string a))"

definition Uint128_checked_rem :: "Uint128 \<Rightarrow> Uint128 \<Rightarrow> (DivideByZeroError, Uint128) result" where
  "Uint128_checked_rem a b = ok_or (chk_rem a b) (DivideByZeroError_new (Uint128_to_string a))"

definition Uint128_saturating_add :: "Uint128 \<Rightarrow> Uint128 \<Rightarrow> Uint128" where
  "Uint128_saturating_add a b = sat_of (chk_add a b)"

definition Uint128_saturating_sub :: "Uint128 \<Rightarrow> Uint128 \<Rightarrow> Uint128" where
  "Uint128_saturating_sub a b = sat_sub a b"

definition Uint128_saturating_mul :: "Uint128 \<Rightarrow> Uint128 \<Rightarrow> Uint128" where
  "Uint128_saturating_mul a b = sat_of (chk_mul a b)"

definition Uint128_saturating_pow :: "Uint128 \<Rightarrow> u32 \<Rightarrow> Uint128" where
  "Uint128_saturating_pow a e = sat_of (chk_pow a (unat e))"

definition Uint128_wrapping_add :: "Uint128 \<Rightarrow> Uint128 \<Rightarrow> Uint128" where
  "Uint128_wrapping_add a b = a + b"

definition Uint128_wrapping_sub :: "Uint128 \<Rightarrow> Uint128 \<Rightarrow> Uint128" where
  "Uint128_wrapping_sub a b = a - b"

definition Uint128_wrapping_mul :: "Uint128 \<Rightarrow> Uint128 \<Rightarrow> Uint128" where
  "Uint128_wrapping_mul a b = a * b"

definition Uint128_wrapping_pow :: "Uint128 \<Rightarrow> u32 \<Rightarrow> Uint128" where
  "Uint128_wrapping_pow a e = a ^ unat e"

definition Uint128_abs_diff :: "Uint128 \<Rightarrow> Uint128 \<Rightarrow> Uint128" where
  "Uint128_abs_diff a b = (if a < b then b - a else a - b)"

text \<open>The operators: \<^verbatim>\<open>+\<close>, \<^verbatim>\<open>-\<close>, \<^verbatim>\<open>*\<close>, \<^verbatim>\<open>/\<close> and \<^verbatim>\<open>>>\<close>, panicking where the checked form fails.\<close>

definition Uint128_add :: "Uint128 \<Rightarrow> Uint128 \<Rightarrow> Uint128 option" where
  "Uint128_add a b = chk_add a b"

definition Uint128_sub :: "Uint128 \<Rightarrow> Uint128 \<Rightarrow> Uint128 option" where
  "Uint128_sub a b = chk_sub a b"

definition Uint128_mul :: "Uint128 \<Rightarrow> Uint128 \<Rightarrow> Uint128 option" where
  "Uint128_mul a b = chk_mul a b"

definition Uint128_div :: "Uint128 \<Rightarrow> Uint128 \<Rightarrow> Uint128 option" where
  "Uint128_div a b = chk_div a b"

definition Uint128_shr :: "Uint128 \<Rightarrow> u32 \<Rightarrow> Uint128 option" where
  "Uint128_shr a n = chk_shr a n"

definition Uint128_rem :: "Uint128 \<Rightarrow> Uint128 \<Rightarrow> Uint128 option" where
  "Uint128_rem a b = chk_rem a b"

text \<open>\<open>full_mul\<close> multiplies two 128 bit values at 256 bits; the product always fits.\<close>

definition Uint128_full_mul :: "Uint128 \<Rightarrow> u128 \<Rightarrow> 256 word option" where
  "Uint128_full_mul a rhs = chk_mul (ucast a :: 256 word) (ucast rhs)"

definition Uint128_checked_multiply_ratio ::
  "Uint128 \<Rightarrow> u128 \<Rightarrow> u128 \<Rightarrow> (CheckedMultiplyRatioError, Uint128) result option" where
  "Uint128_checked_multiply_ratio a numerator denominator =
     (if denominator = 0 then Some (Err CMR_DivideByZero)
      else case Uint128_full_mul a numerator of
             None \<Rightarrow> None
           | Some p \<Rightarrow>
               let q = p div ucast denominator in
               Some (if unat q < 2 ^ 128 then Ok (ucast q) else Err CMR_Overflow))"

definition Uint128_multiply_ratio :: "Uint128 \<Rightarrow> u128 \<Rightarrow> u128 \<Rightarrow> Uint128 option" where
  "Uint128_multiply_ratio a numerator denominator =
     (case Uint128_checked_multiply_ratio a numerator denominator of
        Some (Ok v) \<Rightarrow> Some v
      | _ \<Rightarrow> None)"

lemma Uint128_full_mul_total: "Uint128_full_mul a b = Some (ucast a * ucast b)"
proof -
  have "unat a * unat b < 2 ^ 128 * 2 ^ 128"
    using unsigned_less [of a] unsigned_less [of b] by (intro mult_strict_mono') simp_all
  then show ?thesis
    by (simp add: Uint128_full_mul_def chk_mul_def unat_ucast_up)
qed

lemma unat_Uint128_full_mul: "Uint128_full_mul a b = Some p \<Longrightarrow> unat p = unat a * unat b"
  by (auto simp: Uint128_full_mul_def unat_ucast_up dest: unat_chk_mul)

lemma Uint128_checked_multiply_ratio_value:
  assumes "d \<noteq> 0"
  shows "Uint128_checked_multiply_ratio a n d =
     Some (if unat a * unat n div unat d < 2 ^ 128
           then Ok (of_nat (unat a * unat n div unat d)) else Err CMR_Overflow)"
proof -
  obtain p where p: "Uint128_full_mul a n = Some p" by (simp add: Uint128_full_mul_total)
  have "unat (p div ucast d) = unat a * unat n div unat d"
    using unat_Uint128_full_mul [OF p] by (simp add: unat_div unat_ucast_up)
  moreover have "(ucast (p div ucast d) :: u128) = of_nat (unat (p div ucast d))"
    by (rule ucast_of_nat_unat)
  ultimately show ?thesis
    using assms p by (simp add: Uint128_checked_multiply_ratio_def Let_def)
qed

section \<open>\<^verbatim>\<open>Timestamp\<close>\<close>

type_synonym Timestamp = u64

definition Timestamp_from_nanos :: "u64 \<Rightarrow> Timestamp" where
  "Timestamp_from_nanos n = n"

definition Timestamp_plus_nanos :: "bool \<Rightarrow> Timestamp \<Rightarrow> u64 \<Rightarrow> Timestamp option" where
  "Timestamp_plus_nanos checks t addition = prim_add checks t addition"

definition Timestamp_from_seconds :: "bool \<Rightarrow> u64 \<Rightarrow> Timestamp option" where
  "Timestamp_from_seconds checks s = prim_mul checks s 1000000000"

definition Timestamp_plus_seconds :: "bool \<Rightarrow> Timestamp \<Rightarrow> u64 \<Rightarrow> Timestamp option" where
  "Timestamp_plus_seconds checks t addition =
     (case prim_mul checks addition 1000000000 of
        None \<Rightarrow> None
      | Some n \<Rightarrow> Timestamp_plus_nanos checks t n)"

definition Timestamp_minus_nanos :: "bool \<Rightarrow> Timestamp \<Rightarrow> u64 \<Rightarrow> Timestamp option" where
  "Timestamp_minus_nanos checks t subtrahend = prim_sub checks t subtrahend"

definition Timestamp_minus_seconds :: "bool \<Rightarrow> Timestamp \<Rightarrow> u64 \<Rightarrow> Timestamp option" where
  "Timestamp_minus_seconds checks t subtrahend =
     (case prim_mul checks subtrahend 1000000000 of
        None \<Rightarrow> None
      | Some n \<Rightarrow> Timestamp_minus_nanos checks t n)"

definition Timestamp_nanos :: "Timestamp \<Rightarrow> u64" where
  "Timestamp_nanos t = t"

definition Timestamp_seconds :: "Timestamp \<Rightarrow> u64" where
  "Timestamp_seconds t = t div 1000000000"

definition Timestamp_subsec_nanos :: "Timestamp \<Rightarrow> u64" where
  "Timestamp_subsec_nanos t = t mod 1000000000"

section \<open>\<^verbatim>\<open>Isqrt\<close>\<close>

text \<open>
  The loop of \<^verbatim>\<open>isqrt\<close>, over any unsigned type: \<open>isqrt_step\<close> is \<^verbatim>\<open>(x0 + self / x0) >> 1\<close>.
\<close>

definition isqrt_step :: "'a :: len word \<Rightarrow> 'a word \<Rightarrow> 'a word option" where
  "isqrt_step self x0 =
     (case chk_div self x0 of
        None \<Rightarrow> None
      | Some q \<Rightarrow> (case chk_add x0 q of None \<Rightarrow> None | Some s \<Rightarrow> chk_shr s 1))"

function isqrt_loop :: "'a :: len word \<Rightarrow> 'a word \<Rightarrow> 'a word \<Rightarrow> 'a word option" where
  "isqrt_loop self x0 x1 =
     (if x1 < x0
      then (case isqrt_step self x1 of None \<Rightarrow> None | Some x2 \<Rightarrow> isqrt_loop self x1 x2)
      else Some x0)"
  by pat_completeness auto
termination
  by (relation "measure (\<lambda>(self, x0, x1). unat x0)") (simp_all add: word_less_nat_alt)

declare isqrt_loop.simps [simp del]

definition isqrt :: "'a :: len word \<Rightarrow> 'a word option" where
  "isqrt self =
     (case chk_shr self 1 of
        None \<Rightarrow> None
      | Some x0 \<Rightarrow>
          if x0 > 0
          then (case isqrt_step self x0 of None \<Rightarrow> None | Some x1 \<Rightarrow> isqrt_loop self x0 x1)
          else Some self)"

lemma newton_step_lower:
  assumes "0 < (x :: nat)"
  shows "n < ((x + n div x) div 2 + 1) ^ 2"
proof -
  define q where "q = n div x"
  have n: "n < x * (q + 1)"
    using assms by (simp add: q_def) (metis add.commute dividend_less_times_div mult_Suc_right)
  define s where "s = (x + q) div 2 + 1"
  have s: "x + (q + 1) \<le> 2 * s" by (simp add: s_def)
  have "4 * (int x * (int q + 1)) \<le> (int x + (int q + 1)) ^ 2"
    using zero_le_power2 [of "int x - (int q + 1)"] by (simp add: power2_eq_square algebra_simps)
  also have "\<dots> \<le> (2 * int s) ^ 2"
    using s by (intro power_mono) simp_all
  finally have "int (x * (q + 1)) \<le> int (s ^ 2)" by (simp add: power2_eq_square algebra_simps)
  then have "x * (q + 1) \<le> s ^ 2" by (simp only: of_nat_le_iff)
  with n show ?thesis by (simp add: s_def q_def)
qed

lemma newton_step_upper:
  assumes "0 < (x :: nat)" and "x \<le> (x + n div x) div 2"
  shows "x ^ 2 \<le> n"
proof -
  from assms(2) have "x \<le> n div x" by simp
  then have "x * x \<le> n div x * x" by (rule mult_right_mono) simp
  also have "\<dots> \<le> n" by simp
  finally show ?thesis by (simp add: power2_eq_square)
qed

lemma newton_sum_fits:
  assumes "0 < (x :: nat)" and "x \<le> n div 2" and "n < (x + 1) ^ 2" and "4 < B" and "n < B"
  shows "x + n div x < B"
proof (cases "x = 1")
  case True
  then show ?thesis using assms by (simp add: power2_eq_square)
next
  case False
  then have "n div x \<le> n div 2" using assms(1) by (intro div_le_mono2) simp_all
  with assms(2) have "x + n div x \<le> n" by simp
  with assms(5) show ?thesis by simp
qed

lemma half_lower:
  assumes "2 \<le> (n :: nat)"
  shows "n < (n div 2 + 1) ^ 2"
proof -
  define k where "k = n div 2"
  have "n \<le> 2 * k + 1" by (simp add: k_def)
  also have "2 * k + 1 < (k + 1) ^ 2" using assms by (simp add: k_def power2_eq_square)
  finally show ?thesis by (simp add: k_def)
qed

lemma isqrt_step_value:
  fixes self :: "'a :: len word"
  assumes w: "3 \<le> LENGTH('a)" and x: "0 < unat x0" "unat x0 \<le> unat self div 2"
    and lo: "unat self < (unat x0 + 1) ^ 2"
  obtains x1 where "isqrt_step self x0 = Some x1"
    and "unat x1 = (unat x0 + unat self div unat x0) div 2"
proof -
  have B: "4 < (2 :: nat) ^ LENGTH('a)"
    using power_increasing [OF w, of "2 :: nat"] by simp
  have s: "chk_add x0 (self div x0) = Some (x0 + self div x0)"
    using newton_sum_fits [OF x lo B unsigned_less] by (simp add: chk_add_def unat_div)
  have one: "unat (1 :: u32) < LENGTH('a)" using w by simp
  show thesis
  proof (rule that)
    show "isqrt_step self x0 = Some (drop_bit 1 (x0 + self div x0))"
      using x s one by (auto simp: isqrt_step_def chk_div_def chk_shr_def)
    show "unat (drop_bit 1 (x0 + self div x0)) = (unat x0 + unat self div unat x0) div 2"
      using unat_chk_add [OF s] w by (simp add: unat_drop_bit_eq drop_bit_Suc unat_div)
  qed
qed

lemma isqrt_loop_value:
  fixes self :: "'a :: len word"
  assumes w: "3 \<le> LENGTH('a)"
  shows "\<lbrakk>2 \<le> unat self; 0 < unat x0; unat x0 \<le> unat self div 2; unat self < (unat x0 + 1) ^ 2;
     unat x1 = (unat x0 + unat self div unat x0) div 2\<rbrakk>
    \<Longrightarrow> \<exists>r. isqrt_loop self x0 x1 = Some r \<and> unat r ^ 2 \<le> unat self \<and> unat self < (unat r + 1) ^ 2"
proof (induction self x0 x1 rule: isqrt_loop.induct)
  case (1 self x0 x1)
  note pos = 1(2) and x0 = 1(3,4) and x1_eq = 1(6)
  show ?case
  proof (cases "x1 < x0")
    case True
    have lo: "unat self < (unat x1 + 1) ^ 2"
      using newton_step_lower [OF x0(1), of "unat self"] x1_eq by simp
    then have x1: "0 < unat x1"
      using pos by (cases "unat x1 = 0") simp_all
    have le: "unat x1 \<le> unat self div 2"
      using True x0(2) by (simp add: word_less_nat_alt)
    obtain x2 where x2: "isqrt_step self x1 = Some x2"
      "unat x2 = (unat x1 + unat self div unat x1) div 2"
      using isqrt_step_value [OF w x1 le lo] .
    show ?thesis
      using 1(1) [OF True x2(1) pos x1 le lo x2(2)] True x2(1) by (subst isqrt_loop.simps) simp
  next
    case False
    then have "unat x0 \<le> (unat x0 + unat self div unat x0) div 2"
      using x1_eq by (simp add: word_less_nat_alt)
    then show ?thesis
      using newton_step_upper [OF x0(1)] 1(5) False by (subst isqrt_loop.simps) simp
  qed
qed

lemma isqrt_value:
  fixes self :: "'a :: len word"
  assumes w: "3 \<le> LENGTH('a)"
  shows "\<exists>r. isqrt self = Some r \<and> unat r ^ 2 \<le> unat self \<and> unat self < (unat r + 1) ^ 2"
proof -
  define x0 where "x0 = drop_bit 1 self"
  have shr: "chk_shr self 1 = Some x0" using w by (simp add: chk_shr_def x0_def)
  have x0: "unat x0 = unat self div 2"
    unfolding x0_def unat_drop_bit_eq by (simp add: drop_bit_Suc)
  show ?thesis
  proof (cases "x0 > 0")
    case True
    then have pos: "0 < unat x0" by (simp add: word_less_nat_alt)
    then have two: "2 \<le> unat self" using x0 by simp
    have lo: "unat self < (unat x0 + 1) ^ 2"
      using half_lower [of "unat self"] two x0 by simp
    obtain x1 where x1: "isqrt_step self x0 = Some x1"
      "unat x1 = (unat x0 + unat self div unat x0) div 2"
      using isqrt_step_value [OF w pos _ lo] x0 by auto
    show ?thesis
      using isqrt_loop_value [OF w two pos _ lo x1(2)] x0 True shr x1(1)
      by (simp add: isqrt_def)
  next
    case False
    then have "unat x0 = 0" by (simp add: word_less_nat_alt)
    then have "unat self = 0 \<or> unat self = 1" using x0 by auto
    then show ?thesis using False shr by (auto simp: isqrt_def power2_eq_square)
  qed
qed

section \<open>Properties\<close>

text \<open>
  \<^verbatim>\<open>isqrt\<close> never panics (its intermediate sum fits, and it never divides by zero) and
  returns the integer square root, for every width of at least 8 bits.
\<close>

theorem isqrt_correct:
  fixes self :: "'a :: len word"
  assumes "8 \<le> LENGTH('a)"
  shows "\<exists>r. isqrt self = Some r \<and> unat r ^ 2 \<le> unat self \<and> unat self < (unat r + 1) ^ 2"
  using isqrt_value [of self] assms by simp

theorem isqrt_correct_witness:
  "\<exists>r. isqrt (99 :: u128) = Some r \<and> unat r ^ 2 \<le> 99 \<and> 99 < (unat r + 1) ^ 2"
  using isqrt_correct [of "99 :: u128"] by simp

end
