(* ===== verification/CwStd.thy ===== *)
theory CwStd
  imports CwMath
begin

text \<open>
  The data types of \<^verbatim>\<open>cosmwasm_std\<close> that contracts and the simulator exchange: coins, events,
  responses, submessages, replies, the environment handed to a contract, and queries, in the
  crate's default configuration (\<^verbatim>\<open>staking\<close> and \<^verbatim>\<open>iterator\<close>, without \<^verbatim>\<open>stargate\<close>).  The
  builders of \<^verbatim>\<open>Response\<close>, \<^verbatim>\<open>Event\<close> and \<^verbatim>\<open>SubMsg\<close> are here as well.
\<close>

section \<open>Addresses and coins\<close>

type_synonym Addr = string
type_synonym Binary = bytes

record Coin =
  c_denom :: string
  c_amount :: Uint128

definition Coin_new :: "u128 \<Rightarrow> string \<Rightarrow> Coin" where
  "Coin_new amount denom = \<lparr>c_denom = denom, c_amount = amount\<rparr>"

definition Coin_to_string :: "Coin \<Rightarrow> string" where
  "Coin_to_string c = Uint128_to_string (c_amount c) @ c_denom c"

definition coins :: "u128 \<Rightarrow> string \<Rightarrow> Coin list" where
  "coins amount denom = [Coin_new amount denom]"

definition has_coins :: "Coin list \<Rightarrow> Coin \<Rightarrow> bool" where
  "has_coins cs required =
     (case find (\<lambda>c. c_denom c = c_denom required) cs of
        Some m \<Rightarrow> c_amount m \<ge> c_amount required
      | None \<Rightarrow> False)"

section \<open>Events\<close>

record Attribute =
  a_key :: string
  a_value :: string

record Event =
  e_ty :: string
  e_attributes :: "Attribute list"

definition Event_new :: "string \<Rightarrow> Event" where
  "Event_new ty = \<lparr>e_ty = ty, e_attributes = []\<rparr>"

definition Event_add_attribute :: "Event \<Rightarrow> string \<Rightarrow> string \<Rightarrow> Event" where
  "Event_add_attribute self key value =
     self\<lparr>e_attributes := e_attributes self @ [\<lparr>a_key = key, a_value = value\<rparr>]\<rparr>"

definition Event_add_attributes :: "Event \<Rightarrow> Attribute list \<Rightarrow> Event" where
  "Event_add_attributes self attrs = self\<lparr>e_attributes := e_attributes self @ attrs\<rparr>"

text \<open>The flag is \<^verbatim>\<open>cfg(debug_assertions)\<close>: only then a reserved key panics.\<close>

definition Attribute_new :: "bool \<Rightarrow> string \<Rightarrow> string \<Rightarrow> Attribute option" where
  "Attribute_new debug_assertions key value =
     (if debug_assertions \<and> starts_with key ''_'' then None
      else Some \<lparr>a_key = key, a_value = value\<rparr>)"

section \<open>Messages\<close>

datatype Empty = Empty

datatype BankMsg =
    BankMsg_Send string "Coin list"
  | BankMsg_Burn "Coin list"

datatype StakingMsg =
    Delegate string Coin
  | Undelegate string Coin
  | Redelegate string string Coin

datatype DistributionMsg =
    SetWithdrawAddress string
  | WithdrawDelegatorReward string

datatype WasmMsg =
    WasmMsg_Execute string Binary "Coin list"
  | WasmMsg_Instantiate "string option" u64 Binary
      "Coin list" string
  | WasmMsg_Migrate string u64 Binary
  | WasmMsg_UpdateAdmin string string
  | WasmMsg_ClearAdmin string

datatype CosmosMsg =
    CosmosMsg_Bank BankMsg
  | CosmosMsg_Custom Empty
  | CosmosMsg_Staking StakingMsg
  | CosmosMsg_Distribution DistributionMsg
  | CosmosMsg_Wasm WasmMsg

datatype ReplyOn = ReplyOn_Always | ReplyOn_Error | ReplyOn_Success | ReplyOn_Never

record SubMsg =
  sm_id :: u64
  sm_msg :: CosmosMsg
  sm_gas_limit :: "u64 option"
  sm_reply_on :: ReplyOn

definition UNUSED_MSG_ID :: u64 where
  "UNUSED_MSG_ID = 0"

definition SubMsg_new :: "CosmosMsg \<Rightarrow> SubMsg" where
  "SubMsg_new m =
     \<lparr>sm_id = UNUSED_MSG_ID, sm_msg = m, sm_gas_limit = None, sm_reply_on = ReplyOn_Never\<rparr>"

definition SubMsg_reply_on :: "CosmosMsg \<Rightarrow> u64 \<Rightarrow> ReplyOn \<Rightarrow> SubMsg" where
  "SubMsg_reply_on m i r = \<lparr>sm_id = i, sm_msg = m, sm_gas_limit = None, sm_reply_on = r\<rparr>"

definition SubMsg_reply_on_success :: "CosmosMsg \<Rightarrow> u64 \<Rightarrow> SubMsg" where
  "SubMsg_reply_on_success m i = SubMsg_reply_on m i ReplyOn_Success"

definition SubMsg_reply_on_error :: "CosmosMsg \<Rightarrow> u64 \<Rightarrow> SubMsg" where
  "SubMsg_reply_on_error m i = SubMsg_reply_on m i ReplyOn_Error"

definition SubMsg_reply_always :: "CosmosMsg \<Rightarrow> u64 \<Rightarrow> SubMsg" where
  "SubMsg_reply_always m i = SubMsg_reply_on m i ReplyOn_Always"

definition SubMsg_with_gas_limit :: "SubMsg \<Rightarrow> u64 \<Rightarrow> SubMsg" where
  "SubMsg_with_gas_limit self limit = self\<lparr>sm_gas_limit := Some limit\<rparr>"

section \<open>Responses and replies\<close>

record Response =
  r_messages :: "SubMsg list"
  r_attributes :: "Attribute list"
  r_events :: "Event list"
  r_data :: "Binary option"

definition Response_new :: Response where
  "Response_new = \<lparr>r_messages = [], r_attributes = [], r_events = [], r_data = None\<rparr>"

definition Response_add_attribute ::
  "bool \<Rightarrow> Response \<Rightarrow> string \<Rightarrow> string \<Rightarrow> Response option" where
  "Response_add_attribute debug_assertions self key value =
     map_option (\<lambda>a. self\<lparr>r_attributes := r_attributes self @ [a]\<rparr>)
       (Attribute_new debug_assertions key value)"

definition Response_add_message :: "Response \<Rightarrow> CosmosMsg \<Rightarrow> Response" where
  "Response_add_message self m = self\<lparr>r_messages := r_messages self @ [SubMsg_new m]\<rparr>"

definition Response_add_submessage :: "Response \<Rightarrow> SubMsg \<Rightarrow> Response" where
  "Response_add_submessage self m = self\<lparr>r_messages := r_messages self @ [m]\<rparr>"

definition Response_add_event :: "Response \<Rightarrow> Event \<Rightarrow> Response" where
  "Response_add_event self event = self\<lparr>r_events := r_events self @ [event]\<rparr>"

definition Response_add_attributes :: "Response \<Rightarrow> Attribute list \<Rightarrow> Response" where
  "Response_add_attributes self attrs = self\<lparr>r_attributes := r_attributes self @ attrs\<rparr>"

definition Response_add_submessages :: "Response \<Rightarrow> SubMsg list \<Rightarrow> Response" where
  "Response_add_submessages self msgs = self\<lparr>r_messages := r_messages self @ msgs\<rparr>"

definition Response_add_messages :: "Response \<Rightarrow> CosmosMsg list \<Rightarrow> Response" where
  "Response_add_messages self msgs = Response_add_submessages self (map SubMsg_new msgs)"

definition Response_add_events :: "Response \<Rightarrow> Event list \<Rightarrow> Response" where
  "Response_add_events self evs = self\<lparr>r_events := r_events self @ evs\<rparr>"

definition Response_set_data :: "Response \<Rightarrow> Binary \<Rightarrow> Response" where
  "Response_set_data self data = self\<lparr>r_data := Some data\<rparr>"

record SubMsgResponse =
  smr_events :: "Event list"
  smr_data :: "Binary option"

datatype SubMsgResult = SubMsgResult_Ok SubMsgResponse | SubMsgResult_Err string

record Reply =
  rp_id :: u64
  rp_result :: SubMsgResult

definition SubMsgResult_into_result :: "SubMsgResult \<Rightarrow> (string, SubMsgResponse) result" where
  "SubMsgResult_into_result r =
     (case r of SubMsgResult_Ok v \<Rightarrow> Ok v | SubMsgResult_Err e \<Rightarrow> Err e)"

definition SubMsgResult_from :: "(string, SubMsgResponse) result \<Rightarrow> SubMsgResult" where
  "SubMsgResult_from r = (case r of Ok v \<Rightarrow> SubMsgResult_Ok v | Err e \<Rightarrow> SubMsgResult_Err e)"

datatype 's ContractResult = ContractResult_Ok 's | ContractResult_Err string

definition ContractResult_into_result :: "'s ContractResult \<Rightarrow> (string, 's) result" where
  "ContractResult_into_result r =
     (case r of ContractResult_Ok v \<Rightarrow> Ok v | ContractResult_Err e \<Rightarrow> Err e)"

definition ContractResult_from :: "(string, 's) result \<Rightarrow> 's ContractResult" where
  "ContractResult_from r = (case r of Ok v \<Rightarrow> ContractResult_Ok v | Err e \<Rightarrow> ContractResult_Err e)"

datatype SystemError =
    InvalidRequest string Binary
  | InvalidResponse string Binary
  | NoSuchContract string
  | SystemError_Unknown
  | UnsupportedRequest string

datatype 's SystemResult = SystemResult_Ok 's | SystemResult_Err SystemError

definition SystemResult_into_result :: "'s SystemResult \<Rightarrow> (SystemError, 's) result" where
  "SystemResult_into_result r =
     (case r of SystemResult_Ok v \<Rightarrow> Ok v | SystemResult_Err e \<Rightarrow> Err e)"

definition SystemResult_from :: "(SystemError, 's) result \<Rightarrow> 's SystemResult" where
  "SystemResult_from r = (case r of Ok v \<Rightarrow> SystemResult_Ok v | Err e \<Rightarrow> SystemResult_Err e)"

section \<open>The environment of a call\<close>

record TransactionInfo =
  ti_index :: u32

record BlockInfo =
  bi_height :: u64
  bi_time :: Timestamp
  bi_chain_id :: string

record ContractInfo =
  ci_address :: Addr

record Env =
  env_block :: BlockInfo
  env_transaction :: "TransactionInfo option"
  env_contract :: ContractInfo

record MessageInfo =
  mi_sender :: Addr
  mi_funds :: "Coin list"

section \<open>Queries\<close>

datatype BankQuery =
    BankQuery_Balance string string
  | BankQuery_AllBalances string

record BalanceResponse =
  br_amount :: Coin

record AllBalanceResponse =
  abr_amount :: "Coin list"

datatype WasmQuery =
    WasmQuery_Smart string Binary
  | WasmQuery_Raw string Binary
  | WasmQuery_ContractInfo string

datatype StakingQuery =
    BondedDenom
  | AllDelegations string
  | Delegation string string
  | AllValidators
  | Validator string

datatype 'c QueryRequest =
    QueryRequest_Bank BankQuery
  | QueryRequest_Custom 'c
  | QueryRequest_Staking StakingQuery
  | QueryRequest_Wasm WasmQuery

section \<open>Iteration\<close>

type_synonym Record = "bytes \<times> bytes"

datatype Order = Ascending | Descending

text \<open>The error of the conversion is a \<^verbatim>\<open>StdError::GenericErr\<close>; it is represented by its text.\<close>

definition Order_try_from :: "int \<Rightarrow> (string, Order) result" where
  "Order_try_from value =
     (if value = 1 then Ok Ascending
      else if value = 2 then Ok Descending
      else Err ''Order must be 1 or 2'')"

definition Order_to_i32 :: "Order \<Rightarrow> int" where
  "Order_to_i32 original = (case original of Ascending \<Rightarrow> 1 | Descending \<Rightarrow> 2)"

lemma Order_roundtrip [simp]: "Order_try_from (Order_to_i32 ord) = Ok ord"
  by (cases ord) (simp_all add: Order_try_from_def Order_to_i32_def)

section \<open>Conversions\<close>

lemma SubMsgResult_roundtrip [simp]:
  "SubMsgResult_into_result (SubMsgResult_from r) = r"
  by (cases r) (simp_all add: SubMsgResult_into_result_def SubMsgResult_from_def)

lemma ContractResult_roundtrip [simp]:
  "ContractResult_into_result (ContractResult_from r) = r"
  by (cases r) (simp_all add: ContractResult_into_result_def ContractResult_from_def)

lemma SystemResult_roundtrip [simp]:
  "SystemResult_into_result (SystemResult_from r) = r"
  by (cases r) (simp_all add: SystemResult_into_result_def SystemResult_from_def)

end
