(* ===== verification/Errors.thy ===== *)
theory Errors
  imports CwStd
begin

text \<open>
  The error types of the simulator (\<^verbatim>\<open>core/src/error.rs\<close>), of the VM, of its backend and of
  \<^verbatim>\<open>cosmwasm_crypto\<close>, with their \<^verbatim>\<open>Display\<close> texts: the text of a VM error crosses the
  boundary to Wasmer and back, and the text of a simulator error ends up in submessage replies.
\<close>

definition int_str :: "int \<Rightarrow> string" where
  "int_str i = (if i < 0 then CHR ''-'' # nat_str (nat (- i)) else nat_str (nat i))"

section \<open>The simulator's errors\<close>

datatype Error =
    TokioError string
  | RpcError string
  | HttpError string
  | InvalidArg string
  | TendermintError string
  | FormatError string
  | Error_VmError string
  | Error_StdError string
  | IoError string
  | BankError string
  | Error_BackendError string

fun Error_to_string :: "Error \<Rightarrow> string" where
  "Error_to_string (TokioError s) = ''tokio error: '' @ s @ [CHR 0x0A]"
| "Error_to_string (RpcError s) = ''RPC error: '' @ s @ [CHR 0x0A]"
| "Error_to_string (HttpError s) = ''HTTP error: '' @ s @ [CHR 0x0A]"
| "Error_to_string (InvalidArg s) = ''Invalid argument: '' @ s @ [CHR 0x0A]"
| "Error_to_string (TendermintError s) = ''tendermint error: '' @ s @ [CHR 0x0A]"
| "Error_to_string (FormatError s) = ''format error: '' @ s @ [CHR 0x0A]"
| "Error_to_string (Error_VmError s) = ''vm error: '' @ s @ [CHR 0x0A]"
| "Error_to_string (Error_StdError s) = ''std error: '' @ s @ [CHR 0x0A]"
| "Error_to_string (IoError s) = ''I/O error: '' @ s @ [CHR 0x0A]"
| "Error_to_string (BankError s) = ''bank error: '' @ s @ [CHR 0x0A]"
| "Error_to_string (Error_BackendError s) = ''backend error: '' @ s @ [CHR 0x0A]"

section \<open>The VM backend's errors and gas information\<close>

datatype BackendError =
    ForeignPanic
  | BadArgument
  | BackendError_InvalidUtf8
  | IteratorDoesNotExist u32
  | OutOfGas
  | BackendError_Unknown string
  | UserErr string

fun BackendError_to_string :: "BackendError \<Rightarrow> string" where
  "BackendError_to_string ForeignPanic = ''Panic in FFI call''"
| "BackendError_to_string BadArgument = ''Bad argument''"
| "BackendError_to_string BackendError_InvalidUtf8 = ''VM received invalid UTF-8 data from backend''"
| "BackendError_to_string (IteratorDoesNotExist i) =
     ''Iterator with ID '' @ nat_str (unat i) @ '' does not exist''"
| "BackendError_to_string OutOfGas = ''Ran out of gas during call into backend''"
| "BackendError_to_string (BackendError_Unknown msg) =
     ''Unknown error during call into backend: '' @ msg"
| "BackendError_to_string (UserErr msg) = ''User error during call into backend: '' @ msg"

record GasInfo =
  gi_cost :: u64
  gi_externally_used :: u64

definition GasInfo_new :: "u64 \<Rightarrow> u64 \<Rightarrow> GasInfo" where
  "GasInfo_new cost externally_used = \<lparr>gi_cost = cost, gi_externally_used = externally_used\<rparr>"

definition GasInfo_with_cost :: "u64 \<Rightarrow> GasInfo" where
  "GasInfo_with_cost amount = \<lparr>gi_cost = amount, gi_externally_used = 0\<rparr>"

definition GasInfo_with_externally_used :: "u64 \<Rightarrow> GasInfo" where
  "GasInfo_with_externally_used amount = \<lparr>gi_cost = 0, gi_externally_used = amount\<rparr>"

definition GasInfo_free :: GasInfo where
  "GasInfo_free = \<lparr>gi_cost = 0, gi_externally_used = 0\<rparr>"

definition GasInfo_add_assign :: "bool \<Rightarrow> GasInfo \<Rightarrow> GasInfo \<Rightarrow> GasInfo option" where
  "GasInfo_add_assign checks self other =
     (case (prim_add checks (gi_cost self) (gi_cost other),
            prim_add checks (gi_externally_used self) (gi_externally_used other)) of
        (Some c, Some e) \<Rightarrow> Some \<lparr>gi_cost = c, gi_externally_used = e\<rparr>
      | _ \<Rightarrow> None)"

type_synonym 'a BackendResult = "(BackendError, 'a) result \<times> GasInfo"

section \<open>Cryptography errors\<close>

datatype CryptoError =
    BatchErr string
  | CryptoError_GenericErr string
  | InvalidHashFormat
  | InvalidPubkeyFormat
  | InvalidSignatureFormat
  | InvalidRecoveryParam

fun CryptoError_to_string :: "CryptoError \<Rightarrow> string" where
  "CryptoError_to_string (BatchErr msg) = ''Batch verify error: '' @ msg"
| "CryptoError_to_string (CryptoError_GenericErr msg) = ''Crypto error: '' @ msg"
| "CryptoError_to_string InvalidHashFormat = ''Invalid hash format''"
| "CryptoError_to_string InvalidPubkeyFormat = ''Invalid public key format''"
| "CryptoError_to_string InvalidSignatureFormat = ''Invalid signature format''"
| "CryptoError_to_string InvalidRecoveryParam =
     ''Invalid recovery parameter. Supported values: 0 and 1.''"

fun CryptoError_code :: "CryptoError \<Rightarrow> u32" where
  "CryptoError_code InvalidHashFormat = 3"
| "CryptoError_code InvalidSignatureFormat = 4"
| "CryptoError_code InvalidPubkeyFormat = 5"
| "CryptoError_code InvalidRecoveryParam = 6"
| "CryptoError_code (BatchErr _) = 7"
| "CryptoError_code (CryptoError_GenericErr _) = 10"

section \<open>The VM's errors\<close>

datatype RegionValidationError =
    LengthExceedsCapacity u32 u32
  | RegionOutOfRange u32 u32
  | ZeroOffset

fun RegionValidationError_to_string :: "RegionValidationError \<Rightarrow> string" where
  "RegionValidationError_to_string (LengthExceedsCapacity len capacity) =
     ''Region length exceeds capacity. Length '' @ nat_str (unat len) @ '', capacity '' @
     nat_str (unat capacity)"
| "RegionValidationError_to_string (RegionOutOfRange offset capacity) =
     ''Region exceeds address space. Offset '' @ nat_str (unat offset) @ '', capacity '' @
     nat_str (unat capacity)"
| "RegionValidationError_to_string ZeroOffset = ''Got a zero Wasm address in the offset''"

datatype CommunicationError =
    DerefErr u32 string
  | InvalidOrder int
  | InvalidRegion RegionValidationError
  | CommunicationError_InvalidUtf8 string
  | RegionLengthTooBig nat nat
  | RegionTooSmall nat nat
  | ZeroAddress

fun CommunicationError_to_string :: "CommunicationError \<Rightarrow> string" where
  "CommunicationError_to_string (DerefErr offset msg) =
     ''The Wasm memory address '' @ nat_str (unat offset) @
     '' provided by the contract could not be dereferenced: '' @ msg"
| "CommunicationError_to_string (InvalidOrder value) =
     ''Got an invalid value for iteration order: '' @ int_str value"
| "CommunicationError_to_string (InvalidRegion src) =
     ''Got an invalid region: '' @ RegionValidationError_to_string src"
| "CommunicationError_to_string (CommunicationError_InvalidUtf8 msg) =
     ''Cannot decode UTF8 bytes into string: '' @ msg"
| "CommunicationError_to_string (RegionLengthTooBig len max_length) =
     ''Region length too big. Got '' @ nat_str len @ '', limit '' @ nat_str max_length"
| "CommunicationError_to_string (RegionTooSmall sz required) =
     ''Region too small. Got '' @ nat_str sz @ '', required '' @ nat_str required"
| "CommunicationError_to_string ZeroAddress = ''Got a zero Wasm address''"

datatype VmError =
    Aborted string
  | BackendErr BackendError
  | CacheErr string
  | CommunicationErr CommunicationError
  | CompileErr string
  | ConversionErr string string string
  | CryptoErr CryptoError
  | GasDepletion
  | GenericErr string
  | InstantiationErr string
  | IntegrityErr
  | ParseErr string string
  | DeserializationLimitExceeded nat nat
  | SerializeErr string string
  | ResolveErr string
  | ResultMismatch string nat nat
  | RuntimeErr string
  | StaticValidationErr string
  | UninitializedContextData string
  | WriteAccessDenied

fun VmError_to_string :: "VmError \<Rightarrow> string" where
  "VmError_to_string (Aborted msg) = ''Aborted: '' @ msg"
| "VmError_to_string (BackendErr src) =
     ''Error calling into the VM's backend: '' @ BackendError_to_string src"
| "VmError_to_string (CacheErr msg) = ''Cache error: '' @ msg"
| "VmError_to_string (CommunicationErr src) =
     ''Error in guest/host communication: '' @ CommunicationError_to_string src"
| "VmError_to_string (CompileErr msg) = ''Error compiling Wasm: '' @ msg"
| "VmError_to_string (ConversionErr from_type to_type input) =
     ''Couldn't convert from '' @ from_type @ '' to '' @ to_type @ ''. Input: '' @ input"
| "VmError_to_string (CryptoErr src) = ''Crypto error: '' @ CryptoError_to_string src"
| "VmError_to_string GasDepletion = ''Ran out of gas during contract execution''"
| "VmError_to_string (GenericErr msg) = ''Generic error: '' @ msg"
| "VmError_to_string (InstantiationErr msg) = ''Error instantiating a Wasm module: '' @ msg"
| "VmError_to_string IntegrityErr = ''Hash doesn't match stored data''"
| "VmError_to_string (ParseErr target msg) =
     ''Error parsing into type '' @ target @ '': '' @ msg"
| "VmError_to_string (DeserializationLimitExceeded len max_length) =
     ''Data too long for deserialization. Got: '' @ nat_str len @ '' bytes; limit: '' @
     nat_str max_length @ '' bytes''"
| "VmError_to_string (SerializeErr source_type msg) =
     ''Error serializing type '' @ source_type @ '': '' @ msg"
| "VmError_to_string (ResolveErr msg) = ''Error resolving Wasm function: '' @ msg"
| "VmError_to_string (ResultMismatch function_name expected actual) =
     ''Unexpected number of result values when calling '' @ [CHR 0x27] @ function_name @
     [CHR 0x27] @ ''. Expected: '' @ nat_str expected @ '', actual: '' @ nat_str actual @ ''.''"
| "VmError_to_string (RuntimeErr msg) = ''Error executing Wasm: '' @ msg"
| "VmError_to_string (StaticValidationErr msg) = ''Error during static Wasm validation: '' @ msg"
| "VmError_to_string (UninitializedContextData kind) = ''Uninitialized Context Data: '' @ kind"
| "VmError_to_string WriteAccessDenied =
     ''Must not call a writing storage function in this context.''"

definition VmError_from_BackendError :: "BackendError \<Rightarrow> VmError" where
  "VmError_from_BackendError original =
     (case original of OutOfGas \<Rightarrow> GasDepletion | _ \<Rightarrow> BackendErr original)"

text \<open>
  A VM error raised in an import becomes a Wasmer \<^verbatim>\<open>RuntimeError\<close> carrying its text, and the
  trapped call is reported as a \<^verbatim>\<open>RuntimeErr\<close> of that text.
\<close>

definition RuntimeError_from_VmError :: "VmError \<Rightarrow> string" where
  "RuntimeError_from_VmError original = VmError_to_string original"

definition VmError_from_RuntimeError :: "string \<Rightarrow> VmError" where
  "VmError_from_RuntimeError message = RuntimeErr (''Wasmer runtime error: RuntimeError: '' @ message)"

end
