(* ===== verification/Collections.thy ===== *)
theory Collections
  imports Prelude "HOL-Library.AList"
begin

text \<open>
  The two maps of the Rust standard library that the simulator iterates over.
  \<^verbatim>\<open>BTreeMap\<close> is an association list in strictly increasing key order; \<^verbatim>\<open>HashMap\<close> is an
  association list with distinct keys (where the code never iterates, a \<open>HashMap\<close> is a
  plain map).  The locale \<open>ordered_map\<close> states the laws of an ordered map that storage code
  relies on and derives what a range scan returns; the model of \<^verbatim>\<open>BTreeMap\<close> interprets it.
\<close>

section \<open>The interface of an ordered map\<close>

locale ordered_map =
  fixes om_get :: "'m \<Rightarrow> 'k :: linorder \<Rightarrow> 'v option"
    and om_insert :: "'k \<Rightarrow> 'v \<Rightarrow> 'm \<Rightarrow> 'm"
    and om_remove :: "'k \<Rightarrow> 'm \<Rightarrow> 'm"
    and om_entries :: "'m \<Rightarrow> ('k \<times> 'v) list"
    and om_inv :: "'m \<Rightarrow> bool"
  assumes get_insert: "om_inv m \<Longrightarrow> om_get (om_insert k v m) = (om_get m)(k \<mapsto> v)"
    and get_remove: "om_inv m \<Longrightarrow> om_get (om_remove k m) = (om_get m)(k := None)"
    and inv_insert: "om_inv m \<Longrightarrow> om_inv (om_insert k v m)"
    and inv_remove: "om_inv m \<Longrightarrow> om_inv (om_remove k m)"
    and entries_get: "om_inv m \<Longrightarrow> (k, v) \<in> set (om_entries m) \<longleftrightarrow> om_get m k = Some v"
    and entries_sorted: "om_inv m \<Longrightarrow> sorted_wrt (<) (map fst (om_entries m))"
begin

lemma get_insert_same: "om_inv m \<Longrightarrow> om_get (om_insert k v m) k = Some v"
  by (simp add: get_insert)

lemma get_insert_other: "om_inv m \<Longrightarrow> k \<noteq> j \<Longrightarrow> om_get (om_insert k v m) j = om_get m j"
  by (simp add: get_insert)

lemma get_remove_same: "om_inv m \<Longrightarrow> om_get (om_remove k m) k = None"
  by (simp add: get_remove)

lemma get_remove_other: "om_inv m \<Longrightarrow> k \<noteq> j \<Longrightarrow> om_get (om_remove k m) j = om_get m j"
  by (simp add: get_remove)

lemma entries_distinct: "om_inv m \<Longrightarrow> distinct (map fst (om_entries m))"
  using entries_sorted strict_sorted_iff by blast

text \<open>Selecting the entries whose keys satisfy a predicate keeps the order and loses none.\<close>

lemma select_exact:
  "om_inv m \<Longrightarrow> set (filter (\<lambda>e. P (fst e)) (om_entries m)) = {(k, v). P k \<and> om_get m k = Some v}"
  by (auto simp: entries_get)

lemma select_sorted:
  "om_inv m \<Longrightarrow> sorted_wrt (<) (map fst (filter (\<lambda>e. P (fst e)) (om_entries m)))"
  using entries_sorted [of m] by (simp add: sorted_wrt_map sorted_wrt_filter)

text \<open>Two ordered maps with the same contents enumerate the same entries.\<close>

lemma entries_unique:
  assumes "om_inv m" and "om_inv n" and "om_get m = om_get n"
  shows "om_entries m = om_entries n"
proof -
  have eq: "set (om_entries m) = set (om_entries n)"
    using assms by (auto simp: entries_get)
  moreover have "inj_on fst (set (om_entries m) \<union> set (om_entries n))"
    unfolding eq using assms(2) entries_distinct by (simp add: distinct_map)
  ultimately show ?thesis
    using assms entries_sorted map_sorted_distinct_set_unique [of fst "om_entries m" "om_entries n"]
    by (simp add: strict_sorted_iff)
qed

end

section \<open>\<^verbatim>\<open>BTreeMap\<close>\<close>

type_synonym ('k, 'v) btree = "('k \<times> 'v) list"

definition bt_inv :: "('k :: linorder, 'v) btree \<Rightarrow> bool" where
  "bt_inv m \<longleftrightarrow> sorted_wrt (<) (map fst m)"

definition bt_get :: "('k, 'v) btree \<Rightarrow> 'k \<Rightarrow> 'v option" where
  "bt_get m k = map_of m k"

definition bt_insert :: "'k :: linorder \<Rightarrow> 'v \<Rightarrow> ('k, 'v) btree \<Rightarrow> ('k, 'v) btree" where
  "bt_insert k v m = filter (\<lambda>e. fst e < k) m @ (k, v) # filter (\<lambda>e. k < fst e) m"

definition bt_remove :: "'k \<Rightarrow> ('k, 'v) btree \<Rightarrow> ('k, 'v) btree" where
  "bt_remove k m = filter (\<lambda>e. fst e \<noteq> k) m"

definition bt_collect :: "('k :: linorder \<times> 'v) list \<Rightarrow> ('k, 'v) btree" where
  "bt_collect kvs = fold (\<lambda>(k, v) m. bt_insert k v m) kvs []"

definition in_range :: "'k :: linorder option \<Rightarrow> 'k option \<Rightarrow> 'k \<Rightarrow> bool" where
  "in_range lo hi k \<longleftrightarrow>
     (case lo of None \<Rightarrow> True | Some s \<Rightarrow> s \<le> k) \<and> (case hi of None \<Rightarrow> True | Some e \<Rightarrow> k < e)"

text \<open>
  \<^verbatim>\<open>BTreeMap::range\<close> over a half open interval: \<open>None\<close> is the panic of a range whose start
  is after its end.
\<close>

definition bt_range ::
  "'k :: linorder option \<Rightarrow> 'k option \<Rightarrow> ('k, 'v) btree \<Rightarrow> ('k \<times> 'v) list option" where
  "bt_range lo hi m =
     (case (lo, hi) of
        (Some s, Some e) \<Rightarrow> if e < s then None else Some (filter (\<lambda>x. in_range lo hi (fst x)) m)
      | _ \<Rightarrow> Some (filter (\<lambda>x. in_range lo hi (fst x)) m))"

lemma bt_get_filter_fst: "bt_get (filter (\<lambda>e. P (fst e)) m) k = (if P k then bt_get m k else None)"
  unfolding bt_get_def by (induction m) auto

lemma bt_get_append: "bt_get (m @ n) k = (case bt_get m k of None \<Rightarrow> bt_get n k | Some v \<Rightarrow> Some v)"
  unfolding bt_get_def by (simp add: map_add_def split: option.split)

lemma bt_get_insert: "bt_get (bt_insert k v m) = (bt_get m)(k \<mapsto> v)"
proof
  fix j
  have "bt_get (bt_insert k v m) j =
      (case bt_get (filter (\<lambda>e. fst e < k) m) j of
         None \<Rightarrow> (if j = k then Some v else bt_get (filter (\<lambda>e. k < fst e) m) j)
       | Some w \<Rightarrow> Some w)"
    unfolding bt_insert_def bt_get_append by (simp add: bt_get_def split: option.split)
  then show "bt_get (bt_insert k v m) j = ((bt_get m)(k \<mapsto> v)) j"
    using bt_get_filter_fst [of "\<lambda>j. j < k" m j] bt_get_filter_fst [of "\<lambda>j. k < j" m j]
    by (auto split: option.split)
qed

lemma bt_get_remove: "bt_get (bt_remove k m) = (bt_get m)(k := None)"
  unfolding bt_remove_def using bt_get_filter_fst [of "\<lambda>j. j \<noteq> k" m] by (simp add: fun_eq_iff)

lemma bt_inv_filter: "bt_inv m \<Longrightarrow> bt_inv (filter P m)"
  by (simp add: bt_inv_def sorted_wrt_map sorted_wrt_filter)

lemma bt_inv_insert: "bt_inv m \<Longrightarrow> bt_inv (bt_insert k v m)"
  using bt_inv_filter [of m "\<lambda>e. fst e < k"] bt_inv_filter [of m "\<lambda>e. k < fst e"]
  by (auto simp: bt_inv_def bt_insert_def sorted_wrt_append)

lemma bt_inv_remove: "bt_inv m \<Longrightarrow> bt_inv (bt_remove k m)"
  unfolding bt_remove_def by (rule bt_inv_filter)

lemma bt_inv_distinct: "bt_inv m \<Longrightarrow> distinct (map fst m)"
  unfolding bt_inv_def using strict_sorted_iff by blast

interpretation bt: ordered_map bt_get bt_insert bt_remove "\<lambda>m. m" bt_inv
proof unfold_locales
  fix m :: "('k :: linorder, 'v) btree" and k v
  assume "bt_inv m"
  then show "(k, v) \<in> set m \<longleftrightarrow> bt_get m k = Some v"
    by (simp add: bt_get_def bt_inv_distinct)
qed (simp_all add: bt_get_insert bt_get_remove bt_inv_insert bt_inv_remove, simp add: bt_inv_def)

lemma bt_inv_Nil [simp]: "bt_inv []"
  by (simp add: bt_inv_def)

lemma bt_inv_collect: "bt_inv (bt_collect kvs)"
proof -
  have "bt_inv m \<Longrightarrow> bt_inv (fold (\<lambda>(k, v) m. bt_insert k v m) kvs m)" for m :: "('a, 'b) btree"
    by (induction kvs arbitrary: m) (auto simp: bt_inv_insert)
  then show ?thesis by (simp add: bt_collect_def)
qed

lemma bt_range_exact:
  "bt_inv m \<Longrightarrow> bt_range lo hi m = Some es \<Longrightarrow>
     set es = {(k, v). in_range lo hi k \<and> bt_get m k = Some v} \<and> sorted_wrt (<) (map fst es)"
  unfolding bt_range_def using bt.select_exact [of m "in_range lo hi"] bt.select_sorted [of m "in_range lo hi"]
  by (auto split: option.splits if_splits)

section \<open>\<^verbatim>\<open>HashMap\<close> where the code iterates\<close>

type_synonym ('k, 'v) hmap = "('k \<times> 'v) list"

definition hm_get :: "('k, 'v) hmap \<Rightarrow> 'k \<Rightarrow> 'v option" where
  "hm_get m k = map_of m k"

definition hm_insert :: "'k \<Rightarrow> 'v \<Rightarrow> ('k, 'v) hmap \<Rightarrow> ('k, 'v) hmap" where
  "hm_insert k v m = AList.update k v m"

definition hm_collect :: "('k \<times> 'v) list \<Rightarrow> ('k, 'v) hmap" where
  "hm_collect kvs = fold (\<lambda>(k, v) m. hm_insert k v m) kvs []"

definition hm_inv :: "('k, 'v) hmap \<Rightarrow> bool" where
  "hm_inv m \<longleftrightarrow> distinct (map fst m)"

lemma hm_get_insert [simp]: "hm_get (hm_insert k v m) = (hm_get m)(k \<mapsto> v)"
  by (rule ext) (simp add: hm_get_def hm_insert_def update_conv)

lemma hm_inv_insert: "hm_inv m \<Longrightarrow> hm_inv (hm_insert k v m)"
  by (simp add: hm_inv_def hm_insert_def distinct_update)

lemma hm_inv_Nil [simp]: "hm_inv []"
  by (simp add: hm_inv_def)

lemma hm_get_Nil [simp]: "hm_get [] = Map.empty"
  by (rule ext) (simp add: hm_get_def)

lemma hm_inv_fold: "hm_inv m \<Longrightarrow> hm_inv (fold (\<lambda>(k, v) m. hm_insert k v m) kvs m)"
  by (induction kvs arbitrary: m) (auto simp: hm_inv_insert)

lemma hm_inv_collect: "hm_inv (hm_collect kvs)"
  by (simp add: hm_collect_def hm_inv_fold)

lemma hm_get_fold: "hm_get (fold (\<lambda>(k, v) m. hm_insert k v m) kvs m) = hm_get m ++ map_of (rev kvs)"
  by (induction kvs arbitrary: m) (auto simp: map_add_def fun_eq_iff split: option.splits)

text \<open>Collecting pairs into a \<^verbatim>\<open>HashMap\<close>: the last value of a repeated key wins.\<close>

lemma hm_get_collect: "hm_get (hm_collect kvs) = map_of (rev kvs)"
  by (simp add: hm_collect_def hm_get_fold)

lemma hm_entries: "hm_inv m \<Longrightarrow> (k, v) \<in> set m \<longleftrightarrow> hm_get m k = Some v"
  by (simp add: hm_inv_def hm_get_def)

end
