(* ===== verification/World.thy ===== *)
theory World
  imports Errors Collections
begin

text \<open>
  What lies outside the program: the file system, the network and the services behind it.
  \<open>World\<close> is the state of the outside as the program can observe it: the files it
  wrote and a clock that advances with every interaction.  Answers of the outside are
  functions of the clock, so two interactions need not agree and nothing is assumed about
  them.  Libraries that are not part of the repository are the fields of parameter records;
  \<open>os_ext\<close> is the part of the operating system that can refuse a request.
\<close>

section \<open>The outside world\<close>

record World =
  w_now :: nat
  w_files :: "string \<rightharpoonup> bytes"
  w_dirs :: "string list"

text \<open>
  \<open>os_fault n\<close>: the error of the \<open>n\<close>-th interaction, if the operating system refuses it;
  \<open>os_write_len n k\<close>: how many of \<open>k\<close> bytes a \<^verbatim>\<open>write\<close> call stores; \<open>os_home\<close>: \<^verbatim>\<open>$HOME\<close>.
\<close>

record os_ext =
  os_fault :: "nat \<Rightarrow> string option"
  os_write_len :: "nat \<Rightarrow> nat \<Rightarrow> nat"
  os_home :: "string option"

definition tick :: "World \<Rightarrow> World" where
  "tick w = w\<lparr>w_now := Suc (w_now w)\<rparr>"

section \<open>\<^verbatim>\<open>std::fs\<close>\<close>

definition io_op :: "os_ext \<Rightarrow> (World \<Rightarrow> 'a \<times> World) \<Rightarrow> (World, string, 'a) M" where
  "io_op O' f w =
     (case os_fault O' (w_now w) of
        Some e \<Rightarrow> (Fail e, tick w)
      | None \<Rightarrow> (Ret (fst (f (tick w))), snd (f (tick w))))"

definition fs_is_dir :: "string \<Rightarrow> World \<Rightarrow> bool" where
  "fs_is_dir path w \<longleftrightarrow> path \<in> set (w_dirs w)"

definition fs_is_file :: "string \<Rightarrow> World \<Rightarrow> bool" where
  "fs_is_file path w \<longleftrightarrow> w_files w path \<noteq> None"

definition fs_create_dir :: "os_ext \<Rightarrow> string \<Rightarrow> (World, string, unit) M" where
  "fs_create_dir O' path = io_op O' (\<lambda>w. ((), w\<lparr>w_dirs := path # w_dirs w\<rparr>))"

text \<open>A file handle is the path it was opened at; opening creates the file if it is missing.\<close>

definition fs_open_create :: "os_ext \<Rightarrow> string \<Rightarrow> (World, string, string) M" where
  "fs_open_create O' path =
     io_op O' (\<lambda>w. (path, if w_files w path = None then w\<lparr>w_files := (w_files w)(path \<mapsto> [])\<rparr> else w))"

definition fs_contents :: "World \<Rightarrow> string \<Rightarrow> bytes" where
  "fs_contents w path = (case w_files w path of None \<Rightarrow> [] | Some c \<Rightarrow> c)"

definition fs_read_to_end :: "os_ext \<Rightarrow> string \<Rightarrow> (World, string, bytes) M" where
  "fs_read_to_end O' file = io_op O' (\<lambda>w. (fs_contents w file, w))"

definition fs_seek_start :: "os_ext \<Rightarrow> string \<Rightarrow> (World, string, unit) M" where
  "fs_seek_start O' file = io_op O' (\<lambda>w. ((), w))"

text \<open>
  A single \<^verbatim>\<open>write\<close> at the start of the file: some prefix of the data replaces that many
  bytes, what the file holds behind it stays.
\<close>

definition fs_write_at_start :: "os_ext \<Rightarrow> string \<Rightarrow> bytes \<Rightarrow> (World, string, nat) M" where
  "fs_write_at_start O' file data =
     io_op O' (\<lambda>w.
       let n = min (os_write_len O' (w_now w) (length data)) (length data)
       in (n, w\<lparr>w_files := (w_files w)(file \<mapsto> take n data @ drop n (fs_contents w file))\<rparr>))"

text \<open>A computation on a pair of an object and the world, and its two halves.\<close>

definition on_self :: "('c, 'e, 'a) M \<Rightarrow> ('c \<times> World, 'e, 'a) M" where
  "on_self = zoomM fst (\<lambda>c s. (c, snd s))"

definition on_world :: "(World, 'e, 'a) M \<Rightarrow> ('c \<times> World, 'e, 'a) M" where
  "on_world = zoomM snd (\<lambda>w s. (fst s, w))"

lemma on_self_simps [m_simps]: "on_self m (c, w) = (case m c of (r, c') \<Rightarrow> (r, (c', w)))"
  by (simp add: on_self_def zoomM_def split: prod.split)

lemma on_world_simps [m_simps]: "on_world m (c, w) = (case m w of (r, w') \<Rightarrow> (r, (c, w')))"
  by (simp add: on_world_def zoomM_def split: prod.split)

end
