(* ===== verification/RpcClient.thy ===== *)
theory RpcClient
  imports World
begin

text \<open>
  The client of a Tendermint RPC node with its cache (\<^verbatim>\<open>core/src/fork/rpc.rs\<close>).  The record
  \<open>net_ext\<close> holds what the repository does not contain: \<^verbatim>\<open>tendermint-rpc\<close>, the protobuf code
  generated at build time, \<^verbatim>\<open>bincode\<close>, \<^verbatim>\<open>sha2\<close> and \<^verbatim>\<open>hex\<close>.  Answers of the node depend on
  the clock of the world.
\<close>

type_synonym HttpClient = string

record NodeStatus =
  st_network :: string
  st_latest_block_height :: u64

record AbciQuery =
  aq_code_ok :: bool
  aq_log :: string
  aq_value :: bytes

section \<open>\<^verbatim>\<open>RpcCache\<close>\<close>

record RpcCacheK =
  ck_path :: string
  ck_data :: bytes

type_synonym RpcCacheV = bytes

record RpcCacheInner =
  rci_db :: "RpcCacheK \<rightharpoonup> RpcCacheV"
  rci_chain_id :: string
  rci_timestamp :: u64

datatype RpcCache =
    CacheEmpty
  | FileBacked RpcCacheInner bool string

record net_ext =
  net_os :: os_ext
  net_sha256 :: "bytes \<Rightarrow> bytes"
  net_hex_encode :: "bytes \<Rightarrow> string"
  net_bincode_serialize :: "RpcCacheInner \<Rightarrow> (string, bytes) result"
  net_bincode_deserialize :: "bytes \<Rightarrow> (string, RpcCacheInner) result"
  net_http_client_new :: "string \<Rightarrow> (string, HttpClient) result"
  net_tokio_build :: "nat \<Rightarrow> (string, unit) result"
  net_status :: "nat \<Rightarrow> HttpClient \<Rightarrow> (string, NodeStatus) result"
  net_block_time :: "nat \<Rightarrow> HttpClient \<Rightarrow> u64 \<Rightarrow> (string, int) result"
  net_since_unix_epoch :: "int \<Rightarrow> (string, nat) result"
  net_u64_from_nanos_error :: string
  net_abci_query :: "nat \<Rightarrow> HttpClient \<Rightarrow> string \<Rightarrow> bytes \<Rightarrow> u64 \<Rightarrow> (string, AbciQuery) result"
  net_abci_path :: "string \<Rightarrow> (string, string) result"
  net_height :: "u64 \<Rightarrow> (string, u64) result"
  pb_enc_all_balances :: "string \<Rightarrow> (string, bytes) result"
  pb_dec_all_balances :: "bytes \<Rightarrow> (string, (string \<times> string) list) result"
  pb_enc_smart :: "string \<Rightarrow> bytes \<Rightarrow> (string, bytes) result"
  pb_dec_smart :: "bytes \<Rightarrow> (string, bytes) result"
  pb_enc_state_all :: "string \<Rightarrow> (string, bytes) result"
  pb_dec_state_all :: "bytes \<Rightarrow> (string, (bytes \<times> bytes) list) result"
  pb_enc_contract_info :: "string \<Rightarrow> (string, bytes) result"
  pb_dec_contract_info :: "bytes \<Rightarrow> (string, u64 option) result"
  pb_enc_code :: "u64 \<Rightarrow> (string, bytes) result"
  pb_dec_code :: "bytes \<Rightarrow> (string, bytes) result"

definition RPC_CACHE_DIRNAME :: string where
  "RPC_CACHE_DIRNAME = ''.cw-rpc-cache''"

definition RpcCacheInner_default :: RpcCacheInner where
  "RpcCacheInner_default = \<lparr>rci_db = Map.empty, rci_chain_id = [], rci_timestamp = 0\<rparr>"

definition rwopen :: "net_ext \<Rightarrow> string \<Rightarrow> (World, string, string) M" where
  "rwopen N path = fs_open_create (net_os N) path"

definition sha256hex :: "net_ext \<Rightarrow> string \<Rightarrow> string" where
  "sha256hex N input_str = net_hex_encode N (net_sha256 N (str_bytes input_str))"

definition RpcCache_clone :: "net_ext \<Rightarrow> RpcCache \<Rightarrow> (World, 'e, RpcCache) M" where
  "RpcCache_clone N self =
     (case self of
        CacheEmpty \<Rightarrow> returnM CacheEmpty
      | FileBacked inner initialized file_name \<Rightarrow>
          bindM (tryM (rwopen N file_name)) (\<lambda>file.
          thenM (unwrapR file)
          (returnM (FileBacked inner True file_name))))"

definition cache_dir :: "net_ext \<Rightarrow> string" where
  "cache_dir N =
     (let homedir = (case os_home (net_os N) of Some v \<Rightarrow> v | None \<Rightarrow> ''/tmp/'')
      in homedir @ ''/'' @ RPC_CACHE_DIRNAME)"

definition cache_file :: "net_ext \<Rightarrow> string \<Rightarrow> u64 \<Rightarrow> string" where
  "cache_file N url block_number =
     cache_dir N @ ''/'' @ sha256hex N (url @ ''||'' @ nat_str (unat block_number))"

definition RpcCache_file_backed ::
  "net_ext \<Rightarrow> string \<Rightarrow> u64 \<Rightarrow> (World, Error, RpcCache) M" where
  "RpcCache_file_backed N url block_number =
     bindM (getM (fs_is_dir (cache_dir N))) (\<lambda>is_dir.
     thenM (if is_dir then returnM ()
            else map_errM IoError (fs_create_dir (net_os N) (cache_dir N)))
     (bindM (getM (fs_is_file (cache_file N url block_number))) (\<lambda>is_file.
      if is_file then
        bindM (map_errM IoError (rwopen N (cache_file N url block_number))) (\<lambda>file.
        bindM (map_errM IoError (fs_read_to_end (net_os N) file)) (\<lambda>file_contents.
        bindM (liftR (map_errR FormatError (net_bincode_deserialize N file_contents))) (\<lambda>inner.
        returnM (FileBacked inner True file))))
      else
        bindM (map_errM IoError (rwopen N (cache_file N url block_number))) (\<lambda>file.
        returnM (FileBacked RpcCacheInner_default False file)))))"

definition RpcCache_read :: "RpcCache \<Rightarrow> string \<Rightarrow> bytes \<Rightarrow> (Error, bytes option) result" where
  "RpcCache_read self path data =
     (case self of
        CacheEmpty \<Rightarrow> Ok None
      | FileBacked inner _ _ \<Rightarrow> Ok (rci_db inner \<lparr>ck_path = path, ck_data = data\<rparr>))"

definition RpcCache_chain_id :: "RpcCache \<Rightarrow> string option" where
  "RpcCache_chain_id self =
     (case self of FileBacked inner _ _ \<Rightarrow> Some (rci_chain_id inner) | CacheEmpty \<Rightarrow> None)"

definition RpcCache_timestamp :: "RpcCache \<Rightarrow> u64 option" where
  "RpcCache_timestamp self =
     (case self of FileBacked inner _ _ \<Rightarrow> Some (rci_timestamp inner) | CacheEmpty \<Rightarrow> None)"

definition RpcCache_write :: "string \<Rightarrow> bytes \<Rightarrow> bytes \<Rightarrow> RpcCache \<Rightarrow> RpcCache" where
  "RpcCache_write path data response self =
     (case self of
        CacheEmpty \<Rightarrow> CacheEmpty
      | FileBacked inner i f \<Rightarrow>
          FileBacked (inner\<lparr>rci_db := (rci_db inner)(\<lparr>ck_path = path, ck_data = data\<rparr> \<mapsto> response)\<rparr>) i f)"

definition RpcCache_save :: "net_ext \<Rightarrow> RpcCache \<Rightarrow> (World, Error, unit) M" where
  "RpcCache_save N self =
     (case self of
        CacheEmpty \<Rightarrow> returnM ()
      | FileBacked inner _ file \<Rightarrow>
          bindM (liftR (map_errR FormatError (net_bincode_serialize N inner))) (\<lambda>serialized.
          thenM (map_errM IoError (fs_seek_start (net_os N) file))
          (thenM (map_errM IoError (fs_write_at_start (net_os N) file serialized))
           (returnM ()))))"

definition RpcCache_initialized :: "RpcCache \<Rightarrow> bool" where
  "RpcCache_initialized self =
     (case self of CacheEmpty \<Rightarrow> True | FileBacked _ initialized _ \<Rightarrow> initialized)"

definition RpcCache_set_chain_id :: "string \<Rightarrow> RpcCache \<Rightarrow> RpcCache" where
  "RpcCache_set_chain_id chain_id self =
     (case self of
        FileBacked inner i f \<Rightarrow> FileBacked (inner\<lparr>rci_chain_id := chain_id\<rparr>) i f
      | CacheEmpty \<Rightarrow> CacheEmpty)"

definition RpcCache_set_timestamp :: "u64 \<Rightarrow> RpcCache \<Rightarrow> RpcCache" where
  "RpcCache_set_timestamp timestamp self =
     (case self of
        FileBacked inner i f \<Rightarrow> FileBacked (inner\<lparr>rci_timestamp := timestamp\<rparr>) i f
      | CacheEmpty \<Rightarrow> CacheEmpty)"

text \<open>\<^verbatim>\<open>drop\<close> saves the cache and ignores the result.\<close>

definition RpcCache_drop :: "net_ext \<Rightarrow> RpcCache \<Rightarrow> World \<Rightarrow> World" where
  "RpcCache_drop N self w = snd (RpcCache_save N self w)"

section \<open>\<^verbatim>\<open>CwRpcClient\<close>\<close>

record CwRpcClient =
  rc_inner :: HttpClient
  rc_block_number :: u64
  rc_cache :: RpcCache

type_synonym 'a rpcM = "(CwRpcClient \<times> World, Error, 'a) M"

definition serialize :: "(string, bytes) result \<Rightarrow> (Error, bytes) result" where
  "serialize encoded = map_errR FormatError encoded"

text \<open>
  \<^verbatim>\<open>wait_future\<close> builds a runtime and blocks on a request; the request is a function of the
  clock and of the HTTP client.
\<close>

definition wait_future ::
  "net_ext \<Rightarrow> (nat \<Rightarrow> HttpClient \<Rightarrow> (string, 'a) result) \<Rightarrow> (string, 'a) result rpcM" where
  "wait_future N request =
     bindM (getM (\<lambda>s. (w_now (snd s), rc_inner (fst s)))) (\<lambda>(now, http).
     thenM (on_world (modifyM tick))
     (thenM (liftR (map_errR TokioError (net_tokio_build N now)))
      (returnM (request now http))))"

definition rpc_request ::
  "net_ext \<Rightarrow> (nat \<Rightarrow> HttpClient \<Rightarrow> (string, 'a) result) \<Rightarrow> 'a rpcM" where
  "rpc_request N request =
     bindM (wait_future N request) (\<lambda>r. liftR (map_errR RpcError r))"

definition abci_query_raw :: "net_ext \<Rightarrow> string \<Rightarrow> bytes \<Rightarrow> bytes rpcM" where
  "abci_query_raw N path0 data =
     bindM (getM (\<lambda>s. RpcCache_read (rc_cache (fst s)) path0 data)) (\<lambda>cached.
     bindM (liftR cached) (\<lambda>in_db.
     case in_db of
       Some v \<Rightarrow> returnM v
     | None \<Rightarrow>
         bindM (liftR (map_errR TendermintError (net_abci_path N path0))) (\<lambda>path.
         bindM (getM (\<lambda>s. rc_block_number (fst s))) (\<lambda>block_number.
         bindM (liftR (map_errR TendermintError (net_height N block_number))) (\<lambda>height.
         bindM (rpc_request N (\<lambda>now http. net_abci_query N now http path data height)) (\<lambda>result.
         if aq_code_ok result then
           thenM (on_self (modifyM (\<lambda>c. c\<lparr>rc_cache := RpcCache_write path0 data (aq_value result) (rc_cache c)\<rparr>)))
           (returnM (aq_value result))
         else failM (TendermintError (aq_log result))))))))"

definition Rpc_block_number :: "CwRpcClient \<Rightarrow> u64" where
  "Rpc_block_number self = rc_block_number self"

definition Rpc_chain_id :: "net_ext \<Rightarrow> string rpcM" where
  "Rpc_chain_id N =
     bindM (getM (\<lambda>s. RpcCache_chain_id (rc_cache (fst s)))) (\<lambda>cached.
     case cached of
       Some chain_id \<Rightarrow> returnM chain_id
     | None \<Rightarrow> bindM (rpc_request N (net_status N)) (\<lambda>status. returnM (st_network status)))"

definition Rpc_timestamp :: "net_ext \<Rightarrow> Timestamp rpcM" where
  "Rpc_timestamp N =
     bindM (getM (\<lambda>s. RpcCache_timestamp (rc_cache (fst s)))) (\<lambda>cached.
     case cached of
       Some timestamp_ns \<Rightarrow> returnM (Timestamp_from_nanos timestamp_ns)
     | None \<Rightarrow>
         bindM (getM (\<lambda>s. rc_block_number (fst s))) (\<lambda>block_number.
         bindM (liftR (map_errR TendermintError (net_height N block_number))) (\<lambda>height.
         bindM (rpc_request N (\<lambda>now http. net_block_time N now http height)) (\<lambda>time.
         bindM (liftR (map_errR TendermintError (net_since_unix_epoch N time))) (\<lambda>nanos.
         if nanos < 2 ^ 64 then returnM (Timestamp_from_nanos (of_nat nanos))
         else failM (TendermintError (net_u64_from_nanos_error N)))))))"

definition Rpc_block_height :: "net_ext \<Rightarrow> u64 rpcM" where
  "Rpc_block_height N =
     bindM (rpc_request N (net_status N)) (\<lambda>status. returnM (st_latest_block_height status))"

text \<open>The shape the queries share: encode the request, ask, decode the answer.\<close>

definition rpc_query ::
  "net_ext \<Rightarrow> string \<Rightarrow> (string, bytes) result \<Rightarrow> (bytes \<Rightarrow> (string, 'a) result) \<Rightarrow> 'a rpcM" where
  "rpc_query N path request decode =
     bindM (unwrapR (serialize request)) (\<lambda>data.
     bindM (abci_query_raw N path data) (\<lambda>out.
     liftR (map_errR FormatError (decode out))))"

fun parse_amounts :: "(string \<times> string) list \<Rightarrow> (string \<times> u128) list option" where
  "parse_amounts [] = Some []"
| "parse_amounts ((denom, amount) # cs) =
     (case parse_uint 128 amount of
        Err _ \<Rightarrow> None
      | Ok a \<Rightarrow> map_option (\<lambda>rest. (denom, of_nat a) # rest) (parse_amounts cs))"

definition Rpc_query_bank_all_balances :: "net_ext \<Rightarrow> string \<Rightarrow> (string \<times> u128) list rpcM" where
  "Rpc_query_bank_all_balances N address =
     bindM (rpc_query N ''/cosmos.bank.v1beta1.Query/AllBalances''
              (pb_enc_all_balances N address) (pb_dec_all_balances N)) (\<lambda>balances.
     unwrapM (parse_amounts balances))"

definition Rpc_query_wasm_contract_smart :: "net_ext \<Rightarrow> string \<Rightarrow> bytes \<Rightarrow> bytes rpcM" where
  "Rpc_query_wasm_contract_smart N address query_data =
     rpc_query N ''/cosmwasm.wasm.v1.Query/SmartContractState''
       (pb_enc_smart N address query_data) (pb_dec_smart N)"

definition Rpc_query_wasm_contract_state_all :: "net_ext \<Rightarrow> string \<Rightarrow> (bytes, bytes) btree rpcM" where
  "Rpc_query_wasm_contract_state_all N address =
     bindM (rpc_query N ''/cosmwasm.wasm.v1.Query/AllContractState''
              (pb_enc_state_all N address) (pb_dec_state_all N)) (\<lambda>models.
     returnM (bt_collect models))"

definition Rpc_query_wasm_contract_info :: "net_ext \<Rightarrow> string \<Rightarrow> u64 rpcM" where
  "Rpc_query_wasm_contract_info N address =
     bindM (rpc_query N ''/cosmwasm.wasm.v1.Query/ContractInfo''
              (pb_enc_contract_info N address) (pb_dec_contract_info N)) (\<lambda>contract_info.
     case contract_info of
       Some code_id \<Rightarrow> returnM code_id
     | None \<Rightarrow> failM (InvalidArg (''address '' @ address @ '' is most likely not a contract address'')))"

definition Rpc_query_wasm_contract_code :: "net_ext \<Rightarrow> u64 \<Rightarrow> bytes rpcM" where
  "Rpc_query_wasm_contract_code N code_id =
     rpc_query N ''/cosmwasm.wasm.v1.Query/Code'' (pb_enc_code N code_id) (pb_dec_code N)"

text \<open>
  The constructor.  A client that is given up on an error is dropped, which saves its cache.
\<close>

definition build_client ::
  "net_ext \<Rightarrow> CwRpcClient \<Rightarrow> unit rpcM \<Rightarrow> (World, Error, CwRpcClient) M" where
  "build_client N rv m w =
     (case m (rv, w) of
        (Ret _, (c, w')) \<Rightarrow> (Ret c, w')
      | (Fail e, (c, w')) \<Rightarrow> (Fail e, RpcCache_drop N (rc_cache c) w')
      | (Panic, (c, w')) \<Rightarrow> (Panic, RpcCache_drop N (rc_cache c) w')
      | (Diverge, (c, w')) \<Rightarrow> (Diverge, w'))"

definition CwRpcClient_new ::
  "net_ext \<Rightarrow> string \<Rightarrow> u64 option \<Rightarrow> (World, Error, CwRpcClient) M" where
  "CwRpcClient_new N url block_number =
     (case net_http_client_new N url of
        Err e \<Rightarrow> failM (RpcError e)
      | Ok h \<Rightarrow>
          build_client N \<lparr>rc_inner = h, rc_block_number = 0, rc_cache = CacheEmpty\<rparr>
            (case block_number of
               Some bn \<Rightarrow>
                 bindM (on_world (RpcCache_file_backed N url bn)) (\<lambda>cache.
                 thenM (on_self (modifyM (\<lambda>c. c\<lparr>rc_cache := cache\<rparr>)))
                 (if RpcCache_initialized cache then returnM ()
                  else
                    bindM (Rpc_timestamp N) (\<lambda>timestamp.
                    bindM (Rpc_chain_id N) (\<lambda>chain_id.
                    on_self (modifyM (\<lambda>c. c\<lparr>rc_cache :=
                      RpcCache_set_timestamp (Timestamp_nanos timestamp)
                        (RpcCache_set_chain_id chain_id (rc_cache c))\<rparr>))))))
             | None \<Rightarrow>
                 bindM (Rpc_block_height N) (\<lambda>block_height.
                 bindM (Rpc_chain_id N) (\<lambda>chain_id.
                 thenM (on_self (modifyM (\<lambda>c. c\<lparr>rc_block_number := block_height\<rparr>)))
                 (bindM (Rpc_timestamp N) (\<lambda>timestamp.
                  bindM (on_world (RpcCache_file_backed N url block_height)) (\<lambda>cache.
                  on_self (modifyM (\<lambda>c. c\<lparr>rc_cache :=
                    RpcCache_set_timestamp (Timestamp_nanos timestamp)
                      (RpcCache_set_chain_id chain_id cache)\<rparr>)))))))))"

definition CwRpcClient_clone :: "net_ext \<Rightarrow> CwRpcClient \<Rightarrow> (World, 'e, CwRpcClient) M" where
  "CwRpcClient_clone N self =
     bindM (RpcCache_clone N (rc_cache self)) (\<lambda>cache. returnM (self\<lparr>rc_cache := cache\<rparr>))"

section \<open>What the client keeps\<close>

text \<open>
  The queries change nothing but the cache's database, which they only extend, and the clock:
  an entry once written is never overwritten, no file is touched, and the block number, the
  chain id and the timestamp stay.
\<close>

definition cache_le :: "RpcCache \<Rightarrow> RpcCache \<Rightarrow> bool" where
  "cache_le c d \<longleftrightarrow>
     (case (c, d) of
        (CacheEmpty, CacheEmpty) \<Rightarrow> True
      | (FileBacked a i f, FileBacked b j g) \<Rightarrow>
          rci_db a \<subseteq>\<^sub>m rci_db b \<and> rci_chain_id a = rci_chain_id b \<and>
          rci_timestamp a = rci_timestamp b \<and> i = j \<and> f = g
      | _ \<Rightarrow> False)"

definition files_same :: "World \<Rightarrow> World \<Rightarrow> bool" where
  "files_same w v \<longleftrightarrow> w_now w \<le> w_now v \<and> w_files w = w_files v \<and> w_dirs w = w_dirs v"

definition rpc_le :: "CwRpcClient \<times> World \<Rightarrow> CwRpcClient \<times> World \<Rightarrow> bool" where
  "rpc_le s t \<longleftrightarrow>
     rc_inner (fst s) = rc_inner (fst t) \<and> rc_block_number (fst s) = rc_block_number (fst t) \<and>
     cache_le (rc_cache (fst s)) (rc_cache (fst t)) \<and> files_same (snd s) (snd t)"

lemma cache_le_refl: "cache_le c c"
  by (cases c) (simp_all add: cache_le_def)

lemma cache_le_trans: "cache_le c d \<Longrightarrow> cache_le d e \<Longrightarrow> cache_le c e"
  by (cases c; cases d; cases e) (auto simp: cache_le_def intro: map_le_trans)

interpretation rpc: kept rpc_le
  by unfold_locales (auto simp: rpc_le_def files_same_def cache_le_refl intro: cache_le_trans)

lemma cache_le_write:
  "RpcCache_read c path data = Ok None \<Longrightarrow> cache_le c (RpcCache_write path data v c)"
  by (cases c) (auto simp: cache_le_def RpcCache_read_def RpcCache_write_def map_le_def)

lemma cache_le_read:
  "cache_le c d \<Longrightarrow> RpcCache_read c path data = Ok (Some v) \<Longrightarrow> RpcCache_read d path data = Ok (Some v)"
  by (cases c; cases d) (auto simp: cache_le_def RpcCache_read_def map_le_def dom_def)

lemma keeps_rpc_wait_future: "keeps rpc_le (wait_future N request)"
  by (intro keepsI) (auto simp: wait_future_def m_simps rpc_le_def cache_le_refl files_same_def tick_def
      split: prod.split result.split)

lemma keeps_rpc_request: "keeps rpc_le (rpc_request N request)"
  unfolding rpc_request_def by (intro rpc.bind rpc.lift_result keeps_rpc_wait_future)

lemma rpc_request_cases:
  obtains a w where "rpc_request N request (c, v) = (Ret a, (c, w))" and "files_same v w"
  | e w where "rpc_request N request (c, v) = (Fail e, (c, w))" and "files_same v w"
  by (cases "net_tokio_build N (w_now v)"; cases "request (w_now v) (rc_inner c)")
    (auto simp: rpc_request_def wait_future_def m_simps files_same_def tick_def)

lemma rpc_request_self: "rpc_request N request (c, v) = (r, (d, w)) \<Longrightarrow> d = c"
  by (rule rpc_request_cases [of N request c v]) auto

lemma keeps_abci_query_raw: "keeps rpc_le (abci_query_raw N path data)"
proof (rule keepsI, clarify)
  fix c :: CwRpcClient and w :: World
  have refl: "rpc_le (c, w) (c, w)" by (rule rpc.kept_refl)
  show "rpc_le (c, w) (snd (abci_query_raw N path data (c, w)))"
  proof (cases "RpcCache_read (rc_cache c) path data")
    case (Ok in_db)
    show ?thesis
    proof (cases in_db)
      case None
      show ?thesis
      proof (cases "net_abci_path N path"; cases "net_height N (rc_block_number c)")
        fix p h
        assume ok: "net_abci_path N path = Ok p" "net_height N (rc_block_number c) = Ok h"
        show ?thesis
          using Ok None ok cache_le_write [of "rc_cache c" path data]
          by (rule_tac rpc_request_cases [of N "\<lambda>now http. net_abci_query N now http p data h" c w])
            (auto simp: abci_query_raw_def m_simps rpc_le_def cache_le_refl)
      qed (use Ok None refl in \<open>simp_all add: abci_query_raw_def m_simps\<close>)
    qed (use Ok refl in \<open>simp add: abci_query_raw_def m_simps\<close>)
  qed (use refl in \<open>simp add: abci_query_raw_def m_simps\<close>)
qed

lemma keeps_rpc_query: "keeps rpc_le (rpc_query N path request decode)"
  unfolding rpc_query_def
  by (intro rpc.bind rpc.unwrap_result rpc.lift_result keeps_abci_query_raw)

lemma keeps_Rpc_queries:
  "keeps rpc_le (Rpc_query_bank_all_balances N address)"
  "keeps rpc_le (Rpc_query_wasm_contract_smart N address query_data)"
  "keeps rpc_le (Rpc_query_wasm_contract_state_all N address)"
  "keeps rpc_le (Rpc_query_wasm_contract_info N address)"
  "keeps rpc_le (Rpc_query_wasm_contract_code N code_id)"
  unfolding Rpc_query_bank_all_balances_def Rpc_query_wasm_contract_smart_def
    Rpc_query_wasm_contract_state_all_def Rpc_query_wasm_contract_info_def
    Rpc_query_wasm_contract_code_def
  by (auto intro!: rpc.bind rpc.unwrap_option rpc.return rpc.fail keeps_rpc_query split: option.split)


text \<open>A concrete outside: every node answers, and a value is stored once.\<close>

definition sample_os :: os_ext where
  "sample_os = \<lparr>os_fault = (\<lambda>_. None), os_write_len = (\<lambda>_ n. n), os_home = Some ''/root''\<rparr>"

definition sample_net :: net_ext where
  "sample_net =
     \<lparr>net_os = sample_os, net_sha256 = id, net_hex_encode = bytes_str,
      net_bincode_serialize = (\<lambda>i. Ok (be_bytes 8 (unat (rci_timestamp i)))),
      net_bincode_deserialize = (\<lambda>b. Ok \<lparr>rci_db = Map.empty, rci_chain_id = [],
        rci_timestamp = of_nat (be_val (take 8 b))\<rparr>),
      net_http_client_new = Ok, net_tokio_build = (\<lambda>_. Ok ()),
      net_status = (\<lambda>_ _. Ok \<lparr>st_network = ''malaga-420'', st_latest_block_height = 7\<rparr>),
      net_block_time = (\<lambda>_ _ h. Ok (int (unat h) * 1000)),
      net_since_unix_epoch = (\<lambda>t. if t < 0 then Err ''negative'' else Ok (nat t)),
      net_u64_from_nanos_error = ''out of range'',
      net_abci_query = (\<lambda>now _ _ data _. Ok \<lparr>aq_code_ok = True, aq_log = [], aq_value = of_nat now # data\<rparr>),
      net_abci_path = Ok, net_height = Ok,
      pb_enc_all_balances = (\<lambda>a. Ok (str_bytes a)), pb_dec_all_balances = (\<lambda>_. Ok [(''ucosm'', ''100'')]),
      pb_enc_smart = (\<lambda>a d. Ok (str_bytes a @ d)), pb_dec_smart = Ok,
      pb_enc_state_all = (\<lambda>a. Ok (str_bytes a)), pb_dec_state_all = (\<lambda>_. Ok []),
      pb_enc_contract_info = (\<lambda>a. Ok (str_bytes a)), pb_dec_contract_info = (\<lambda>_. Ok (Some 1)),
      pb_enc_code = (\<lambda>c. Ok (be_bytes 8 (unat c))), pb_dec_code = (\<lambda>_. Ok [0, 97, 115, 109])\<rparr>"

definition sample_world :: World where
  "sample_world = \<lparr>w_now = 3, w_files = Map.empty, w_dirs = []\<rparr>"

definition sample_client :: CwRpcClient where
  "sample_client = \<lparr>rc_inner = ''http://node'', rc_block_number = 7,
     rc_cache = FileBacked RpcCacheInner_default True ''/root/cache''\<rparr>"




text \<open>
  What \<^verbatim>\<open>CwRpcClient::new\<close> does for a pinned block number when no cache file exists yet:
  it asks the node for nothing, and the client it returns has block number 0, timestamp 0 and an
  empty chain id, whatever block number was asked for.
\<close>

theorem new_pinned_block_fresh:
  assumes "w_files w (cache_file N url bn) = None"
    and "CwRpcClient_new N url (Some bn) w = (Ret c, w')"
  shows "rc_block_number c = 0 \<and>
     RpcCache_timestamp (rc_cache c) = Some 0 \<and> RpcCache_chain_id (rc_cache c) = Some []"
proof -
  obtain h where h: "net_http_client_new N url = Ok h"
    using assms(2) by (cases "net_http_client_new N url") (auto simp: CwRpcClient_new_def m_simps)
  have fresh: "cache = FileBacked RpcCacheInner_default False (cache_file N url bn)"
    if "RpcCache_file_backed N url bn w = (Ret cache, v)" for cache v
    using that assms(1)
    by (auto simp: RpcCache_file_backed_def m_simps io_op_def rwopen_def fs_open_create_def
        fs_create_dir_def fs_is_file_def tick_def split: if_splits option.splits)
  from assms(2) h show ?thesis
    by (auto simp: CwRpcClient_new_def build_client_def m_simps Rpc_timestamp_def Rpc_chain_id_def
        RpcCache_initialized_def RpcCache_timestamp_def RpcCache_chain_id_def RpcCacheInner_default_def
        RpcCache_set_timestamp_def RpcCache_set_chain_id_def Timestamp_from_nanos_def Timestamp_nanos_def
        split: prod.splits outcome.splits dest!: fresh)
qed

theorem new_pinned_block_fresh_witness:
  "\<exists>c w'. CwRpcClient_new sample_net ''http://node'' (Some 7) sample_world = (Ret c, w') \<and>
     rc_block_number c = 0"
proof -
  let ?r = "CwRpcClient_new sample_net ''http://node'' (Some 7) sample_world"
  have "\<exists>c. fst ?r = Ret c"
    by (simp add: CwRpcClient_new_def build_client_def m_simps sample_net_def sample_os_def
        sample_world_def RpcCache_file_backed_def fs_is_dir_def fs_is_file_def fs_create_dir_def
        io_op_def rwopen_def fs_open_create_def tick_def RpcCache_initialized_def Rpc_timestamp_def
        Rpc_chain_id_def RpcCache_timestamp_def RpcCache_chain_id_def)
  then obtain c w' where r: "?r = (Ret c, w')" by (metis prod.collapse)
  have "w_files sample_world (cache_file sample_net ''http://node'' 7) = None"
    by (simp add: sample_world_def)
  from new_pinned_block_fresh [OF this r] r show ?thesis by blast
qed

end
