(* ===== verification/ClientBackend.thy ===== *)
theory ClientBackend
  imports RpcClient
begin

text \<open>
  The client of a REST (LCD) node (\<^verbatim>\<open>core/src/fork/lcd.rs\<close>) and the interface the simulator
  uses (\<^verbatim>\<open>core/src/fork/client_backend.rs\<close>): \<open>Client\<close> is \<^verbatim>\<open>Box<dyn CwClientBackend>\<close>, one of
  the two clients, and the operations dispatch on it.  The record \<open>lcd_ext\<close> holds the HTTP
  library and the JSON, base64, hex and date decoders.
\<close>

section \<open>\<^verbatim>\<open>CwLcdClient\<close>\<close>

record CwLcdClient =
  lc_url :: string
  lc_block_number :: u64

record BlockHeaderRaw =
  bh_chain_id :: string
  bh_height :: string
  bh_time :: string

record BlockHeaderRawOuter =
  bho_header :: BlockHeaderRaw

record BlockHeaderRawOuterOuter =
  bhoo_block :: BlockHeaderRawOuter

record ContractInfoRaw =
  cir_code_id :: string
  cir_creator :: string
  cir_admin :: string
  cir_label :: string

record ContractInfoResponse =
  cires_address :: string
  cires_contract_info :: ContractInfoRaw

record KeyValueEntry =
  kve_key :: string
  kve_value :: string

record ContractStateAll =
  csa_models :: "KeyValueEntry list"

record CodeResponse =
  cr_data :: string

record CoinRaw =
  coin_denom :: string
  coin_amount :: string

record BankBalancesResponse =
  bbr_balances :: "CoinRaw list"

record ErrorResponseBody =
  erb_code :: string
  erb_message :: string

record lcd_ext =
  lcd_url_parse :: "string \<Rightarrow> (string, string) result"
  lcd_http_get :: "nat \<Rightarrow> string \<Rightarrow> (string, bool \<times> (string, string) result) result"
  json_error_body :: "string \<Rightarrow> (string, ErrorResponseBody) result"
  json_block_header :: "string \<Rightarrow> (string, BlockHeaderRawOuterOuter) result"
  json_balances :: "string \<Rightarrow> (string, BankBalancesResponse) result"
  json_get_data :: "string \<Rightarrow> (string, string option) result"
  json_state_all :: "string \<Rightarrow> (string, ContractStateAll) result"
  json_contract_info :: "string \<Rightarrow> (string, ContractInfoResponse) result"
  json_code :: "string \<Rightarrow> (string, CodeResponse) result"
  lcd_base64_encode :: "bytes \<Rightarrow> string"
  lcd_base64_decode :: "string \<Rightarrow> (string, bytes) result"
  lcd_hex_decode :: "string \<Rightarrow> (string, bytes) result"
  lcd_rfc3339_nanos :: "string \<Rightarrow> (string, int) result"

type_synonym 'a lcdM = "(CwLcdClient \<times> World, Error, 'a) M"

definition Lcd_request_inner :: "lcd_ext \<Rightarrow> string \<Rightarrow> string lcdM" where
  "Lcd_request_inner L uri =
     bindM (getM (\<lambda>s. (w_now (snd s), lc_url (fst s)))) (\<lambda>(now, url).
     bindM (liftR (map_errR FormatError (lcd_url_parse L (url @ uri)))) (\<lambda>request_url.
     thenM (on_world (modifyM tick))
     (bindM (liftR (map_errR HttpError (lcd_http_get L now request_url))) (\<lambda>(status_ok, body).
      bindM (liftR (map_errR HttpError body)) (\<lambda>body_str.
      if status_ok then returnM body_str
      else
        bindM (liftR (map_errR FormatError (json_error_body L body_str))) (\<lambda>err_body.
        failM (HttpError (erb_message err_body))))))))"

text \<open>A request whose body is decoded, as every query does.\<close>

definition lcd_get :: "lcd_ext \<Rightarrow> string \<Rightarrow> (string \<Rightarrow> (string, 'a) result) \<Rightarrow> 'a lcdM" where
  "lcd_get L uri decode =
     bindM (Lcd_request_inner L uri) (\<lambda>body_str. liftR (map_errR FormatError (decode body_str)))"

definition Lcd_get_latest_block_header :: "lcd_ext \<Rightarrow> BlockHeaderRaw lcdM" where
  "Lcd_get_latest_block_header L =
     bindM (lcd_get L ''/blocks/latest'' (json_block_header L)) (\<lambda>block_header.
     returnM (bho_header (bhoo_block block_header)))"

definition Lcd_block_number :: "CwLcdClient \<Rightarrow> u64" where
  "Lcd_block_number self = lc_block_number self"

definition Lcd_chain_id :: "lcd_ext \<Rightarrow> string lcdM" where
  "Lcd_chain_id L =
     bindM (Lcd_get_latest_block_header L) (\<lambda>block_header. returnM (bh_chain_id block_header))"

definition Lcd_timestamp :: "lcd_ext \<Rightarrow> Timestamp lcdM" where
  "Lcd_timestamp L =
     bindM (Lcd_get_latest_block_header L) (\<lambda>block_header.
     bindM (liftR (map_errR FormatError (lcd_rfc3339_nanos L (bh_time block_header)))) (\<lambda>nanos.
     returnM (Timestamp_from_nanos (of_int nanos))))"

definition Lcd_block_height :: "lcd_ext \<Rightarrow> u64 lcdM" where
  "Lcd_block_height L =
     bindM (Lcd_get_latest_block_header L) (\<lambda>block_header.
     bindM (unwrapR (parse_uint 64 (bh_height block_header))) (\<lambda>height.
     returnM (of_nat height)))"

definition Lcd_query_bank_all_balances :: "lcd_ext \<Rightarrow> string \<Rightarrow> (string \<times> u128) list lcdM" where
  "Lcd_query_bank_all_balances L address =
     bindM (lcd_get L (''/cosmos/bank/v1beta1/balances/'' @ address) (json_balances L)) (\<lambda>balances.
     unwrapM (parse_amounts (map (\<lambda>coin. (coin_denom coin, coin_amount coin)) (bbr_balances balances))))"

definition Lcd_query_wasm_contract_smart :: "lcd_ext \<Rightarrow> string \<Rightarrow> bytes \<Rightarrow> bytes lcdM" where
  "Lcd_query_wasm_contract_smart L address query_data =
     bindM (lcd_get L (''/cosmwasm/wasm/v1/contract/'' @ address @ ''/smart/'' @
                       lcd_base64_encode L query_data) (json_get_data L)) (\<lambda>data.
     case data of
       Some d \<Rightarrow> returnM (str_bytes d)
     | None \<Rightarrow> failM (FormatError (''key '' @ [CHR 0x27] @ ''data'' @ [CHR 0x27] @
                                  '' not present in response'')))"

fun decode_models :: "lcd_ext \<Rightarrow> KeyValueEntry list \<Rightarrow> (Error, (bytes \<times> bytes) list) result" where
  "decode_models L [] = Ok []"
| "decode_models L (kv # kvs) =
     (case map_errR FormatError (lcd_hex_decode L (kve_key kv)) of
        Err e \<Rightarrow> Err e
      | Ok key \<Rightarrow>
          (case map_errR FormatError (lcd_base64_decode L (kve_value kv)) of
             Err e \<Rightarrow> Err e
           | Ok value \<Rightarrow>
               (case decode_models L kvs of Err e \<Rightarrow> Err e | Ok rest \<Rightarrow> Ok ((key, value) # rest))))"

definition Lcd_query_wasm_contract_state_all :: "lcd_ext \<Rightarrow> string \<Rightarrow> (bytes, bytes) btree lcdM" where
  "Lcd_query_wasm_contract_state_all L address =
     bindM (lcd_get L (''/cosmwasm/wasm/v1/contract/'' @ address @ ''/state'') (json_state_all L)) (\<lambda>response.
     bindM (liftR (decode_models L (csa_models response))) (\<lambda>models.
     returnM (bt_collect models)))"

definition Lcd_query_wasm_contract_info :: "lcd_ext \<Rightarrow> string \<Rightarrow> u64 lcdM" where
  "Lcd_query_wasm_contract_info L address =
     bindM (lcd_get L (''/cosmwasm/wasm/v1/contract/'' @ address) (json_contract_info L)) (\<lambda>response.
     bindM (unwrapR (parse_uint 64 (cir_code_id (cires_contract_info response)))) (\<lambda>code_id.
     returnM (of_nat code_id)))"

definition Lcd_query_wasm_contract_code :: "lcd_ext \<Rightarrow> u64 \<Rightarrow> bytes lcdM" where
  "Lcd_query_wasm_contract_code L code_id =
     bindM (lcd_get L (''/cosmwasm/wasm/v1/code/'' @ nat_str (unat code_id)) (json_code L)) (\<lambda>response.
     liftR (map_errR FormatError (lcd_base64_decode L (cr_data response))))"

definition CwLcdClient_new :: "lcd_ext \<Rightarrow> string \<Rightarrow> (World, Error, CwLcdClient) M" where
  "CwLcdClient_new L url w =
     (case Lcd_block_height L (\<lparr>lc_url = url, lc_block_number = 0\<rparr>, w) of
        (Ret height, (c, w')) \<Rightarrow> (Ret (c\<lparr>lc_block_number := height\<rparr>), w')
      | (Fail e, (c, w')) \<Rightarrow> (Fail e, w')
      | (Panic, (c, w')) \<Rightarrow> (Panic, w')
      | (Diverge, (c, w')) \<Rightarrow> (Diverge, w'))"

section \<open>\<^verbatim>\<open>CwClientBackend\<close>\<close>

datatype Client = RpcClient CwRpcClient | LcdClient CwLcdClient

record client_ext =
  ce_net :: net_ext
  ce_lcd :: lcd_ext

type_synonym 'a clientM = "(Client \<times> World, Error, 'a) M"

text \<open>Dynamic dispatch: the operation of the client that is there, on its own state.\<close>

definition dispatch :: "'a rpcM \<Rightarrow> 'a lcdM \<Rightarrow> 'a clientM" where
  "dispatch m n s =
     (case s of
        (RpcClient c, w) \<Rightarrow> (case m (c, w) of (r, (c', w')) \<Rightarrow> (r, (RpcClient c', w')))
      | (LcdClient c, w) \<Rightarrow> (case n (c, w) of (r, (c', w')) \<Rightarrow> (r, (LcdClient c', w'))))"

definition Client_block_number :: "Client \<Rightarrow> u64" where
  "Client_block_number self =
     (case self of RpcClient c \<Rightarrow> Rpc_block_number c | LcdClient c \<Rightarrow> Lcd_block_number c)"

definition Client_chain_id :: "client_ext \<Rightarrow> string clientM" where
  "Client_chain_id E = dispatch (Rpc_chain_id (ce_net E)) (Lcd_chain_id (ce_lcd E))"

definition Client_timestamp :: "client_ext \<Rightarrow> Timestamp clientM" where
  "Client_timestamp E = dispatch (Rpc_timestamp (ce_net E)) (Lcd_timestamp (ce_lcd E))"

definition Client_block_height :: "client_ext \<Rightarrow> u64 clientM" where
  "Client_block_height E = dispatch (Rpc_block_height (ce_net E)) (Lcd_block_height (ce_lcd E))"

definition query_bank_all_balances :: "client_ext \<Rightarrow> string \<Rightarrow> (string \<times> u128) list clientM" where
  "query_bank_all_balances E address =
     dispatch (Rpc_query_bank_all_balances (ce_net E) address) (Lcd_query_bank_all_balances (ce_lcd E) address)"

definition query_wasm_contract_smart :: "client_ext \<Rightarrow> string \<Rightarrow> bytes \<Rightarrow> bytes clientM" where
  "query_wasm_contract_smart E address query_data =
     dispatch (Rpc_query_wasm_contract_smart (ce_net E) address query_data)
       (Lcd_query_wasm_contract_smart (ce_lcd E) address query_data)"

definition query_wasm_contract_state_all :: "client_ext \<Rightarrow> string \<Rightarrow> (bytes, bytes) btree clientM" where
  "query_wasm_contract_state_all E address =
     dispatch (Rpc_query_wasm_contract_state_all (ce_net E) address)
       (Lcd_query_wasm_contract_state_all (ce_lcd E) address)"

definition query_wasm_contract_info :: "client_ext \<Rightarrow> string \<Rightarrow> u64 clientM" where
  "query_wasm_contract_info E address =
     dispatch (Rpc_query_wasm_contract_info (ce_net E) address) (Lcd_query_wasm_contract_info (ce_lcd E) address)"

definition query_wasm_contract_code :: "client_ext \<Rightarrow> u64 \<Rightarrow> bytes clientM" where
  "query_wasm_contract_code E code_id =
     dispatch (Rpc_query_wasm_contract_code (ce_net E) code_id) (Lcd_query_wasm_contract_code (ce_lcd E) code_id)"

definition clone_box :: "client_ext \<Rightarrow> Client \<Rightarrow> (World, 'e, Client) M" where
  "clone_box E self =
     (case self of
        RpcClient c \<Rightarrow> bindM (CwRpcClient_clone (ce_net E) c) (\<lambda>d. returnM (RpcClient d))
      | LcdClient c \<Rightarrow> returnM (LcdClient c))"

definition client_drop :: "client_ext \<Rightarrow> Client \<Rightarrow> World \<Rightarrow> World" where
  "client_drop E self w =
     (case self of RpcClient c \<Rightarrow> RpcCache_drop (ce_net E) (rc_cache c) w | LcdClient _ \<Rightarrow> w)"

section \<open>What a query keeps\<close>

definition lcd_le :: "CwLcdClient \<times> World \<Rightarrow> CwLcdClient \<times> World \<Rightarrow> bool" where
  "lcd_le s t \<longleftrightarrow> fst s = fst t \<and> files_same (snd s) (snd t)"

interpretation lcd: kept lcd_le
  by unfold_locales (auto simp: lcd_le_def files_same_def)

definition client_le :: "Client \<times> World \<Rightarrow> Client \<times> World \<Rightarrow> bool" where
  "client_le s t \<longleftrightarrow>
     (case (fst s, fst t) of
        (RpcClient c, RpcClient d) \<Rightarrow> rpc_le (c, snd s) (d, snd t)
      | (LcdClient c, LcdClient d) \<Rightarrow> lcd_le (c, snd s) (d, snd t)
      | _ \<Rightarrow> False)"

interpretation cl: kept client_le
proof
  show "client_le s s" for s
    using rpc.kept_refl lcd.kept_refl by (simp add: client_le_def split: Client.split)
  show "client_le s u" if "client_le s t" "client_le t u" for s t u
    using that by (auto simp: client_le_def split: Client.splits intro: rpc.kept_trans lcd.kept_trans)
qed

lemma client_le_block_number: "client_le s t \<Longrightarrow> Client_block_number (fst t) = Client_block_number (fst s)"
  by (auto simp: client_le_def Client_block_number_def Rpc_block_number_def Lcd_block_number_def
      rpc_le_def lcd_le_def split: Client.splits)

lemma client_le_files: "client_le s t \<Longrightarrow> files_same (snd s) (snd t)"
  by (auto simp: client_le_def rpc_le_def lcd_le_def split: Client.splits)

lemma keeps_dispatch:
  assumes "keeps rpc_le m" and "keeps lcd_le n"
  shows "keeps client_le (dispatch m n)"
proof (rule keepsI, clarify)
  fix c w
  show "client_le (c, w) (snd (dispatch m n (c, w)))"
    using keepsD [OF assms(1)] keepsD [OF assms(2)]
    by (cases c) (auto simp: dispatch_def client_le_def split: prod.split)
qed

lemma keeps_lcd_request: "keeps lcd_le (Lcd_request_inner L uri)"
proof -
  have "keeps lcd_le (on_world (modifyM tick))"
    by (auto simp: keeps_def m_simps lcd_le_def files_same_def tick_def)
  then show ?thesis
    unfolding Lcd_request_inner_def
    by (auto intro!: lcd.bind lcd.seq lcd.get lcd.lift_result lcd.return lcd.fail split: prod.split)
qed

lemma keeps_lcd_get: "keeps lcd_le (lcd_get L uri decode)"
  unfolding lcd_get_def by (intro lcd.bind lcd.lift_result keeps_lcd_request)

lemma keeps_lcd_header: "keeps lcd_le (Lcd_get_latest_block_header L)"
  unfolding Lcd_get_latest_block_header_def by (intro lcd.bind lcd.return keeps_lcd_get)

lemmas keeps_lcd_intros =
  lcd.bind lcd.seq lcd.get lcd.lift_result lcd.return lcd.fail lcd.unwrap_option lcd.unwrap_result
  keeps_lcd_get keeps_lcd_header

lemma keeps_Lcd_queries:
  "keeps lcd_le (Lcd_chain_id L)"
  "keeps lcd_le (Lcd_timestamp L)"
  "keeps lcd_le (Lcd_block_height L)"
  "keeps lcd_le (Lcd_query_bank_all_balances L address)"
  "keeps lcd_le (Lcd_query_wasm_contract_smart L address query_data)"
  "keeps lcd_le (Lcd_query_wasm_contract_state_all L address)"
  "keeps lcd_le (Lcd_query_wasm_contract_info L address)"
  "keeps lcd_le (Lcd_query_wasm_contract_code L code_id)"
  unfolding Lcd_chain_id_def Lcd_timestamp_def Lcd_block_height_def Lcd_query_bank_all_balances_def
    Lcd_query_wasm_contract_smart_def Lcd_query_wasm_contract_state_all_def
    Lcd_query_wasm_contract_info_def Lcd_query_wasm_contract_code_def
  by (auto intro!: keeps_lcd_intros split: option.split)

lemma keeps_client_queries:
  "keeps client_le (query_bank_all_balances E address)"
  "keeps client_le (query_wasm_contract_smart E address query_data)"
  "keeps client_le (query_wasm_contract_state_all E address)"
  "keeps client_le (query_wasm_contract_info E address)"
  "keeps client_le (query_wasm_contract_code E code_id)"
  unfolding query_bank_all_balances_def query_wasm_contract_smart_def query_wasm_contract_state_all_def
    query_wasm_contract_info_def query_wasm_contract_code_def
  by (intro keeps_dispatch keeps_Rpc_queries keeps_Lcd_queries)+

text \<open>A fetched storage is an ordered map, whichever client it comes from.\<close>

lemma state_all_inv:
  assumes "query_wasm_contract_state_all E address s = (Ret m, t)"
  shows "bt_inv m"
proof -
  obtain c w where s: "s = (c, w)" by (cases s)
  show ?thesis
    using assms
    by (cases c)
      (auto simp: s query_wasm_contract_state_all_def dispatch_def Rpc_query_wasm_contract_state_all_def
        Lcd_query_wasm_contract_state_all_def bindM_Ret_iff returnM_def bt_inv_collect
        split: prod.splits)
qed

end
