(* ===== verification/RpcStorage.thy ===== *)
theory RpcStorage
  imports Errors Collections
begin

text \<open>
  The storage a contract runs on.  The locale \<open>vm_storage\<close> states what the VM's \<^verbatim>\<open>Storage\<close>
  trait promises to the code that reads, writes and iterates; its client, a loop that drains an
  iterator, is verified once against the contract.  \<^verbatim>\<open>RpcMockStorage\<close>
  (\<^verbatim>\<open>core/src/fork/storage.rs\<close>) is the implementation and interprets the locale.

  \<^verbatim>\<open>RpcMockStorage\<close> holds the contract's storage behind a shared pointer; \<open>ms_inner\<close> is the
  map behind it at the moment of the call.  Which map that is (the live one of the contract or
  a private copy) is decided by the caller.
\<close>

section \<open>The contract of the VM's \<^verbatim>\<open>Storage\<close> trait\<close>

text \<open>Draining an iterator: at most \<open>n\<close> calls of \<open>next\<close>, stopping at the end or an error.\<close>

primrec drain ::
  "(u32 \<Rightarrow> 's \<Rightarrow> Record option BackendResult \<times> 's) \<Rightarrow> u32 \<Rightarrow> nat \<Rightarrow> 's \<Rightarrow> Record list \<times> 's" where
  "drain next_op i 0 s = ([], s)"
| "drain next_op i (Suc n) s =
     (case next_op i s of
        ((Ok (Some r), _), s') \<Rightarrow> (case drain next_op i n s' of (rs, s'') \<Rightarrow> (r # rs, s''))
      | (_, s') \<Rightarrow> ([], s'))"

definition order_records :: "Order \<Rightarrow> Record list \<Rightarrow> Record list" where
  "order_records ord rs = (case ord of Ascending \<Rightarrow> rs | Descending \<Rightarrow> rev rs)"

locale vm_storage =
  fixes st_get :: "'s \<Rightarrow> bytes \<Rightarrow> bytes option BackendResult"
    and st_set :: "bytes \<Rightarrow> bytes \<Rightarrow> 's \<Rightarrow> unit BackendResult \<times> 's"
    and st_remove :: "bytes \<Rightarrow> 's \<Rightarrow> unit BackendResult \<times> 's"
    and st_scan :: "bytes option \<Rightarrow> bytes option \<Rightarrow> Order \<Rightarrow> 's \<Rightarrow> (u32 BackendResult \<times> 's) option"
    and st_next :: "u32 \<Rightarrow> 's \<Rightarrow> Record option BackendResult \<times> 's"
    and st_inv :: "'s \<Rightarrow> bool"
    and st_contents :: "'s \<Rightarrow> bytes \<rightharpoonup> bytes"
    and st_pending :: "'s \<Rightarrow> u32 \<rightharpoonup> Record list"
  assumes get_contents: "fst (st_get s k) = Ok (st_contents s k)"
    and set_contents: "st_contents (snd (st_set k v s)) = (st_contents s)(k \<mapsto> v)"
    and set_pending: "st_pending (snd (st_set k v s)) = st_pending s"
    and set_inv: "st_inv s \<Longrightarrow> st_inv (snd (st_set k v s))"
    and remove_contents: "st_contents (snd (st_remove k s)) = (st_contents s)(k := None)"
    and remove_pending: "st_pending (snd (st_remove k s)) = st_pending s"
    and remove_inv: "st_inv s \<Longrightarrow> st_inv (snd (st_remove k s))"
    and scan_ok: "st_scan lo hi ord s = Some (r, s') \<Longrightarrow> \<exists>i. fst r = Ok i"
    and scan_contents: "st_scan lo hi ord s = Some (r, s') \<Longrightarrow> st_contents s' = st_contents s"
    and scan_inv: "st_inv s \<Longrightarrow> st_scan lo hi ord s = Some (r, s') \<Longrightarrow> st_inv s'"
    and scan_pending: "st_inv s \<Longrightarrow> st_scan lo hi ord s = Some ((Ok i, g), s') \<Longrightarrow>
      \<exists>rs. st_pending s' = (st_pending s)(i \<mapsto> order_records ord rs) \<and>
        set rs = {(k, v). in_range lo hi k \<and> st_contents s k = Some v} \<and>
        sorted_wrt (<) (map fst rs)"
    and next_missing: "st_pending s i = None \<Longrightarrow>
      fst (fst (st_next i s)) = Err (IteratorDoesNotExist i) \<and> snd (st_next i s) = s"
    and next_end: "st_pending s i = Some [] \<Longrightarrow>
      fst (fst (st_next i s)) = Ok None \<and> snd (st_next i s) = s"
    and next_record: "st_pending s i = Some (rec # rs) \<Longrightarrow>
      fst (fst (st_next i s)) = Ok (Some rec) \<and>
      st_pending (snd (st_next i s)) = (st_pending s)(i \<mapsto> rs) \<and>
      st_contents (snd (st_next i s)) = st_contents s"
begin

lemma read_after_write: "fst (st_get (snd (st_set k v s)) k) = Ok (Some v)"
  by (simp add: get_contents set_contents)

lemma read_other_after_write: "k \<noteq> j \<Longrightarrow> fst (st_get (snd (st_set k v s)) j) = fst (st_get s j)"
  by (simp add: get_contents set_contents)

lemma read_after_remove: "fst (st_get (snd (st_remove k s)) k) = Ok None"
  by (simp add: get_contents remove_contents)

lemma drain_pending:
  assumes "st_pending s i = Some rs" and "length rs < n"
  shows "fst (drain st_next i n s) = rs"
  using assms
proof (induction rs arbitrary: n s)
  case Nil
  then obtain m where n: "n = Suc m" by (cases n) auto
  obtain r g s' where nx: "st_next i s = ((r, g), s')" by (metis surj_pair)
  with next_end [OF Nil(1)] show ?case by (simp add: n)
next
  case (Cons r rs)
  then obtain m where n: "n = Suc m" "length rs < m" by (cases n) auto
  obtain q g s' where nx: "st_next i s = ((q, g), s')" by (metis surj_pair)
  from next_record [OF Cons(2)] nx have q: "q = Ok (Some r)" and p: "st_pending s' i = Some rs"
    by simp_all
  obtain t u where d: "drain st_next i m s' = (t, u)" by (cases "drain st_next i m s'")
  have "t = rs" using Cons.IH [OF p n(2)] d by simp
  then show ?case by (simp add: n(1) nx q d)
qed

text \<open>
  An iterator delivers the records of its range as they were when it was opened, in key
  order, whatever is written or removed afterwards.
\<close>

lemma scan_drain:
  assumes "st_inv s" and "st_scan lo hi ord s = Some ((Ok i, g), s')"
    and "st_pending t i = st_pending s' i" and "card {k. in_range lo hi k \<and> st_contents s k \<noteq> None} < n"
  shows "\<exists>rs. fst (drain st_next i n t) = order_records ord rs \<and>
     set rs = {(k, v). in_range lo hi k \<and> st_contents s k = Some v} \<and> sorted_wrt (<) (map fst rs)"
proof -
  obtain rs where p: "st_pending s' = (st_pending s)(i \<mapsto> order_records ord rs)"
    and rs: "set rs = {(k, v). in_range lo hi k \<and> st_contents s k = Some v}"
      "sorted_wrt (<) (map fst rs)"
    using scan_pending [OF assms(1,2)] by blast
  have "fst ` set rs = {k. in_range lo hi k \<and> st_contents s k \<noteq> None}"
    unfolding rs(1) by force
  moreover have "length rs = card (fst ` set rs)"
    using rs(2) distinct_card [of "map fst rs"] by (simp add: strict_sorted_iff)
  ultimately have "length (order_records ord rs) < n"
    using assms(4) by (simp add: order_records_def split: Order.split)
  moreover have "st_pending t i = Some (order_records ord rs)" using assms(3) p by simp
  ultimately show ?thesis using drain_pending rs by blast
qed

end

section \<open>\<^verbatim>\<open>RpcMockStorage\<close>\<close>

type_synonym ContractStorage = "(bytes, bytes) btree"

record RpcMockStorage =
  ms_inner :: ContractStorage
  ms_iterators :: "u32 \<rightharpoonup> Record list \<times> nat"
  ms_iterator_id_ctr :: u32

definition RpcMockStorage_new :: "ContractStorage \<Rightarrow> RpcMockStorage" where
  "RpcMockStorage_new inner =
     \<lparr>ms_inner = inner, ms_iterators = Map.empty, ms_iterator_id_ctr = 0\<rparr>"

text \<open>\<open>None\<close> is the panic of the counter's overflow in a build with overflow checks.\<close>

definition RpcMockStorage_new_iterator ::
  "bool \<Rightarrow> Record list \<Rightarrow> RpcMockStorage \<Rightarrow> (u32 \<times> RpcMockStorage) option" where
  "RpcMockStorage_new_iterator checks records self =
     (case prim_add checks (ms_iterator_id_ctr self) 1 of
        None \<Rightarrow> None
      | Some ctr \<Rightarrow>
          (case prim_sub checks ctr 1 of
             None \<Rightarrow> None
           | Some i \<Rightarrow>
               Some (i, self\<lparr>ms_iterator_id_ctr := ctr,
                             ms_iterators := (ms_iterators self)(i \<mapsto> (records, 0))\<rparr>)))"

definition RpcMockStorage_get :: "RpcMockStorage \<Rightarrow> bytes \<Rightarrow> bytes option BackendResult" where
  "RpcMockStorage_get self key = (Ok (bt_get (ms_inner self) key), GasInfo_free)"

definition RpcMockStorage_scan ::
  "bool \<Rightarrow> bytes option \<Rightarrow> bytes option \<Rightarrow> Order \<Rightarrow> RpcMockStorage
     \<Rightarrow> (u32 BackendResult \<times> RpcMockStorage) option" where
  "RpcMockStorage_scan checks start end' order self =
     (let open_iterator = (\<lambda>records.
            map_option (\<lambda>(i, s). ((Ok i, GasInfo_free), s))
              (RpcMockStorage_new_iterator checks records self));
          finish = (\<lambda>range.
            case range of
              None \<Rightarrow> None
            | Some records \<Rightarrow>
                (case order of
                   Ascending \<Rightarrow> open_iterator records
                 | Descending \<Rightarrow> open_iterator (rev records)))
      in case (start, end') of
           (Some s, Some e) \<Rightarrow>
             if s > e then open_iterator [] else finish (bt_range (Some s) (Some e) (ms_inner self))
         | (Some s, None) \<Rightarrow> finish (bt_range (Some s) None (ms_inner self))
         | (None, Some e) \<Rightarrow> finish (bt_range None (Some e) (ms_inner self))
         | (None, None) \<Rightarrow> finish (bt_range (Some []) None (ms_inner self)))"

definition RpcMockStorage_next ::
  "u32 \<Rightarrow> RpcMockStorage \<Rightarrow> Record option BackendResult \<times> RpcMockStorage" where
  "RpcMockStorage_next iterator_id self =
     (case ms_iterators self iterator_id of
        Some (records, index) \<Rightarrow>
          if index \<ge> length records then ((Ok None, GasInfo_free), self)
          else ((Ok (Some (records ! index)), GasInfo_free),
                self\<lparr>ms_iterators := (ms_iterators self)(iterator_id \<mapsto> (records, index + 1))\<rparr>)
      | None \<Rightarrow> ((Err (IteratorDoesNotExist iterator_id), GasInfo_free), self))"

definition RpcMockStorage_set ::
  "bytes \<Rightarrow> bytes \<Rightarrow> RpcMockStorage \<Rightarrow> unit BackendResult \<times> RpcMockStorage" where
  "RpcMockStorage_set key value self =
     ((Ok (), GasInfo_free), self\<lparr>ms_inner := bt_insert key value (ms_inner self)\<rparr>)"

definition RpcMockStorage_remove ::
  "bytes \<Rightarrow> RpcMockStorage \<Rightarrow> unit BackendResult \<times> RpcMockStorage" where
  "RpcMockStorage_remove key self =
     ((Ok (), GasInfo_free), self\<lparr>ms_inner := bt_remove key (ms_inner self)\<rparr>)"

lemmas RpcMockStorage_ops =
  RpcMockStorage_get_def RpcMockStorage_set_def RpcMockStorage_remove_def

definition storage_pending :: "RpcMockStorage \<Rightarrow> u32 \<rightharpoonup> Record list" where
  "storage_pending s i = map_option (\<lambda>(rs, n). drop n rs) (ms_iterators s i)"

text \<open>What \<^verbatim>\<open>scan\<close> opens: the records of the range, in the order asked for.\<close>

definition scan_records :: "bytes option \<Rightarrow> bytes option \<Rightarrow> ContractStorage \<Rightarrow> Record list" where
  "scan_records lo hi m = filter (\<lambda>e. in_range lo hi (fst e)) m"

lemma RpcMockStorage_scan_eq:
  "RpcMockStorage_scan checks lo hi ord self =
     map_option (\<lambda>(i, s). ((Ok i, GasInfo_free), s))
       (RpcMockStorage_new_iterator checks (order_records ord (scan_records lo hi (ms_inner self))) self)"
proof -
  have empty: "in_range (Some s) (Some e) = (\<lambda>k. False)" if "e < s" for s e :: bytes
    using that by (auto simp: in_range_def fun_eq_iff)
  have all: "in_range (Some []) None = in_range None (None :: bytes option)"
    by (simp add: in_range_def fun_eq_iff)
  show ?thesis
    by (cases lo; cases hi; cases ord)
      (simp_all add: RpcMockStorage_scan_def bt_range_def order_records_def empty all scan_records_def)
qed

lemma new_iterator_Some:
  assumes "RpcMockStorage_new_iterator checks records self = Some (i, s)"
  shows "i = ms_iterator_id_ctr self"
    and "s = self\<lparr>ms_iterator_id_ctr := ms_iterator_id_ctr self + 1,
      ms_iterators := (ms_iterators self)(ms_iterator_id_ctr self \<mapsto> (records, 0))\<rparr>"
  using assms
  by (auto simp: RpcMockStorage_new_iterator_def prim_add_def prim_sub_def chk_add_def chk_sub_def
      split: option.splits if_splits)

lemma in_range_records:
  assumes "bt_inv m"
  shows "set (scan_records lo hi m) = {(k, v). in_range lo hi k \<and> bt_get m k = Some v}"
    and "sorted_wrt (<) (map fst (scan_records lo hi m))"
  unfolding scan_records_def
  using bt.select_exact [OF assms, of "in_range lo hi"] bt.select_sorted [OF assms, of "in_range lo hi"]
  by simp_all

interpretation rpcs: vm_storage RpcMockStorage_get RpcMockStorage_set RpcMockStorage_remove
  "RpcMockStorage_scan checks" RpcMockStorage_next "\<lambda>s. bt_inv (ms_inner s)"
  "\<lambda>s. bt_get (ms_inner s)" storage_pending for checks
proof unfold_locales
  fix lo hi ord s s' i g
  assume inv: "bt_inv (ms_inner s)"
    and scan: "RpcMockStorage_scan checks lo hi ord s = Some ((Ok i, g), s')"
  then obtain s'' where "RpcMockStorage_new_iterator checks
      (order_records ord (scan_records lo hi (ms_inner s))) s = Some (i, s'')" and "s' = s''"
    by (auto simp: RpcMockStorage_scan_eq)
  note new = new_iterator_Some [OF this(1)] this(2)
  show "\<exists>rs. storage_pending s' = (storage_pending s)(i \<mapsto> order_records ord rs) \<and>
      set rs = {(k, v). in_range lo hi k \<and> bt_get (ms_inner s) k = Some v} \<and>
      sorted_wrt (<) (map fst rs)"
    using in_range_records [OF inv, of lo hi] new
    by (intro exI [of _ "scan_records lo hi (ms_inner s)"]) (auto simp: storage_pending_def fun_eq_iff)
next
  fix s i rec rs
  assume "storage_pending s i = Some (rec # rs)"
  then obtain xs n where it: "ms_iterators s i = Some (xs, n)" and d: "drop n xs = rec # rs"
    by (auto simp: storage_pending_def)
  from d have n: "n < length xs" and x: "xs ! n = rec" and r: "drop (Suc n) xs = rs"
    by (simp_all add: drop_Suc nth_via_drop flip: tl_drop) (metis drop_all list.distinct(1) not_le)
  show "fst (fst (RpcMockStorage_next i s)) = Ok (Some rec) \<and>
      storage_pending (snd (RpcMockStorage_next i s)) = (storage_pending s)(i \<mapsto> rs) \<and>
      bt_get (ms_inner (snd (RpcMockStorage_next i s))) = bt_get (ms_inner s)"
    using it n x r by (auto simp: RpcMockStorage_next_def storage_pending_def fun_eq_iff)
qed (auto simp: RpcMockStorage_ops bt_get_insert bt_get_remove bt_inv_insert bt_inv_remove
    RpcMockStorage_scan_eq storage_pending_def RpcMockStorage_next_def fun_eq_iff
    dest: new_iterator_Some split: option.splits)

section \<open>Properties\<close>

text \<open>A sequence of writes and removals between the opening and the draining of an iterator.\<close>

definition apply_write :: "bytes \<times> bytes option \<Rightarrow> RpcMockStorage \<Rightarrow> RpcMockStorage" where
  "apply_write w s =
     (case w of
        (k, Some v) \<Rightarrow> snd (RpcMockStorage_set k v s)
      | (k, None) \<Rightarrow> snd (RpcMockStorage_remove k s))"

lemma fold_apply_write_pending: "storage_pending (fold apply_write ws s) = storage_pending s"
  by (induction ws arbitrary: s)
    (auto simp: apply_write_def rpcs.set_pending rpcs.remove_pending split: prod.split option.split)

lemma fold_apply_write_contents:
  "bt_get (ms_inner (fold apply_write ws s)) = fold (\<lambda>(k, v) m. m(k := v)) ws (bt_get (ms_inner s))"
  by (induction ws arbitrary: s)
    (auto simp: apply_write_def rpcs.set_contents rpcs.remove_contents split: prod.split option.split)

lemma range_card: "bt_inv m \<Longrightarrow> card {k. in_range lo hi k \<and> bt_get m k \<noteq> None} \<le> length m"
proof -
  have "{k. in_range lo hi k \<and> bt_get m k \<noteq> None} \<subseteq> set (map fst m)"
    by (auto simp: bt_get_def dest: map_of_SomeD intro: rev_image_eqI)
  then have "card {k. in_range lo hi k \<and> bt_get m k \<noteq> None} \<le> card (set (map fst m))"
    by (intro card_mono) simp_all
  also have "\<dots> \<le> length m" using card_length [of "map fst m"] by simp
  finally show ?thesis .
qed

text \<open>
  C33: An iterator opened by \<^verbatim>\<open>scan\<close> delivers exactly the records of its range that the
  storage held when it was opened, in ascending or descending key order, whatever is written
  to or removed from the storage before it is drained; reads meanwhile see those writes.
\<close>

theorem scan_snapshot:
  assumes "bt_inv (ms_inner s)"
    and "RpcMockStorage_scan checks lo hi ord s = Some ((Ok i, g), s')"
    and "length (ms_inner s) < n"
  shows "(\<exists>rs. fst (drain RpcMockStorage_next i n (fold apply_write ws s')) = order_records ord rs \<and>
      set rs = {(k, v). in_range lo hi k \<and> bt_get (ms_inner s) k = Some v} \<and>
      sorted_wrt (<) (map fst rs)) \<and>
    fst (RpcMockStorage_get (fold apply_write ws s') k) =
      Ok (fold (\<lambda>(k, v) m. m(k := v)) ws (bt_get (ms_inner s)) k)"
proof
  have "card {k. in_range lo hi k \<and> bt_get (ms_inner s) k \<noteq> None} < n"
    using range_card [OF assms(1), of lo hi] assms(3) by simp
  then show "\<exists>rs. fst (drain RpcMockStorage_next i n (fold apply_write ws s')) = order_records ord rs \<and>
      set rs = {(k, v). in_range lo hi k \<and> bt_get (ms_inner s) k = Some v} \<and>
      sorted_wrt (<) (map fst rs)"
    using rpcs.scan_drain [OF assms(1,2)] by (simp add: fold_apply_write_pending)
  show "fst (RpcMockStorage_get (fold apply_write ws s') k) =
      Ok (fold (\<lambda>(k, v) m. m(k := v)) ws (bt_get (ms_inner s)) k)"
    by (simp add: rpcs.get_contents fold_apply_write_contents rpcs.scan_contents [OF assms(2)])
qed

definition sample_storage :: RpcMockStorage where
  "sample_storage = RpcMockStorage_new (bt_collect [([3], [30]), ([1], [10]), ([2], [20])])"

theorem scan_snapshot_witness:
  "\<exists>i g s'. RpcMockStorage_scan True (Some [2]) None Descending sample_storage = Some ((Ok i, g), s') \<and>
     (\<exists>rs. fst (drain RpcMockStorage_next i 4 (fold apply_write [([2], None)] s')) = order_records Descending rs \<and>
      set rs = {(k, v). in_range (Some [2]) None k \<and> bt_get (ms_inner sample_storage) k = Some v} \<and>
      sorted_wrt (<) (map fst rs))"
proof -
  have inv: "bt_inv (ms_inner sample_storage)"
    by (simp add: sample_storage_def RpcMockStorage_new_def bt_inv_collect)
  have len: "length (ms_inner sample_storage) < 4"
    by (simp add: sample_storage_def RpcMockStorage_new_def bt_collect_def bt_insert_def)
  obtain i g s' where sc:
    "RpcMockStorage_scan True (Some [2]) None Descending sample_storage = Some ((Ok i, g), s')"
    by (simp add: RpcMockStorage_scan_eq RpcMockStorage_new_iterator_def sample_storage_def
        RpcMockStorage_new_def prim_add_def prim_sub_def chk_add_def chk_sub_def)
  from scan_snapshot [OF inv sc len] sc show ?thesis by blast
qed

text \<open>
  \<^verbatim>\<open>scan\<close> never panics on any pair of bounds, including a start after the end, as
  long as fewer than \<open>2\<^sup>3\<^sup>2 - 1\<close> iterators were opened, and the new iterator's identifier is the
  number of iterators opened so far, so it never clobbers an open one.
\<close>

theorem scan_total:
  assumes "unat (ms_iterator_id_ctr s) < 2 ^ 32 - 1"
    and "\<forall>i\<in>dom (ms_iterators s). i < ms_iterator_id_ctr s"
  shows "\<exists>s'. RpcMockStorage_scan checks lo hi ord s = Some ((Ok (ms_iterator_id_ctr s), GasInfo_free), s') \<and>
     ms_iterator_id_ctr s \<notin> dom (ms_iterators s) \<and>
     ms_iterators s \<subseteq>\<^sub>m ms_iterators s' \<and>
     (\<forall>i\<in>dom (ms_iterators s'). i < ms_iterator_id_ctr s')"
proof -
  let ?c = "ms_iterator_id_ctr s" and ?rs = "order_records ord (scan_records lo hi (ms_inner s))"
  have fits: "chk_add ?c 1 = Some (?c + 1)" using assms(1) by (simp add: chk_add_def)
  have lt: "?c < ?c + 1" and ge: "1 \<le> ?c + 1"
    using unat_chk_add [OF fits] by (simp_all add: word_less_nat_alt word_le_nat_alt)
  have new: "RpcMockStorage_new_iterator checks ?rs s =
      Some (?c, s\<lparr>ms_iterator_id_ctr := ?c + 1, ms_iterators := (ms_iterators s)(?c \<mapsto> (?rs, 0))\<rparr>)"
    using fits ge by (auto simp: RpcMockStorage_new_iterator_def prim_add_def prim_sub_def chk_sub_def)
  have fresh: "?c \<notin> dom (ms_iterators s)" using assms(2) by blast
  moreover have "ms_iterators s \<subseteq>\<^sub>m (ms_iterators s)(?c \<mapsto> (?rs, 0))"
    using fresh by (auto simp: map_le_def)
  moreover have "\<forall>i\<in>dom ((ms_iterators s)(?c \<mapsto> (?rs, 0))). i < ?c + 1"
    using assms(2) lt by (auto intro: less_trans)
  ultimately show ?thesis by (simp add: RpcMockStorage_scan_eq new)
qed

theorem scan_total_witness:
  "\<exists>s'. RpcMockStorage_scan True (Some [9]) (Some [1]) Ascending sample_storage = Some ((Ok 0, GasInfo_free), s')"
  using scan_total [of sample_storage True "Some [9]" "Some [1]" Ascending]
  by (auto simp: sample_storage_def RpcMockStorage_new_def)

end
