(* ===== verification/States.thy ===== *)
theory States
  imports ClientBackend RpcStorage
begin

text \<open>
  The chain state of the simulator (\<^verbatim>\<open>core/src/fork/states.rs\<close>): contract states, the bank,
  the block.  Balances and contracts are fetched from the client the first time they are needed
  and are the simulator's own afterwards.  A contract's storage sits behind a shared pointer;
  the record holds the map behind it.
\<close>

section \<open>State\<close>

record ContractState =
  cs_code :: bytes
  cs_storage :: ContractStorage

record AllStates =
  as_contract_states :: "Addr \<rightharpoonup> ContractState"
  as_bank_states :: "Addr \<rightharpoonup> (string, Uint128) hmap"
  as_client :: Client
  as_block_number :: u64
  as_block_timestamp :: Timestamp
  as_chain_id :: string
  as_canonical_address_length :: nat
  as_bech32_prefix :: string

type_synonym 'a statesM = "(AllStates \<times> World, Error, 'a) M"

definition BLOCK_EPOCH :: u64 where
  "BLOCK_EPOCH = 1000000000"

text \<open>A method call on the client inside the state.\<close>

definition on_client :: "'a clientM \<Rightarrow> 'a statesM" where
  "on_client = zoomM (\<lambda>s. (as_client (fst s), snd s)) (\<lambda>c s. ((fst s)\<lparr>as_client := fst c\<rparr>, snd c))"

definition AllStates_new ::
  "client_ext \<Rightarrow> Client \<Rightarrow> nat \<Rightarrow> string \<Rightarrow> (World, Error, AllStates) M" where
  "AllStates_new E client canonical_address_length bech32_prefix w =
     (let m = bindM (Client_timestamp E) (\<lambda>block_timestamp.
              bindM (Client_chain_id E) (\<lambda>chain_id.
              returnM (block_timestamp, chain_id)))
      in case m (client, w) of
           (Ret (block_timestamp, chain_id), (client', w')) \<Rightarrow>
             (Ret \<lparr>as_contract_states = Map.empty, as_bank_states = Map.empty, as_client = client',
                   as_block_number = Client_block_number client, as_block_timestamp = block_timestamp,
                   as_chain_id = chain_id, as_canonical_address_length = canonical_address_length,
                   as_bech32_prefix = bech32_prefix\<rparr>, w')
         | (Fail e, (client', w')) \<Rightarrow> (Fail e, client_drop E client' w')
         | (Panic, (client', w')) \<Rightarrow> (Panic, client_drop E client' w')
         | (Diverge, (client', w')) \<Rightarrow> (Diverge, w'))"

definition contract_state_insert :: "Addr \<Rightarrow> ContractState \<Rightarrow> AllStates \<Rightarrow> AllStates" where
  "contract_state_insert contract_addr contract_state self =
     self\<lparr>as_contract_states := (as_contract_states self)(contract_addr \<mapsto> contract_state)\<rparr>"

definition contract_state_remove :: "Addr \<Rightarrow> AllStates \<Rightarrow> AllStates" where
  "contract_state_remove contract_addr self =
     self\<lparr>as_contract_states := (as_contract_states self)(contract_addr := None)\<rparr>"

text \<open>\<open>None\<close> is the panic of \<^verbatim>\<open>unwrap\<close> on a contract that is not there.\<close>

definition contract_storage_update :: "Addr \<Rightarrow> ContractStorage \<Rightarrow> AllStates \<Rightarrow> AllStates option" where
  "contract_storage_update contract_addr new_storage self =
     (case as_contract_states self contract_addr of
        None \<Rightarrow> None
      | Some cs \<Rightarrow> Some (contract_state_insert contract_addr (cs\<lparr>cs_storage := new_storage\<rparr>) self))"

definition contract_state_get :: "AllStates \<Rightarrow> Addr \<Rightarrow> ContractState option" where
  "contract_state_get self contract_addr = as_contract_states self contract_addr"

definition insert_bank_state :: "Addr \<Rightarrow> (string, Uint128) hmap \<Rightarrow> AllStates \<Rightarrow> AllStates" where
  "insert_bank_state addr balances self =
     self\<lparr>as_bank_states := (as_bank_states self)(addr \<mapsto> balances)\<rparr>"

definition get_bank_state :: "AllStates \<Rightarrow> Addr \<Rightarrow> (string, Uint128) hmap option" where
  "get_bank_state self addr = as_bank_states self addr"

text \<open>\<open>checks\<close>: whether the build checks integer overflow.\<close>

definition update_block :: "bool \<Rightarrow> (AllStates, 'e, unit) M" where
  "update_block checks =
     bindM (getM (\<lambda>self. prim_add checks (as_block_number self) 1)) (\<lambda>n.
     bindM (unwrapM n) (\<lambda>block_number.
     thenM (modifyM (\<lambda>self. self\<lparr>as_block_number := block_number\<rparr>))
     (bindM (getM (\<lambda>self. Timestamp_plus_nanos checks (as_block_timestamp self) BLOCK_EPOCH)) (\<lambda>t.
      bindM (unwrapM t) (\<lambda>_. returnM ())))))"

section \<open>The bank\<close>

definition coin_spent_event :: "Addr \<Rightarrow> Uint128 \<Rightarrow> string \<Rightarrow> Event" where
  "coin_spent_event sender amount denom =
     Event_add_attribute (Event_add_attribute (Event_new ''coin_spent'') ''spender'' sender)
       ''amount'' (Uint128_to_string amount @ denom)"

definition coin_received_event :: "Addr \<Rightarrow> Uint128 \<Rightarrow> string \<Rightarrow> Event" where
  "coin_received_event receiver amount denom =
     Event_add_attribute (Event_add_attribute (Event_new ''coin_received'') ''receiver'' receiver)
       ''amount'' (Uint128_to_string amount @ denom)"

text \<open>The fetch that \<^verbatim>\<open>get_balance\<close> and \<^verbatim>\<open>get_balances\<close> start with, and the map they read.\<close>

definition fetch_bank_state :: "client_ext \<Rightarrow> Addr \<Rightarrow> (string, Uint128) hmap statesM" where
  "fetch_bank_state E owner =
     bindM (getM (\<lambda>s. get_bank_state (fst s) owner)) (\<lambda>known.
     thenM
       (case known of
          Some _ \<Rightarrow> returnM ()
        | None \<Rightarrow>
            bindM (on_client (query_bank_all_balances E owner)) (\<lambda>balances.
            on_self (modifyM (insert_bank_state owner (hm_collect balances)))))
     (bindM (getM (\<lambda>s. get_bank_state (fst s) owner)) unwrapM))"

definition get_balance :: "client_ext \<Rightarrow> Addr \<Rightarrow> string \<Rightarrow> Uint128 statesM" where
  "get_balance E owner denom =
     bindM (fetch_bank_state E owner) (\<lambda>balances.
     returnM (case hm_get balances denom of Some balance \<Rightarrow> balance | None \<Rightarrow> 0))"

definition get_balances :: "client_ext \<Rightarrow> Addr \<Rightarrow> Coin list statesM" where
  "get_balances E owner =
     bindM (fetch_bank_state E owner) (\<lambda>balances.
     returnM (map (\<lambda>(d, v). \<lparr>c_denom = d, c_amount = v\<rparr>) balances))"

definition set_balance :: "Addr \<Rightarrow> string \<Rightarrow> Uint128 \<Rightarrow> AllStates \<Rightarrow> AllStates" where
  "set_balance owner denom balance self =
     insert_bank_state owner
       (hm_insert denom balance
          (case get_bank_state self owner of Some m \<Rightarrow> m | None \<Rightarrow> [])) self"

definition insufficient_balance :: "Addr \<Rightarrow> Uint128 \<Rightarrow> Uint128 \<Rightarrow> string" where
  "insufficient_balance src src_amount amount =
     ''insufficient balance (owner: '' @ src @ '', balance: '' @ Uint128_to_string src_amount @
     '', amount: '' @ Uint128_to_string amount @ '')''"

primrec bank_send_loop ::
  "client_ext \<Rightarrow> Addr \<Rightarrow> Addr \<Rightarrow> Coin list \<Rightarrow> Event list \<Rightarrow> Response ContractResult statesM" where
  "bank_send_loop E src dst [] events =
     returnM (ContractResult_Ok (Response_add_events Response_new events))"
| "bank_send_loop E src dst (coin # rest) events =
     bindM (get_balance E src (c_denom coin)) (\<lambda>src_amount.
     bindM (get_balance E dst (c_denom coin)) (\<lambda>dst_amount.
     if src_amount \<ge> c_amount coin then
       bindM (unwrapM (Uint128_sub src_amount (c_amount coin))) (\<lambda>new_src.
       thenM (on_self (modifyM (set_balance src (c_denom coin) new_src)))
       (bindM (unwrapM (Uint128_add dst_amount (c_amount coin))) (\<lambda>new_dst.
        thenM (on_self (modifyM (set_balance dst (c_denom coin) new_dst)))
        (bank_send_loop E src dst rest
           (events @ [coin_spent_event src (c_amount coin) (c_denom coin),
                      coin_received_event dst (c_amount coin) (c_denom coin)])))))
     else returnM (ContractResult_Err (insufficient_balance src src_amount (c_amount coin)))))"

definition bank_send ::
  "client_ext \<Rightarrow> Addr \<Rightarrow> Addr \<Rightarrow> Coin list \<Rightarrow> Response ContractResult statesM" where
  "bank_send E src dst amount = bank_send_loop E src dst amount []"

primrec bank_burn ::
  "client_ext \<Rightarrow> Addr \<Rightarrow> Coin list \<Rightarrow> Response ContractResult statesM" where
  "bank_burn E src [] = returnM (ContractResult_Ok Response_new)"
| "bank_burn E src (coin # rest) =
     bindM (get_balance E src (c_denom coin)) (\<lambda>src_amount.
     if src_amount \<ge> c_amount coin then
       bindM (unwrapM (Uint128_sub src_amount (c_amount coin))) (\<lambda>new_src.
       thenM (on_self (modifyM (set_balance src (c_denom coin) new_src)))
       (bank_burn E src rest))
     else returnM (ContractResult_Err (insufficient_balance src src_amount (c_amount coin))))"

definition bank_execute ::
  "client_ext \<Rightarrow> Addr \<Rightarrow> BankMsg \<Rightarrow> Response ContractResult statesM" where
  "bank_execute E sender bank_msg =
     (case bank_msg of
        BankMsg_Send to_address amount \<Rightarrow> bank_send E sender to_address amount
      | BankMsg_Burn amount \<Rightarrow> bank_burn E sender amount)"

text \<open>The JSON encoders of the two responses are parameters.\<close>

definition bank_query ::
  "client_ext \<Rightarrow> (BalanceResponse \<Rightarrow> (string, Binary) result)
     \<Rightarrow> (AllBalanceResponse \<Rightarrow> (string, Binary) result) \<Rightarrow> BankQuery \<Rightarrow> Binary statesM" where
  "bank_query E balance_to_binary all_balance_to_binary query =
     (case query of
        BankQuery_Balance address denom \<Rightarrow>
          bindM (get_balance E address denom) (\<lambda>balance.
          liftR (map_errR Error_StdError
            (balance_to_binary \<lparr>br_amount = \<lparr>c_denom = denom, c_amount = balance\<rparr>\<rparr>)))
      | BankQuery_AllBalances address \<Rightarrow>
          bindM (get_balances E address) (\<lambda>balances.
          liftR (map_errR Error_StdError (all_balance_to_binary \<lparr>abr_amount = balances\<rparr>))))"

section \<open>What the bank does to cached accounts\<close>

text \<open>\<open>held s a d\<close>: what the simulator's own books say account \<open>a\<close> has of \<open>d\<close>.\<close>

definition held :: "AllStates \<Rightarrow> Addr \<Rightarrow> string \<Rightarrow> Uint128" where
  "held s a d =
     (case as_bank_states s a of
        None \<Rightarrow> 0
      | Some m \<Rightarrow> (case hm_get m d of None \<Rightarrow> 0 | Some b \<Rightarrow> b))"

definition cached :: "AllStates \<Rightarrow> Addr \<Rightarrow> bool" where
  "cached s a \<longleftrightarrow> as_bank_states s a \<noteq> None"

text \<open>Two states that differ in the bank only, with the same accounts fetched.\<close>

definition bank_only :: "AllStates \<Rightarrow> AllStates \<Rightarrow> bool" where
  "bank_only s t \<longleftrightarrow>
     t\<lparr>as_bank_states := Map.empty\<rparr> = s\<lparr>as_bank_states := Map.empty\<rparr> \<and> dom (as_bank_states s) \<subseteq> dom (as_bank_states t)"

lemma bank_only_refl: "bank_only s s"
  by (simp add: bank_only_def)

lemma bank_only_trans: "bank_only s t \<Longrightarrow> bank_only t u \<Longrightarrow> bank_only s u"
  by (auto simp: bank_only_def)

lemma held_set_balance [simp]:
  "held (set_balance a d b s) = (held s)(a := (held s a)(d := b))"
  by (auto simp: held_def set_balance_def insert_bank_state_def get_bank_state_def fun_eq_iff
      split: option.split)

lemma cached_set_balance [simp]: "cached (set_balance a d b s) x \<longleftrightarrow> x = a \<or> cached s x"
  by (auto simp: cached_def set_balance_def insert_bank_state_def)

lemma bank_only_set_balance: "bank_only s (set_balance a d b s)"
  by (auto simp: bank_only_def set_balance_def insert_bank_state_def)

lemma fetch_cached: "cached s a \<Longrightarrow> \<exists>m. fetch_bank_state E a (s, w) = (Ret m, (s, w)) \<and> as_bank_states s a = Some m"
  by (auto simp: fetch_bank_state_def cached_def get_bank_state_def m_simps split: option.split)

lemma get_balance_cached: "cached s a \<Longrightarrow> get_balance E a d (s, w) = (Ret (held s a d), (s, w))"
  using fetch_cached [of s a E w] by (auto simp: get_balance_def m_simps held_def)

text \<open>How much of a denomination a list of coins holds.\<close>

definition denom_total :: "string \<Rightarrow> Coin list \<Rightarrow> nat" where
  "denom_total d cs = sum_list (map (\<lambda>c. unat (c_amount c)) (filter (\<lambda>c. c_denom c = d) cs))"

lemma denom_total_simps [simp]:
  "denom_total d [] = 0"
  "denom_total d (c # cs) = (if c_denom c = d then unat (c_amount c) else 0) + denom_total d cs"
  by (simp_all add: denom_total_def)

text \<open>One step of the loop on cached accounts.\<close>

lemma bank_send_step:
  assumes "cached s src" and "cached s dst"
  shows "bank_send_loop E src dst (c # cs) ev (s, w) =
    (if c_amount c \<le> held s src (c_denom c)
     then let s1 = set_balance src (c_denom c) (held s src (c_denom c) - c_amount c) s in
          case chk_add (held s dst (c_denom c)) (c_amount c) of
            None \<Rightarrow> (Panic, (s1, w))
          | Some b \<Rightarrow>
              bank_send_loop E src dst cs
                (ev @ [coin_spent_event src (c_amount c) (c_denom c),
                       coin_received_event dst (c_amount c) (c_denom c)])
                (set_balance dst (c_denom c) b s1, w)
     else (Ret (ContractResult_Err (insufficient_balance src (held s src (c_denom c)) (c_amount c))), (s, w)))"
  using get_balance_cached [OF assms(1), of E "c_denom c" w] get_balance_cached [OF assms(2), of E "c_denom c" w]
  by (simp add: m_simps Uint128_sub_def Uint128_add_def chk_sub_def Let_def split: option.split)

lemma bank_burn_step:
  assumes "cached s src"
  shows "bank_burn E src (c # cs) (s, w) =
    (if c_amount c \<le> held s src (c_denom c)
     then bank_burn E src cs (set_balance src (c_denom c) (held s src (c_denom c) - c_amount c) s, w)
     else (Ret (ContractResult_Err (insufficient_balance src (held s src (c_denom c)) (c_amount c))), (s, w)))"
  using get_balance_cached [OF assms, of E "c_denom c" w]
  by (simp add: m_simps Uint128_sub_def chk_sub_def Let_def split: option.split)

lemma bank_send_loop_exact:
  assumes "src \<noteq> dst"
  shows "\<lbrakk>cached s src; cached s dst;
     \<forall>d. denom_total d cs \<le> unat (held s src d);
     \<forall>d. unat (held s dst d) + denom_total d cs < 2 ^ 128\<rbrakk> \<Longrightarrow>
    \<exists>s' evs. bank_send_loop E src dst cs ev (s, w) =
        (Ret (ContractResult_Ok (Response_add_events Response_new (ev @ evs))), (s', w)) \<and>
      length evs = 2 * length cs \<and> bank_only s s' \<and>
      (\<forall>a d. unat (held s' a d) =
         (if a = src then unat (held s src d) - denom_total d cs
          else if a = dst then unat (held s dst d) + denom_total d cs
          else unat (held s a d)))"
proof (induction cs arbitrary: s ev)
  case Nil
  then show ?case using assms by (auto simp: m_simps bank_only_refl)
next
  case (Cons c cs)
  let ?d = "c_denom c" and ?a = "c_amount c"
  have suff: "?a \<le> held s src ?d"
    using Cons.prems(3) [rule_format, of ?d] by (simp add: word_le_nat_alt)
  have fits: "chk_add (held s dst ?d) ?a = Some (held s dst ?d + ?a)"
    using Cons.prems(4) [rule_format, of ?d] by (simp add: chk_add_def)
  define t where "t = set_balance dst ?d (held s dst ?d + ?a) (set_balance src ?d (held s src ?d - ?a) s)"
  have src: "unat (held t src d) = unat (held s src d) - (if d = ?d then unat ?a else 0)" for d
    using assms suff by (simp add: t_def unat_sub)
  have dst: "unat (held t dst d) = unat (held s dst d) + (if d = ?d then unat ?a else 0)" for d
    using assms unat_chk_add [OF fits] by (simp add: t_def)
  have oth: "held t a d = held s a d" if "a \<noteq> src" "a \<noteq> dst" for a d
    using that by (simp add: t_def)
  have bo: "bank_only s t"
    unfolding t_def by (rule bank_only_trans [OF bank_only_set_balance bank_only_set_balance])
  have pre1: "denom_total d cs \<le> unat (held t src d)" for d
    using Cons.prems(3) [rule_format, of d] src [of d] by (simp split: if_splits)
  have pre2: "unat (held t dst d) + denom_total d cs < 2 ^ 128" for d
    using Cons.prems(4) [rule_format, of d] dst [of d] by (simp split: if_splits)
  have "cached t src" "cached t dst" using Cons.prems(1,2) by (simp_all add: t_def)
  from Cons.IH [OF this allI [OF pre1] allI [OF pre2]] obtain s' evs where
    loop: "bank_send_loop E src dst cs (ev @ [coin_spent_event src ?a ?d, coin_received_event dst ?a ?d]) (t, w) =
      (Ret (ContractResult_Ok (Response_add_events Response_new
        ((ev @ [coin_spent_event src ?a ?d, coin_received_event dst ?a ?d]) @ evs))), (s', w))"
    and len: "length evs = 2 * length cs" and bo': "bank_only t s'"
    and bal: "\<And>a d. unat (held s' a d) = (if a = src then unat (held t src d) - denom_total d cs
          else if a = dst then unat (held t dst d) + denom_total d cs else unat (held t a d))"
    by blast
  have step: "bank_send_loop E src dst (c # cs) ev (s, w) =
      bank_send_loop E src dst cs (ev @ [coin_spent_event src ?a ?d, coin_received_event dst ?a ?d]) (t, w)"
    unfolding bank_send_step [OF Cons.prems(1,2)] using suff fits by (simp add: t_def Let_def)
  have "unat (held s' a d) = (if a = src then unat (held s src d) - denom_total d (c # cs)
          else if a = dst then unat (held s dst d) + denom_total d (c # cs) else unat (held s a d))" for a d
    using bal [of a d] src [of d] dst [of d] oth [of a d] by simp
  then show ?case
    using step loop len bank_only_trans [OF bo bo']
    by (intro exI [of _ s'] exI [of _ "[coin_spent_event src ?a ?d, coin_received_event dst ?a ?d] @ evs"]) simp
qed

text \<open>Whatever the outcome, the two accounts together keep what they had.\<close>

lemma bank_send_loop_conserves:
  assumes "src \<noteq> dst"
  shows "\<lbrakk>cached s src; cached s dst; bank_send_loop E src dst cs ev (s, w) = (Ret r, (s', w'))\<rbrakk> \<Longrightarrow>
    w' = w \<and> bank_only s s' \<and>
    (\<forall>d. unat (held s' src d) + unat (held s' dst d) = unat (held s src d) + unat (held s dst d)) \<and>
    (\<forall>a d. a \<noteq> src \<and> a \<noteq> dst \<longrightarrow> held s' a d = held s a d) \<and>
    ((\<exists>e. r = ContractResult_Err e) \<longrightarrow> (\<exists>d. unat (held s src d) < denom_total d cs))"
proof (induction cs arbitrary: s ev)
  case Nil
  then show ?case by (auto simp: m_simps bank_only_refl)
next
  case (Cons c cs)
  let ?d = "c_denom c" and ?a = "c_amount c"
  note step = Cons.prems(3) [unfolded bank_send_step [OF Cons.prems(1,2)] Let_def]
  show ?case
  proof (cases "?a \<le> held s src ?d")
    case False
    then have "unat (held s src ?d) < denom_total ?d (c # cs)"
      by (simp add: word_le_nat_alt)
    then show ?thesis using step False by (auto simp: bank_only_refl)
  next
    case True
    then obtain b where b: "chk_add (held s dst ?d) ?a = Some b"
      using step by (cases "chk_add (held s dst ?d) ?a") auto
    define t where "t = set_balance dst ?d b (set_balance src ?d (held s src ?d - ?a) s)"
    have loop: "bank_send_loop E src dst cs (ev @ [coin_spent_event src ?a ?d, coin_received_event dst ?a ?d])
        (t, w) = (Ret r, (s', w'))"
      using step True b by (simp add: t_def)
    have c: "cached t src" "cached t dst" using Cons.prems(1,2) by (simp_all add: t_def)
    from Cons.IH [OF c loop] have ih: "w' = w" "bank_only t s'"
      "\<And>d. unat (held s' src d) + unat (held s' dst d) = unat (held t src d) + unat (held t dst d)"
      "\<And>a d. a \<noteq> src \<and> a \<noteq> dst \<Longrightarrow> held s' a d = held t a d"
      "\<exists>e. r = ContractResult_Err e \<Longrightarrow> \<exists>d. unat (held t src d) < denom_total d cs"
      by blast+
    have bo: "bank_only s t"
      unfolding t_def by (rule bank_only_trans [OF bank_only_set_balance bank_only_set_balance])
    have src: "unat (held t src d) + (if d = ?d then unat ?a else 0) = unat (held s src d)" for d
      using assms True by (simp add: t_def unat_sub word_le_nat_alt)
    have dst: "unat (held t dst d) = unat (held s dst d) + (if d = ?d then unat ?a else 0)" for d
      using assms unat_chk_add [OF b] by (simp add: t_def)
    have oth: "held t a d = held s a d" if "a \<noteq> src" "a \<noteq> dst" for a d
      using that by (simp add: t_def)
    have "unat (held s' src d) + unat (held s' dst d) = unat (held s src d) + unat (held s dst d)" for d
      using ih(3) [of d] src [of d] dst [of d] by simp
    moreover have "\<exists>d. unat (held s src d) < denom_total d (c # cs)" if err: "\<exists>e. r = ContractResult_Err e"
    proof -
      obtain d where "unat (held t src d) < denom_total d cs" using ih(5) [OF err] by blast
      then have "unat (held s src d) < denom_total d (c # cs)"
        using src [of d] by (simp split: if_splits)
      then show ?thesis ..
    qed
    ultimately show ?thesis using ih(1,4) oth bank_only_trans [OF bo ih(2)] by simp
  qed
qed

lemma bank_burn_exact_aux:
  "\<lbrakk>cached s src; \<forall>d. denom_total d cs \<le> unat (held s src d)\<rbrakk> \<Longrightarrow>
    \<exists>s'. bank_burn E src cs (s, w) = (Ret (ContractResult_Ok Response_new), (s', w)) \<and>
      bank_only s s' \<and>
      (\<forall>a d. unat (held s' a d) =
         (if a = src then unat (held s src d) - denom_total d cs else unat (held s a d)))"
proof (induction cs arbitrary: s)
  case Nil
  then show ?case by (auto simp: m_simps bank_only_refl)
next
  case (Cons c cs)
  let ?d = "c_denom c" and ?a = "c_amount c"
  have suff: "?a \<le> held s src ?d"
    using Cons.prems(2) [rule_format, of ?d] by (simp add: word_le_nat_alt)
  define t where "t = set_balance src ?d (held s src ?d - ?a) s"
  have src: "unat (held t src d) = unat (held s src d) - (if d = ?d then unat ?a else 0)" for d
    using suff by (simp add: t_def unat_sub)
  have pre: "denom_total d cs \<le> unat (held t src d)" for d
    using Cons.prems(2) [rule_format, of d] src [of d] by (simp split: if_splits)
  have "cached t src" by (simp add: t_def)
  from Cons.IH [OF this allI [OF pre]] obtain s' where
    burn: "bank_burn E src cs (t, w) = (Ret (ContractResult_Ok Response_new), (s', w))"
    and bo: "bank_only t s'"
    and bal: "\<And>a d. unat (held s' a d) =
      (if a = src then unat (held t src d) - denom_total d cs else unat (held t a d))" by blast
  have "unat (held s' a d) =
      (if a = src then unat (held s src d) - denom_total d (c # cs) else unat (held s a d))" for a d
    using bal [of a d] src [of d] by (simp add: t_def)
  moreover have "bank_only s s'"
    using bank_only_trans [OF bank_only_set_balance bo [unfolded t_def]] .
  ultimately show ?case
    using burn suff unfolding bank_burn_step [OF Cons.prems(1)] t_def by auto
qed

end
