(* ===== verification/Bank.thy ===== *)
theory Bank
  imports States
begin

text \<open>
  Properties of the bank of \<^verbatim>\<open>core/src/fork/states.rs\<close>: exact balances after a transfer or a
  burn, conservation on every outcome, fetching each account once, and what a transfer of an
  account to itself and a balance set before the first fetch do.
\<close>

text \<open>A state with two accounts in the books, for the witnesses.\<close>

definition sample_lcd :: lcd_ext where
  "sample_lcd =
     \<lparr>lcd_url_parse = Ok, lcd_http_get = (\<lambda>_ _. Ok (True, Ok [])),
      json_error_body = (\<lambda>_. Ok \<lparr>erb_code = [], erb_message = []\<rparr>),
      json_block_header = (\<lambda>_. Ok \<lparr>bhoo_block = \<lparr>bho_header =
        \<lparr>bh_chain_id = ''test-1'', bh_height = ''7'', bh_time = []\<rparr>\<rparr>\<rparr>),
      json_balances = (\<lambda>_. Ok \<lparr>bbr_balances = [\<lparr>coin_denom = ''ucosm'', coin_amount = ''100''\<rparr>]\<rparr>),
      json_get_data = (\<lambda>_. Ok None), json_state_all = (\<lambda>_. Ok \<lparr>csa_models = []\<rparr>),
      json_contract_info = (\<lambda>_. Err []), json_code = (\<lambda>_. Ok \<lparr>cr_data = []\<rparr>),
      lcd_base64_encode = bytes_str, lcd_base64_decode = (\<lambda>s. Ok (str_bytes s)),
      lcd_hex_decode = (\<lambda>s. Ok (str_bytes s)), lcd_rfc3339_nanos = (\<lambda>_. Ok 0)\<rparr>"

definition sample_ext :: client_ext where
  "sample_ext = \<lparr>ce_net = sample_net, ce_lcd = sample_lcd\<rparr>"

definition sample_states :: AllStates where
  "sample_states =
     \<lparr>as_contract_states = Map.empty,
      as_bank_states = [''alice'' \<mapsto> [(''ucosm'', 10), (''uatom'', 3)], ''bob'' \<mapsto> [(''ucosm'', 1)]],
      as_client = LcdClient \<lparr>lc_url = ''http://node'', lc_block_number = 7\<rparr>,
      as_block_number = 7, as_block_timestamp = 0, as_chain_id = ''test-1'',
      as_canonical_address_length = 32, as_bech32_prefix = ''wasm''\<rparr>"

lemma sample_books:
  "cached sample_states ''alice''" "cached sample_states ''bob''"
  "held sample_states ''alice'' d = (if d = ''ucosm'' then 10 else if d = ''uatom'' then 3 else 0)"
  "held sample_states ''bob'' d = (if d = ''ucosm'' then 1 else 0)"
  by (simp_all add: cached_def held_def sample_states_def hm_get_def)

section \<open>Transfers\<close>

text \<open>
  C31: A transfer between two different accounts whose sender holds enough of every
  denomination (counting repeated denominations together) succeeds, with exactly the amounts
  moved: the sender's balances go down and the receiver's go up by the total sent, no other
  account and nothing outside the bank changes, two events are reported per coin and no
  message follows.
\<close>

theorem bank_send_exact:
  assumes "src \<noteq> dst" and "cached s src" and "cached s dst"
    and "\<forall>d. denom_total d cs \<le> unat (held s src d)"
    and "\<forall>d. unat (held s dst d) + denom_total d cs < 2 ^ 128"
  shows "\<exists>s' r. bank_send E src dst cs (s, w) = (Ret (ContractResult_Ok r), (s', w)) \<and>
     r_messages r = [] \<and> length (r_events r) = 2 * length cs \<and> bank_only s s' \<and>
     (\<forall>a d. unat (held s' a d) =
        (if a = src then unat (held s src d) - denom_total d cs
         else if a = dst then unat (held s dst d) + denom_total d cs
         else unat (held s a d)))"
  using bank_send_loop_exact [OF assms, of E "[]" w]
  by (auto simp: bank_send_def Response_add_events_def Response_new_def)

theorem bank_send_exact_witness:
  "\<exists>s' r. bank_send sample_ext ''alice'' ''bob'' (coins 4 ''ucosm'') (sample_states, sample_world) =
      (Ret (ContractResult_Ok r), (s', sample_world)) \<and>
     unat (held s' ''alice'' ''ucosm'') = 6 \<and> unat (held s' ''bob'' ''ucosm'') = 5"
proof -
  have "\<exists>s' r. bank_send sample_ext ''alice'' ''bob'' (coins 4 ''ucosm'') (sample_states, sample_world) =
      (Ret (ContractResult_Ok r), (s', sample_world)) \<and>
     r_messages r = [] \<and> length (r_events r) = 2 * length (coins 4 ''ucosm'') \<and> bank_only sample_states s' \<and>
     (\<forall>a d. unat (held s' a d) =
        (if a = ''alice'' then unat (held sample_states ''alice'' d) - denom_total d (coins 4 ''ucosm'')
         else if a = ''bob'' then unat (held sample_states ''bob'' d) + denom_total d (coins 4 ''ucosm'')
         else unat (held sample_states a d)))"
    by (rule bank_send_exact) (simp_all add: sample_books coins_def Coin_new_def)
  then show ?thesis by (auto simp: sample_books coins_def Coin_new_def)
qed

text \<open>
  C32: A transfer between two different accounts never creates or destroys coins, whether it
  succeeds or stops in the middle with an error: in every denomination the two accounts
  together hold what they held, other accounts are untouched, the network is not used, and an
  error means that the sender's balance did not cover the total of some denomination.
\<close>

theorem bank_send_conserves:
  assumes "src \<noteq> dst" and "cached s src" and "cached s dst"
    and "bank_send E src dst cs (s, w) = (Ret r, (s', w'))"
  shows "w' = w \<and> bank_only s s' \<and>
     (\<forall>d. unat (held s' src d) + unat (held s' dst d) = unat (held s src d) + unat (held s dst d)) \<and>
     (\<forall>a d. a \<noteq> src \<and> a \<noteq> dst \<longrightarrow> held s' a d = held s a d) \<and>
     ((\<exists>e. r = ContractResult_Err e) \<longrightarrow> (\<exists>d. unat (held s src d) < denom_total d cs))"
  using bank_send_loop_conserves [OF assms(1,2,3) assms(4) [unfolded bank_send_def]] .

definition sample_overdraft :: "Coin list" where
  "sample_overdraft = [Coin_new 4 ''ucosm'', Coin_new 4 ''uatom'']"

theorem bank_send_conserves_witness:
  "\<exists>e s' w'. bank_send sample_ext ''alice'' ''bob'' sample_overdraft (sample_states, sample_world) =
      (Ret (ContractResult_Err e), (s', w')) \<and>
     unat (held s' ''alice'' ''ucosm'') + unat (held s' ''bob'' ''ucosm'') = 11"
proof -
  let ?r = "bank_send sample_ext ''alice'' ''bob'' sample_overdraft (sample_states, sample_world)"
  obtain e s' w' where r: "?r = (Ret (ContractResult_Err e), (s', w'))"
    by (simp add: bank_send_def sample_overdraft_def Coin_new_def bank_send_step sample_books chk_add_def
        del: bank_send_loop.simps)
  from bank_send_conserves [OF _ sample_books(1,2) r] r show ?thesis
    by (auto simp: sample_books)
qed

text \<open>
  C40: A transfer of an account to itself that the balance covers does not leave the balance
  as it was: the credited amount is computed from the balance before the debit, so the account
  ends with its balance plus the amount sent.
\<close>

theorem bank_send_to_self_mints:
  assumes "cached s a" and "c_amount c \<le> held s a (c_denom c)"
    and "unat (held s a (c_denom c)) + unat (c_amount c) < 2 ^ 128"
  shows "\<exists>s' r. bank_send E a a [c] (s, w) = (Ret (ContractResult_Ok r), (s', w)) \<and>
     unat (held s' a (c_denom c)) = unat (held s a (c_denom c)) + unat (c_amount c)"
proof -
  have fits: "chk_add (held s a (c_denom c)) (c_amount c) = Some (held s a (c_denom c) + c_amount c)"
    using assms(3) by (simp add: chk_add_def)
  show ?thesis
    using unat_chk_add [OF fits] assms(2) fits bank_send_step [OF assms(1,1), of E c "[]" "[]" w]
    by (simp add: bank_send_def returnM_def Let_def del: bank_send_loop.simps(2))
qed

theorem bank_send_to_self_mints_witness:
  "\<exists>s' r. bank_send sample_ext ''alice'' ''alice'' [Coin_new 4 ''ucosm''] (sample_states, sample_world) =
      (Ret (ContractResult_Ok r), (s', sample_world)) \<and> unat (held s' ''alice'' ''ucosm'') = 14"
  using bank_send_to_self_mints [of sample_states "''alice''" "Coin_new 4 ''ucosm''" sample_ext sample_world]
  by (simp add: sample_books Coin_new_def)

text \<open>
  Burning coins that the account holds succeeds and lowers exactly that account's balances
  by the totals burnt.
\<close>

theorem bank_burn_exact:
  assumes "cached s src" and "\<forall>d. denom_total d cs \<le> unat (held s src d)"
  shows "\<exists>s'. bank_burn E src cs (s, w) = (Ret (ContractResult_Ok Response_new), (s', w)) \<and>
     bank_only s s' \<and>
     (\<forall>a d. unat (held s' a d) =
        (if a = src then unat (held s src d) - denom_total d cs else unat (held s a d)))"
  using bank_burn_exact_aux [OF assms] .

theorem bank_burn_exact_witness:
  "\<exists>s'. bank_burn sample_ext ''alice'' (coins 4 ''ucosm'') (sample_states, sample_world) =
      (Ret (ContractResult_Ok Response_new), (s', sample_world)) \<and>
     unat (held s' ''alice'' ''ucosm'') = 6"
proof -
  have "\<exists>s'. bank_burn sample_ext ''alice'' (coins 4 ''ucosm'') (sample_states, sample_world) =
      (Ret (ContractResult_Ok Response_new), (s', sample_world)) \<and>
     bank_only sample_states s' \<and>
     (\<forall>a d. unat (held s' a d) =
        (if a = ''alice'' then unat (held sample_states ''alice'' d) - denom_total d (coins 4 ''ucosm'')
         else unat (held sample_states a d)))"
    by (rule bank_burn_exact) (simp_all add: sample_books coins_def Coin_new_def)
  then show ?thesis by (auto simp: sample_books coins_def Coin_new_def)
qed

section \<open>Fetching balances\<close>

text \<open>
  The first balance lookup of an account fetches all its balances from the chain and
  records them, leaving every other account and contract alone; it returns what the books say
  from then on, and every later lookup of the account, in any denomination, is answered from
  the books without using the network.
\<close>

theorem get_balance_fetches_once:
  assumes "get_balance E a d (s, w) = (Ret b, (s', w'))"
  shows "cached s' a \<and> held s' a d = b \<and>
     (\<forall>x. x \<noteq> a \<longrightarrow> as_bank_states s' x = as_bank_states s x) \<and>
     as_contract_states s' = as_contract_states s \<and> files_same w w' \<and>
     (\<forall>d' v. get_balance E a d' (s', v) = (Ret (held s' a d'), (s', v)))"
proof (cases "cached s a")
  case True
  then show ?thesis
    using assms get_balance_cached [OF True] by (auto simp: files_same_def)
next
  case False
  then have none: "as_bank_states s a = None" by (simp add: cached_def)
  obtain bals c' where q: "query_bank_all_balances E a (as_client s, w) = (Ret bals, (c', w'))"
    and s': "s' = insert_bank_state a (hm_collect bals) (s\<lparr>as_client := c'\<rparr>)"
    and b: "b = (case hm_get (hm_collect bals) d of Some x \<Rightarrow> x | None \<Rightarrow> 0)"
    using assms none
    by (auto simp: get_balance_def fetch_bank_state_def get_bank_state_def on_client_def m_simps
        insert_bank_state_def split: prod.splits outcome.splits)
  have c: "cached s' a" by (simp add: s' cached_def insert_bank_state_def)
  have "files_same w w'"
    using client_le_files [OF keepsD [OF keeps_client_queries(1) q]] by simp
  then show ?thesis
    using c b get_balance_cached [OF c]
    by (simp add: s' held_def insert_bank_state_def split: option.split)
qed

theorem get_balance_fetches_once_witness:
  "\<exists>s' w'. get_balance sample_ext ''carol'' ''ucosm'' (sample_states, sample_world) = (Ret 100, (s', w')) \<and>
     get_balance sample_ext ''carol'' ''ucosm'' (s', sample_world) = (Ret 100, (s', sample_world))"
proof -
  let ?r = "get_balance sample_ext ''carol'' ''ucosm'' (sample_states, sample_world)"
  have "parse_uint 128 ''100'' = Ok 100"
    by (simp add: parse_uint_def digit_val_def Let_def)
  then have "fst ?r = Ret 100"
    by (simp add: get_balance_def fetch_bank_state_def get_bank_state_def m_simps sample_states_def
        on_client_def query_bank_all_balances_def dispatch_def Lcd_query_bank_all_balances_def
        lcd_get_def Lcd_request_inner_def sample_ext_def sample_lcd_def insert_bank_state_def
        hm_collect_def hm_insert_def hm_get_def)
  then obtain s' w' where r: "?r = (Ret 100, (s', w'))" by (metis prod.collapse)
  from get_balance_fetches_once [OF r] r show ?thesis by auto
qed

text \<open>
  Setting one balance of an account that was never fetched hides its other balances: the
  account counts as fetched, so a lookup of any other denomination returns 0 and the chain is
  never asked.
\<close>

theorem set_balance_hides_chain_balances:
  assumes "\<not> cached s a" and "d' \<noteq> d"
  shows "get_balance E a d' (set_balance a d b s, w) = (Ret 0, (set_balance a d b s, w))"
proof -
  have "held s a d' = 0" using assms(1) by (simp add: held_def cached_def)
  then show ?thesis
    using assms(2) get_balance_cached [of "set_balance a d b s" a E d' w] by simp
qed

theorem set_balance_hides_chain_balances_witness:
  "fst (get_balance sample_ext ''carol'' ''ucosm'' (set_balance ''carol'' ''uatom'' 1 sample_states, sample_world)) = Ret 0"
proof -
  have "\<not> cached sample_states ''carol''" by (simp add: cached_def sample_states_def)
  from set_balance_hides_chain_balances [OF this, of "''ucosm''" "''uatom''" sample_ext 1 sample_world]
  show ?thesis by simp
qed

end
