(* ===== verification/DebugLog.thy ===== *)
theory DebugLog
  imports CwStd
begin

text \<open>
  The debug log of a transaction (\<^verbatim>\<open>core/src/fork/debug_log.rs\<close>): the responses seen, the
  printed output, the error message and the call trace.  The call trace numbers the calls in
  the order they begin and hangs each under the call that is open at that moment; the
  invariant \<open>wf_trace\<close> says that this is a tree over the numbers \<open>0 .. call_id_counter\<close>.
  \<^verbatim>\<open>serde_json\<close>'s parsing and printing of a message is the argument \<open>json_display\<close>, whose
  \<open>None\<close> is the panic of \<^verbatim>\<open>unwrap\<close> on a message that is not JSON.  Call identifiers
  (\<^verbatim>\<open>usize\<close> counters that start at 0 with every log) are natural numbers.
\<close>

section \<open>\<^verbatim>\<open>CallTrace\<close>\<close>

record CallTrace =
  call_graph :: "nat \<rightharpoonup> nat list"
  call_graph_labels :: "nat \<rightharpoonup> string"
  call_id_counter :: nat
  current_call_id :: nat

definition CallTrace_new :: CallTrace where
  "CallTrace_new =
     \<lparr>call_graph = Map.empty, call_graph_labels = [0 \<mapsto> ''top''],
      call_id_counter = 0, current_call_id = 0\<rparr>"

definition children :: "CallTrace \<Rightarrow> nat \<Rightarrow> nat list" where
  "children t p = (case call_graph t p of None \<Rightarrow> [] | Some cs \<Rightarrow> cs)"

definition begin_call :: "string \<Rightarrow> CallTrace \<Rightarrow> nat \<times> CallTrace" where
  "begin_call context_name self =
     (let call_id = call_id_counter self + 1;
          parent_call_id = current_call_id self
      in (parent_call_id,
          self\<lparr>call_id_counter := call_id,
               call_graph := (call_graph self)(parent_call_id \<mapsto> children self parent_call_id @ [call_id]),
               current_call_id := call_id,
               call_graph_labels := (call_graph_labels self)(call_id \<mapsto> context_name)\<rparr>))"

definition end_call :: "nat \<Rightarrow> CallTrace \<Rightarrow> CallTrace" where
  "end_call parent_call_id self = self\<lparr>current_call_id := parent_call_id\<rparr>"

definition error_call :: "string \<Rightarrow> CallTrace \<Rightarrow> CallTrace" where
  "error_call error_str self =
     (let call_id = call_id_counter self + 1;
          parent_call_id = current_call_id self
      in self\<lparr>call_id_counter := call_id,
              call_graph := (call_graph self)(parent_call_id \<mapsto> children self parent_call_id @ [call_id]),
              call_graph_labels := (call_graph_labels self)(call_id \<mapsto> error_str)\<rparr>)"

section \<open>The call trace is a tree\<close>

definition wf_trace :: "CallTrace \<Rightarrow> bool" where
  "wf_trace t \<longleftrightarrow>
     current_call_id t \<le> call_id_counter t \<and>
     dom (call_graph_labels t) = {0..call_id_counter t} \<and>
     (\<forall>p. distinct (children t p) \<and> set (children t p) \<subseteq> {p<..call_id_counter t}) \<and>
     (\<forall>c\<in>{0<..call_id_counter t}. \<exists>!p. c \<in> set (children t p))"

text \<open>Adding one node under the current call, which both operations do.\<close>

lemma begin_call_simps [simp]:
  "fst (begin_call name t) = current_call_id t"
  "call_id_counter (snd (begin_call name t)) = Suc (call_id_counter t)"
  "current_call_id (snd (begin_call name t)) = Suc (call_id_counter t)"
  "call_graph_labels (snd (begin_call name t)) = (call_graph_labels t)(Suc (call_id_counter t) \<mapsto> name)"
  "children (snd (begin_call name t)) =
     (children t)(current_call_id t := children t (current_call_id t) @ [Suc (call_id_counter t)])"
  by (simp_all add: begin_call_def Let_def children_def fun_eq_iff)

lemma error_call_simps [simp]:
  "call_id_counter (error_call e t) = Suc (call_id_counter t)"
  "current_call_id (error_call e t) = current_call_id t"
  "call_graph_labels (error_call e t) = (call_graph_labels t)(Suc (call_id_counter t) \<mapsto> e)"
  "children (error_call e t) =
     (children t)(current_call_id t := children t (current_call_id t) @ [Suc (call_id_counter t)])"
  by (simp_all add: error_call_def Let_def children_def fun_eq_iff)

lemma end_call_simps [simp]:
  "call_id_counter (end_call p t) = call_id_counter t"
  "current_call_id (end_call p t) = p"
  "call_graph_labels (end_call p t) = call_graph_labels t"
  "children (end_call p t) = children t"
  by (simp_all add: end_call_def children_def fun_eq_iff)

lemma wf_trace_add_node:
  assumes wf: "wf_trace t"
    and cnt: "call_id_counter u = call_id_counter t + 1"
    and cur: "current_call_id u \<le> call_id_counter u"
    and lab: "dom (call_graph_labels u) = insert (call_id_counter u) (dom (call_graph_labels t))"
    and chl: "children u = (children t)
      (current_call_id t := children t (current_call_id t) @ [call_id_counter t + 1])"
  shows "wf_trace u"
proof -
  let ?n = "call_id_counter t" and ?p = "current_call_id t"
  have p: "?p \<le> ?n" and sub: "set (children t q) \<subseteq> {q<..?n}" and dis: "distinct (children t q)"
    and un: "c \<in> {0<..?n} \<Longrightarrow> \<exists>!q. c \<in> set (children t q)" for q c
    using wf by (auto simp: wf_trace_def)
  have new: "?n + 1 \<notin> set (children t q)" for q using sub [of q] by auto
  have mem: "c \<in> set (children u q) \<longleftrightarrow> c \<in> set (children t q) \<or> q = ?p \<and> c = ?n + 1" for c q
    by (auto simp: chl)
  have "\<exists>!q. c \<in> set (children u q)" if c: "c \<in> {0<..?n + 1}" for c
  proof (cases "c = ?n + 1")
    case True
    then show ?thesis using new by (auto simp: mem)
  next
    case False
    then show ?thesis using un [of c] c by (auto simp: mem)
  qed
  moreover have "distinct (children u q) \<and> set (children u q) \<subseteq> {q<..?n + 1}" for q
    using dis [of q] sub [of q] p new [of q] by (auto simp: chl)
  ultimately show ?thesis
    using wf cur by (auto simp: wf_trace_def cnt lab)
qed

lemma wf_trace_new: "wf_trace CallTrace_new"
  by (auto simp: wf_trace_def CallTrace_new_def children_def)

lemma wf_trace_begin: "wf_trace t \<Longrightarrow> wf_trace (snd (begin_call name t))"
  by (rule wf_trace_add_node [of t]) auto

lemma wf_trace_error: "wf_trace t \<Longrightarrow> wf_trace (error_call e t)"
  by (rule wf_trace_add_node [of t]) (auto simp: wf_trace_def)

lemma wf_trace_end: "wf_trace t \<Longrightarrow> p \<le> call_id_counter t \<Longrightarrow> wf_trace (end_call p t)"
  by (simp add: wf_trace_def)

text \<open>
  The order of two traces of the same log: calls are only added, never removed or moved, and
  labels stay.
\<close>

definition trace_le :: "CallTrace \<Rightarrow> CallTrace \<Rightarrow> bool" where
  "trace_le t u \<longleftrightarrow>
     call_id_counter t \<le> call_id_counter u \<and>
     (\<forall>p. \<exists>cs. children u p = children t p @ cs) \<and>
     (\<forall>i\<le>call_id_counter t. call_graph_labels u i = call_graph_labels t i)"

lemma trace_le_refl: "trace_le t t"
  by (simp add: trace_le_def)

lemma trace_le_trans:
  assumes "trace_le t u" and "trace_le u v"
  shows "trace_le t v"
proof -
  have "\<exists>cs. children v p = children t p @ cs" for p
  proof -
    from assms obtain a b where "children u p = children t p @ a" "children v p = children u p @ b"
      unfolding trace_le_def by meson
    then show ?thesis by simp
  qed
  then show ?thesis
    using assms unfolding trace_le_def by (metis le_trans)
qed

lemma trace_le_begin: "trace_le t (snd (begin_call name t))"
  by (auto simp: trace_le_def)

lemma trace_le_error: "trace_le t (error_call e t)"
  by (auto simp: trace_le_def)

lemma trace_le_end: "trace_le t (end_call p t)"
  by (simp add: trace_le_def)

section \<open>\<^verbatim>\<open>DebugLog\<close>\<close>

record DebugLogEntry =
  le_attributes :: "Attribute list"
  le_events :: "Event list"
  le_data :: "Binary option"

record DebugLog =
  dl_logs :: "DebugLogEntry list"
  dl_err_msg :: "string option"
  dl_stdout :: "string list"
  dl_call_trace :: CallTrace

definition DebugLog_new :: DebugLog where
  "DebugLog_new =
     \<lparr>dl_logs = [], dl_err_msg = None, dl_stdout = [], dl_call_trace = CallTrace_new\<rparr>"

definition set_err_msg :: "string \<Rightarrow> DebugLog \<Rightarrow> DebugLog" where
  "set_err_msg err_msg self = self\<lparr>dl_err_msg := Some err_msg\<rparr>"

definition append_log :: "Response \<Rightarrow> DebugLog \<Rightarrow> DebugLog" where
  "append_log response self =
     self\<lparr>dl_logs := dl_logs self @
       [\<lparr>le_attributes = r_attributes response, le_events = r_events response,
         le_data = r_data response\<rparr>]\<rparr>"

definition append_stdout :: "string \<Rightarrow> DebugLog \<Rightarrow> DebugLog" where
  "append_stdout msg self = self\<lparr>dl_stdout := dl_stdout self @ [msg]\<rparr>"

definition get_stdout :: "DebugLog \<Rightarrow> string" where
  "get_stdout self = fold (\<lambda>msg rv. rv @ msg) (dl_stdout self) []"

definition begin_context ::
  "(bytes \<Rightarrow> string option) \<Rightarrow> string \<Rightarrow> Addr \<Rightarrow> bytes \<Rightarrow> DebugLog \<Rightarrow> (nat \<times> DebugLog) option" where
  "begin_context json_display kind contract_addr msg self =
     (case json_display msg of
        None \<Rightarrow> None
      | Some msg_json \<Rightarrow>
          let context_name = contract_addr @ '':'' @ kind @ ''('' @ msg_json @ '')'';
              (call_id, trace) = begin_call context_name (dl_call_trace self)
          in Some (call_id, self\<lparr>dl_call_trace := trace\<rparr>))"

definition end_context :: "nat \<Rightarrow> DebugLog \<Rightarrow> DebugLog" where
  "end_context parent_call_id self = self\<lparr>dl_call_trace := end_call parent_call_id (dl_call_trace self)\<rparr>"

definition begin_instantiate ::
  "(bytes \<Rightarrow> string option) \<Rightarrow> Addr \<Rightarrow> bytes \<Rightarrow> DebugLog \<Rightarrow> (nat \<times> DebugLog) option" where
  "begin_instantiate json_display = begin_context json_display ''instantiate''"

definition end_instantiate :: "nat \<Rightarrow> DebugLog \<Rightarrow> DebugLog" where
  "end_instantiate = end_context"

definition begin_execute ::
  "(bytes \<Rightarrow> string option) \<Rightarrow> Addr \<Rightarrow> bytes \<Rightarrow> DebugLog \<Rightarrow> (nat \<times> DebugLog) option" where
  "begin_execute json_display = begin_context json_display ''execute''"

definition end_execute :: "nat \<Rightarrow> DebugLog \<Rightarrow> DebugLog" where
  "end_execute = end_context"

definition begin_reply ::
  "(bytes \<Rightarrow> string option) \<Rightarrow> Addr \<Rightarrow> bytes \<Rightarrow> DebugLog \<Rightarrow> (nat \<times> DebugLog) option" where
  "begin_reply json_display = begin_context json_display ''reply''"

definition end_reply :: "nat \<Rightarrow> DebugLog \<Rightarrow> DebugLog" where
  "end_reply = end_context"

definition begin_query ::
  "(bytes \<Rightarrow> string option) \<Rightarrow> Addr \<Rightarrow> bytes \<Rightarrow> DebugLog \<Rightarrow> (nat \<times> DebugLog) option" where
  "begin_query json_display = begin_context json_display ''query''"

definition end_query :: "nat \<Rightarrow> DebugLog \<Rightarrow> DebugLog" where
  "end_query = end_context"

definition begin_error :: "string \<Rightarrow> DebugLog \<Rightarrow> DebugLog" where
  "begin_error error_str self = self\<lparr>dl_call_trace := error_call error_str (dl_call_trace self)\<rparr>"

definition get_call_trace :: "DebugLog \<Rightarrow> (nat \<rightharpoonup> nat list) \<times> (nat \<rightharpoonup> string)" where
  "get_call_trace self = (call_graph (dl_call_trace self), call_graph_labels (dl_call_trace self))"

lemmas begin_context_defs =
  begin_instantiate_def begin_execute_def begin_reply_def begin_query_def

lemmas end_context_defs =
  end_instantiate_def end_execute_def end_reply_def end_query_def

lemma get_stdout_concat: "get_stdout d = concat (dl_stdout d)"
proof -
  have "fold (\<lambda>msg rv. rv @ msg) xs rv = rv @ concat xs" for xs and rv :: string
    by (induction xs arbitrary: rv) simp_all
  then show ?thesis by (simp add: get_stdout_def)
qed

text \<open>What every method keeps: output, log entries and calls are only appended.\<close>

definition log_le :: "DebugLog \<Rightarrow> DebugLog \<Rightarrow> bool" where
  "log_le d e \<longleftrightarrow>
     (\<exists>ls. dl_logs e = dl_logs d @ ls) \<and> (\<exists>os. dl_stdout e = dl_stdout d @ os) \<and>
     trace_le (dl_call_trace d) (dl_call_trace e)"

text \<open>
  A context is closed with an identifier that its opening returned; \<open>log_tree K\<close> carries the tree
  through a computation that closes only contexts numbered up to \<open>K\<close>.
\<close>

definition log_tree :: "nat \<Rightarrow> DebugLog \<Rightarrow> bool" where
  "log_tree K d \<longleftrightarrow> wf_trace (dl_call_trace d) \<and> K \<le> call_id_counter (dl_call_trace d)"

definition log_step :: "nat \<Rightarrow> DebugLog \<Rightarrow> DebugLog \<Rightarrow> bool" where
  "log_step K d e \<longleftrightarrow> log_le d e \<and> (log_tree K d \<longrightarrow> log_tree K e)"

lemma log_le_refl: "log_le d d"
  by (simp add: log_le_def trace_le_refl)

lemma log_le_trans: "log_le d e \<Longrightarrow> log_le e f \<Longrightarrow> log_le d f"
  unfolding log_le_def by (auto intro: trace_le_trans)

lemma log_step_refl: "log_step K d d"
  by (simp add: log_step_def log_le_refl)

lemma log_step_trans: "log_step K d e \<Longrightarrow> log_step K e f \<Longrightarrow> log_step K d f"
  unfolding log_step_def using log_le_trans by blast

lemma log_tree_new: "log_tree 0 DebugLog_new"
  by (simp add: log_tree_def DebugLog_new_def wf_trace_new)

lemma log_step_methods:
  "log_step K d (set_err_msg e d)"
  "log_step K d (append_log r d)"
  "log_step K d (append_stdout m d)"
  "log_step K d (begin_error e d)"
  by (auto simp: log_step_def log_le_def log_tree_def set_err_msg_def append_log_def append_stdout_def
      begin_error_def trace_le_refl trace_le_error wf_trace_error)

lemma log_step_end: "i \<le> K \<Longrightarrow> log_step K d (end_context i d)"
  by (auto simp: log_step_def log_le_def log_tree_def end_context_def trace_le_end intro: wf_trace_end)

lemma begin_context_Some:
  assumes "begin_context j k a m d = Some (i, e)"
  shows "i = current_call_id (dl_call_trace d)" and "log_le d e"
    and "wf_trace (dl_call_trace d) \<Longrightarrow> wf_trace (dl_call_trace e) \<and> i \<le> call_id_counter (dl_call_trace d)"
proof -
  obtain name where e: "e = d\<lparr>dl_call_trace := snd (begin_call name (dl_call_trace d))\<rparr>"
    and i: "i = fst (begin_call name (dl_call_trace d))"
    using assms by (cases "j m") (auto simp: begin_context_def Let_def case_prod_beta)
  show "i = current_call_id (dl_call_trace d)" "log_le d e"
    by (simp_all add: i e log_le_def trace_le_begin)
  show "wf_trace (dl_call_trace e) \<and> i \<le> call_id_counter (dl_call_trace d)"
    if "wf_trace (dl_call_trace d)"
    using that wf_trace_begin by (auto simp: i e wf_trace_def)
qed

lemma log_step_le: "log_step K d e \<Longrightarrow> log_le d e"
  by (simp add: log_step_def)

text \<open>After its opening, a context's continuation may close it.\<close>

lemma log_step_begin:
  assumes "begin_context j k a m d = Some (i, e)" and "log_step (max K i) e f"
  shows "log_step K d f"
proof -
  note b = begin_context_Some [OF assms(1)]
  have "log_le d f" using b(2) assms(2) log_le_trans log_step_le by blast
  moreover have "log_tree K f" if t: "log_tree K d"
  proof -
    have "call_id_counter (dl_call_trace d) \<le> call_id_counter (dl_call_trace e)"
      using b(2) by (simp add: log_le_def trace_le_def)
    then have "log_tree (max K i) e" using b(3) t by (auto simp: log_tree_def)
    then show ?thesis using assms(2) by (simp add: log_step_def log_tree_def)
  qed
  ultimately show ?thesis by (simp add: log_step_def)
qed

end
