(* ===== verification/Api.thy ===== *)
theory Api
  imports Errors
begin

text \<open>
  Address conversion (\<^verbatim>\<open>core/src/fork/api.rs\<close>).  The \<^verbatim>\<open>bech32\<close> crate is the parameter
  \<open>bech32_ext\<close>; a value of 5 bits is a natural number.  \<open>None\<close> of a conversion is the panic of
  \<^verbatim>\<open>from_base32(..).unwrap()\<close>.
\<close>

record bech32_ext =
  bech32_decode :: "string \<Rightarrow> (string, string \<times> nat list) result"
  bech32_encode :: "string \<Rightarrow> nat list \<Rightarrow> string option"
  bech32_to_base32 :: "bytes \<Rightarrow> nat list"
  bech32_from_base32 :: "nat list \<Rightarrow> bytes option"

definition BECH32_PREFIX_MAX_LEN :: nat where
  "BECH32_PREFIX_MAX_LEN = 10"

record RpcMockApi =
  api_canonical_length :: nat
  api_bech32_prefix :: bytes
  api_bech32_prefix_len :: nat

definition RpcMockApi_new :: "nat \<Rightarrow> string \<Rightarrow> (Error, RpcMockApi) result" where
  "RpcMockApi_new canonical_length bech32_prefix_str =
     (let bech32_prefix_len = length bech32_prefix_str in
      if bech32_prefix_len > BECH32_PREFIX_MAX_LEN
      then Err (InvalidArg (''bech32 prefix '' @ bech32_prefix_str @ '' is too long''))
      else
        let zeros = replicate BECH32_PREFIX_MAX_LEN 0;
            bech32_prefix_vec = str_bytes bech32_prefix_str
        in Ok \<lparr>api_canonical_length = canonical_length,
               api_bech32_prefix =
                 take bech32_prefix_len bech32_prefix_vec @ drop bech32_prefix_len zeros,
               api_bech32_prefix_len = bech32_prefix_len\<rparr>)"

definition human_to_canonical ::
  "bech32_ext \<Rightarrow> string \<Rightarrow> string \<Rightarrow> (string, bytes) result option" where
  "human_to_canonical B human bech32_prefix =
     (if \<not> starts_with human bech32_prefix
      then Some (Err (''Invalid input: human address does not begin with bech32 prefix: '' @ human))
      else case bech32_decode B human of
             Err e \<Rightarrow> Some (Err (''Invalid input: human address is not bech32 decodable: '' @ e))
           | Ok (hrp, base32_vec) \<Rightarrow>
               if hrp \<noteq> bech32_prefix
               then Some (Err (''Invalid input: human address has invalid bech32 prefix: '' @ hrp))
               else map_option Ok (bech32_from_base32 B base32_vec))"

definition canonical_to_human ::
  "bech32_ext \<Rightarrow> bytes \<Rightarrow> string \<Rightarrow> nat \<Rightarrow> (string, string) result" where
  "canonical_to_human B canonical bech32_prefix canon_length =
     (if length canonical > canon_length
      then Err ''Invalid input: canonical address length not correct''
      else case bech32_encode B bech32_prefix (bech32_to_base32 B canonical) of
             Some human \<Rightarrow> Ok human
           | None \<Rightarrow> Err ''Invalid input: canonical address not encodable'')"

definition api_prefix :: "RpcMockApi \<Rightarrow> string" where
  "api_prefix self = bytes_str (take (api_bech32_prefix_len self) (api_bech32_prefix self))"

definition canonical_address :: "bech32_ext \<Rightarrow> RpcMockApi \<Rightarrow> string \<Rightarrow> bytes BackendResult option" where
  "canonical_address B self human =
     (case human_to_canonical B human (api_prefix self) of
        None \<Rightarrow> None
      | Some (Ok c) \<Rightarrow> Some (Ok c, GasInfo_free)
      | Some (Err e) \<Rightarrow> Some (Err (UserErr e), GasInfo_free))"

definition human_address :: "bech32_ext \<Rightarrow> RpcMockApi \<Rightarrow> bytes \<Rightarrow> string BackendResult" where
  "human_address B self canonical =
     (case canonical_to_human B canonical (api_prefix self) (api_canonical_length self) of
        Ok h \<Rightarrow> (Ok h, GasInfo_free)
      | Err e \<Rightarrow> (Err (UserErr e), GasInfo_free))"

text \<open>The prefix survives its storage in a fixed size array.\<close>

lemma api_prefix_new: "RpcMockApi_new n p = Ok api \<Longrightarrow> api_prefix api = p"
  by (auto simp: RpcMockApi_new_def api_prefix_def Let_def split: if_splits)

lemma RpcMockApi_new_Ok: "(\<exists>api. RpcMockApi_new n p = Ok api) \<longleftrightarrow> length p \<le> 10"
  by (simp add: RpcMockApi_new_def BECH32_PREFIX_MAX_LEN_def Let_def)

section \<open>Properties\<close>


definition sample_bech32 :: bech32_ext where
  "sample_bech32 =
     \<lparr>bech32_decode = (\<lambda>h. case rfind (CHR ''1'') h of
        None \<Rightarrow> Err ''no separator''
      | Some i \<Rightarrow> Ok (take i h, map of_char (drop (Suc i) h))),
      bech32_encode = (\<lambda>p d. if CHR ''1'' \<in> char_of ` set d \<or> \<not> (\<forall>x \<in> set d. x < 256) then None
        else Some (p @ ''1'' @ map char_of d)),
      bech32_to_base32 = map unat, bech32_from_base32 = (\<lambda>d. Some (map of_nat d))\<rparr>"

lemma rfind_sep: "c \<notin> set t \<Longrightarrow> rfind c (p @ c # t) = Some (length p)"
  by (induction p) (auto simp: rfind_None_iff split: option.split)


end
