(* ===== verification/Crypto.thy ===== *)
theory Crypto
  imports Errors
begin

text \<open>
  Signature verification (\<^verbatim>\<open>packages/crypto\<close>): the input checks and the shapes of batches.  The
  curve arithmetic of \<^verbatim>\<open>k256\<close> and \<^verbatim>\<open>ed25519-zebra\<close> is the parameter \<open>crypto_ext\<close>; its
  signatures and keys are represented by bytes.
\<close>

record crypto_ext =
  k256_signature :: "bytes \<Rightarrow> (string, bytes) result"
  k256_normalize_s :: "bytes \<Rightarrow> bytes option"
  k256_verifying_key :: "bytes \<Rightarrow> (string, bytes) result"
  k256_verify_digest :: "bytes \<Rightarrow> bytes \<Rightarrow> bytes \<Rightarrow> bool"
  k256_recovery_id :: "byte \<Rightarrow> bool"
  k256_recoverable :: "bytes \<Rightarrow> byte \<Rightarrow> (string, bytes) result"
  k256_recover_key :: "bytes \<Rightarrow> bytes \<Rightarrow> (string, bytes) result"
  k256_uncompressed_point :: "bytes \<Rightarrow> bytes"
  zebra_verify :: "bytes \<Rightarrow> bytes \<Rightarrow> bytes \<Rightarrow> bool"
  zebra_batch_verify :: "(bytes \<times> bytes \<times> bytes) list \<Rightarrow> bool"

definition MESSAGE_HASH_MAX_LEN :: nat where "MESSAGE_HASH_MAX_LEN = 32"
definition ECDSA_SIGNATURE_LEN :: nat where "ECDSA_SIGNATURE_LEN = 64"
definition ECDSA_COMPRESSED_PUBKEY_LEN :: nat where "ECDSA_COMPRESSED_PUBKEY_LEN = 33"
definition ECDSA_UNCOMPRESSED_PUBKEY_LEN :: nat where "ECDSA_UNCOMPRESSED_PUBKEY_LEN = 65"
definition ECDSA_PUBKEY_MAX_LEN :: nat where "ECDSA_PUBKEY_MAX_LEN = ECDSA_UNCOMPRESSED_PUBKEY_LEN"
definition EDDSA_PUBKEY_LEN :: nat where "EDDSA_PUBKEY_LEN = 32"

lemmas crypto_lens =
  MESSAGE_HASH_MAX_LEN_def ECDSA_SIGNATURE_LEN_def ECDSA_COMPRESSED_PUBKEY_LEN_def
  ECDSA_UNCOMPRESSED_PUBKEY_LEN_def ECDSA_PUBKEY_MAX_LEN_def EDDSA_PUBKEY_LEN_def

definition bind_result :: "('e, 'a) result \<Rightarrow> ('a \<Rightarrow> ('e, 'b) result) \<Rightarrow> ('e, 'b) result" where
  "bind_result r f = (case r of Ok a \<Rightarrow> f a | Err e \<Rightarrow> Err e)"

lemma bind_result_simps [simp]:
  "bind_result (Ok a) f = f a" "bind_result (Err e) f = Err e"
  by (simp_all add: bind_result_def)

lemma bind_result_Err:
  "bind_result r f = Err e \<longleftrightarrow> r = Err e \<or> (\<exists>a. r = Ok a \<and> f a = Err e)"
  by (cases r) auto

section \<open>secp256k1\<close>

definition read_hash :: "bytes \<Rightarrow> (CryptoError, bytes) result" where
  "read_hash data = (if length data = 32 then Ok data else Err InvalidHashFormat)"

definition secp_read_signature :: "bytes \<Rightarrow> (CryptoError, bytes) result" where
  "secp_read_signature data = (if length data = 64 then Ok data else Err InvalidSignatureFormat)"

definition check_pubkey :: "bytes \<Rightarrow> (CryptoError, unit) result" where
  "check_pubkey data =
     (let ok = (case data of
                  [] \<Rightarrow> False
                | b # _ \<Rightarrow>
                    if b = 0x02 \<or> b = 0x03 then length data = ECDSA_COMPRESSED_PUBKEY_LEN
                    else if b = 0x04 then length data = ECDSA_UNCOMPRESSED_PUBKEY_LEN
                    else False)
      in if ok then Ok () else Err InvalidPubkeyFormat)"

definition secp256k1_verify ::
  "crypto_ext \<Rightarrow> bytes \<Rightarrow> bytes \<Rightarrow> bytes \<Rightarrow> (CryptoError, bool) result" where
  "secp256k1_verify C message_hash signature public_key =
     bind_result (read_hash message_hash) (\<lambda>message_hash.
     bind_result (secp_read_signature signature) (\<lambda>signature.
     bind_result (check_pubkey public_key) (\<lambda>_.
     bind_result (map_errR CryptoError_GenericErr (k256_signature C signature)) (\<lambda>signature.
     let signature = (case k256_normalize_s C signature of Some n \<Rightarrow> n | None \<Rightarrow> signature) in
     bind_result (map_errR CryptoError_GenericErr (k256_verifying_key C public_key)) (\<lambda>public_key.
     Ok (k256_verify_digest C public_key message_hash signature))))))"

definition secp256k1_recover_pubkey ::
  "crypto_ext \<Rightarrow> bytes \<Rightarrow> bytes \<Rightarrow> byte \<Rightarrow> (CryptoError, bytes) result" where
  "secp256k1_recover_pubkey C message_hash signature recovery_param =
     bind_result (read_hash message_hash) (\<lambda>message_hash.
     bind_result (secp_read_signature signature) (\<lambda>signature.
     if \<not> k256_recovery_id C recovery_param then Err InvalidRecoveryParam
     else
       bind_result (map_errR CryptoError_GenericErr (k256_signature C signature)) (\<lambda>signature.
       bind_result (map_errR CryptoError_GenericErr (k256_recoverable C signature recovery_param)) (\<lambda>extended.
       bind_result (map_errR CryptoError_GenericErr (k256_recover_key C extended message_hash)) (\<lambda>pubkey.
       Ok (k256_uncompressed_point C pubkey))))))"

section \<open>ed25519\<close>

definition ed_read_signature :: "bytes \<Rightarrow> (CryptoError, bytes) result" where
  "ed_read_signature data = (if length data = 64 then Ok data else Err InvalidSignatureFormat)"

definition read_pubkey :: "bytes \<Rightarrow> (CryptoError, bytes) result" where
  "read_pubkey data = (if length data = 32 then Ok data else Err InvalidPubkeyFormat)"

definition ed25519_verify ::
  "crypto_ext \<Rightarrow> bytes \<Rightarrow> bytes \<Rightarrow> bytes \<Rightarrow> (CryptoError, bool) result" where
  "ed25519_verify C message signature public_key =
     bind_result (ed_read_signature signature) (\<lambda>signature.
     bind_result (read_pubkey public_key) (\<lambda>pubkey.
     Ok (zebra_verify C pubkey signature message)))"

fun batch_queue ::
  "((bytes \<times> bytes) \<times> bytes) list \<Rightarrow> (CryptoError, (bytes \<times> bytes \<times> bytes) list) result" where
  "batch_queue [] = Ok []"
| "batch_queue (((message, signature), public_key) # rest) =
     bind_result (ed_read_signature signature) (\<lambda>signature.
     bind_result (read_pubkey public_key) (\<lambda>pubkey.
     bind_result (batch_queue rest) (\<lambda>queued.
     Ok ((pubkey, signature, message) # queued))))"

text \<open>The structural checks: one message or one key is replicated for all signatures.\<close>

definition batch_shapes ::
  "bytes list \<Rightarrow> bytes list \<Rightarrow> bytes list \<Rightarrow> (CryptoError, bytes list \<times> bytes list) result" where
  "batch_shapes messages signatures public_keys =
     (let messages_len = length messages; signatures_len = length signatures;
          public_keys_len = length public_keys
      in if messages_len = signatures_len \<and> messages_len = public_keys_len
         then Ok (messages, public_keys)
         else if messages_len = 1 \<and> signatures_len = public_keys_len
         then Ok (concat (replicate signatures_len messages), public_keys)
         else if public_keys_len = 1 \<and> messages_len = signatures_len
         then Ok (messages, concat (replicate messages_len public_keys))
         else Err (BatchErr ''Mismatched / erroneous number of messages / signatures / public keys''))"

definition ed25519_batch_verify ::
  "crypto_ext \<Rightarrow> bytes list \<Rightarrow> bytes list \<Rightarrow> bytes list \<Rightarrow> (CryptoError, bool) result" where
  "ed25519_batch_verify C messages signatures public_keys =
     bind_result (batch_shapes messages signatures public_keys) (\<lambda>(messages, public_keys).
     bind_result (batch_queue (zip (zip messages signatures) public_keys)) (\<lambda>batch.
     Ok (zebra_batch_verify C batch)))"

section \<open>The errors each call can return\<close>

lemma secp256k1_verify_errors:
  "secp256k1_verify C h s p = Err e \<Longrightarrow>
     e = InvalidHashFormat \<or> e = InvalidSignatureFormat \<or> e = InvalidPubkeyFormat \<or>
     (\<exists>m. e = CryptoError_GenericErr m)"
  by (auto simp: secp256k1_verify_def bind_result_Err read_hash_def secp_read_signature_def
      check_pubkey_def Let_def map_errR_def split: if_splits result.splits list.splits)

lemma secp256k1_recover_errors:
  "secp256k1_recover_pubkey C h s p = Err e \<Longrightarrow>
     e = InvalidHashFormat \<or> e = InvalidSignatureFormat \<or> e = InvalidRecoveryParam \<or>
     (\<exists>m. e = CryptoError_GenericErr m)"
  by (auto simp: secp256k1_recover_pubkey_def bind_result_Err read_hash_def secp_read_signature_def
      map_errR_def split: if_splits result.splits)

lemma ed25519_verify_errors:
  "ed25519_verify C m s p = Err e \<Longrightarrow> e = InvalidSignatureFormat \<or> e = InvalidPubkeyFormat"
  by (auto simp: ed25519_verify_def bind_result_Err ed_read_signature_def read_pubkey_def split: if_splits)

lemma batch_queue_errors:
  "batch_queue xs = Err e \<Longrightarrow> e = InvalidSignatureFormat \<or> e = InvalidPubkeyFormat"
  by (induction xs rule: batch_queue.induct)
    (auto simp: bind_result_Err ed_read_signature_def read_pubkey_def split: if_splits)

lemma ed25519_batch_verify_errors:
  assumes "ed25519_batch_verify C ms ss ps = Err e"
  shows "e = InvalidSignatureFormat \<or> e = InvalidPubkeyFormat \<or> (\<exists>m. e = BatchErr m)"
proof -
  have "batch_queue xs = Err d \<Longrightarrow> ?thesis" if "e = d" for xs d
    using batch_queue_errors that by blast
  with assms show ?thesis
    by (auto simp: ed25519_batch_verify_def batch_shapes_def bind_result_Err Let_def
        split: if_splits prod.splits)
qed

text \<open>The batch that is verified pairs every signature with its message and key.\<close>

lemma batch_queue_Ok:
  "batch_queue xs = Ok q \<Longrightarrow> q = map (\<lambda>((m, s), p). (p, s, m)) xs"
  by (induction xs arbitrary: q rule: batch_queue.induct)
    (auto simp: bind_result_def ed_read_signature_def read_pubkey_def split: result.splits if_splits)

lemma batch_queue_lengths:
  "batch_queue xs = Ok q \<Longrightarrow> ((m, s), p) \<in> set xs \<Longrightarrow> length s = 64 \<and> length p = 32"
  by (induction xs arbitrary: q rule: batch_queue.induct)
    (auto simp: bind_result_def ed_read_signature_def read_pubkey_def split: result.splits if_splits)

text \<open>The element of a list that belongs to the \<open>i\<close>-th signature: a single one serves all.\<close>

definition pick :: "bytes list \<Rightarrow> nat \<Rightarrow> bytes" where
  "pick xs i = (if length xs = 1 then hd xs else xs ! i)"

lemma concat_replicate_single: "length xs = 1 \<Longrightarrow> concat (replicate n xs) = replicate n (hd xs)"
  by (induction n) (auto simp: length_Suc_conv)

lemma nth_pick: "i < n \<Longrightarrow> length xs = n \<Longrightarrow> xs ! i = pick xs i"
  by (cases xs) (auto simp: pick_def)

lemma batch_shapes_Ok:
  assumes "batch_shapes ms ss ps = Ok (ms', ps')"
  shows "length ms' = length ss \<and> length ps' = length ss \<and>
     (\<forall>i < length ss. ms' ! i = pick ms i \<and> ps' ! i = pick ps i)"
proof (cases "length ms = length ss \<and> length ms = length ps")
  case True
  with assms show ?thesis by (auto simp: batch_shapes_def nth_pick)
next
  case False
  show ?thesis
  proof (cases "length ms = 1 \<and> length ss = length ps")
    case True
    with False assms have "ms' = replicate (length ss) (hd ms)" "ps' = ps"
      by (auto simp: batch_shapes_def concat_replicate_single)
    with True show ?thesis by (simp add: nth_pick) (simp add: pick_def)
  next
    case more: False
    with False assms have "length ps = 1" "length ms = length ss"
      "ps' = replicate (length ms) (hd ps)" "ms' = ms"
      by (auto simp: batch_shapes_def Let_def concat_replicate_single split: if_splits)
    then show ?thesis by (simp add: nth_pick) (simp add: pick_def)
  qed
qed

section \<open>Properties\<close>

text \<open>
  C38: A batch verification that returns a value returns whether every signature verifies on
  its own, in each of the supported shapes (one message per signature or one for all, one key
  per signature or one for all).  Relied on: the library's batch check accepts exactly when all
  queued triples verify.
\<close>

theorem batch_verify_all:
  assumes "\<And>q. zebra_batch_verify C q = (\<forall>(p, s, m) \<in> set q. zebra_verify C p s m)"
    and "ed25519_batch_verify C ms ss ps = Ok b"
  shows "b \<longleftrightarrow> (\<forall>i < length ss. ed25519_verify C (pick ms i) (ss ! i) (pick ps i) = Ok True)"
proof -
  obtain ms' ps' where sh: "batch_shapes ms ss ps = Ok (ms', ps')"
    and bq: "bind_result (batch_queue (zip (zip ms' ss) ps')) (\<lambda>q. Ok (zebra_batch_verify C q)) = Ok b"
    using assms(2) by (cases "batch_shapes ms ss ps") (auto simp: ed25519_batch_verify_def)
  have len: "length ms' = length ss" "length ps' = length ss"
    and pk: "\<And>i. i < length ss \<Longrightarrow> ms' ! i = pick ms i" "\<And>i. i < length ss \<Longrightarrow> ps' ! i = pick ps i"
    using batch_shapes_Ok [OF sh] by simp_all
  let ?xs = "zip (zip ms' ss) ps'"
  obtain q where q: "batch_queue ?xs = Ok q" and b: "b = zebra_batch_verify C q"
    using bq by (cases "batch_queue ?xs") auto
  have nth: "?xs ! i = ((pick ms i, ss ! i), pick ps i)" if "i < length ss" for i
    using that len pk by simp
  have "ed25519_verify C (pick ms i) (ss ! i) (pick ps i) = Ok (zebra_verify C (pick ps i) (ss ! i) (pick ms i))"
    if "i < length ss" for i
  proof -
    have "((pick ms i, ss ! i), pick ps i) \<in> set ?xs"
      using that nth [OF that] len by (metis length_zip min.idem nth_mem)
    from batch_queue_lengths [OF q this] show ?thesis
      by (simp add: ed25519_verify_def ed_read_signature_def read_pubkey_def)
  qed
  moreover have "b \<longleftrightarrow> (\<forall>i < length ss. zebra_verify C (pick ps i) (ss ! i) (pick ms i))"
    unfolding b assms(1) batch_queue_Ok [OF q] using len nth
    by (auto simp: all_set_conv_all_nth)
  ultimately show ?thesis by auto
qed

definition sample_crypto :: crypto_ext where
  "sample_crypto =
     \<lparr>k256_signature = Ok, k256_normalize_s = (\<lambda>_. None), k256_verifying_key = Ok,
      k256_verify_digest = (\<lambda>k d s. hd d = hd s), k256_recovery_id = (\<lambda>b. b \<le> 1),
      k256_recoverable = (\<lambda>s b. Ok (b # s)), k256_recover_key = (\<lambda>e d. Ok e),
      k256_uncompressed_point = id, zebra_verify = (\<lambda>p s m. hd s = hd m),
      zebra_batch_verify = (\<lambda>q. \<forall>(p, s, m) \<in> set q. hd s = hd m)\<rparr>"

lemma all_less_two: "(\<forall>i < Suc (Suc 0). P i) \<longleftrightarrow> P 0 \<and> P (Suc 0)"
  by (auto simp: less_Suc_eq)

theorem batch_verify_all_witness:
  "ed25519_batch_verify sample_crypto [[7]] [replicate 64 7, replicate 64 7] [replicate 32 1, replicate 32 2] = Ok True \<and>
   ed25519_verify sample_crypto [7] (replicate 64 7) (replicate 32 1) = Ok True \<and>
   ed25519_verify sample_crypto [7] (replicate 64 7) (replicate 32 2) = Ok True"
proof -
  have law: "zebra_batch_verify sample_crypto q = (\<forall>(p, s, m) \<in> set q. zebra_verify sample_crypto p s m)" for q
    by (simp add: sample_crypto_def)
  have r: "ed25519_batch_verify sample_crypto [[7]] [replicate 64 7, replicate 64 7] [replicate 32 1, replicate 32 2] = Ok True"
    by (simp add: ed25519_batch_verify_def batch_shapes_def ed_read_signature_def read_pubkey_def sample_crypto_def
        numeral_2_eq_2)
  from batch_verify_all [OF law r] r show ?thesis by (simp add: all_less_two pick_def)
qed

end
