(* ===== verification/Sections.thy ===== *)
theory Sections
  imports Errors
begin

text \<open>
  The VM's number conversions, its JSON limits and the section encoding in which a list of byte
  strings crosses the boundary to the contract (\<^verbatim>\<open>packages/vm/src/conversion.rs\<close>,
  \<^verbatim>\<open>serde.rs\<close>, \<^verbatim>\<open>sections.rs\<close>).
\<close>

section \<open>Conversions\<close>

definition to_u32 :: "nat \<Rightarrow> (VmError, u32) result" where
  "to_u32 input =
     (if input < 2 ^ 32 then Ok (of_nat input)
      else Err (ConversionErr ''usize'' ''u32'' (nat_str input)))"

lemma to_u32_Ok: "to_u32 n = Ok w \<Longrightarrow> unat w = n \<and> n < 2 ^ 32"
  by (auto simp: to_u32_def unat_of_nat split: if_splits)

text \<open>
  \<^verbatim>\<open>from_slice\<close> and \<^verbatim>\<open>to_vec\<close>: the JSON library and the printed type names are parameters.
\<close>

definition from_slice ::
  "string \<Rightarrow> (bytes \<Rightarrow> (string, 'a) result) \<Rightarrow> bytes \<Rightarrow> nat \<Rightarrow> (VmError, 'a) result" where
  "from_slice type_name parse value deserialization_limit =
     (if length value > deserialization_limit
      then Err (DeserializationLimitExceeded (length value) deserialization_limit)
      else map_errR (ParseErr type_name) (parse value))"

definition to_vec :: "string \<Rightarrow> ('a \<Rightarrow> (string, bytes) result) \<Rightarrow> 'a \<Rightarrow> (VmError, bytes) result" where
  "to_vec type_name print data = map_errR (SerializeErr type_name) (print data)"

section \<open>Sections\<close>

fun encode_sections :: "bytes list \<Rightarrow> (VmError, bytes) result" where
  "encode_sections [] = Ok []"
| "encode_sections (s # sections) =
     (case to_u32 (length s) of
        Err e \<Rightarrow> Err e
      | Ok section_len \<Rightarrow>
          (case encode_sections sections of
             Err e \<Rightarrow> Err e
           | Ok out_data \<Rightarrow> Ok (s @ be_bytes 4 (unat section_len) @ out_data)))"

text \<open>
  The loop of \<^verbatim>\<open>decode_sections\<close> walks from the back; \<open>remaining\<close> is the part of the data not
  yet decoded.  \<open>None\<close> is the panic of a section length that reaches before the start.
\<close>

function decode_loop :: "bytes \<Rightarrow> bytes list \<Rightarrow> bytes list option" where
  "decode_loop remaining result =
     (if length remaining \<ge> 4 then
        let n = length remaining - 4;
            tail_len = be_val (drop n remaining)
        in if tail_len \<le> n
           then decode_loop (take (n - tail_len) remaining)
                  (result @ [drop (n - tail_len) (take n remaining)])
           else None
      else Some (rev result))"
  by pat_completeness auto
termination
  by (relation "measure (length \<circ> fst)") auto

declare decode_loop.simps [simp del]

definition decode_sections :: "bytes \<Rightarrow> bytes list option" where
  "decode_sections data = decode_loop data []"

lemma decode_loop_section:
  assumes "length s < 2 ^ 32"
  shows "decode_loop (data @ s @ be_bytes 4 (length s)) result = decode_loop data (result @ [s])"
proof -
  let ?r = "data @ s @ be_bytes 4 (length s)"
  have v: "be_val (be_bytes 4 (length s)) = length s"
    using assms by (intro be_val_be_bytes) simp
  have n: "length ?r - 4 = length data + length s" by simp
  have "drop (length data + length s) ?r = be_bytes 4 (length s)" by simp
  with v n show ?thesis
    by (subst decode_loop.simps) (simp add: Let_def)
qed

lemma encode_sections_append:
  "encode_sections (xs @ ys) =
     (case encode_sections xs of
        Err e \<Rightarrow> Err e
      | Ok a \<Rightarrow> (case encode_sections ys of Err e \<Rightarrow> Err e | Ok b \<Rightarrow> Ok (a @ b)))"
  by (induction xs) (auto split: result.splits)

lemma encode_sections_single:
  "encode_sections [s] = Ok d \<Longrightarrow> d = s @ be_bytes 4 (length s) \<and> length s < 2 ^ 32"
  by (auto split: result.splits dest: to_u32_Ok)

lemma decode_loop_encode:
  "encode_sections sections = Ok data \<Longrightarrow> decode_loop data result = Some (sections @ rev result)"
proof (induction sections arbitrary: data result rule: rev_induct)
  case Nil
  then show ?case by (subst decode_loop.simps) simp
next
  case (snoc s sections)
  then obtain a b where a: "encode_sections sections = Ok a" and b: "encode_sections [s] = Ok b"
    and data: "data = a @ b"
    by (auto simp: encode_sections_append simp del: encode_sections.simps split: result.splits)
  have "decode_loop data result = decode_loop a (result @ [s])"
    using encode_sections_single [OF b] decode_loop_section [of s a result] by (simp add: data)
  also have "\<dots> = Some (sections @ rev (result @ [s]))" by (rule snoc.IH [OF a])
  finally show ?case by simp
qed

lemma be_bytes_4:
  "be_bytes 4 n = [of_nat (n div 256 div 256 div 256 mod 256), of_nat (n div 256 div 256 mod 256),
     of_nat (n div 256 mod 256), of_nat (n mod 256)]"
proof -
  have four: "(4 :: nat) = Suc (Suc (Suc (Suc 0)))" by simp
  show ?thesis by (simp only: four be_bytes.simps append.simps)
qed

text \<open>
  Encoded sections decode to what was encoded: a list of byte strings that
  \<^verbatim>\<open>encode_sections\<close> accepts comes back from \<^verbatim>\<open>decode_sections\<close> without a panic, empty
  sections and an empty list included.
\<close>

theorem sections_roundtrip:
  assumes "encode_sections sections = Ok data"
  shows "decode_sections data = Some sections"
  using decode_loop_encode [OF assms, of "[]"] by (simp add: decode_sections_def)

theorem sections_roundtrip_witness:
  "encode_sections [[7, 8], []] = Ok [7, 8, 0, 0, 0, 2, 0, 0, 0, 0] \<and>
   decode_sections [7, 8, 0, 0, 0, 2, 0, 0, 0, 0] = Some [[7, 8], []]"
proof -
  have e: "encode_sections [[7, 8], []] = Ok [7, 8, 0, 0, 0, 2, 0, 0, 0, 0]"
    by (simp add: to_u32_def be_bytes_4)
  from sections_roundtrip [OF e] e show ?thesis by simp
qed

end
