(* ===== verification/Shared.thy ===== *)
theory Shared
  imports States DebugLog Api Crypto Sections
begin

text \<open>
  The state that the simulator, its contract instances and their queriers share
  (\<^verbatim>\<open>Arc<RwLock<AllStates>>\<close> and \<^verbatim>\<open>Arc<Mutex<DebugLog>>\<close>), and the record \<open>externs\<close> of all
  code outside the repository.  A contract is such code: compiling it gives a module, a module
  gives an instance state of type \<open>'w\<close>, and calling an export gives a \<open>prog\<close>, the tree of the
  host calls the contract may make with a continuation for every answer.
\<close>

section \<open>Wasm programs\<close>

datatype Val = I32 u32 | I64 u64 | F32 u32 | F64 u64

record Region =
  rg_offset :: u32
  rg_capacity :: u32
  rg_length :: u32

text \<open>The imports of a contract, with the arguments of the native signatures.\<close>

datatype import_call =
    DbRead u32
  | DbWrite u32 u32
  | DbRemove u32
  | AddrValidate u32
  | AddrCanonicalize u32 u32
  | AddrHumanize u32 u32
  | Secp256k1Verify u32 u32 u32
  | Secp256k1RecoverPubkey u32 u32 u32
  | Ed25519Verify u32 u32 u32
  | Ed25519BatchVerify u32 u32 u32
  | Debug u32
  | Abort u32
  | QueryChain u32
  | DbScan u32 u32 int
  | DbNext u32

text \<open>
  One run of an export.  Each node carries the metering points used since the previous one and
  the state of the Wasm instance: the call returns values, traps with a message, or calls an
  import and continues with the instance state the host left behind and the values it returned.
\<close>

datatype 'w prog =
    Done nat 'w "Val list"
  | Trap nat 'w string
  | Host nat 'w import_call "'w \<Rightarrow> Val list \<Rightarrow> 'w prog"

record ('m, 'w) wasm_ext =
  wx_compile :: "bytes \<Rightarrow> (string, 'm) result"
  wx_instantiate :: "'m \<Rightarrow> (string, 'w) result"
  wx_call :: "'w \<Rightarrow> string \<Rightarrow> Val list \<Rightarrow> (string, 'w prog) result"
  wx_has_memory :: "'w \<Rightarrow> bool"
  wx_memory_size :: "'w \<Rightarrow> nat"
  wx_get_region :: "'w \<Rightarrow> u32 \<Rightarrow> Region option"
  wx_set_region :: "u32 \<Rightarrow> Region \<Rightarrow> 'w \<Rightarrow> 'w option"
  wx_get_bytes :: "'w \<Rightarrow> u32 \<Rightarrow> u32 \<Rightarrow> bytes option"
  wx_set_bytes :: "u32 \<Rightarrow> bytes \<Rightarrow> 'w \<Rightarrow> 'w"
  wx_val_string :: "Val \<Rightarrow> string"

text \<open>JSON: \<^verbatim>\<open>serde_json\<close> and \<^verbatim>\<open>serde_json_wasm\<close> with the derived encoders and decoders.\<close>

record serde_ext =
  js_display :: "bytes \<Rightarrow> string option"
  js_value_error :: "bytes \<Rightarrow> string option"
  js_type_name :: "string \<Rightarrow> string"
  js_balance_response :: "BalanceResponse \<Rightarrow> (string, Binary) result"
  js_all_balance_response :: "AllBalanceResponse \<Rightarrow> (string, Binary) result"
  js_bank_query :: "bytes \<Rightarrow> (string, BankQuery) result"
  js_query_request :: "bytes \<Rightarrow> (string, unit QueryRequest) result"
  js_print_request :: "bytes \<Rightarrow> (string, string) result"
  js_print_response :: "bool \<Rightarrow> (string, Binary) result"
  js_contract_info :: "ContractInfo \<Rightarrow> (string, Binary) result"
  js_env :: "Env \<Rightarrow> (string, bytes) result"
  js_info :: "MessageInfo \<Rightarrow> (string, bytes) result"
  js_reply :: "Reply \<Rightarrow> (string, bytes) result"
  js_response :: "bytes \<Rightarrow> (string, Response ContractResult) result"
  js_query_response :: "bytes \<Rightarrow> (string, Binary ContractResult) result"
  js_query_result :: "Binary ContractResult SystemResult \<Rightarrow> (string, bytes) result"

text \<open>\<open>x_checks\<close>: whether the build checks integer overflow.\<close>

record ('m, 'w) externs =
  x_checks :: bool
  x_client :: client_ext
  x_serde :: serde_ext
  x_wasm :: "('m, 'w) wasm_ext"
  x_crypto :: crypto_ext
  x_bech32 :: bech32_ext
  x_sha256 :: "bytes \<Rightarrow> bytes"
  x_pb_instantiate_response :: "string \<Rightarrow> bytes"
  x_pb_execute_response :: bytes

section \<open>Shared state\<close>

record Shared =
  sh_states :: AllStates
  sh_debug_log :: DebugLog
  sh_world :: World

type_synonym ('e, 'a) sharedM = "(Shared, 'e, 'a) M"

definition on_states :: "(AllStates \<times> World, 'e, 'a) M \<Rightarrow> ('e, 'a) sharedM" where
  "on_states = zoomM (\<lambda>s. (sh_states s, sh_world s))
     (\<lambda>t s. s\<lparr>sh_states := fst t, sh_world := snd t\<rparr>)"

definition on_log :: "(DebugLog \<Rightarrow> DebugLog) \<Rightarrow> ('e, unit) sharedM" where
  "on_log f = modifyM (\<lambda>s. s\<lparr>sh_debug_log := f (sh_debug_log s)\<rparr>)"

text \<open>A method of the log that panics on \<open>None\<close>.\<close>

definition on_log_begin :: "(DebugLog \<Rightarrow> (nat \<times> DebugLog) option) \<Rightarrow> ('e, nat) sharedM" where
  "on_log_begin f =
     bindM (getM (\<lambda>s. f (sh_debug_log s))) (\<lambda>r.
     bindM (unwrapM r) (\<lambda>(call_id, log).
     thenM (modifyM (\<lambda>s. s\<lparr>sh_debug_log := log\<rparr>))
     (returnM call_id)))"

section \<open>Contract storage behind a shared pointer\<close>

text \<open>
  \<open>SharedStorage a\<close>: the map of contract \<open>a\<close> in the shared state itself; \<open>PrivateStorage\<close>: a
  copy that only the instance holding it sees.
\<close>

datatype StorageRef = SharedStorage Addr | PrivateStorage ContractStorage

end
