(* ===== verification/Vm.thy ===== *)
theory Vm
  imports Shared
begin

text \<open>
  The contract VM (\<^verbatim>\<open>packages/vm\<close>): regions of the contract's memory, gas, the import
  functions, and calling an export.  The state of a running instance is an \<open>Environment\<close>
  together with the shared state of the simulator.  The import functions take two arguments for
  what they call back into: \<open>call\<close>, an export of the same instance, and \<open>query\<close>, the querier.
\<close>

section \<open>Instances\<close>

record GasConfig =
  secp256k1_verify_cost :: u64
  secp256k1_recover_pubkey_cost :: u64
  ed25519_verify_cost :: u64
  ed25519_batch_verify_cost :: u64
  ed25519_batch_verify_one_pubkey_cost :: u64

definition GAS_PER_US :: u64 where
  "GAS_PER_US = 1000000000"

definition GasConfig_default :: GasConfig where
  "GasConfig_default =
     \<lparr>secp256k1_verify_cost = 154 * GAS_PER_US,
      secp256k1_recover_pubkey_cost = 162 * GAS_PER_US,
      ed25519_verify_cost = 63 * GAS_PER_US,
      ed25519_batch_verify_cost = 63 * GAS_PER_US div 2,
      ed25519_batch_verify_one_pubkey_cost = 63 * GAS_PER_US div 4\<rparr>"

record GasState =
  gs_gas_limit :: u64
  gs_externally_used_gas :: u64

text \<open>
  \<open>en_points\<close> are Wasmer's metering points, \<open>None\<close> when exhausted.  The storage is the pointer
  and the open iterators of \<^verbatim>\<open>RpcMockStorage\<close>.
\<close>

record 'w Environment =
  en_api :: RpcMockApi
  en_print_debug :: bool
  en_gas_config :: GasConfig
  en_gas_state :: GasState
  en_storage :: StorageRef
  en_iterators :: "u32 \<rightharpoonup> Record list \<times> nat"
  en_iterator_id_ctr :: u32
  en_storage_readonly :: bool
  en_guest :: 'w
  en_points :: "u64 option"

type_synonym ('w, 'a) vmM = "('w Environment \<times> Shared, VmError, 'a) M"

definition on_env :: "('w Environment \<Rightarrow> 'w Environment) \<Rightarrow> ('w, unit) vmM" where
  "on_env f = modifyM (\<lambda>s. (f (fst s), snd s))"

definition get_env :: "('w Environment \<Rightarrow> 'a) \<Rightarrow> ('w, 'a) vmM" where
  "get_env f = getM (\<lambda>s. f (fst s))"

definition on_shared :: "(Shared, VmError, 'a) M \<Rightarrow> ('w, 'a) vmM" where
  "on_shared = zoomM snd (\<lambda>t s. (fst s, t))"

text \<open>\<^verbatim>\<open>Environment::new\<close>, then \<^verbatim>\<open>set_gas_left\<close> and \<^verbatim>\<open>move_in\<close> as \<^verbatim>\<open>from_module\<close> does.\<close>

definition Environment_new ::
  "RpcMockApi \<Rightarrow> u64 \<Rightarrow> bool \<Rightarrow> StorageRef \<Rightarrow> 'w \<Rightarrow> 'w Environment" where
  "Environment_new api gas_limit print_debug storage guest =
     \<lparr>en_api = api, en_print_debug = print_debug, en_gas_config = GasConfig_default,
      en_gas_state = \<lparr>gs_gas_limit = gas_limit, gs_externally_used_gas = 0\<rparr>,
      en_storage = storage, en_iterators = Map.empty, en_iterator_id_ctr = 0,
      en_storage_readonly = True, en_guest = guest, en_points = Some gas_limit\<rparr>"

definition compile :: "('m, 'w) externs \<Rightarrow> bytes \<Rightarrow> (VmError, 'm) result" where
  "compile X code =
     map_errR (\<lambda>e. CompileErr (''Could not compile: '' @ e)) (wx_compile (x_wasm X) code)"

definition from_module ::
  "('m, 'w) externs \<Rightarrow> 'm \<Rightarrow> RpcMockApi \<Rightarrow> StorageRef \<Rightarrow> u64 \<Rightarrow> bool \<Rightarrow> (VmError, 'w Environment) result" where
  "from_module X module api storage gas_limit print_debug =
     (case wx_instantiate (x_wasm X) module of
        Err e \<Rightarrow> Err (InstantiationErr (''Error instantiating module: '' @ e))
      | Ok guest \<Rightarrow> Ok (Environment_new api gas_limit print_debug storage guest))"

definition from_code ::
  "('m, 'w) externs \<Rightarrow> bytes \<Rightarrow> RpcMockApi \<Rightarrow> StorageRef \<Rightarrow> u64 \<Rightarrow> bool \<Rightarrow> (VmError, 'w Environment) result" where
  "from_code X code api storage gas_limit print_debug =
     (case compile X code of
        Err e \<Rightarrow> Err e
      | Ok module \<Rightarrow> from_module X module api storage gas_limit print_debug)"

section \<open>Gas\<close>

definition get_gas_left :: "('w, u64) vmM" where
  "get_gas_left = get_env (\<lambda>e. case en_points e of Some count \<Rightarrow> count | None \<Rightarrow> 0)"

definition set_gas_left :: "u64 \<Rightarrow> ('w, unit) vmM" where
  "set_gas_left new_value = on_env (\<lambda>e. e\<lparr>en_points := Some new_value\<rparr>)"

definition decrease_gas_left :: "u64 \<Rightarrow> ('w, unit) vmM" where
  "decrease_gas_left amount =
     bindM get_gas_left (\<lambda>remaining.
     if amount > remaining then thenM (set_gas_left 0) (failM GasDepletion)
     else set_gas_left (remaining - amount))"

definition process_gas_info :: "('m, 'w) externs \<Rightarrow> GasInfo \<Rightarrow> ('w, unit) vmM" where
  "process_gas_info X info =
     bindM get_gas_left (\<lambda>gas_left.
     bindM (get_env (\<lambda>e. prim_add (x_checks X) (gs_externally_used_gas (en_gas_state e))
                                 (gi_externally_used info))) (\<lambda>used.
     bindM (unwrapM used) (\<lambda>externally_used_gas.
     thenM (on_env (\<lambda>e. e\<lparr>en_gas_state := (en_gas_state e)\<lparr>gs_externally_used_gas := externally_used_gas\<rparr>\<rparr>))
     (thenM (set_gas_left (sat_sub (sat_sub gas_left (gi_externally_used info)) (gi_cost info)))
      (bindM (unwrapM (prim_add (x_checks X) (gi_externally_used info) (gi_cost info))) (\<lambda>total.
       if total > gas_left then failM GasDepletion else returnM ()))))))"

record GasReport =
  gr_limit :: u64
  gr_remaining :: u64
  gr_used_externally :: u64
  gr_used_internally :: u64

definition create_gas_report :: "'w Environment \<Rightarrow> GasReport" where
  "create_gas_report e =
     (let gas_left = (case en_points e of Some count \<Rightarrow> count | None \<Rightarrow> 0);
          st = en_gas_state e
      in \<lparr>gr_limit = gs_gas_limit st, gr_remaining = gas_left,
          gr_used_externally = gs_externally_used_gas st,
          gr_used_internally = sat_sub (sat_sub (gs_gas_limit st) (gs_externally_used_gas st)) gas_left\<rparr>)"

section \<open>Regions\<close>

definition Region_debug :: "Region \<Rightarrow> string" where
  "Region_debug r =
     ''Region { offset: '' @ nat_str (unat (rg_offset r)) @ '', capacity: '' @
     nat_str (unat (rg_capacity r)) @ '', length: '' @ nat_str (unat (rg_length r)) @ '' }''"

definition validate_region :: "Region \<Rightarrow> (RegionValidationError, unit) result" where
  "validate_region region =
     (if rg_offset region = 0 then Err ZeroOffset
      else if rg_length region > rg_capacity region
      then Err (LengthExceedsCapacity (rg_length region) (rg_capacity region))
      else if rg_capacity region > - 1 - rg_offset region
      then Err (RegionOutOfRange (rg_offset region) (rg_capacity region))
      else Ok ())"

definition get_region :: "('m, 'w) wasm_ext \<Rightarrow> 'w \<Rightarrow> u32 \<Rightarrow> (CommunicationError, Region) result" where
  "get_region W mem ptr =
     (case wx_get_region W mem ptr of
        Some region \<Rightarrow>
          (case validate_region region of Err e \<Rightarrow> Err (InvalidRegion e) | Ok _ \<Rightarrow> Ok region)
      | None \<Rightarrow> Err (DerefErr ptr ''Could not dereference this pointer to a Region''))"

definition set_region ::
  "('m, 'w) wasm_ext \<Rightarrow> u32 \<Rightarrow> Region \<Rightarrow> 'w \<Rightarrow> (CommunicationError, 'w) result" where
  "set_region W ptr data mem =
     (case wx_set_region W ptr data mem of
        Some mem' \<Rightarrow> Ok mem'
      | None \<Rightarrow> Err (DerefErr ptr ''Could not dereference this pointer to a Region''))"

definition deref_error :: "('m, 'w) wasm_ext \<Rightarrow> 'w \<Rightarrow> Region \<Rightarrow> VmError" where
  "deref_error W mem region =
     CommunicationErr (DerefErr (rg_offset region)
       (''Tried to access memory of region '' @ Region_debug region @ '' in wasm memory of size '' @
        nat_str (wx_memory_size W mem) @
        '' bytes. This typically happens when the given Region pointer does not point to a proper Region struct.''))"

definition read_region_mem :: "('m, 'w) wasm_ext \<Rightarrow> 'w \<Rightarrow> u32 \<Rightarrow> nat \<Rightarrow> (VmError, bytes) result" where
  "read_region_mem W mem ptr max_length =
     bind_result (map_errR CommunicationErr (get_region W mem ptr)) (\<lambda>region.
     bind_result (to_u32 max_length) (\<lambda>max_len.
     if rg_length region > max_len
     then Err (CommunicationErr (RegionLengthTooBig (unat (rg_length region)) max_length))
     else case wx_get_bytes W mem (rg_offset region) (rg_length region) of
            Some cells \<Rightarrow> Ok cells
          | None \<Rightarrow> Err (deref_error W mem region)))"

definition write_region_mem :: "('m, 'w) wasm_ext \<Rightarrow> u32 \<Rightarrow> bytes \<Rightarrow> 'w \<Rightarrow> (VmError, 'w) result \<times> 'w" where
  "write_region_mem W ptr data mem =
     (case map_errR CommunicationErr (get_region W mem ptr) of
        Err e \<Rightarrow> (Err e, mem)
      | Ok region \<Rightarrow>
          let region_capacity = unat (rg_capacity region) in
          if length data > region_capacity
          then (Err (CommunicationErr (RegionTooSmall region_capacity (length data))), mem)
          else case wx_get_bytes W mem (rg_offset region) (rg_capacity region) of
                 None \<Rightarrow> (Err (deref_error W mem region), mem)
               | Some _ \<Rightarrow>
                   let mem1 = wx_set_bytes W (rg_offset region) data mem in
                   (case set_region W ptr (region\<lparr>rg_length := of_nat (length data)\<rparr>) mem1 of
                      Err e \<Rightarrow> (Err (CommunicationErr e), mem1)
                    | Ok mem2 \<Rightarrow> (Ok mem2, mem2)))"

text \<open>\<^verbatim>\<open>env.memory()\<close> panics for a contract without an exported memory.\<close>

definition memory :: "('m, 'w) externs \<Rightarrow> ('w, 'w) vmM" where
  "memory X =
     bindM (get_env en_guest) (\<lambda>mem.
     if wx_has_memory (x_wasm X) mem then returnM mem else panicM)"

definition read_region :: "('m, 'w) externs \<Rightarrow> u32 \<Rightarrow> nat \<Rightarrow> ('w, bytes) vmM" where
  "read_region X ptr max_length =
     bindM (memory X) (\<lambda>mem. liftR (read_region_mem (x_wasm X) mem ptr max_length))"

definition maybe_read_region :: "('m, 'w) externs \<Rightarrow> u32 \<Rightarrow> nat \<Rightarrow> ('w, bytes option) vmM" where
  "maybe_read_region X ptr max_length =
     (if ptr = 0 then returnM None
      else bindM (read_region X ptr max_length) (\<lambda>d. returnM (Some d)))"

definition write_region :: "('m, 'w) externs \<Rightarrow> u32 \<Rightarrow> bytes \<Rightarrow> ('w, unit) vmM" where
  "write_region X ptr data =
     bindM (memory X) (\<lambda>mem.
     case write_region_mem (x_wasm X) ptr data mem of
       (r, mem') \<Rightarrow>
         thenM (on_env (\<lambda>e. e\<lparr>en_guest := mem'\<rparr>))
         (bindM (liftR r) (\<lambda>_. returnM ())))"

end
