(* ===== verification/Imports.thy ===== *)
theory Imports
  imports Vm
begin

text \<open>
  Running an export of a contract (\<^verbatim>\<open>packages/vm/src/environment.rs\<close>), the import functions it
  may call (\<^verbatim>\<open>imports.rs\<close>) and the entry points of the host (\<^verbatim>\<open>calls.rs\<close>).
\<close>

section \<open>Calling an export\<close>

text \<open>Metering: the points used so far are deducted, or the points are exhausted.\<close>

definition charge :: "nat \<Rightarrow> 'w \<Rightarrow> ('w, bool) vmM" where
  "charge used guest =
     thenM (on_env (\<lambda>e. e\<lparr>en_guest := guest\<rparr>))
     (bindM (get_env en_points) (\<lambda>points.
      case points of
        None \<Rightarrow> returnM False
      | Some count \<Rightarrow>
          if used \<le> unat count
          then thenM (on_env (\<lambda>e. e\<lparr>en_points := Some (count - of_nat used)\<rparr>)) (returnM True)
          else thenM (on_env (\<lambda>e. e\<lparr>en_points := None\<rparr>)) (returnM False)))"

text \<open>How \<^verbatim>\<open>call_function\<close> reports a trapped call.\<close>

definition trap :: "string \<Rightarrow> ('w, 'a) vmM" where
  "trap message =
     bindM (get_env en_points) (\<lambda>points.
     failM (case points of Some _ \<Rightarrow> VmError_from_RuntimeError message | None \<Rightarrow> GasDepletion))"

primrec run_prog :: "(import_call \<Rightarrow> ('w, Val list) vmM) \<Rightarrow> 'w prog \<Rightarrow> ('w, Val list) vmM" where
  "run_prog H (Done used guest vals) =
     bindM (charge used guest) (\<lambda>ok. if ok then returnM vals else trap [])"
| "run_prog H (Trap used guest message) = bindM (charge used guest) (\<lambda>ok. trap message)"
| "run_prog H (Host used guest c k) =
     bindM (charge used guest) (\<lambda>ok.
     if ok then
       bindM (tryM (H c)) (\<lambda>r.
       case r of
         Ok vals \<Rightarrow> bindM (get_env en_guest) (\<lambda>guest'. run_prog H (k guest' vals))
       | Err e \<Rightarrow> trap (RuntimeError_from_VmError e))
     else trap [])"

definition call_function ::
  "('m, 'w) externs \<Rightarrow> (import_call \<Rightarrow> ('w, Val list) vmM) \<Rightarrow> string \<Rightarrow> Val list \<Rightarrow> ('w, Val list) vmM" where
  "call_function X H name args =
     bindM (get_env en_guest) (\<lambda>guest.
     case wx_call (x_wasm X) guest name args of
       Err e \<Rightarrow> failM (ResolveErr (''Could not get export: '' @ e))
     | Ok p \<Rightarrow> run_prog H p)"

text \<open>From here on, \<open>call\<close> is \<^verbatim>\<open>call_function\<close> of the instance at hand.\<close>

type_synonym 'w call_op = "string \<Rightarrow> Val list \<Rightarrow> ('w, Val list) vmM"

definition call_function0 :: "'w call_op \<Rightarrow> string \<Rightarrow> Val list \<Rightarrow> ('w, unit) vmM" where
  "call_function0 call name args =
     bindM (call name args) (\<lambda>result.
     if length result \<noteq> 0 then failM (ResultMismatch name 0 (length result)) else returnM ())"

definition call_function1 :: "'w call_op \<Rightarrow> string \<Rightarrow> Val list \<Rightarrow> ('w, Val) vmM" where
  "call_function1 call name args =
     bindM (call name args) (\<lambda>result.
     if length result \<noteq> 1 then failM (ResultMismatch name 1 (length result)) else returnM (hd result))"

definition ref_to_u32 :: "('m, 'w) externs \<Rightarrow> Val \<Rightarrow> (VmError, u32) result" where
  "ref_to_u32 X v =
     (case v of
        I32 w \<Rightarrow> Ok w
      | _ \<Rightarrow> Err (ConversionErr (js_type_name (x_serde X) ''Val'') ''u32'' (wx_val_string (x_wasm X) v)))"

section \<open>Import functions\<close>

definition KI :: nat where "KI = 1024"
definition MI :: nat where "MI = 1024 * 1024"
definition MAX_LENGTH_DB_KEY :: nat where "MAX_LENGTH_DB_KEY = 64 * KI"
definition MAX_LENGTH_DB_VALUE :: nat where "MAX_LENGTH_DB_VALUE = 128 * KI"
definition MAX_LENGTH_CANONICAL_ADDRESS :: nat where "MAX_LENGTH_CANONICAL_ADDRESS = 64"
definition MAX_LENGTH_HUMAN_ADDRESS :: nat where "MAX_LENGTH_HUMAN_ADDRESS = 256"
definition MAX_LENGTH_QUERY_CHAIN_REQUEST :: nat where "MAX_LENGTH_QUERY_CHAIN_REQUEST = 64 * KI"
definition MAX_LENGTH_ED25519_SIGNATURE :: nat where "MAX_LENGTH_ED25519_SIGNATURE = 64"
definition MAX_LENGTH_ED25519_MESSAGE :: nat where "MAX_LENGTH_ED25519_MESSAGE = 128 * 1024"
definition MAX_COUNT_ED25519_BATCH :: nat where "MAX_COUNT_ED25519_BATCH = 256"
definition MAX_LENGTH_DEBUG :: nat where "MAX_LENGTH_DEBUG = 2 * MI"
definition MAX_LENGTH_ABORT :: nat where "MAX_LENGTH_ABORT = 2 * MI"

text \<open>
  The storage behind the instance's pointer, as \<^verbatim>\<open>RpcMockStorage\<close> sees it.  The contract of a
  shared pointer is present in the shared state as long as the instance runs.
\<close>

definition load_storage :: "'w Environment \<times> Shared \<Rightarrow> RpcMockStorage option" where
  "load_storage s =
     map_option (\<lambda>inner. \<lparr>ms_inner = inner, ms_iterators = en_iterators (fst s),
                          ms_iterator_id_ctr = en_iterator_id_ctr (fst s)\<rparr>)
       (case en_storage (fst s) of
          PrivateStorage m \<Rightarrow> Some m
        | SharedStorage a \<Rightarrow> map_option cs_storage (contract_state_get (sh_states (snd s)) a))"

definition store_storage :: "RpcMockStorage \<Rightarrow> 'w Environment \<times> Shared \<Rightarrow> 'w Environment \<times> Shared" where
  "store_storage ms s =
     (let e = (fst s)\<lparr>en_iterators := ms_iterators ms, en_iterator_id_ctr := ms_iterator_id_ctr ms\<rparr>
      in case en_storage (fst s) of
           PrivateStorage _ \<Rightarrow> (e\<lparr>en_storage := PrivateStorage (ms_inner ms)\<rparr>, snd s)
         | SharedStorage a \<Rightarrow>
             (e, case contract_storage_update a (ms_inner ms) (sh_states (snd s)) of
                   None \<Rightarrow> snd s
                 | Some st \<Rightarrow> (snd s)\<lparr>sh_states := st\<rparr>))"

definition with_storage_from_context ::
  "(RpcMockStorage \<Rightarrow> ('a BackendResult \<times> RpcMockStorage) option) \<Rightarrow> ('w, 'a BackendResult) vmM" where
  "with_storage_from_context callback =
     bindM (getM load_storage) (\<lambda>ms.
     bindM (unwrapM ms) (\<lambda>store.
     bindM (unwrapM (callback store)) (\<lambda>(r, store').
     thenM (modifyM (store_storage store')) (returnM r))))"

definition write_to_contract :: "('m, 'w) externs \<Rightarrow> 'w call_op \<Rightarrow> bytes \<Rightarrow> ('w, u32) vmM" where
  "write_to_contract X call input =
     bindM (liftR (to_u32 (length input))) (\<lambda>out_size.
     bindM (call_function1 call ''allocate'' [I32 out_size]) (\<lambda>result.
     bindM (liftR (ref_to_u32 X result)) (\<lambda>target_ptr.
     if target_ptr = 0 then failM (CommunicationErr ZeroAddress)
     else thenM (write_region X target_ptr input) (returnM target_ptr))))"

text \<open>Charging for a backend call and taking its result.\<close>

definition settle :: "('m, 'w) externs \<Rightarrow> 'a BackendResult \<Rightarrow> ('w, 'a) vmM" where
  "settle X r =
     thenM (process_gas_info X (snd r)) (liftR (map_errR VmError_from_BackendError (fst r)))"

definition do_db_read :: "('m, 'w) externs \<Rightarrow> 'w call_op \<Rightarrow> u32 \<Rightarrow> ('w, u32) vmM" where
  "do_db_read X call key_ptr =
     bindM (read_region X key_ptr MAX_LENGTH_DB_KEY) (\<lambda>key.
     bindM (with_storage_from_context (\<lambda>store. Some (RpcMockStorage_get store key, store))) (\<lambda>r.
     bindM (settle X r) (\<lambda>value.
     case value of
       Some out_data \<Rightarrow> write_to_contract X call out_data
     | None \<Rightarrow> returnM 0)))"

definition do_db_write :: "('m, 'w) externs \<Rightarrow> u32 \<Rightarrow> u32 \<Rightarrow> ('w, unit) vmM" where
  "do_db_write X key_ptr value_ptr =
     bindM (get_env en_storage_readonly) (\<lambda>readonly.
     if readonly then failM WriteAccessDenied
     else
       bindM (read_region X key_ptr MAX_LENGTH_DB_KEY) (\<lambda>key.
       bindM (read_region X value_ptr MAX_LENGTH_DB_VALUE) (\<lambda>value.
       bindM (with_storage_from_context (\<lambda>store. Some (RpcMockStorage_set key value store))) (\<lambda>r.
       settle X r))))"

definition do_db_remove :: "('m, 'w) externs \<Rightarrow> u32 \<Rightarrow> ('w, unit) vmM" where
  "do_db_remove X key_ptr =
     bindM (get_env en_storage_readonly) (\<lambda>readonly.
     if readonly then failM WriteAccessDenied
     else
       bindM (read_region X key_ptr MAX_LENGTH_DB_KEY) (\<lambda>key.
       bindM (with_storage_from_context (\<lambda>store. Some (RpcMockStorage_remove key store))) (\<lambda>r.
       settle X r)))"

definition do_addr_validate :: "('m, 'w) externs \<Rightarrow> 'w call_op \<Rightarrow> u32 \<Rightarrow> ('w, u32) vmM" where
  "do_addr_validate X call source_ptr =
     bindM (read_region X source_ptr MAX_LENGTH_HUMAN_ADDRESS) (\<lambda>source_data.
     if source_data = [] then write_to_contract X call (str_bytes ''Input is empty'')
     else case from_utf8 source_data of
       None \<Rightarrow> write_to_contract X call (str_bytes ''Input is not valid UTF-8'')
     | Some source_string \<Rightarrow>
         bindM (get_env (\<lambda>e. canonical_address (x_bech32 X) (en_api e) source_string)) (\<lambda>c.
         bindM (unwrapM c) (\<lambda>(result, gas_info).
         thenM (process_gas_info X gas_info)
         (case result of
            Err (UserErr msg) \<Rightarrow> write_to_contract X call (str_bytes msg)
          | Err err \<Rightarrow> failM (VmError_from_BackendError err)
          | Ok canonical \<Rightarrow>
              bindM (get_env (\<lambda>e. human_address (x_bech32 X) (en_api e) canonical)) (\<lambda>(result, gas_info).
              thenM (process_gas_info X gas_info)
              (case result of
                 Err (UserErr msg) \<Rightarrow> write_to_contract X call (str_bytes msg)
               | Err err \<Rightarrow> failM (VmError_from_BackendError err)
               | Ok normalized \<Rightarrow>
                   if normalized \<noteq> source_string
                   then write_to_contract X call (str_bytes ''Address is not normalized'')
                   else returnM 0))))))"

definition do_addr_canonicalize :: "('m, 'w) externs \<Rightarrow> 'w call_op \<Rightarrow> u32 \<Rightarrow> u32 \<Rightarrow> ('w, u32) vmM" where
  "do_addr_canonicalize X call source_ptr destination_ptr =
     bindM (read_region X source_ptr MAX_LENGTH_HUMAN_ADDRESS) (\<lambda>source_data.
     if source_data = [] then write_to_contract X call (str_bytes ''Input is empty'')
     else case from_utf8 source_data of
       None \<Rightarrow> write_to_contract X call (str_bytes ''Input is not valid UTF-8'')
     | Some source_string \<Rightarrow>
         bindM (get_env (\<lambda>e. canonical_address (x_bech32 X) (en_api e) source_string)) (\<lambda>c.
         bindM (unwrapM c) (\<lambda>(result, gas_info).
         thenM (process_gas_info X gas_info)
         (case result of
            Ok canonical \<Rightarrow> thenM (write_region X destination_ptr canonical) (returnM 0)
          | Err (UserErr msg) \<Rightarrow> write_to_contract X call (str_bytes msg)
          | Err err \<Rightarrow> failM (VmError_from_BackendError err)))))"

definition do_addr_humanize :: "('m, 'w) externs \<Rightarrow> 'w call_op \<Rightarrow> u32 \<Rightarrow> u32 \<Rightarrow> ('w, u32) vmM" where
  "do_addr_humanize X call source_ptr destination_ptr =
     bindM (read_region X source_ptr MAX_LENGTH_CANONICAL_ADDRESS) (\<lambda>canonical.
     bindM (get_env (\<lambda>e. human_address (x_bech32 X) (en_api e) canonical)) (\<lambda>(result, gas_info).
     thenM (process_gas_info X gas_info)
     (case result of
        Ok human \<Rightarrow> thenM (write_region X destination_ptr (str_bytes human)) (returnM 0)
      | Err (UserErr msg) \<Rightarrow> write_to_contract X call (str_bytes msg)
      | Err err \<Rightarrow> failM (VmError_from_BackendError err))))"

definition do_secp256k1_verify :: "('m, 'w) externs \<Rightarrow> u32 \<Rightarrow> u32 \<Rightarrow> u32 \<Rightarrow> ('w, u32) vmM" where
  "do_secp256k1_verify X hash_ptr signature_ptr pubkey_ptr =
     bindM (read_region X hash_ptr MESSAGE_HASH_MAX_LEN) (\<lambda>hash.
     bindM (read_region X signature_ptr ECDSA_SIGNATURE_LEN) (\<lambda>signature.
     bindM (read_region X pubkey_ptr ECDSA_PUBKEY_MAX_LEN) (\<lambda>pubkey.
     bindM (get_env (\<lambda>e. secp256k1_verify_cost (en_gas_config e))) (\<lambda>cost.
     thenM (process_gas_info X (GasInfo_with_cost cost))
     (case secp256k1_verify (x_crypto X) hash signature pubkey of
        Ok valid \<Rightarrow> returnM (if valid then 0 else 1)
      | Err err \<Rightarrow>
          (case err of
             BatchErr _ \<Rightarrow> panicM
           | InvalidRecoveryParam \<Rightarrow> panicM
           | _ \<Rightarrow> returnM (CryptoError_code err)))))))"

definition to_high_half :: "u32 \<Rightarrow> u64" where
  "to_high_half data = push_bit 32 (ucast data)"

definition to_low_half :: "u32 \<Rightarrow> u64" where
  "to_low_half data = ucast data"

definition do_secp256k1_recover_pubkey ::
  "('m, 'w) externs \<Rightarrow> 'w call_op \<Rightarrow> u32 \<Rightarrow> u32 \<Rightarrow> u32 \<Rightarrow> ('w, u64) vmM" where
  "do_secp256k1_recover_pubkey X call hash_ptr signature_ptr recover_param =
     bindM (read_region X hash_ptr MESSAGE_HASH_MAX_LEN) (\<lambda>hash.
     bindM (read_region X signature_ptr ECDSA_SIGNATURE_LEN) (\<lambda>signature.
     if unat recover_param \<ge> 256
     then returnM (push_bit 32 (ucast (CryptoError_code InvalidRecoveryParam)))
     else
       bindM (get_env (\<lambda>e. secp256k1_recover_pubkey_cost (en_gas_config e))) (\<lambda>cost.
       thenM (process_gas_info X (GasInfo_with_cost cost))
       (case secp256k1_recover_pubkey (x_crypto X) hash signature (ucast recover_param) of
          Ok pubkey \<Rightarrow>
            bindM (write_to_contract X call pubkey) (\<lambda>pubkey_ptr. returnM (to_low_half pubkey_ptr))
        | Err err \<Rightarrow>
            (case err of
               BatchErr _ \<Rightarrow> panicM
             | InvalidPubkeyFormat \<Rightarrow> panicM
             | _ \<Rightarrow> returnM (to_high_half (CryptoError_code err)))))))"

definition do_ed25519_verify :: "('m, 'w) externs \<Rightarrow> u32 \<Rightarrow> u32 \<Rightarrow> u32 \<Rightarrow> ('w, u32) vmM" where
  "do_ed25519_verify X message_ptr signature_ptr pubkey_ptr =
     bindM (read_region X message_ptr MAX_LENGTH_ED25519_MESSAGE) (\<lambda>message.
     bindM (read_region X signature_ptr MAX_LENGTH_ED25519_SIGNATURE) (\<lambda>signature.
     bindM (read_region X pubkey_ptr EDDSA_PUBKEY_LEN) (\<lambda>pubkey.
     bindM (get_env (\<lambda>e. ed25519_verify_cost (en_gas_config e))) (\<lambda>cost.
     thenM (process_gas_info X (GasInfo_with_cost cost))
     (case ed25519_verify (x_crypto X) message signature pubkey of
        Ok valid \<Rightarrow> returnM (if valid then 0 else 1)
      | Err err \<Rightarrow>
          (case err of
             BatchErr _ \<Rightarrow> panicM
           | InvalidHashFormat \<Rightarrow> panicM
           | InvalidRecoveryParam \<Rightarrow> panicM
           | _ \<Rightarrow> returnM (CryptoError_code err)))))))"

definition do_ed25519_batch_verify :: "('m, 'w) externs \<Rightarrow> u32 \<Rightarrow> u32 \<Rightarrow> u32 \<Rightarrow> ('w, u32) vmM" where
  "do_ed25519_batch_verify X messages_ptr signatures_ptr public_keys_ptr =
     bindM (read_region X messages_ptr ((MAX_LENGTH_ED25519_MESSAGE + 4) * MAX_COUNT_ED25519_BATCH)) (\<lambda>messages.
     bindM (read_region X signatures_ptr ((MAX_LENGTH_ED25519_SIGNATURE + 4) * MAX_COUNT_ED25519_BATCH)) (\<lambda>signatures.
     bindM (read_region X public_keys_ptr ((EDDSA_PUBKEY_LEN + 4) * MAX_COUNT_ED25519_BATCH)) (\<lambda>public_keys.
     bindM (unwrapM (decode_sections messages)) (\<lambda>messages.
     bindM (unwrapM (decode_sections signatures)) (\<lambda>signatures.
     bindM (unwrapM (decode_sections public_keys)) (\<lambda>public_keys.
     bindM (get_env en_gas_config) (\<lambda>cfg.
     bindM (unwrapM (prim_mul (x_checks X)
              (if length public_keys = 1 then ed25519_batch_verify_one_pubkey_cost cfg
               else ed25519_batch_verify_cost cfg) (of_nat (length signatures)))) (\<lambda>gas_cost.
     thenM (process_gas_info X (GasInfo_with_cost (max gas_cost (ed25519_verify_cost cfg))))
     (case ed25519_batch_verify (x_crypto X) messages signatures public_keys of
        Ok valid \<Rightarrow> returnM (if valid then 0 else 1)
      | Err err \<Rightarrow>
          (case err of
             InvalidHashFormat \<Rightarrow> panicM
           | InvalidRecoveryParam \<Rightarrow> panicM
           | _ \<Rightarrow> returnM (CryptoError_code err)))))))))))"

text \<open>Printing to the console is not modelled; the message is still read.\<close>

definition do_debug :: "('m, 'w) externs \<Rightarrow> u32 \<Rightarrow> ('w, unit) vmM" where
  "do_debug X message_ptr =
     bindM (get_env en_print_debug) (\<lambda>print_debug.
     if print_debug then
       bindM (read_region X message_ptr MAX_LENGTH_DEBUG) (\<lambda>message_data. returnM ())
     else returnM ())"

definition do_abort :: "('m, 'w) externs \<Rightarrow> u32 \<Rightarrow> ('w, unit) vmM" where
  "do_abort X message_ptr =
     bindM (read_region X message_ptr MAX_LENGTH_ABORT) (\<lambda>message_data.
     failM (Aborted (from_utf8_lossy message_data)))"

type_synonym query_op = "bytes \<Rightarrow> u64 \<Rightarrow> (VmError, Binary ContractResult SystemResult BackendResult) sharedM"

definition do_query_chain ::
  "('m, 'w) externs \<Rightarrow> 'w call_op \<Rightarrow> query_op \<Rightarrow> u32 \<Rightarrow> ('w, u32) vmM" where
  "do_query_chain X call query request_ptr =
     bindM (read_region X request_ptr MAX_LENGTH_QUERY_CHAIN_REQUEST) (\<lambda>request.
     bindM get_gas_left (\<lambda>gas_remaining.
     bindM (on_shared (query request gas_remaining)) (\<lambda>r.
     bindM (settle X r) (\<lambda>result.
     bindM (liftR (to_vec (js_type_name (x_serde X) ''SystemResult'') (js_query_result (x_serde X)) result)) (\<lambda>serialized.
     write_to_contract X call serialized)))))"

definition do_db_scan :: "('m, 'w) externs \<Rightarrow> u32 \<Rightarrow> u32 \<Rightarrow> int \<Rightarrow> ('w, u32) vmM" where
  "do_db_scan X start_ptr end_ptr order =
     bindM (maybe_read_region X start_ptr MAX_LENGTH_DB_KEY) (\<lambda>start.
     bindM (maybe_read_region X end_ptr MAX_LENGTH_DB_KEY) (\<lambda>end'.
     bindM (liftR (map_errR (\<lambda>_. CommunicationErr (InvalidOrder order)) (Order_try_from order))) (\<lambda>ord.
     bindM (with_storage_from_context (RpcMockStorage_scan (x_checks X) start end' ord)) (\<lambda>r.
     settle X r))))"

definition do_db_next :: "('m, 'w) externs \<Rightarrow> 'w call_op \<Rightarrow> u32 \<Rightarrow> ('w, u32) vmM" where
  "do_db_next X call iterator_id =
     bindM (with_storage_from_context (\<lambda>store. Some (RpcMockStorage_next iterator_id store))) (\<lambda>r.
     bindM (settle X r) (\<lambda>rec.
     case (case rec of Some kv \<Rightarrow> kv | None \<Rightarrow> ([], [])) of
       (key, value) \<Rightarrow>
         bindM (liftR (encode_sections [key, value])) (\<lambda>out_data.
         write_to_contract X call out_data)))"

definition ret32 :: "('w, u32) vmM \<Rightarrow> ('w, Val list) vmM" where
  "ret32 m = bindM m (\<lambda>v. returnM [I32 v])"

definition ret64 :: "('w, u64) vmM \<Rightarrow> ('w, Val list) vmM" where
  "ret64 m = bindM m (\<lambda>v. returnM [I64 v])"

definition ret0 :: "('w, unit) vmM \<Rightarrow> ('w, Val list) vmM" where
  "ret0 m = bindM m (\<lambda>_. returnM [])"

text \<open>The import object that \<^verbatim>\<open>from_module\<close> builds.\<close>

definition env_imports ::
  "('m, 'w) externs \<Rightarrow> 'w call_op \<Rightarrow> query_op \<Rightarrow> import_call \<Rightarrow> ('w, Val list) vmM" where
  "env_imports X call query c =
     (case c of
        DbRead k \<Rightarrow> ret32 (do_db_read X call k)
      | DbWrite k v \<Rightarrow> ret0 (do_db_write X k v)
      | DbRemove k \<Rightarrow> ret0 (do_db_remove X k)
      | AddrValidate s \<Rightarrow> ret32 (do_addr_validate X call s)
      | AddrCanonicalize s d \<Rightarrow> ret32 (do_addr_canonicalize X call s d)
      | AddrHumanize s d \<Rightarrow> ret32 (do_addr_humanize X call s d)
      | Secp256k1Verify h s p \<Rightarrow> ret32 (do_secp256k1_verify X h s p)
      | Secp256k1RecoverPubkey h s p \<Rightarrow> ret64 (do_secp256k1_recover_pubkey X call h s p)
      | Ed25519Verify m s p \<Rightarrow> ret32 (do_ed25519_verify X m s p)
      | Ed25519BatchVerify m s p \<Rightarrow> ret32 (do_ed25519_batch_verify X m s p)
      | Debug m \<Rightarrow> ret0 (do_debug X m)
      | Abort m \<Rightarrow> ret0 (do_abort X m)
      | QueryChain r \<Rightarrow> ret32 (do_query_chain X call query r)
      | DbScan s e ord \<Rightarrow> ret32 (do_db_scan X s e ord)
      | DbNext i \<Rightarrow> ret32 (do_db_next X call i))"

section \<open>Entry points\<close>

definition allocate :: "('m, 'w) externs \<Rightarrow> 'w call_op \<Rightarrow> nat \<Rightarrow> ('w, u32) vmM" where
  "allocate X call sz =
     bindM (liftR (to_u32 sz)) (\<lambda>n.
     bindM (call_function1 call ''allocate'' [I32 n]) (\<lambda>ret.
     bindM (liftR (ref_to_u32 X ret)) (\<lambda>ptr.
     if ptr = 0 then failM (CommunicationErr ZeroAddress) else returnM ptr)))"

definition deallocate :: "'w call_op \<Rightarrow> u32 \<Rightarrow> ('w, unit) vmM" where
  "deallocate call ptr = call_function0 call ''deallocate'' [I32 ptr]"

primrec write_args :: "('m, 'w) externs \<Rightarrow> 'w call_op \<Rightarrow> bytes list \<Rightarrow> ('w, Val list) vmM" where
  "write_args X call [] = returnM []"
| "write_args X call (arg # args) =
     bindM (allocate X call (length arg)) (\<lambda>region_ptr.
     thenM (write_region X region_ptr arg)
     (bindM (write_args X call args) (\<lambda>rest. returnM (I32 region_ptr # rest))))"

definition call_raw ::
  "('m, 'w) externs \<Rightarrow> 'w call_op \<Rightarrow> string \<Rightarrow> bytes list \<Rightarrow> nat \<Rightarrow> ('w, bytes) vmM" where
  "call_raw X call name args result_max_length =
     bindM (write_args X call args) (\<lambda>arg_region_ptrs.
     bindM (call_function1 call name arg_region_ptrs) (\<lambda>result.
     bindM (liftR (ref_to_u32 X result)) (\<lambda>res_region_ptr.
     bindM (read_region X res_region_ptr result_max_length) (\<lambda>data.
     thenM (deallocate call res_region_ptr) (returnM data)))))"

definition set_storage_readonly :: "bool \<Rightarrow> ('w, unit) vmM" where
  "set_storage_readonly new_value = on_env (\<lambda>e. e\<lparr>en_storage_readonly := new_value\<rparr>)"

definition READ_LIMIT :: nat where "READ_LIMIT = 64 * MI"
definition DESERIALIZATION_LIMIT :: nat where "DESERIALIZATION_LIMIT = 256 * KI"

definition call_instantiate_raw ::
  "('m, 'w) externs \<Rightarrow> 'w call_op \<Rightarrow> bytes \<Rightarrow> bytes \<Rightarrow> bytes \<Rightarrow> ('w, bytes) vmM" where
  "call_instantiate_raw X call env info msg =
     thenM (set_storage_readonly False) (call_raw X call ''instantiate'' [env, info, msg] READ_LIMIT)"

definition call_execute_raw ::
  "('m, 'w) externs \<Rightarrow> 'w call_op \<Rightarrow> bytes \<Rightarrow> bytes \<Rightarrow> bytes \<Rightarrow> ('w, bytes) vmM" where
  "call_execute_raw X call env info msg =
     thenM (set_storage_readonly False) (call_raw X call ''execute'' [env, info, msg] READ_LIMIT)"

definition call_reply_raw ::
  "('m, 'w) externs \<Rightarrow> 'w call_op \<Rightarrow> bytes \<Rightarrow> bytes \<Rightarrow> ('w, bytes) vmM" where
  "call_reply_raw X call env msg =
     thenM (set_storage_readonly False) (call_raw X call ''reply'' [env, msg] READ_LIMIT)"

definition call_query_raw ::
  "('m, 'w) externs \<Rightarrow> 'w call_op \<Rightarrow> bytes \<Rightarrow> bytes \<Rightarrow> ('w, bytes) vmM" where
  "call_query_raw X call env msg =
     thenM (set_storage_readonly True) (call_raw X call ''query'' [env, msg] READ_LIMIT)"

definition parse_response :: "('m, 'w) externs \<Rightarrow> bytes \<Rightarrow> (VmError, Response ContractResult) result" where
  "parse_response X data =
     from_slice (js_type_name (x_serde X) ''ContractResult<Response>'') (js_response (x_serde X)) data
       DESERIALIZATION_LIMIT"

definition json_env :: "('m, 'w) externs \<Rightarrow> Env \<Rightarrow> (VmError, bytes) result" where
  "json_env X env = to_vec (js_type_name (x_serde X) ''Env'') (js_env (x_serde X)) env"

definition json_info :: "('m, 'w) externs \<Rightarrow> MessageInfo \<Rightarrow> (VmError, bytes) result" where
  "json_info X info = to_vec (js_type_name (x_serde X) ''MessageInfo'') (js_info (x_serde X)) info"

definition call_instantiate ::
  "('m, 'w) externs \<Rightarrow> 'w call_op \<Rightarrow> Env \<Rightarrow> MessageInfo \<Rightarrow> bytes \<Rightarrow> ('w, Response ContractResult) vmM" where
  "call_instantiate X call env info msg =
     bindM (liftR (json_env X env)) (\<lambda>env.
     bindM (liftR (json_info X info)) (\<lambda>info.
     bindM (call_instantiate_raw X call env info msg) (\<lambda>data.
     liftR (parse_response X data))))"

definition call_execute ::
  "('m, 'w) externs \<Rightarrow> 'w call_op \<Rightarrow> Env \<Rightarrow> MessageInfo \<Rightarrow> bytes \<Rightarrow> ('w, Response ContractResult) vmM" where
  "call_execute X call env info msg =
     bindM (liftR (json_env X env)) (\<lambda>env.
     bindM (liftR (json_info X info)) (\<lambda>info.
     bindM (call_execute_raw X call env info msg) (\<lambda>data.
     liftR (parse_response X data))))"

definition call_reply ::
  "('m, 'w) externs \<Rightarrow> 'w call_op \<Rightarrow> Env \<Rightarrow> Reply \<Rightarrow> ('w, Response ContractResult) vmM" where
  "call_reply X call env msg =
     bindM (liftR (json_env X env)) (\<lambda>env.
     bindM (liftR (to_vec (js_type_name (x_serde X) ''Reply'') (js_reply (x_serde X)) msg)) (\<lambda>msg.
     bindM (call_reply_raw X call env msg) (\<lambda>data.
     liftR (parse_response X data))))"

definition call_query ::
  "('m, 'w) externs \<Rightarrow> 'w call_op \<Rightarrow> Env \<Rightarrow> bytes \<Rightarrow> ('w, Binary ContractResult) vmM" where
  "call_query X call env msg =
     bindM (liftR (json_env X env)) (\<lambda>env.
     bindM (call_query_raw X call env msg) (\<lambda>data.
     bindM (liftR (from_slice (js_type_name (x_serde X) ''ContractResult<QueryResponse>'')
                     (js_query_response (x_serde X)) data DESERIALIZATION_LIMIT)) (\<lambda>result.
     case result of
       ContractResult_Ok binary_response \<Rightarrow>
         (case js_value_error (x_serde X) binary_response of
            Some e \<Rightarrow> failM (GenericErr (''Query response must be valid JSON. '' @ e))
          | None \<Rightarrow> returnM result)
     | ContractResult_Err _ \<Rightarrow> returnM result)))"

end
