(* ===== verification/Querier.thy ===== *)
theory Querier
  imports Imports
begin

text \<open>
  Contract instances of the simulator (\<^verbatim>\<open>core/src/fork/instance.rs\<close>) and the querier they
  reach through the VM (\<^verbatim>\<open>querier.rs\<close>).  A query runs a fresh instance on a private copy of the
  queried contract's storage.  \<open>vm_call\<close> ties the knot: calling an export may call imports, which
  may call exports of the same instance or query other contracts; its first argument bounds the
  depth of that nesting, and running out of it is \<open>Diverge\<close>.
\<close>

section \<open>\<^verbatim>\<open>RpcContractInstance\<close>\<close>

record 'w RpcContractInstance =
  ri_contract_info :: ContractInfo
  ri_instance :: "'w Environment"

definition RpcContractInstance_new :: "Addr \<Rightarrow> 'w Environment \<Rightarrow> 'w RpcContractInstance" where
  "RpcContractInstance_new address instance =
     \<lparr>ri_contract_info = \<lparr>ci_address = address\<rparr>, ri_instance = instance\<rparr>"

definition RpcContractInstance_address :: "'w RpcContractInstance \<Rightarrow> Addr" where
  "RpcContractInstance_address self = ci_address (ri_contract_info self)"

definition vm_error :: "VmError \<Rightarrow> Error" where
  "vm_error e = Error_VmError (VmError_to_string e)"

text \<open>
  A call on an instance that the caller holds in a variable: the call's result and the instance
  as the call leaves it.
\<close>

definition with_instance ::
  "'w RpcContractInstance \<Rightarrow> ('w Environment \<times> Shared, 'd, 'a) M
     \<Rightarrow> ('e, ('d, 'a) result \<times> 'w RpcContractInstance) sharedM" where
  "with_instance self m s =
     (case m (ri_instance self, s) of
        (Ret a, (e, s')) \<Rightarrow> (Ret (Ok a, self\<lparr>ri_instance := e\<rparr>), s')
      | (Fail d, (e, s')) \<Rightarrow> (Ret (Err d, self\<lparr>ri_instance := e\<rparr>), s')
      | (Panic, (e, s')) \<Rightarrow> (Panic, s')
      | (Diverge, (e, s')) \<Rightarrow> (Diverge, s'))"

definition RpcContractInstance_instantiate ::
  "('m, 'w) externs \<Rightarrow> 'w call_op \<Rightarrow> Env \<Rightarrow> bytes \<Rightarrow> Addr \<Rightarrow> Coin list
     \<Rightarrow> ('w Environment \<times> Shared, Error, Response ContractResult) M" where
  "RpcContractInstance_instantiate X call env msg sender funds =
     map_errM vm_error (call_instantiate X call env \<lparr>mi_sender = sender, mi_funds = funds\<rparr> msg)"

definition RpcContractInstance_execute ::
  "('m, 'w) externs \<Rightarrow> 'w call_op \<Rightarrow> Env \<Rightarrow> bytes \<Rightarrow> Addr \<Rightarrow> Coin list
     \<Rightarrow> ('w Environment \<times> Shared, Error, Response ContractResult) M" where
  "RpcContractInstance_execute X call env msg sender funds =
     map_errM vm_error (call_execute X call env \<lparr>mi_sender = sender, mi_funds = funds\<rparr> msg)"

definition RpcContractInstance_reply ::
  "('m, 'w) externs \<Rightarrow> 'w call_op \<Rightarrow> Env \<Rightarrow> Reply
     \<Rightarrow> ('w Environment \<times> Shared, Error, Response ContractResult) M" where
  "RpcContractInstance_reply X call env msg = map_errM vm_error (call_reply X call env msg)"

definition RpcContractInstance_query ::
  "('m, 'w) externs \<Rightarrow> 'w call_op \<Rightarrow> ContractInfo \<Rightarrow> Env \<Rightarrow> WasmQuery
     \<Rightarrow> ('w Environment \<times> Shared, Error, Binary) M" where
  "RpcContractInstance_query X call contract_info env wasm_query =
     (case wasm_query of
        WasmQuery_ContractInfo _ \<Rightarrow> unwrapR (js_contract_info (x_serde X) contract_info)
      | WasmQuery_Raw _ key \<Rightarrow>
          bindM (map_errM vm_error
            (bindM (with_storage_from_context (\<lambda>s. Some (RpcMockStorage_get s key, s))) (\<lambda>(res, _).
             liftR (map_errR BackendErr res)))) (\<lambda>value.
          returnM (case value of Some v \<Rightarrow> v | None \<Rightarrow> []))
      | WasmQuery_Smart _ msg \<Rightarrow>
          bindM (map_errM vm_error (call_query X call env msg)) (\<lambda>r.
          case r of
            ContractResult_Ok r \<Rightarrow> returnM r
          | ContractResult_Err e \<Rightarrow> failM (Error_VmError e)))"

definition RpcContractInstance_storage_write ::
  "bytes \<Rightarrow> bytes \<Rightarrow> ('w Environment \<times> Shared, Error, unit) M" where
  "RpcContractInstance_storage_write key value =
     map_errM vm_error
       (bindM (with_storage_from_context (\<lambda>s. Some (RpcMockStorage_set key value s))) (\<lambda>(b, _).
        liftR (map_errR BackendErr b)))"

section \<open>\<^verbatim>\<open>RpcMockQuerier\<close>\<close>

definition PRINTER_ADDR :: string where
  "PRINTER_ADDR = ''supergodprinter''"

definition WASM_MAGIC :: bytes where
  "WASM_MAGIC = [0, 97, 115, 109]"

definition GZIP_MAGIC :: bytes where
  "GZIP_MAGIC = [0, 0, 0, 0]"

text \<open>
  \<^verbatim>\<open>maybe_unzip\<close> panics on input shorter than four bytes and on every magic number but Wasm's
  (\<^verbatim>\<open>unimplemented!\<close>).
\<close>

definition maybe_unzip :: "bytes \<Rightarrow> ('s, Error, bytes) M" where
  "maybe_unzip input =
     (if length input < 4 then panicM
      else let magic = take 4 input in
        if magic = WASM_MAGIC then returnM input
        else if magic = GZIP_MAGIC then panicM
        else panicM)"

definition on_shared_client :: "'a clientM \<Rightarrow> (Error, 'a) sharedM" where
  "on_shared_client m = on_states (on_client m)"

definition insert_contract :: "Addr \<Rightarrow> ContractState \<Rightarrow> ('e, unit) sharedM" where
  "insert_contract addr cs = modifyM (\<lambda>s. s\<lparr>sh_states := contract_state_insert addr cs (sh_states s)\<rparr>)"

definition fetch_contract_state :: "('m, 'w) externs \<Rightarrow> Addr \<Rightarrow> (Error, unit) sharedM" where
  "fetch_contract_state X contract_addr =
     bindM (getM (\<lambda>s. contract_state_get (sh_states s) contract_addr)) (\<lambda>known.
     case known of
       Some _ \<Rightarrow> returnM ()
     | None \<Rightarrow>
         bindM (on_shared_client (query_wasm_contract_info (x_client X) contract_addr)) (\<lambda>code_id.
         bindM (on_shared_client (query_wasm_contract_code (x_client X) code_id)) (\<lambda>code.
         bindM (maybe_unzip code) (\<lambda>wasm_code.
         bindM (on_shared_client (query_wasm_contract_state_all (x_client X) contract_addr)) (\<lambda>storage.
         insert_contract contract_addr \<lparr>cs_code = wasm_code, cs_storage = storage\<rparr>)))))"

definition block_env :: "AllStates \<Rightarrow> Addr \<Rightarrow> Env" where
  "block_env states contract_addr =
     \<lparr>env_block = \<lparr>bi_height = as_block_number states, bi_time = as_block_timestamp states,
                   bi_chain_id = as_chain_id states\<rparr>,
      env_transaction = Some \<lparr>ti_index = 0\<rparr>,
      env_contract = \<lparr>ci_address = contract_addr\<rparr>\<rparr>"

definition U64_MAX :: u64 where
  "U64_MAX = - 1"

type_synonym query_answer = "Binary ContractResult SystemResult BackendResult"

definition answer_ok :: "Binary \<Rightarrow> query_answer" where
  "answer_ok resp = (Ok (SystemResult_Ok (ContractResult_Ok resp)), GasInfo_free)"

definition answer_err :: "string \<Rightarrow> query_answer" where
  "answer_err msg = (Err (BackendError_Unknown msg), GasInfo_free)"

definition wasm_query_addr :: "WasmQuery \<Rightarrow> Addr" where
  "wasm_query_addr q =
     (case q of
        WasmQuery_ContractInfo contract_addr \<Rightarrow> contract_addr
      | WasmQuery_Raw contract_addr _ \<Rightarrow> contract_addr
      | WasmQuery_Smart contract_addr _ \<Rightarrow> contract_addr)"

text \<open>The last part of \<^verbatim>\<open>query_raw\<close>: the query on the new instance, inside a call context.\<close>

definition run_query ::
  "('m, 'w) externs \<Rightarrow> 'w call_op \<Rightarrow> 'w RpcContractInstance \<Rightarrow> Env \<Rightarrow> WasmQuery
     \<Rightarrow> ('e, query_answer) sharedM" where
  "run_query X call instance env wasm_query =
     bindM (case wasm_query of
              WasmQuery_Smart _ msg \<Rightarrow>
                bindM (on_log_begin (begin_query (js_display (x_serde X))
                         (RpcContractInstance_address instance) msg))
                  (\<lambda>i. returnM (Some i))
            | _ \<Rightarrow> returnM None) (\<lambda>call_id.
     bindM (with_instance instance
              (RpcContractInstance_query X call (ri_contract_info instance) env wasm_query)) (\<lambda>(r, _).
     thenM (case call_id of
              Some i \<Rightarrow> on_log (end_query i)
            | None \<Rightarrow> returnM ())
     (returnM (case r of
                 Ok response \<Rightarrow> answer_ok response
               | Err e \<Rightarrow> answer_err (Error_to_string e)))))"

definition query_contract ::
  "('m, 'w) externs \<Rightarrow> 'w call_op \<Rightarrow> WasmQuery \<Rightarrow> ('e, query_answer) sharedM" where
  "query_contract X call wasm_query =
     (let contract_addr = wasm_query_addr wasm_query in
      bindM (tryM (fetch_contract_state X contract_addr)) (\<lambda>fetched.
      case fetched of
        Err e \<Rightarrow> returnM (answer_err (Error_to_string e))
      | Ok _ \<Rightarrow>
          bindM (getM (\<lambda>s. block_env (sh_states s) contract_addr)) (\<lambda>env.
          bindM (getM (\<lambda>s. contract_state_get (sh_states s) contract_addr)) (\<lambda>found.
          bindM (unwrapM found) (\<lambda>contract_state.
          bindM (getM sh_states) (\<lambda>states.
          case RpcMockApi_new (as_canonical_address_length states) (as_bech32_prefix states) of
            Err e \<Rightarrow> returnM (answer_err (Error_to_string e))
          | Ok api \<Rightarrow>
              (case from_code X (cs_code contract_state) api
                      (PrivateStorage (cs_storage contract_state)) U64_MAX False of
                 Err e \<Rightarrow> returnM (answer_err (VmError_to_string e))
               | Ok wasm_instance \<Rightarrow>
                   run_query X call (RpcContractInstance_new contract_addr wasm_instance) env
                     wasm_query)))))))"

definition query_printer ::
  "('m, 'w) externs \<Rightarrow> WasmQuery \<Rightarrow> ('e, query_answer) sharedM" where
  "query_printer X wasm_query =
     (case wasm_query of
        WasmQuery_Smart _ msg \<Rightarrow>
          bindM (unwrapR (js_print_request (x_serde X) msg)) (\<lambda>text.
          thenM (on_log (append_stdout text))
          (bindM (unwrapR (js_print_response (x_serde X) True)) (\<lambda>resp. returnM (answer_ok resp))))
      | _ \<Rightarrow> panicM)"

definition query_bank :: "('m, 'w) externs \<Rightarrow> BankQuery \<Rightarrow> ('e, query_answer) sharedM" where
  "query_bank X query =
     bindM (tryM (on_states (bank_query (x_client X) (js_balance_response (x_serde X))
              (js_all_balance_response (x_serde X)) query))) (\<lambda>r.
     returnM (case r of Ok resp \<Rightarrow> answer_ok resp | Err e \<Rightarrow> answer_err (Error_to_string e)))"

definition query_raw ::
  "('m, 'w) externs \<Rightarrow> 'w call_op \<Rightarrow> bytes \<Rightarrow> u64 \<Rightarrow> ('e, query_answer) sharedM" where
  "query_raw X call request gas_limit =
     (case js_query_request (x_serde X) request of
        Err e \<Rightarrow> returnM (answer_err e)
      | Ok (QueryRequest_Bank query) \<Rightarrow> query_bank X query
      | Ok (QueryRequest_Wasm wasm_query) \<Rightarrow>
          if wasm_query_addr wasm_query = PRINTER_ADDR then query_printer X wasm_query
          else query_contract X call wasm_query
      | Ok _ \<Rightarrow> panicM)"

section \<open>The knot\<close>

fun vm_call :: "('m, 'w) externs \<Rightarrow> nat \<Rightarrow> 'w call_op" where
  "vm_call X 0 name args = divergeM"
| "vm_call X (Suc n) name args =
     call_function X (env_imports X (vm_call X n) (query_raw X (vm_call X n))) name args"

declare vm_call.simps [simp del]

end
