(* ===== verification/Isolation.thy ===== *)
theory Isolation
  imports Querier
begin

text \<open>
  What a running contract may change.  \<open>chain_le own\<close> relates two chain states: nothing that was
  there disappears, only the storage of contract \<open>own\<close> may differ, and the block stays the same.
  \<open>vm_le\<close> relates two states of a running instance, whose \<open>own\<close> is its contract unless the
  storage is read only or a private copy.  The locale \<open>vm_calls\<close> is what the import functions
  need of the exports they call back, \<open>vm_host\<close> adds the querier; both are interpreted on
  \<open>vm_call\<close> and \<open>query_raw\<close>.
\<close>

section \<open>The chain state\<close>

definition stores_ok :: "AllStates \<Rightarrow> bool" where
  "stores_ok st \<longleftrightarrow> (\<forall>a cs. as_contract_states st a = Some cs \<longrightarrow> bt_inv (cs_storage cs))"

definition contracts_le :: "Addr option \<Rightarrow> (Addr \<rightharpoonup> ContractState) \<Rightarrow> (Addr \<rightharpoonup> ContractState) \<Rightarrow> bool" where
  "contracts_le own m n \<longleftrightarrow>
     (\<forall>a cs. m a = Some cs \<longrightarrow>
        (\<exists>cs'. n a = Some cs' \<and> cs_code cs' = cs_code cs \<and> (own \<noteq> Some a \<longrightarrow> cs' = cs)))"

definition same_block :: "AllStates \<Rightarrow> AllStates \<Rightarrow> bool" where
  "same_block s t \<longleftrightarrow>
     as_block_number t = as_block_number s \<and> as_block_timestamp t = as_block_timestamp s \<and>
     as_chain_id t = as_chain_id s \<and> as_bech32_prefix t = as_bech32_prefix s \<and>
     as_canonical_address_length t = as_canonical_address_length s"

definition chain_le :: "Addr option \<Rightarrow> AllStates \<times> World \<Rightarrow> AllStates \<times> World \<Rightarrow> bool" where
  "chain_le own s t \<longleftrightarrow>
     contracts_le own (as_contract_states (fst s)) (as_contract_states (fst t)) \<and>
     as_bank_states (fst s) \<subseteq>\<^sub>m as_bank_states (fst t) \<and> same_block (fst s) (fst t) \<and>
     (stores_ok (fst s) \<longrightarrow> stores_ok (fst t)) \<and>
     client_le (as_client (fst s), snd s) (as_client (fst t), snd t)"

lemma contracts_le_refl: "contracts_le own m m"
  by (simp add: contracts_le_def)

lemma contracts_le_trans:
  assumes "contracts_le own l m" and "contracts_le own m n"
  shows "contracts_le own l n"
  unfolding contracts_le_def
proof (intro allI impI)
  fix a cs
  assume "l a = Some cs"
  with assms(1) obtain cs1 where 1: "m a = Some cs1" "cs_code cs1 = cs_code cs" "own \<noteq> Some a \<longrightarrow> cs1 = cs"
    unfolding contracts_le_def by blast
  with assms(2) obtain cs2 where "n a = Some cs2" "cs_code cs2 = cs_code cs1" "own \<noteq> Some a \<longrightarrow> cs2 = cs1"
    unfolding contracts_le_def by blast
  with 1 show "\<exists>cs'. n a = Some cs' \<and> cs_code cs' = cs_code cs \<and> (own \<noteq> Some a \<longrightarrow> cs' = cs)"
    by auto
qed

lemma contracts_le_None: "contracts_le None m n \<longleftrightarrow> m \<subseteq>\<^sub>m n"
  by (auto simp: contracts_le_def map_le_def dom_def)

lemma contracts_le_any: "contracts_le None m n \<Longrightarrow> contracts_le own m n"
  by (fastforce simp: contracts_le_def)

interpretation chain: kept "chain_le own"
proof
  show "chain_le own s s" for s
    by (simp add: chain_le_def contracts_le_refl same_block_def cl.kept_refl)
  show "chain_le own s u" if "chain_le own s t" "chain_le own t u" for s t u
    using that by (auto simp: chain_le_def same_block_def
        intro: contracts_le_trans map_le_trans cl.kept_trans)
qed

lemma chain_le_any: "chain_le None s t \<Longrightarrow> chain_le own s t"
  by (simp add: chain_le_def contracts_le_any)

lemma keeps_chain_client: "keeps client_le m \<Longrightarrow> keeps (chain_le own) (on_client m)"
  unfolding on_client_def
  by (erule keeps_zoom) (auto simp: chain_le_def contracts_le_refl same_block_def stores_ok_def)

lemma keeps_fetch_bank_state: "keeps (chain_le own) (fetch_bank_state E owner)"
proof (rule keepsI, clarify)
  fix s w
  show "chain_le own (s, w) (snd (fetch_bank_state E owner (s, w)))"
  proof (cases "as_bank_states s owner")
    case (Some m)
    then show ?thesis
      by (simp add: fetch_bank_state_def get_bank_state_def m_simps chain.kept_refl)
  next
    case None
    obtain r c w' where q: "query_bank_all_balances E owner (as_client s, w) = (r, (c, w'))"
      by (metis surj_pair)
    then have le: "client_le (as_client s, w) (c, w')"
      using keepsD [OF keeps_client_queries(1)] by blast
    have "as_bank_states s \<subseteq>\<^sub>m (as_bank_states s)(owner \<mapsto> v)" for v
      using None by (auto simp: map_le_def)
    then show ?thesis
      using q le None
      by (cases r)
        (auto simp: fetch_bank_state_def get_bank_state_def on_client_def on_self_def m_simps
          insert_bank_state_def chain_le_def contracts_le_refl same_block_def stores_ok_def)
  qed
qed

lemma keeps_bank_query: "keeps (chain_le own) (bank_query E j k q)"
  unfolding bank_query_def get_balance_def get_balances_def
  by (cases q) (auto intro!: chain.bind chain.return chain.lift_result keeps_fetch_bank_state)

section \<open>The shared state\<close>

definition shared_le :: "Addr option \<Rightarrow> nat \<Rightarrow> Shared \<Rightarrow> Shared \<Rightarrow> bool" where
  "shared_le own K s t \<longleftrightarrow>
     chain_le own (sh_states s, sh_world s) (sh_states t, sh_world t) \<and>
     log_step K (sh_debug_log s) (sh_debug_log t)"

interpretation shr: kept "shared_le own K"
  by unfold_locales
    (auto simp: shared_le_def chain.kept_refl log_step_refl intro: chain.kept_trans log_step_trans)

lemma shared_le_any: "shared_le None K s t \<Longrightarrow> shared_le own K s t"
  by (simp add: shared_le_def chain_le_any)

lemma keeps_shared_any: "keeps (shared_le None K) m \<Longrightarrow> keeps (shared_le own K) m"
  by (simp add: keeps_def shared_le_any)

lemma keeps_on_states: "keeps (chain_le own) m \<Longrightarrow> keeps (shared_le own K) (on_states m)"
  unfolding on_states_def by (erule keeps_zoom) (auto simp: shared_le_def log_step_refl)

lemma keeps_on_log: "(\<And>d. log_step K d (f d)) \<Longrightarrow> keeps (shared_le own K) (on_log f)"
  unfolding on_log_def by (rule keeps_modify) (simp add: shared_le_def chain.kept_refl)

lemma keeps_begin:
  assumes "\<And>i K'. i \<le> K' \<Longrightarrow> keeps (shared_le own K') (g i)"
  shows "keeps (shared_le own K) (bindM (on_log_begin (begin_context j k a msg)) g)"
proof (rule keepsI)
  fix s
  show "shared_le own K s (snd (bindM (on_log_begin (begin_context j k a msg)) g s))"
  proof (cases "begin_context j k a msg (sh_debug_log s)")
    case None
    then show ?thesis by (simp add: on_log_begin_def m_simps shr.kept_refl)
  next
    case (Some r)
    obtain i d where r: "r = (i, d)" by (cases r)
    let ?s = "s\<lparr>sh_debug_log := d\<rparr>"
    have eq: "bindM (on_log_begin (begin_context j k a msg)) g s = g i ?s"
      using Some r by (simp add: on_log_begin_def m_simps)
    have "shared_le own (max K i) ?s (snd (g i ?s))"
      using assms [of i "max K i"] by (simp add: keeps_def)
    then show ?thesis
      using log_step_begin [OF Some [unfolded r]] by (auto simp: eq shared_le_def)
  qed
qed

lemma keeps_maybe_unzip: "keeps (shared_le own K) (maybe_unzip input)"
  by (simp add: maybe_unzip_def Let_def shr.return shr.panic)

lemma keeps_shared_client: "keeps client_le m \<Longrightarrow> keeps (shared_le own K) (on_shared_client m)"
  unfolding on_shared_client_def by (intro keeps_on_states keeps_chain_client)

text \<open>A call on the client replaces the client and the world.\<close>

definition at_client :: "Shared \<Rightarrow> Client \<Rightarrow> World \<Rightarrow> Shared" where
  "at_client s c w = s\<lparr>sh_states := (sh_states s)\<lparr>as_client := c\<rparr>, sh_world := w\<rparr>"

definition client_of :: "Shared \<Rightarrow> Client \<times> World" where
  "client_of s = (as_client (sh_states s), sh_world s)"

lemma at_client_simps [simp]:
  "at_client (at_client s c w) c' w' = at_client s c' w'"
  "client_of (at_client s c w) = (c, w)"
  "as_contract_states (sh_states (at_client s c w)) = as_contract_states (sh_states s)"
  "sh_debug_log (at_client s c w) = sh_debug_log s"
  by (simp_all add: at_client_def client_of_def)

lemma on_shared_client_cases:
  assumes "keeps client_le m"
  obtains r c w where "m (client_of s) = (r, (c, w))" and "on_shared_client m s = (r, at_client s c w)"
    and "client_le (client_of s) (c, w)"
proof -
  obtain r c w where m: "m (client_of s) = (r, (c, w))" by (metis surj_pair)
  moreover have "on_shared_client m s = (r, at_client s c w)"
    using m by (simp add: on_shared_client_def on_states_def on_client_def m_simps client_of_def at_client_def)
  ultimately show ?thesis using that keepsD [OF assms m] by blast
qed

lemma at_client_le: "client_le (client_of s) (c, w) \<Longrightarrow> shared_le own K s (at_client s c w)"
  by (simp add: shared_le_def chain_le_def client_of_def at_client_def contracts_le_refl same_block_def
      log_step_refl stores_ok_def)

lemma insert_contract_le:
  assumes "client_le (client_of s) (c, w)" and "as_contract_states (sh_states s) a = None"
    and "bt_inv (cs_storage cs)"
  shows "shared_le own K s ((at_client s c w)\<lparr>sh_states :=
    contract_state_insert a cs (sh_states (at_client s c w))\<rparr>)"
proof -
  have "contracts_le own m (m(a \<mapsto> cs))" if "m a = None" for m
    using that by (auto simp: contracts_le_def)
  then show ?thesis
    using assms by (auto simp: shared_le_def chain_le_def client_of_def at_client_def
        contract_state_insert_def same_block_def log_step_refl stores_ok_def)
qed

text \<open>How fetching ends when the contract is not there yet.\<close>

lemma fetch_cases:
  assumes "as_contract_states (sh_states s) a = None"
  obtains (stop) r c w where "fetch_contract_state X a s = (r, at_client s c w)"
      and "client_le (client_of s) (c, w)" and "r \<noteq> Ret ()"
  | (fetched) cs c w where "client_le (client_of s) (c, w)" and "bt_inv (cs_storage cs)"
      and "fetch_contract_state X a s =
        (Ret (), (at_client s c w)\<lparr>sh_states := contract_state_insert a cs (sh_states (at_client s c w))\<rparr>)"
proof -
  let ?E = "x_client X"
  define rest where "rest = (\<lambda>code_id.
    bindM (on_shared_client (query_wasm_contract_code ?E code_id)) (\<lambda>code.
    bindM (maybe_unzip code) (\<lambda>wasm_code.
    bindM (on_shared_client (query_wasm_contract_state_all ?E a)) (\<lambda>storage.
    insert_contract a \<lparr>cs_code = wasm_code, cs_storage = storage\<rparr>))))"
  have eq: "fetch_contract_state X a s =
      bindM (on_shared_client (query_wasm_contract_info ?E a)) rest s"
    using assms unfolding fetch_contract_state_def contract_state_get_def rest_def
    by (simp add: bindM_def getM_def)
  obtain r1 c1 w1 where 1: "on_shared_client (query_wasm_contract_info ?E a) s = (r1, at_client s c1 w1)"
    "client_le (client_of s) (c1, w1)"
    by (rule on_shared_client_cases [OF keeps_client_queries(4) [of ?E a], of s])
  show thesis
  proof (cases r1)
    case (Ret code_id)
    obtain r2 c2 w2 where 2: "on_shared_client (query_wasm_contract_code ?E code_id) (at_client s c1 w1) =
        (r2, at_client s c2 w2)" "client_le (c1, w1) (c2, w2)"
      by (rule on_shared_client_cases [OF keeps_client_queries(5) [of ?E code_id], of "at_client s c1 w1"]) simp
    have le2: "client_le (client_of s) (c2, w2)" using cl.kept_trans [OF 1(2) 2(2)] .
    show thesis
    proof (cases "\<exists>code. r2 = Ret code \<and> (maybe_unzip code :: ('s, Error, bytes) M) = returnM code")
      case False
      then have "\<exists>r. rest code_id (at_client s c1 w1) = (r, at_client s c2 w2) \<and> r \<noteq> Ret ()"
        using 2(1) by (cases r2) (auto simp: rest_def m_simps maybe_unzip_def Let_def split: if_splits)
      then show thesis using stop le2 eq 1(1) Ret by (auto simp: bindM_def)
    next
      case True
      then obtain code where code: "r2 = Ret code" "length code \<ge> 4 \<and> take 4 code = WASM_MAGIC"
        by (auto simp: maybe_unzip_def Let_def fun_eq_iff m_simps split: if_splits)
      obtain r3 c3 w3 where 3: "query_wasm_contract_state_all ?E a (c2, w2) = (r3, (c3, w3))"
        "on_shared_client (query_wasm_contract_state_all ?E a) (at_client s c2 w2) = (r3, at_client s c3 w3)"
        "client_le (c2, w2) (c3, w3)"
        by (rule on_shared_client_cases [OF keeps_client_queries(3) [of ?E a], of "at_client s c2 w2"]) simp
      have le3: "client_le (client_of s) (c3, w3)" using cl.kept_trans [OF le2 3(3)] .
      have run: "fetch_contract_state X a s = bindM (on_shared_client (query_wasm_contract_state_all ?E a))
          (\<lambda>storage. insert_contract a \<lparr>cs_code = code, cs_storage = storage\<rparr>) (at_client s c2 w2)"
        using eq 1(1) Ret 2(1) code by (simp add: bindM_def rest_def maybe_unzip_def Let_def returnM_def)
      show thesis
      proof (cases r3)
        case (Ret storage)
        then show thesis
          using fetched [OF le3, of "\<lparr>cs_code = code, cs_storage = storage\<rparr>"] state_all_inv [OF 3(1) [unfolded Ret]]
          by (simp add: run 3(2) bindM_def insert_contract_def modifyM_def)
      qed (use stop le3 in \<open>auto simp: run 3(2) bindM_def\<close>)
    qed
  qed (use stop 1 eq in \<open>auto simp: bindM_def\<close>)
qed

lemma fetch_known:
  "as_contract_states (sh_states s) a = Some cs \<Longrightarrow> fetch_contract_state X a s = (Ret (), s)"
  by (simp add: fetch_contract_state_def contract_state_get_def m_simps)

lemma keeps_fetch: "keeps (shared_le own K) (fetch_contract_state X a)"
proof (rule keepsI)
  fix s
  show "shared_le own K s (snd (fetch_contract_state X a s))"
  proof (cases "as_contract_states (sh_states s) a")
    case None
    then show ?thesis
      by (cases rule: fetch_cases [of s a X]) (auto intro: at_client_le insert_contract_le [OF _ None])
  qed (simp add: fetch_known shr.kept_refl)
qed

lemma fetch_present:
  assumes "fetch_contract_state X a s = (Ret (), t)"
  shows "\<exists>cs. as_contract_states (sh_states t) a = Some cs"
proof (cases "as_contract_states (sh_states s) a")
  case None
  then show ?thesis
    using assms by (cases rule: fetch_cases [of s a X]) (auto simp: contract_state_insert_def)
qed (use assms in \<open>simp add: fetch_known\<close>)

section \<open>A running instance\<close>

definition gas_left :: "'w Environment \<Rightarrow> u64" where
  "gas_left e = (case en_points e of Some count \<Rightarrow> count | None \<Rightarrow> 0)"

definition same_storage :: "bool \<Rightarrow> StorageRef \<Rightarrow> StorageRef \<Rightarrow> bool" where
  "same_storage readonly r r' =
     (case (r, r') of
        (SharedStorage a, SharedStorage b) \<Rightarrow> a = b
      | (PrivateStorage m, PrivateStorage n) \<Rightarrow> readonly \<longrightarrow> n = m
      | _ \<Rightarrow> False)"

definition env_le :: "'w Environment \<Rightarrow> 'w Environment \<Rightarrow> bool" where
  "env_le e f \<longleftrightarrow>
     en_api f = en_api e \<and> en_print_debug f = en_print_debug e \<and> en_gas_config f = en_gas_config e \<and>
     gs_gas_limit (en_gas_state f) = gs_gas_limit (en_gas_state e) \<and>
     en_storage_readonly f = en_storage_readonly e \<and>
     same_storage (en_storage_readonly e) (en_storage e) (en_storage f) \<and> gas_left f \<le> gas_left e"

definition own_of :: "'w Environment \<Rightarrow> Addr option" where
  "own_of e =
     (if en_storage_readonly e then None
      else case en_storage e of SharedStorage a \<Rightarrow> Some a | PrivateStorage _ \<Rightarrow> None)"

definition vm_le :: "nat \<Rightarrow> 'w Environment \<times> Shared \<Rightarrow> 'w Environment \<times> Shared \<Rightarrow> bool" where
  "vm_le K s t \<longleftrightarrow> env_le (fst s) (fst t) \<and> shared_le (own_of (fst s)) K (snd s) (snd t)"

lemma same_storage_refl: "same_storage b r r"
  by (cases r) (simp_all add: same_storage_def)

lemma same_storage_trans: "same_storage b q r \<Longrightarrow> same_storage b r s \<Longrightarrow> same_storage b q s"
  by (auto simp: same_storage_def split: StorageRef.splits)

lemma env_le_refl: "env_le e e"
  by (simp add: env_le_def same_storage_refl)

lemma env_le_trans: "env_le e f \<Longrightarrow> env_le f g \<Longrightarrow> env_le e g"
  by (auto simp: env_le_def intro: same_storage_trans)

lemma own_of_env_le: "env_le e f \<Longrightarrow> own_of f = own_of e"
  by (auto simp: env_le_def own_of_def same_storage_def split: StorageRef.splits)

interpretation vm: kept "vm_le K"
  by unfold_locales
    (auto simp: vm_le_def env_le_refl shr.kept_refl own_of_env_le intro: env_le_trans shr.kept_trans)

lemma keeps_on_env: "(\<And>e. env_le e (f e)) \<Longrightarrow> keeps (vm_le K) (on_env f)"
  unfolding on_env_def by (rule keeps_modify) (simp add: vm_le_def shr.kept_refl)

lemma keeps_get_env: "keeps (vm_le K) (get_env f)"
  unfolding get_env_def by (rule vm.get)

lemma keeps_on_shared: "keeps (shared_le None K) m \<Longrightarrow> keeps (vm_le K) (on_shared m)"
  unfolding on_shared_def
  by (erule keeps_zoom) (simp add: vm_le_def env_le_refl shared_le_any)

lemma env_le_guest: "env_le e (e\<lparr>en_guest := g\<rparr>)"
  by (simp add: env_le_def same_storage_refl gas_left_def)

lemma of_nat_le_word: "n \<le> unat w \<Longrightarrow> of_nat n \<le> (w :: 'a :: len word)"
  by (simp add: word_le_nat_alt unat_of_nat) (rule le_trans [OF mod_less_eq_dividend])

lemma keeps_charge: "keeps (vm_le K) (charge used guest)"
proof (rule keepsI, clarify)
  fix e :: "'a Environment" and s
  have "count - of_nat used \<le> count" if "used \<le> unat count" for count :: u64
    using that by (intro word_sub_le of_nat_le_word)
  then show "vm_le K (e, s) (snd (charge used guest (e, s)))"
    by (auto simp: charge_def on_env_def get_env_def m_simps vm_le_def env_le_def gas_left_def
        same_storage_refl shr.kept_refl split: option.split)
qed

lemma keeps_trap: "keeps (vm_le K) (trap message)"
  unfolding trap_def by (intro vm.bind vm.fail keeps_get_env)

lemma keeps_run_prog:
  assumes "\<And>c. keeps (vm_le K) (H c)"
  shows "keeps (vm_le K) (run_prog H p)"
proof (induction p)
  case (Host used guest c k)
  have "keeps (vm_le K) (case r of Ok vals \<Rightarrow> bindM (get_env en_guest) (\<lambda>g. run_prog H (k g vals))
      | Err e \<Rightarrow> trap (RuntimeError_from_VmError e))" for r
    by (cases r) (auto intro!: vm.bind keeps_get_env keeps_trap Host.IH)
  then show ?case
    by (auto intro!: vm.bind vm.attempt keeps_charge keeps_trap assms)
qed (auto intro!: vm.bind vm.return keeps_charge keeps_trap)

lemma keeps_call_function:
  assumes "\<And>c. keeps (vm_le K) (H c)"
  shows "keeps (vm_le K) (call_function X H name args)"
  unfolding call_function_def
  by (intro vm.bind keeps_get_env) (auto intro: vm.fail keeps_run_prog assms split: result.split)

lemma sat_sub_le: "sat_sub a b \<le> (a :: 'a :: len word)"
  by (simp add: sat_sub_def chk_sub_def word_sub_le)

lemma sat_sub_0: "sat_sub 0 b = (0 :: 'a :: len word)"
  using sat_sub_le [of 0 b] by simp

lemma keeps_process_gas_info: "keeps (vm_le K) (process_gas_info X info)"
proof (rule keepsI, clarify)
  fix e :: "'a Environment" and s
  have "sat_sub (sat_sub g a) b \<le> g" for g a b :: u64
    using sat_sub_le order_trans by blast
  then show "vm_le K (e, s) (snd (process_gas_info X info (e, s)))"
    by (auto simp: process_gas_info_def get_gas_left_def set_gas_left_def on_env_def get_env_def m_simps
        vm_le_def env_le_def gas_left_def same_storage_refl shr.kept_refl sat_sub_0
        split: option.split)
qed

lemma keeps_settle: "keeps (vm_le K) (settle X r)"
  unfolding settle_def by (intro vm.seq keeps_process_gas_info vm.lift_result)

lemma keeps_memory: "keeps (vm_le K) (memory X)"
  unfolding memory_def by (intro vm.bind keeps_get_env) (simp add: vm.return vm.panic)

lemma keeps_read_region: "keeps (vm_le K) (read_region X ptr n)"
  unfolding read_region_def by (intro vm.bind keeps_memory vm.lift_result)

lemma keeps_maybe_read_region: "keeps (vm_le K) (maybe_read_region X ptr n)"
  unfolding maybe_read_region_def by (simp add: vm.return vm.bind keeps_read_region)

lemma keeps_write_region: "keeps (vm_le K) (write_region X ptr data)"
  unfolding write_region_def
  by (intro vm.bind keeps_memory)
    (auto intro!: vm.seq vm.bind vm.return vm.lift_result keeps_on_env env_le_guest split: prod.split)

lemmas keeps_vm_basics =
  vm.return vm.fail vm.panic vm.bind vm.seq vm.lift_result vm.unwrap_option vm.attempt
  keeps_get_env keeps_process_gas_info keeps_settle
  keeps_read_region keeps_maybe_read_region keeps_write_region

section \<open>Storage access\<close>

lemma contract_storage_update_le:
  assumes "as_contract_states st a = Some cs" and "bt_inv (cs_storage cs) \<Longrightarrow> bt_inv m"
    and "own = Some a \<or> m = cs_storage cs"
  shows "chain_le own (st, w) (contract_state_insert a (cs\<lparr>cs_storage := m\<rparr>) st, w)"
  using assms
  by (auto simp: chain_le_def contract_state_insert_def contracts_le_def same_block_def stores_ok_def
      cl.kept_refl)

text \<open>A callback that may write, on an instance that may write.\<close>

lemma with_storage_le:
  assumes "\<And>ms r ms'. cb ms = Some (r, ms') \<Longrightarrow> bt_inv (ms_inner ms) \<Longrightarrow> bt_inv (ms_inner ms')"
    and "en_storage_readonly e \<Longrightarrow>
      (\<And>ms r ms'. cb ms = Some (r, ms') \<Longrightarrow> ms_inner ms' = ms_inner ms)"
  shows "vm_le K (e, s) (snd (with_storage_from_context cb (e, s)))"
proof (cases "load_storage (e, s)")
  case None
  then show ?thesis by (simp add: with_storage_from_context_def m_simps vm.kept_refl)
next
  case ms: (Some ms)
  show ?thesis
  proof (cases "cb ms")
    case None
    with ms show ?thesis by (simp add: with_storage_from_context_def m_simps vm.kept_refl)
  next
    case (Some p)
    obtain r ms' where p: "p = (r, ms')" by (cases p)
    have run: "snd (with_storage_from_context cb (e, s)) = store_storage ms' (e, s)"
      using ms Some p by (simp add: with_storage_from_context_def m_simps)
    have inv: "bt_inv (ms_inner ms) \<Longrightarrow> bt_inv (ms_inner ms')"
      and ro: "en_storage_readonly e \<Longrightarrow> ms_inner ms' = ms_inner ms"
      using assms Some p by blast+
    show ?thesis
    proof (cases "en_storage e")
      case (SharedStorage a)
      with ms obtain cs where cs: "as_contract_states (sh_states s) a = Some cs" "ms_inner ms = cs_storage cs"
        by (auto simp: load_storage_def contract_state_get_def)
      have "chain_le (own_of e) (sh_states s, w)
          (contract_state_insert a (cs\<lparr>cs_storage := ms_inner ms'\<rparr>) (sh_states s), w)" for w
        using cs inv ro SharedStorage
        by (intro contract_storage_update_le) (auto simp: own_of_def)
      then show ?thesis
        using cs SharedStorage
        by (simp add: run store_storage_def Let_def contract_storage_update_def vm_le_def env_le_def
            gas_left_def same_storage_refl shared_le_def log_step_refl)
    next
      case (PrivateStorage m)
      with ms have "ms_inner ms = m" by (auto simp: load_storage_def)
      with PrivateStorage ro show ?thesis
        by (auto simp: run store_storage_def Let_def vm_le_def env_le_def gas_left_def same_storage_def
            shr.kept_refl)
    qed
  qed
qed

lemma keeps_storage_read:
  assumes "\<And>ms r ms'. cb ms = Some (r, ms') \<Longrightarrow> ms_inner ms' = ms_inner ms"
  shows "keeps (vm_le K) (with_storage_from_context cb)"
  using assms by (intro keepsI) (metis with_storage_le surj_pair)

text \<open>The same for computations that run only while the instance may write.\<close>

definition writing_le :: "nat \<Rightarrow> 'w Environment \<times> Shared \<Rightarrow> 'w Environment \<times> Shared \<Rightarrow> bool" where
  "writing_le K s t \<longleftrightarrow> (\<not> en_storage_readonly (fst s) \<longrightarrow> vm_le K s t)"

lemma vm_le_readonly: "vm_le K s t \<Longrightarrow> en_storage_readonly (fst t) = en_storage_readonly (fst s)"
  by (simp add: vm_le_def env_le_def)

interpretation wr: kept "writing_le K"
proof
  show "writing_le K s s" for s by (simp add: writing_le_def vm.kept_refl)
  show "writing_le K s u" if "writing_le K s t" "writing_le K t u" for s t u
    using that vm_le_readonly [of K s t] vm.kept_trans [of K s t u] by (simp add: writing_le_def)
qed

lemma keeps_writing: "keeps (vm_le K) m \<Longrightarrow> keeps (writing_le K) m"
  by (simp add: keeps_def writing_le_def)

lemma keeps_storage_write:
  assumes "\<And>ms r ms'. cb ms = Some (r, ms') \<Longrightarrow> bt_inv (ms_inner ms) \<Longrightarrow> bt_inv (ms_inner ms')"
  shows "keeps (writing_le K) (with_storage_from_context cb)"
proof (rule keepsI)
  fix s
  show "writing_le K s (snd (with_storage_from_context cb s))"
    using with_storage_le [of cb "fst s" K "snd s"] assms by (auto simp: writing_le_def)
qed

lemma keeps_guarded:
  assumes "keeps (writing_le K) m"
  shows "keeps (vm_le K) (bindM (get_env en_storage_readonly) (\<lambda>readonly.
    if readonly then failM WriteAccessDenied else m))"
  using assms by (intro keepsI) (auto simp: keeps_def m_simps get_env_def writing_le_def vm.kept_refl)

lemma set_keeps_inv: "RpcMockStorage_set k v ms = (r, ms') \<Longrightarrow> bt_inv (ms_inner ms) \<Longrightarrow> bt_inv (ms_inner ms')"
  by (auto simp: RpcMockStorage_set_def bt_inv_insert)

lemma remove_keeps_inv: "RpcMockStorage_remove k ms = (r, ms') \<Longrightarrow> bt_inv (ms_inner ms) \<Longrightarrow> bt_inv (ms_inner ms')"
  by (auto simp: RpcMockStorage_remove_def bt_inv_remove)

lemma scan_inner: "RpcMockStorage_scan c lo hi ord ms = Some (r, ms') \<Longrightarrow> ms_inner ms' = ms_inner ms"
  by (auto simp: RpcMockStorage_scan_eq dest: new_iterator_Some(2))

lemma next_inner: "RpcMockStorage_next i ms = (r, ms') \<Longrightarrow> ms_inner ms' = ms_inner ms"
  by (auto simp: RpcMockStorage_next_def split: option.splits if_splits)

section \<open>Import functions\<close>

locale vm_calls =
  fixes X :: "('m, 'w) externs" and call :: "'w call_op"
  assumes call_kept: "keeps (vm_le K) (call name args)"
begin

lemma call_function0_kept: "keeps (vm_le K) (call_function0 call name args)"
  unfolding call_function0_def by (intro vm.bind call_kept) (simp add: vm.return vm.fail)

lemma call_function1_kept: "keeps (vm_le K) (call_function1 call name args)"
  unfolding call_function1_def by (intro vm.bind call_kept) (simp add: vm.return vm.fail)

lemma write_to_contract_kept: "keeps (vm_le K) (write_to_contract X call input)"
  unfolding write_to_contract_def
  by (intro vm.bind vm.lift_result call_function1_kept)
    (simp add: vm.fail vm.seq vm.return keeps_write_region)

lemma db_read_kept: "keeps (vm_le K) (do_db_read X call p)"
  unfolding do_db_read_def
  by (intro keeps_vm_basics keeps_storage_read)
    (auto intro: vm.return write_to_contract_kept split: option.split)

lemma db_write_kept: "keeps (vm_le K) (do_db_write X p q)"
  unfolding do_db_write_def
  by (intro keeps_guarded wr.bind keeps_writing [OF keeps_read_region] keeps_writing [OF keeps_settle]
      keeps_storage_write) (auto dest: set_keeps_inv)

lemma db_remove_kept: "keeps (vm_le K) (do_db_remove X p)"
  unfolding do_db_remove_def
  by (intro keeps_guarded wr.bind keeps_writing [OF keeps_read_region] keeps_writing [OF keeps_settle]
      keeps_storage_write) (auto dest: remove_keeps_inv)

lemma addr_validate_kept: "keeps (vm_le K) (do_addr_validate X call p)"
  unfolding do_addr_validate_def
  by (intro vm.bind keeps_read_region)
    (auto intro!: keeps_vm_basics write_to_contract_kept
      split: option.split prod.split result.split BackendError.split)

lemma addr_canonicalize_kept: "keeps (vm_le K) (do_addr_canonicalize X call p q)"
  unfolding do_addr_canonicalize_def
  by (intro vm.bind keeps_read_region)
    (auto intro!: keeps_vm_basics write_to_contract_kept
      split: option.split prod.split result.split BackendError.split)

lemma addr_humanize_kept: "keeps (vm_le K) (do_addr_humanize X call p q)"
  unfolding do_addr_humanize_def
  by (intro vm.bind keeps_read_region)
    (auto intro!: keeps_vm_basics write_to_contract_kept
      split: option.split prod.split result.split BackendError.split)

lemma secp256k1_verify_kept: "keeps (vm_le K) (do_secp256k1_verify X p q r)"
  unfolding do_secp256k1_verify_def
  by (intro vm.bind vm.seq keeps_read_region keeps_get_env keeps_process_gas_info)
    (auto intro!: keeps_vm_basics split: result.split CryptoError.split)

lemma secp256k1_recover_kept: "keeps (vm_le K) (do_secp256k1_recover_pubkey X call p q r)"
  unfolding do_secp256k1_recover_pubkey_def
  by (intro vm.bind keeps_read_region)
    (auto intro!: keeps_vm_basics write_to_contract_kept split: result.split CryptoError.split)

lemma ed25519_verify_kept: "keeps (vm_le K) (do_ed25519_verify X p q r)"
  unfolding do_ed25519_verify_def
  by (intro vm.bind vm.seq keeps_read_region keeps_get_env keeps_process_gas_info)
    (auto intro!: keeps_vm_basics split: result.split CryptoError.split)

lemma ed25519_batch_verify_kept: "keeps (vm_le K) (do_ed25519_batch_verify X p q r)"
  unfolding do_ed25519_batch_verify_def
  by (intro vm.bind vm.seq keeps_read_region keeps_get_env keeps_process_gas_info vm.unwrap_option)
    (auto intro!: keeps_vm_basics split: result.split CryptoError.split)

lemma debug_kept: "keeps (vm_le K) (do_debug X p)"
  unfolding do_debug_def by (intro vm.bind keeps_get_env) (simp add: keeps_vm_basics)

lemma abort_kept: "keeps (vm_le K) (do_abort X p)"
  unfolding do_abort_def by (intro keeps_vm_basics)

lemma db_scan_kept: "keeps (vm_le K) (do_db_scan X p q i)"
  unfolding do_db_scan_def
  by (intro keeps_vm_basics keeps_storage_read) (rule scan_inner)

lemma db_next_kept: "keeps (vm_le K) (do_db_next X call i)"
  unfolding do_db_next_def
  by (intro keeps_vm_basics keeps_storage_read)
    (auto intro!: vm.bind vm.lift_result write_to_contract_kept dest: next_inner split: prod.split)

end

section \<open>Entry points\<close>

text \<open>Queries run read only; every other entry point may write the contract's own storage.\<close>

definition reading_le :: "nat \<Rightarrow> 'w Environment \<times> Shared \<Rightarrow> 'w Environment \<times> Shared \<Rightarrow> bool" where
  "reading_le K s t \<longleftrightarrow> (en_storage_readonly (fst s) \<longrightarrow> vm_le K s t)"

interpretation rd: kept "reading_le K"
proof
  show "reading_le K s s" for s by (simp add: reading_le_def vm.kept_refl)
  show "reading_le K s u" if "reading_le K s t" "reading_le K t u" for s t u
    using that vm_le_readonly [of K s t] vm.kept_trans [of K s t u] by (simp add: reading_le_def)
qed

definition home :: "'w Environment \<Rightarrow> Addr option" where
  "home e = (case en_storage e of SharedStorage a \<Rightarrow> Some a | PrivateStorage _ \<Rightarrow> None)"

definition home_le :: "nat \<Rightarrow> 'w Environment \<times> Shared \<Rightarrow> 'w Environment \<times> Shared \<Rightarrow> bool" where
  "home_le K s t \<longleftrightarrow> home (fst t) = home (fst s) \<and> shared_le (home (fst s)) K (snd s) (snd t)"

interpretation hm: kept "home_le K"
  by unfold_locales (auto simp: home_le_def shr.kept_refl intro: shr.kept_trans)

lemma vm_le_home:
  assumes "vm_le K s t"
  shows "home_le K s t"
proof -
  have "home (fst t) = home (fst s)"
    using assms by (auto simp: vm_le_def env_le_def home_def same_storage_def split: StorageRef.splits)
  moreover have "own_of (fst s) = None \<or> own_of (fst s) = home (fst s)"
    by (simp add: own_of_def home_def)
  ultimately show ?thesis
    using assms by (auto simp: vm_le_def home_le_def intro: shared_le_any)
qed

lemma keeps_home: "keeps (vm_le K) m \<Longrightarrow> keeps (home_le K) m"
  by (simp add: keeps_def vm_le_home)

lemma keeps_reading: "keeps (vm_le K) m \<Longrightarrow> keeps (reading_le K) m"
  by (simp add: keeps_def reading_le_def)

lemma keeps_home_readonly: "keeps (home_le K) (set_storage_readonly b)"
  by (simp add: set_storage_readonly_def on_env_def keeps_def m_simps home_le_def home_def shr.kept_refl)

lemma keeps_reading_readonly: "keeps (reading_le K) (set_storage_readonly True)"
  by (simp add: set_storage_readonly_def on_env_def keeps_def m_simps reading_le_def vm_le_def env_le_def
      same_storage_refl gas_left_def shr.kept_refl)

lemma with_instance_reading:
  assumes "keeps (reading_le K) m" and "en_storage_readonly (ri_instance i)"
  shows "keeps (shared_le None K) (with_instance i m)"
proof (rule keepsI)
  fix s
  obtain r e t where m: "m (ri_instance i, s) = (r, (e, t))" by (metis surj_pair)
  then have "shared_le None K s t"
    using keepsD [OF assms(1) m] assms(2) by (simp add: reading_le_def vm_le_def own_of_def)
  then show "shared_le None K s (snd (with_instance i m s))"
    using m by (cases r) (simp_all add: with_instance_def)
qed

lemma with_instance_home:
  assumes "keeps (home_le K) m"
  shows "keeps (shared_le (home (ri_instance i)) K) (with_instance i m)"
proof (rule keepsI)
  fix s
  obtain r e t where m: "m (ri_instance i, s) = (r, (e, t))" by (metis surj_pair)
  then have "shared_le (home (ri_instance i)) K s t"
    using keepsD [OF assms m] by (simp add: home_le_def)
  then show "shared_le (home (ri_instance i)) K s (snd (with_instance i m s))"
    using m by (cases r) (simp_all add: with_instance_def)
qed

lemma from_code_Ok:
  assumes "from_code X code api storage limit debug = Ok e"
  shows "en_storage_readonly e" and "en_storage e = storage"
  using assms
  by (auto simp: from_code_def from_module_def Environment_new_def split: result.splits)

context vm_calls
begin

lemma allocate_kept: "keeps (vm_le K) (allocate X call n)"
  unfolding allocate_def
  by (intro vm.bind vm.lift_result call_function1_kept) (simp add: vm.fail vm.return)

lemma write_args_kept: "keeps (vm_le K) (write_args X call args)"
  by (induction args) (auto intro!: vm.bind vm.seq vm.return allocate_kept keeps_write_region)

lemma call_raw_kept: "keeps (vm_le K) (call_raw X call name args n)"
  unfolding call_raw_def deallocate_def
  by (intro vm.bind vm.seq vm.return vm.lift_result write_args_kept call_function1_kept
      keeps_read_region call_function0_kept)

lemma query_kept: "keeps (reading_le K) (RpcContractInstance_query X call ci env q)"
proof (cases q)
  case (WasmQuery_Smart a msg)
  have "keeps (reading_le K) (call_query X call env msg)"
    unfolding call_query_def call_query_raw_def
    by (intro rd.bind rd.seq rd.lift_result keeps_reading_readonly keeps_reading [OF call_raw_kept])
      (auto intro: rd.return rd.fail split: ContractResult.split option.split)
  then show ?thesis
    using WasmQuery_Smart unfolding RpcContractInstance_query_def
    by (auto intro!: rd.bind rd.map_err rd.return rd.fail split: ContractResult.split)
next
  case (WasmQuery_Raw a k)
  then show ?thesis
    unfolding RpcContractInstance_query_def
    by (auto intro!: rd.bind rd.map_err rd.return rd.lift_result keeps_reading [OF keeps_storage_read]
        split: prod.split)
qed (simp add: RpcContractInstance_query_def rd.unwrap_result)

lemma entry_points_kept:
  "keeps (home_le K) (RpcContractInstance_instantiate X call env msg sender funds)"
  "keeps (home_le K) (RpcContractInstance_execute X call env msg sender funds)"
  "keeps (home_le K) (RpcContractInstance_reply X call env reply)"
  unfolding RpcContractInstance_instantiate_def RpcContractInstance_execute_def RpcContractInstance_reply_def
    call_instantiate_def call_execute_def call_reply_def call_instantiate_raw_def call_execute_raw_def
    call_reply_raw_def
  by (intro hm.map_err hm.bind hm.seq hm.lift_result keeps_home_readonly keeps_home [OF call_raw_kept])+

lemma query_end_kept:
  assumes "en_storage_readonly (ri_instance inst)" and "\<And>i. c = Some i \<Longrightarrow> i \<le> K"
  shows "keeps (shared_le None K)
    (bindM (with_instance inst (RpcContractInstance_query X call ci env q)) (\<lambda>(r, _).
     thenM (case c of Some i \<Rightarrow> on_log (end_query i) | None \<Rightarrow> returnM ()) (returnM (f r))))"
  using assms with_instance_reading [OF query_kept assms(1)]
  by (auto intro!: shr.bind shr.seq shr.return keeps_on_log log_step_end
      simp: end_query_def split: option.split prod.split)

lemma run_query_kept:
  assumes "en_storage_readonly (ri_instance inst)"
  shows "keeps (shared_le None K) (run_query X call inst env q)"
proof (cases q)
  case (WasmQuery_Smart a msg)
  have "keeps (shared_le None K') (bindM (with_instance inst (RpcContractInstance_query X call ci env q'))
      (\<lambda>(r, _). thenM (on_log (end_query i)) (returnM (f r))))" if "i \<le> K'" for i K' ci q' f
    using query_end_kept [OF assms, of "Some i" K'] that by simp
  then show ?thesis
    unfolding run_query_def WasmQuery_Smart WasmQuery.case bindM_assoc begin_query_def
    by (intro keeps_begin) simp
qed (simp_all add: run_query_def query_end_kept [OF assms, of None, simplified])

lemma query_raw_kept: "keeps (shared_le None K) (query_raw X call request gas)"
proof -
  have opened: "keeps (shared_le None K)
      (case from_code X code api storage limit debug of
         Err e \<Rightarrow> returnM (f e)
       | Ok w \<Rightarrow> run_query X call (RpcContractInstance_new a w) env q)"
    for code api storage limit debug f a env q
    by (cases "from_code X code api storage limit debug")
      (simp_all add: shr.return run_query_kept RpcContractInstance_new_def from_code_Ok(1))
  have "keeps (shared_le None K) (query_contract X call q)" for q
    unfolding query_contract_def Let_def
  proof (intro shr.bind shr.attempt keeps_fetch, goal_cases)
    case (1 fetched)
    show ?case
    proof (cases fetched)
      case (Ok u)
      have "keeps (shared_le None K)
          (case r of Err e \<Rightarrow> returnM (g e)
           | Ok api \<Rightarrow> (case from_code X code api storage limit debug of
               Err e \<Rightarrow> returnM (f e)
             | Ok w \<Rightarrow> run_query X call (RpcContractInstance_new a w) env q))"
        for r :: "(Error, RpcMockApi) result" and g code storage limit debug f a env
        by (cases r) (simp_all add: shr.return opened)
      then show ?thesis
        unfolding Ok result.case by (intro shr.bind shr.get shr.unwrap_option)
    qed (simp add: shr.return)
  qed
  moreover have "keeps (shared_le None K) (query_printer X q)" for q
    unfolding query_printer_def
    by (auto intro!: shr.bind shr.seq shr.return shr.panic shr.unwrap_result keeps_on_log
        log_step_methods split: WasmQuery.split)
  moreover have "keeps (shared_le None K) (query_bank X q)" for q
    unfolding query_bank_def
    by (intro shr.bind shr.attempt shr.return keeps_on_states keeps_bank_query)
  ultimately show ?thesis
    unfolding query_raw_def
    by (auto intro: shr.return shr.panic split: result.split QueryRequest.split)
qed

end

section \<open>The knot\<close>

locale vm_host = vm_calls X call
  for X :: "('m, 'w) externs" and call :: "'w call_op" +
  fixes query :: query_op
  assumes query_op_kept: "keeps (shared_le None K) (query request gas)"
begin

lemma query_chain_kept: "keeps (vm_le K) (do_query_chain X call query p)"
  unfolding do_query_chain_def get_gas_left_def
  by (intro keeps_vm_basics keeps_on_shared query_op_kept write_to_contract_kept)

lemma imports_kept: "keeps (vm_le K) (env_imports X call query c)"
  unfolding env_imports_def ret32_def ret64_def ret0_def
  by (cases c)
    (simp_all add: vm.bind vm.return db_read_kept db_write_kept db_remove_kept addr_validate_kept
      addr_canonicalize_kept addr_humanize_kept secp256k1_verify_kept secp256k1_recover_kept
      ed25519_verify_kept ed25519_batch_verify_kept debug_kept abort_kept query_chain_kept db_scan_kept
      db_next_kept)

end

lemma vm_call_kept: "keeps (vm_le K) (vm_call X n name args)"
proof (induction n arbitrary: K name args)
  case 0
  have "vm_call X 0 name args = divergeM" by (rule vm_call.simps)
  then show ?case by (simp add: vm.diverge)
next
  case (Suc n)
  have calls: "vm_calls (vm_call X n)" by unfold_locales (rule Suc.IH)
  have host: "vm_host (vm_call X n) (query_raw X (vm_call X n))"
    by (intro vm_host.intro vm_host_axioms.intro calls vm_calls.query_raw_kept [OF calls])
  show ?case
    unfolding vm_call.simps by (intro keeps_call_function vm_host.imports_kept [OF host])
qed

interpretation vmc: vm_calls X "vm_call X n" for X n
  by unfold_locales (rule vm_call_kept)

interpretation vmh: vm_host X "vm_call X n" "query_raw X (vm_call X n)" for X n
  by unfold_locales (rule vmc.query_raw_kept)

section \<open>Properties\<close>

text \<open>
  C3: A query a contract makes while it runs, however deep its own queries nest and however it
  ends, changes no contract, no balance and no block of the simulator: contracts and accounts
  that were there are unchanged (the query may only add what it fetches from the chain), the
  files of the host are unchanged, and the log is only appended to.
\<close>

theorem query_changes_nothing:
  "let t = snd (query_raw X (vm_call X n) request gas s) in
     as_contract_states (sh_states s) \<subseteq>\<^sub>m as_contract_states (sh_states t) \<and>
     as_bank_states (sh_states s) \<subseteq>\<^sub>m as_bank_states (sh_states t) \<and>
     same_block (sh_states s) (sh_states t) \<and>
     files_same (sh_world s) (sh_world t) \<and> log_le (sh_debug_log s) (sh_debug_log t)"
proof -
  have "shared_le None 0 s (snd (query_raw X (vm_call X n) request gas s))"
    by (rule vmc.query_raw_kept [unfolded keeps_def, rule_format])
  then show ?thesis
    using client_le_files by (fastforce simp: Let_def shared_le_def chain_le_def contracts_le_None log_step_def)
qed

text \<open>
  C4: Running an export of a contract, with all the imports and queries it uses, changes the
  storage of no other contract, replaces no contract's code, touches no balance that was known
  and never adds gas.  When the instance is read only, as in a query, its own storage is
  unchanged too.
\<close>

theorem export_isolated:
  "let (f, t) = snd (vm_call X n name args (e, s)) in
     gas_left f \<le> gas_left e \<and> en_storage_readonly f = en_storage_readonly e \<and>
     as_bank_states (sh_states s) \<subseteq>\<^sub>m as_bank_states (sh_states t) \<and>
     same_block (sh_states s) (sh_states t) \<and>
     contracts_le (if en_storage_readonly e then None else home e)
       (as_contract_states (sh_states s)) (as_contract_states (sh_states t))"
proof -
  have "vm_le 0 (e, s) (snd (vm_call X n name args (e, s)))"
    using vm_call_kept [of 0 X n name args] by (simp add: keeps_def)
  moreover have "own_of e = (if en_storage_readonly e then None else home e)"
    by (simp add: own_of_def home_def)
  ultimately show ?thesis
    by (auto simp: vm_le_def env_le_def shared_le_def chain_le_def case_prod_beta)
qed

end
