(* ===== verification/Simulator.thy ===== *)
theory Simulator
  imports Querier
begin

text \<open>
  The simulator object (\<^verbatim>\<open>core/src/fork/model.rs\<close>) with its code coverage
  (\<^verbatim>\<open>core/src/coverage/mod.rs\<close>): transactions, the messages that responses carry, replies,
  queries and the cheat codes.  A computation runs on the \<open>Model\<close> and the outside \<open>World\<close>;
  reverting restores the model, never the world.  Messages may spawn messages without end, so
  \<open>handle_response\<close> takes fuel.
\<close>

section \<open>State\<close>

record CoverageInfo =
  cv_enabled :: bool
  cv_coverage_data :: "string \<rightharpoonup> bytes list"

record 'm Model =
  md_states :: AllStates
  md_sender :: string
  md_code_id_counters :: "u64 \<rightharpoonup> u64"
  md_debug_log :: DebugLog
  md_custom_codes :: "u64 \<rightharpoonup> bytes"
  md_coverage_info :: CoverageInfo
  md_wasm_cache :: "bytes \<rightharpoonup> 'm"

type_synonym ('m, 'a) modelM = "('m Model \<times> World, Error, 'a) M"

definition BASE_EOA :: string where
  "BASE_EOA = ''wasm1zcnn5gh37jxg9c6dp4jcjc7995ae0s5f5hj0lj''"

definition shared_of :: "'m Model \<times> World \<Rightarrow> Shared" where
  "shared_of s =
     \<lparr>sh_states = md_states (fst s), sh_debug_log = md_debug_log (fst s), sh_world = snd s\<rparr>"

definition put_shared :: "Shared \<Rightarrow> 'm Model \<times> World \<Rightarrow> 'm Model \<times> World" where
  "put_shared t s =
     ((fst s)\<lparr>md_states := sh_states t, md_debug_log := sh_debug_log t\<rparr>, sh_world t)"

definition on_model :: "(Error, 'a) sharedM \<Rightarrow> ('m, 'a) modelM" where
  "on_model = zoomM shared_of put_shared"

definition on_model_log :: "(DebugLog \<Rightarrow> DebugLog) \<Rightarrow> ('m, unit) modelM" where
  "on_model_log f = on_model (on_log f)"

definition on_model_bank :: "'a statesM \<Rightarrow> ('m, 'a) modelM" where
  "on_model_bank m = on_model (on_states m)"

section \<open>Coverage\<close>

definition COVERAGE_MAX_LEN :: nat where
  "COVERAGE_MAX_LEN = 0x200000"

definition CoverageInfo_new :: CoverageInfo where
  "CoverageInfo_new = \<lparr>cv_enabled = False, cv_coverage_data = Map.empty\<rparr>"

definition CoverageInfo_get_coverage :: "CoverageInfo \<Rightarrow> (string \<rightharpoonup> bytes list)" where
  "CoverageInfo_get_coverage self = cv_coverage_data self"

definition add_coverage :: "string \<Rightarrow> bytes \<Rightarrow> CoverageInfo \<Rightarrow> CoverageInfo" where
  "add_coverage address cov_data self =
     self\<lparr>cv_coverage_data := (cv_coverage_data self)(address \<mapsto>
       (case cv_coverage_data self address of None \<Rightarrow> [] | Some v \<Rightarrow> v) @ [cov_data])\<rparr>"

definition on_coverage :: "(CoverageInfo \<Rightarrow> CoverageInfo) \<Rightarrow> ('m, unit) modelM" where
  "on_coverage f = modifyM (\<lambda>s. ((fst s)\<lparr>md_coverage_info := f (md_coverage_info (fst s))\<rparr>, snd s))"

definition enable_code_coverage :: "('m, unit) modelM" where
  "enable_code_coverage = on_coverage (\<lambda>c. c\<lparr>cv_enabled := True\<rparr>)"

definition disable_code_coverage :: "('m, unit) modelM" where
  "disable_code_coverage = on_coverage (\<lambda>c. c\<lparr>cv_enabled := False\<rparr>)"

definition Model_get_coverage :: "'m Model \<Rightarrow> (string \<rightharpoonup> bytes list)" where
  "Model_get_coverage self = CoverageInfo_get_coverage (md_coverage_info self)"

definition dump_coverage ::
  "('m, 'w) externs \<Rightarrow> 'w call_op \<Rightarrow> ('w Environment \<times> Shared, Error, bytes) M" where
  "dump_coverage X call =
     bindM (tryM (call_raw X call ''dump_coverage'' [] COVERAGE_MAX_LEN)) (\<lambda>r.
     returnM (case r of Ok r \<Rightarrow> r | Err _ \<Rightarrow> []))"

definition handle_coverage ::
  "('m, 'w) externs \<Rightarrow> 'w call_op \<Rightarrow> 'w RpcContractInstance \<Rightarrow> ('m, unit) modelM" where
  "handle_coverage X call instance =
     bindM (getM (\<lambda>s. cv_enabled (md_coverage_info (fst s)))) (\<lambda>enabled.
     if enabled then
       bindM (on_model (with_instance instance (dump_coverage X call))) (\<lambda>(r, _).
       bindM (liftR r) (\<lambda>cov.
       on_coverage (add_coverage (RpcContractInstance_address instance) cov)))
     else returnM ())"

section \<open>Creation and copies\<close>

definition initial_model :: "AllStates \<Rightarrow> 'm Model" where
  "initial_model states =
     \<lparr>md_states = states, md_sender = BASE_EOA, md_code_id_counters = Map.empty,
      md_debug_log = DebugLog_new, md_custom_codes = Map.empty,
      md_coverage_info = CoverageInfo_new, md_wasm_cache = Map.empty\<rparr>"

definition Model_new_lcd ::
  "('m, 'w) externs \<Rightarrow> string \<Rightarrow> string \<Rightarrow> (World, Error, 'm Model) M" where
  "Model_new_lcd X url bech32_prefix =
     bindM (CwLcdClient_new (ce_lcd (x_client X)) url) (\<lambda>client.
     bindM (AllStates_new (x_client X) (LcdClient client) 32 bech32_prefix) (\<lambda>states.
     returnM (initial_model states)))"

definition Model_new ::
  "('m, 'w) externs \<Rightarrow> string \<Rightarrow> u64 option \<Rightarrow> string \<Rightarrow> (World, Error, 'm Model) M" where
  "Model_new X url block_number bech32_prefix =
     bindM (CwRpcClient_new (ce_net (x_client X)) url block_number) (\<lambda>client.
     bindM (AllStates_new (x_client X) (RpcClient client) 32 bech32_prefix) (\<lambda>states.
     returnM (initial_model states)))"

definition Model_block_number :: "'m Model \<Rightarrow> u64" where
  "Model_block_number self = Client_block_number (as_client (md_states self))"

definition Model_clone :: "('m, 'w) externs \<Rightarrow> ('m, 'm Model) modelM" where
  "Model_clone X =
     bindM (getM fst) (\<lambda>self.
     bindM (zoomM snd (\<lambda>w s. (fst s, w)) (clone_box (x_client X) (as_client (md_states self)))) (\<lambda>client.
     returnM (self\<lparr>md_states := (md_states self)\<lparr>as_client := client\<rparr>\<rparr>)))"

text \<open>Dropping a model drops its client, which saves the client's cache.\<close>

definition drop_model :: "('m, 'w) externs \<Rightarrow> 'm Model \<Rightarrow> ('m, unit) modelM" where
  "drop_model X self =
     modifyM (\<lambda>s. (fst s, client_drop (x_client X) (as_client (md_states self)) (snd s)))"

definition revert :: "'m Model \<Rightarrow> ('m, 'm Model) modelM" where
  "revert prev_state =
     updateM (\<lambda>s. (fst s, (prev_state\<lparr>md_coverage_info := md_coverage_info (fst s)\<rparr>, snd s)))"

section \<open>Instances\<close>

definition Model_env :: "Addr \<Rightarrow> ('m, Env) modelM" where
  "Model_env contract_addr = getM (\<lambda>s. block_env (md_states (fst s)) contract_addr)"

definition new_mock :: "StorageRef \<Rightarrow> (Error, RpcMockApi \<times> StorageRef) sharedM" where
  "new_mock contract_storage =
     bindM (getM sh_states) (\<lambda>states.
     bindM (liftR (RpcMockApi_new (as_canonical_address_length states) (as_bech32_prefix states)))
       (\<lambda>api. returnM (api, contract_storage)))"

definition create_instance ::
  "('m, 'w) externs \<Rightarrow> Addr \<Rightarrow> (Error, 'w RpcContractInstance) sharedM" where
  "create_instance X contract_addr =
     thenM (fetch_contract_state X contract_addr)
     (bindM (getM (\<lambda>s. contract_state_get (sh_states s) contract_addr)) (\<lambda>found.
      bindM (unwrapM found) (\<lambda>contract_state.
      bindM (new_mock (SharedStorage contract_addr)) (\<lambda>(api, storage).
      bindM (liftR (map_errR vm_error
               (from_code X (cs_code contract_state) api storage U64_MAX False))) (\<lambda>wasm_instance.
      returnM (RpcContractInstance_new contract_addr wasm_instance))))))"

definition create_instance_from_code ::
  "('m, 'w) externs \<Rightarrow> bytes \<Rightarrow> RpcMockApi \<times> StorageRef \<Rightarrow> ('m, 'w Environment) modelM" where
  "create_instance_from_code X code deps =
     (let code_hash = x_sha256 X code in
      bindM (getM (\<lambda>s. md_wasm_cache (fst s) code_hash)) (\<lambda>known.
      bindM (case known of
               Some module \<Rightarrow> returnM module
             | None \<Rightarrow>
                 bindM (liftR (map_errR vm_error (compile X code))) (\<lambda>module.
                 thenM (modifyM (\<lambda>s. ((fst s)\<lparr>md_wasm_cache :=
                          (md_wasm_cache (fst s))(code_hash \<mapsto> module)\<rparr>, snd s)))
                 (returnM module))) (\<lambda>module.
      liftR (map_errR vm_error (from_module X module (fst deps) (snd deps) U64_MAX False)))))"

definition address_seed :: "u64 \<Rightarrow> u64 \<Rightarrow> string" where
  "address_seed code_id counter =
     ''seeeed_'' @ nat_str (unat code_id) @ ''_'' @ nat_str (unat counter)"

definition set_counter :: "u64 \<Rightarrow> u64 \<Rightarrow> ('m, unit) modelM" where
  "set_counter code_id n =
     modifyM (\<lambda>s. ((fst s)\<lparr>md_code_id_counters := (md_code_id_counters (fst s))(code_id \<mapsto> n)\<rparr>, snd s))"

definition generate_address :: "('m, 'w) externs \<Rightarrow> u64 \<Rightarrow> ('m, Addr) modelM" where
  "generate_address X code_id =
     bindM (getM (\<lambda>s. case md_code_id_counters (fst s) code_id of None \<Rightarrow> 0 | Some c \<Rightarrow> c)) (\<lambda>counter.
     thenM (set_counter code_id counter)
     (bindM (unwrapM (prim_add (x_checks X) counter 1)) (\<lambda>next.
      thenM (set_counter code_id next)
      (bindM (getM (md_states \<circ> fst)) (\<lambda>states.
       liftR (map_errR FormatError
         (canonical_to_human (x_bech32 X) (x_sha256 X (str_bytes (address_seed code_id counter)))
            (as_bech32_prefix states) (as_canonical_address_length states))))))))"

section \<open>Transactions\<close>

text \<open>
  The functions of a transaction call \<^verbatim>\<open>handle_response\<close>, which calls them; \<open>hr\<close> stands for it
  until the knot is tied.  \<open>call\<close> runs exports, as in the VM.
\<close>

type_synonym 'm response_op = "Addr \<Rightarrow> Response \<Rightarrow> ('m, Response ContractResult) modelM"

definition run_instance ::
  "('m, 'w) externs \<Rightarrow> 'w call_op \<Rightarrow> 'w RpcContractInstance
     \<Rightarrow> ('w Environment \<times> Shared, Error, 'a) M \<Rightarrow> ('m, 'a) modelM" where
  "run_instance X call instance m =
     bindM (on_model (with_instance instance m)) (\<lambda>(r, instance').
     bindM (liftR r) (\<lambda>result.
     thenM (handle_coverage X call instance') (returnM result)))"

definition begin_model ::
  "(DebugLog \<Rightarrow> (nat \<times> DebugLog) option) \<Rightarrow> ('m, nat) modelM" where
  "begin_model f = on_model (on_log_begin f)"

text \<open>The transfer of the funds that accompany a call; \<open>Some e\<close> is the early return with an error.\<close>

definition transfer_funds ::
  "('m, 'w) externs \<Rightarrow> Addr \<Rightarrow> Addr \<Rightarrow> Coin list \<Rightarrow> ('m, string option) modelM" where
  "transfer_funds X sender contract_addr funds =
     (if length funds > 0 then
        bindM (on_model_bank (bank_execute (x_client X) sender (BankMsg_Send contract_addr funds))) (\<lambda>r.
        case r of
          ContractResult_Ok r \<Rightarrow> thenM (on_model_log (append_log r)) (returnM None)
        | ContractResult_Err e \<Rightarrow> thenM (on_model_log (set_err_msg e)) (returnM (Some e)))
      else returnM None)"

definition instantiate_event :: "u64 \<Rightarrow> Addr \<Rightarrow> Event" where
  "instantiate_event code_id contract_addr =
     Event_add_attribute
       (Event_add_attribute (Event_new ''instantiate'') ''code_id'' (nat_str (unat code_id)))
       ''_contract_address'' contract_addr"

definition on_contracts :: "(AllStates \<Rightarrow> AllStates) \<Rightarrow> ('m, unit) modelM" where
  "on_contracts f = modifyM (\<lambda>s. ((fst s)\<lparr>md_states := f (md_states (fst s))\<rparr>, snd s))"

definition contract_code :: "('m, 'w) externs \<Rightarrow> u64 \<Rightarrow> ('m, bytes) modelM" where
  "contract_code X code_id =
     bindM (getM (\<lambda>s. md_custom_codes (fst s) code_id)) (\<lambda>custom.
     case custom of
       Some code \<Rightarrow> returnM code
     | None \<Rightarrow>
         bindM (on_model (on_shared_client (query_wasm_contract_code (x_client X) code_id))) maybe_unzip)"

definition instantiate_inner ::
  "('m, 'w) externs \<Rightarrow> 'w call_op \<Rightarrow> 'm response_op \<Rightarrow> u64 \<Rightarrow> Addr \<Rightarrow> bytes \<Rightarrow> Coin list
     \<Rightarrow> ('m, Response ContractResult \<times> Addr option) modelM" where
  "instantiate_inner X call hr code_id sender msg funds =
     bindM (generate_address X code_id) (\<lambda>contract_addr.
     bindM (transfer_funds X sender contract_addr funds) (\<lambda>transfer_error.
     case transfer_error of
       Some e \<Rightarrow> returnM (ContractResult_Err e, None)
     | None \<Rightarrow>
         bindM (on_model (new_mock (SharedStorage contract_addr))) (\<lambda>deps.
         bindM (contract_code X code_id) (\<lambda>wasm_code.
         bindM (create_instance_from_code X wasm_code deps) (\<lambda>wasm_instance.
         thenM (on_contracts (contract_state_insert contract_addr
                  \<lparr>cs_code = wasm_code, cs_storage = []\<rparr>))
         (bindM (Model_env contract_addr) (\<lambda>env.
          bindM (begin_model (begin_instantiate (js_display (x_serde X)) contract_addr msg)) (\<lambda>call_id.
          bindM (run_instance X call (RpcContractInstance_new contract_addr wasm_instance)
                   (RpcContractInstance_instantiate X call env msg sender funds)) (\<lambda>result.
          case result of
            ContractResult_Err e \<Rightarrow>
              thenM (on_contracts (contract_state_remove contract_addr))
              (thenM (on_model_log (set_err_msg e))
              (thenM (on_model_log (begin_error e))
              (returnM (ContractResult_Err e, None))))
          | ContractResult_Ok r \<Rightarrow>
              (let r = Response_add_event r (instantiate_event code_id contract_addr) in
               thenM (on_model_log (append_log r))
               (bindM (hr contract_addr r) (\<lambda>response.
                thenM (on_model_log (end_instantiate call_id))
                (returnM (response, Some contract_addr))))))))))))))"

definition execute_inner ::
  "('m, 'w) externs \<Rightarrow> 'w call_op \<Rightarrow> 'm response_op \<Rightarrow> Addr \<Rightarrow> Addr \<Rightarrow> bytes \<Rightarrow> Coin list
     \<Rightarrow> ('m, Response ContractResult) modelM" where
  "execute_inner X call hr contract_addr sender msg funds =
     bindM (Model_env contract_addr) (\<lambda>env.
     bindM (on_model (create_instance X contract_addr)) (\<lambda>instance.
     bindM (transfer_funds X sender contract_addr funds) (\<lambda>transfer_error.
     case transfer_error of
       Some e \<Rightarrow> returnM (ContractResult_Err e)
     | None \<Rightarrow>
         bindM (begin_model (begin_execute (js_display (x_serde X)) contract_addr msg)) (\<lambda>call_id.
         bindM (run_instance X call instance
                  (RpcContractInstance_execute X call env msg sender funds)) (\<lambda>result.
         case result of
           ContractResult_Err e \<Rightarrow>
             thenM (on_model_log (set_err_msg e))
             (thenM (on_model_log (begin_error e))
             (returnM (ContractResult_Err e)))
         | ContractResult_Ok r \<Rightarrow>
             thenM (on_model_log (append_log r))
             (bindM (hr contract_addr r) (\<lambda>response.
              thenM (on_model_log (end_execute call_id))
              (returnM response))))))))"

section \<open>Messages of a response\<close>

definition do_reply :: "ReplyOn \<Rightarrow> 'a ContractResult \<Rightarrow> bool" where
  "do_reply reply_on response =
     (case reply_on of
        ReplyOn_Always \<Rightarrow> True
      | ReplyOn_Success \<Rightarrow> (case response of ContractResult_Ok _ \<Rightarrow> True | ContractResult_Err _ \<Rightarrow> False)
      | ReplyOn_Error \<Rightarrow> (case response of ContractResult_Ok _ \<Rightarrow> False | ContractResult_Err _ \<Rightarrow> True)
      | ReplyOn_Never \<Rightarrow> False)"

definition reply_of :: "u64 \<Rightarrow> bytes \<Rightarrow> Response ContractResult \<Rightarrow> Reply" where
  "reply_of sub_msg_id data response =
     \<lparr>rp_id = sub_msg_id,
      rp_result =
        (case response of
           ContractResult_Ok r \<Rightarrow> SubMsgResult_Ok \<lparr>smr_events = r_events r, smr_data = Some data\<rparr>
         | ContractResult_Err e \<Rightarrow> SubMsgResult_Err e)\<rparr>"

text \<open>
  What both kinds of submessage do with the response of the called contract: reply to the
  origin, or propagate the error, or handle the response's own messages.
\<close>

definition finish_submessage ::
  "('m, 'w) externs \<Rightarrow> 'w call_op \<Rightarrow> 'm response_op \<Rightarrow> Addr \<Rightarrow> Binary \<Rightarrow> u64 \<Rightarrow> ReplyOn
     \<Rightarrow> Response ContractResult \<Rightarrow> bytes \<Rightarrow> ('m, Response ContractResult) modelM" where
  "finish_submessage X call hr origin msg sub_msg_id reply_on response data =
     (if do_reply reply_on response then
        bindM (Model_env origin) (\<lambda>env.
        bindM (on_model (create_instance X origin)) (\<lambda>instance.
        bindM (begin_model (begin_reply (js_display (x_serde X)) origin msg)) (\<lambda>call_id.
        bindM (run_instance X call instance
                 (RpcContractInstance_reply X call env (reply_of sub_msg_id data response))) (\<lambda>maybe_response.
        case maybe_response of
          ContractResult_Err e \<Rightarrow>
            thenM (on_model_log (begin_error e)) (returnM maybe_response)
        | ContractResult_Ok response \<Rightarrow>
            thenM (on_model_log (append_log response))
            (bindM (hr origin response) (\<lambda>response.
             thenM (on_model_log (end_reply call_id))
             (returnM response)))))))
      else case response of
        ContractResult_Err e \<Rightarrow>
          thenM (on_model_log (begin_error e)) (returnM (ContractResult_Err e))
      | ContractResult_Ok r \<Rightarrow> hr origin r)"

definition handle_submessage_instantiate ::
  "('m, 'w) externs \<Rightarrow> 'w call_op \<Rightarrow> 'm response_op \<Rightarrow> Addr \<Rightarrow> string option \<Rightarrow> u64 \<Rightarrow> Binary
     \<Rightarrow> Coin list \<Rightarrow> u64 \<Rightarrow> ReplyOn \<Rightarrow> ('m, Response ContractResult) modelM" where
  "handle_submessage_instantiate X call hr origin admin code_id msg funds sub_msg_id reply_on =
     bindM
       (case admin of
          Some allowed \<Rightarrow>
            if allowed \<noteq> origin then returnM (ContractResult_Err ''cannot instantiate contract'', None)
            else instantiate_inner X call hr code_id origin msg funds
        | None \<Rightarrow> instantiate_inner X call hr code_id origin msg funds) (\<lambda>(response, new_addr).
     finish_submessage X call hr origin msg sub_msg_id reply_on response
       (x_pb_instantiate_response X (case new_addr of Some a \<Rightarrow> a | None \<Rightarrow> [])))"

definition handle_submessage_execute ::
  "('m, 'w) externs \<Rightarrow> 'w call_op \<Rightarrow> 'm response_op \<Rightarrow> Addr \<Rightarrow> Addr \<Rightarrow> Binary
     \<Rightarrow> Coin list \<Rightarrow> u64 \<Rightarrow> ReplyOn \<Rightarrow> ('m, Response ContractResult) modelM" where
  "handle_submessage_execute X call hr origin target_addr msg funds sub_msg_id reply_on =
     bindM (execute_inner X call hr target_addr origin msg funds) (\<lambda>response.
     finish_submessage X call hr origin msg sub_msg_id reply_on response (x_pb_execute_response X))"

text \<open>Messages other than \<^verbatim>\<open>Instantiate\<close>, \<^verbatim>\<open>Execute\<close> and \<^verbatim>\<open>Bank\<close> are \<^verbatim>\<open>unimplemented!\<close>.\<close>

definition handle_submessage ::
  "('m, 'w) externs \<Rightarrow> 'w call_op \<Rightarrow> 'm response_op \<Rightarrow> Addr \<Rightarrow> SubMsg
     \<Rightarrow> ('m, Response ContractResult) modelM" where
  "handle_submessage X call hr origin sub_msg =
     (case sm_msg sub_msg of
        CosmosMsg_Wasm (WasmMsg_Instantiate admin code_id msg funds _) \<Rightarrow>
          handle_submessage_instantiate X call hr origin admin code_id msg funds
            (sm_id sub_msg) (sm_reply_on sub_msg)
      | CosmosMsg_Wasm (WasmMsg_Execute target_addr msg funds) \<Rightarrow>
          handle_submessage_execute X call hr origin target_addr msg funds
            (sm_id sub_msg) (sm_reply_on sub_msg)
      | CosmosMsg_Bank bank_msg \<Rightarrow> on_model_bank (bank_execute (x_client X) origin bank_msg)
      | _ \<Rightarrow> panicM)"

primrec handle_messages ::
  "('m, 'w) externs \<Rightarrow> 'w call_op \<Rightarrow> 'm response_op \<Rightarrow> Addr \<Rightarrow> Response ContractResult
     \<Rightarrow> SubMsg list \<Rightarrow> ('m, Response ContractResult) modelM" where
  "handle_messages X call hr origin last_response [] = returnM last_response"
| "handle_messages X call hr origin last_response (sub_msg # rest) =
     bindM (handle_submessage X call hr origin sub_msg) (\<lambda>response.
     case response of
       ContractResult_Err _ \<Rightarrow> returnM response
     | ContractResult_Ok _ \<Rightarrow> handle_messages X call hr origin response rest)"

fun handle_response :: "('m, 'w) externs \<Rightarrow> 'w call_op \<Rightarrow> nat \<Rightarrow> 'm response_op" where
  "handle_response X call 0 origin response = divergeM"
| "handle_response X call (Suc n) origin response =
     (if r_messages response = [] then returnM (ContractResult_Ok response)
      else handle_messages X call (handle_response X call n) origin
             (ContractResult_Ok Response_new) (r_messages response))"

declare handle_response.simps [simp del]

section \<open>Public operations\<close>

definition take_log :: "('m, DebugLog) modelM" where
  "take_log = updateM (\<lambda>s. (md_debug_log (fst s), ((fst s)\<lparr>md_debug_log := DebugLog_new\<rparr>, snd s)))"

text \<open>
  How \<^verbatim>\<open>instantiate\<close> and \<^verbatim>\<open>execute\<close> end: with the \<^verbatim>\<open>?\<close> operator on an error of the simulator,
  with a revert on an error of the contract, with the next block otherwise.
\<close>

definition finish_transaction ::
  "('m, 'w) externs \<Rightarrow> 'm Model \<Rightarrow> (Error, Response ContractResult) result
     \<Rightarrow> ('m, DebugLog) modelM" where
  "finish_transaction X state_copy r =
     (case r of
        Err e \<Rightarrow> thenM (drop_model X state_copy) (failM e)
      | Ok (ContractResult_Err _) \<Rightarrow>
          bindM (revert state_copy) (\<lambda>orig_state.
          thenM (drop_model X orig_state) (returnM (md_debug_log orig_state)))
      | Ok (ContractResult_Ok _) \<Rightarrow>
          thenM (zoomM (md_states \<circ> fst) (\<lambda>t s. ((fst s)\<lparr>md_states := t\<rparr>, snd s))
                   (update_block (x_checks X)))
          (bindM take_log (\<lambda>debug_log.
           thenM (drop_model X state_copy) (returnM debug_log))))"

definition instantiate ::
  "('m, 'w) externs \<Rightarrow> nat \<Rightarrow> u64 \<Rightarrow> bytes \<Rightarrow> Coin list \<Rightarrow> ('m, DebugLog) modelM" where
  "instantiate X n code_id msg funds =
     bindM (getM (md_sender \<circ> fst)) (\<lambda>sender.
     bindM (Model_clone X) (\<lambda>state_copy.
     bindM (tryM (instantiate_inner X (vm_call X n) (handle_response X (vm_call X n) n)
                    code_id sender msg funds)) (\<lambda>r.
     finish_transaction X state_copy
       (case r of Ok (res, _) \<Rightarrow> Ok res | Err e \<Rightarrow> Err e))))"

definition execute ::
  "('m, 'w) externs \<Rightarrow> nat \<Rightarrow> Addr \<Rightarrow> bytes \<Rightarrow> Coin list \<Rightarrow> ('m, DebugLog) modelM" where
  "execute X n contract_addr msg funds =
     bindM (getM (md_sender \<circ> fst)) (\<lambda>sender.
     bindM (Model_clone X) (\<lambda>state_copy.
     bindM (tryM (execute_inner X (vm_call X n) (handle_response X (vm_call X n) n)
                    contract_addr sender msg funds)) (\<lambda>r.
     finish_transaction X state_copy r)))"

definition wasm_query ::
  "('m, 'w) externs \<Rightarrow> nat \<Rightarrow> Addr \<Rightarrow> bytes \<Rightarrow> ('m, Binary) modelM" where
  "wasm_query X n contract_addr msg =
     bindM (Model_env contract_addr) (\<lambda>env.
     bindM (on_model (create_instance X contract_addr)) (\<lambda>instance.
     bindM (on_model (with_instance instance
              (RpcContractInstance_query X (vm_call X n) (ri_contract_info instance) env
                 (WasmQuery_Smart contract_addr msg)))) (\<lambda>(result, instance').
     thenM (handle_coverage X (vm_call X n) instance') (liftR result))))"

definition Model_bank_query :: "('m, 'w) externs \<Rightarrow> bytes \<Rightarrow> ('m, Binary) modelM" where
  "Model_bank_query X query =
     bindM (liftR (map_errR FormatError (js_bank_query (x_serde X) query))) (\<lambda>bq.
     on_model_bank (bank_query (x_client X) (js_balance_response (x_serde X))
       (js_all_balance_response (x_serde X)) bq))"

definition add_custom_code :: "u64 \<Rightarrow> bytes \<Rightarrow> ('m, unit) modelM" where
  "add_custom_code code_id code =
     modifyM (\<lambda>s. ((fst s)\<lparr>md_custom_codes := (md_custom_codes (fst s))(code_id \<mapsto> code)\<rparr>, snd s))"

section \<open>Cheat codes\<close>

definition cheat_block_number :: "u64 \<Rightarrow> ('m, unit) modelM" where
  "cheat_block_number new_number = on_contracts (\<lambda>st. st\<lparr>as_block_number := new_number\<rparr>)"

definition cheat_block_timestamp :: "Timestamp \<Rightarrow> ('m, unit) modelM" where
  "cheat_block_timestamp new_timestamp =
     on_contracts (\<lambda>st. st\<lparr>as_block_timestamp := new_timestamp\<rparr>)"

definition cheat_bank_balance :: "Addr \<Rightarrow> string \<Rightarrow> u128 \<Rightarrow> ('m, unit) modelM" where
  "cheat_bank_balance address denom new_balance =
     on_contracts (set_balance address denom new_balance)"

definition cheat_code :: "('m, 'w) externs \<Rightarrow> Addr \<Rightarrow> bytes \<Rightarrow> ('m, unit) modelM" where
  "cheat_code X contract_addr new_code =
     thenM (on_model (fetch_contract_state X contract_addr))
     (bindM (getM (\<lambda>s. contract_state_get (md_states (fst s)) contract_addr)) (\<lambda>found.
      bindM (unwrapM found) (\<lambda>old_contract_state.
      thenM (on_contracts (contract_state_insert contract_addr
               (old_contract_state\<lparr>cs_code := new_code\<rparr>)))
      (bindM (tryM (on_model (create_instance X contract_addr))) (\<lambda>r.
       case r of
         Ok _ \<Rightarrow> returnM ()
       | Err e \<Rightarrow>
           thenM (on_contracts (contract_state_insert contract_addr old_contract_state))
           (failM e))))))"

definition cheat_message_sender :: "Addr \<Rightarrow> ('m, unit) modelM" where
  "cheat_message_sender my_addr = modifyM (\<lambda>s. ((fst s)\<lparr>md_sender := my_addr\<rparr>, snd s))"

definition cheat_storage ::
  "('m, 'w) externs \<Rightarrow> Addr \<Rightarrow> bytes \<Rightarrow> bytes \<Rightarrow> ('m, unit) modelM" where
  "cheat_storage X contract_addr key value =
     thenM (on_model (fetch_contract_state X contract_addr))
     (bindM (getM (\<lambda>s. contract_state_get (md_states (fst s)) contract_addr)) (\<lambda>found.
      bindM (unwrapM found) (\<lambda>cs.
      on_contracts (contract_state_insert contract_addr
        (cs\<lparr>cs_storage := bt_insert key value (cs_storage cs)\<rparr>)))))"

end
