(* ===== verification/Samples.thy ===== *)
theory Samples
  imports Simulator Bank
begin

text \<open>
  A concrete instance of everything outside the repository, on which the witnesses evaluate the
  simulator: a contract language whose memory is a list of regions (pointer \<open>n\<close> is the \<open>n\<close>-th),
  an encoding of messages and responses as single bytes, and a model with two contracts.
\<close>

definition guest_result :: "bytes list \<Rightarrow> bytes \<Rightarrow> bytes list prog" where
  "guest_result w r = Done 0 (w @ [r]) [I32 (of_nat (Suc (length w)))]"

text \<open>
  \<open>execute\<close> on message 1, 2 and 6 writes the entry \<open>1 \<mapsto> 9\<close> and returns response 1 (an error), 0 or
  4 (not a response); on message 5 it traps; on any other message it returns the message as its
  response.
\<close>

definition guest_answer :: "byte \<Rightarrow> byte" where
  "guest_answer b = (if b = 1 then 1 else if b = 2 then 0 else 4)"

definition guest_execute :: "bytes list \<Rightarrow> u32 \<Rightarrow> bytes list prog" where
  "guest_execute w p =
     (let b = w ! (unat p - 1); n = length w in
      if b = [1] \<or> b = [2] \<or> b = [6] then
        Host 0 (w @ [[1], [9]]) (DbWrite (of_nat (n + 1)) (of_nat (n + 2)))
          (\<lambda>w' _. guest_result w' [guest_answer (hd b)])
      else if b = [5] then Trap 0 w ''unreachable''
      else guest_result w b)"

definition guest_query :: "bytes list \<Rightarrow> bytes list prog" where
  "guest_query w =
     Host 0 (w @ [[1]]) (DbRead (of_nat (length w + 1)))
       (\<lambda>w' vs. guest_result w' (case vs of [I32 p] \<Rightarrow> if p = 0 then [] else w' ! (unat p - 1) | _ \<Rightarrow> []))"

definition guest_call :: "bytes list \<Rightarrow> string \<Rightarrow> Val list \<Rightarrow> (string, bytes list prog) result" where
  "guest_call w name args =
     (if name = ''allocate'' then Ok (Done 0 (w @ [[]]) [I32 (of_nat (Suc (length w)))])
      else if name = ''deallocate'' then Ok (Done 0 w [])
      else case args of
        [_, _, I32 p] \<Rightarrow> if name = ''execute'' \<or> name = ''instantiate'' then Ok (guest_execute w p) else Err name
      | [_, I32 p] \<Rightarrow>
          if name = ''query'' then Ok (guest_query w)
          else if name = ''reply'' then Ok (guest_result w [0]) else Err name
      | _ \<Rightarrow> Err name)"

definition guest_has :: "bytes list \<Rightarrow> u32 \<Rightarrow> bool" where
  "guest_has w p \<longleftrightarrow> 0 < p \<and> unat p \<le> length w"

definition sample_wasm :: "(bytes, bytes list) wasm_ext" where
  "sample_wasm =
     \<lparr>wx_compile = (\<lambda>code. if take 4 code = WASM_MAGIC then Ok code else Err ''bad magic number''),
      wx_instantiate = (\<lambda>_. Ok []), wx_call = guest_call, wx_has_memory = (\<lambda>_. True),
      wx_memory_size = (\<lambda>w. 65536),
      wx_get_region = (\<lambda>w p. if guest_has w p
        then Some \<lparr>rg_offset = p, rg_capacity = 1000, rg_length = of_nat (length (w ! (unat p - 1)))\<rparr> else None),
      wx_set_region = (\<lambda>p r w. if guest_has w p then Some w else None),
      wx_get_bytes = (\<lambda>w off len. if guest_has w off then Some (w ! (unat off - 1)) else None),
      wx_set_bytes = (\<lambda>off data w. w[unat off - 1 := data]),
      wx_val_string = (\<lambda>_. ''value'')\<rparr>"

definition sample_submsg :: SubMsg where
  "sample_submsg =
     \<lparr>sm_id = 5, sm_msg = CosmosMsg_Wasm (WasmMsg_Execute ''child'' [1] []), sm_gas_limit = None,
      sm_reply_on = ReplyOn_Error\<rparr>"

definition sample_response :: "bytes \<Rightarrow> (string, Response ContractResult) result" where
  "sample_response b =
     (if b = [0] then Ok (ContractResult_Ok Response_new)
      else if b = [1] then Ok (ContractResult_Err ''boom'')
      else if b = [3] then Ok (ContractResult_Ok (Response_new\<lparr>r_messages := [sample_submsg]\<rparr>))
      else Err ''not a response'')"

definition sample_serde :: serde_ext where
  "sample_serde =
     \<lparr>js_display = (\<lambda>b. if b = [255] then None else Some ''{}''), js_value_error = (\<lambda>_. None),
      js_type_name = id, js_balance_response = (\<lambda>_. Ok [1]), js_all_balance_response = (\<lambda>_. Ok [2]),
      js_bank_query = (\<lambda>b. Ok (BankQuery_Balance ''alice'' ''ucosm'')),
      js_query_request = (\<lambda>b. Ok (QueryRequest_Wasm (WasmQuery_Smart ''vault'' b))),
      js_print_request = (\<lambda>b. Ok ''text''), js_print_response = (\<lambda>_. Ok [1]),
      js_contract_info = (\<lambda>c. Ok (str_bytes (ci_address c))),
      js_env = (\<lambda>_. Ok []), js_info = (\<lambda>_. Ok []), js_reply = (\<lambda>_. Ok []),
      js_response = sample_response, js_query_response = (\<lambda>b. Ok (ContractResult_Ok b)),
      js_query_result = (\<lambda>_. Ok [])\<rparr>"

definition sample_x :: "(bytes, bytes list) externs" where
  "sample_x =
     \<lparr>x_checks = True, x_client = sample_ext, x_serde = sample_serde, x_wasm = sample_wasm,
      x_crypto = sample_crypto, x_bech32 = sample_bech32, x_sha256 = (\<lambda>b. map (\<lambda>c. c + 64) (take 32 b)),
      x_pb_instantiate_response = str_bytes, x_pb_execute_response = []\<rparr>"

definition sample_model :: "bytes Model" where
  "sample_model =
     (initial_model (sample_states\<lparr>as_contract_states :=
        [''vault'' \<mapsto> \<lparr>cs_code = WASM_MAGIC, cs_storage = []\<rparr>,
         ''child'' \<mapsto> \<lparr>cs_code = WASM_MAGIC, cs_storage = []\<rparr>]\<rparr>))\<lparr>md_sender := ''alice''\<rparr>"

section \<open>Evaluation\<close>

lemma sample_x_sel [simp]:
  "x_checks sample_x = True" "x_client sample_x = sample_ext" "x_serde sample_x = sample_serde"
  "x_wasm sample_x = sample_wasm"
  by (simp_all add: sample_x_def)

lemma charge_0: "en_points e = Some c \<Longrightarrow> charge 0 g (e, s) = (Ret True, (e\<lparr>en_guest := g\<rparr>, s))"
  by (simp add: charge_def on_env_def get_env_def m_simps)

lemma process_gas_info_free:
  assumes "en_points e = Some c"
  shows "process_gas_info X GasInfo_free (e, s) = (Ret (), (e, s))"
proof -
  have "e\<lparr>en_points := Some c\<rparr> = e" using assms by simp
  moreover have "unat (gs_externally_used_gas (en_gas_state e)) < 2 ^ 64"
    using unsigned_less [of "gs_externally_used_gas (en_gas_state e)"] by simp
  ultimately show ?thesis
    using assms
    by (simp add: process_gas_info_def GasInfo_free_def get_gas_left_def set_gas_left_def get_env_def on_env_def
        m_simps prim_add_def chk_add_def sat_sub_def chk_sub_def)
qed

lemma guest_call_run:
  "en_points e = Some c \<Longrightarrow> guest_call (en_guest e) name args = Ok (Done 0 g vs) \<Longrightarrow>
   vm_call sample_x (Suc n) name args (e, s) = (Ret vs, (e\<lparr>en_guest := g\<rparr>, s))"
  by (simp add: vm_call.simps call_function_def get_env_def m_simps charge_0 sample_wasm_def)

lemmas guest_memory =
  write_region_def read_region_def memory_def write_region_mem_def read_region_mem_def get_region_def
  set_region_def validate_region_def sample_wasm_def get_env_def on_env_def guest_has_def bind_result_def
  to_u32_def Let_def

lemma guest_write_args:
  assumes "en_points e = Some c" and "en_guest e = []"
  shows "write_args sample_x (vm_call sample_x (Suc n)) [[], [], [b]] (e, s) =
    (Ret [I32 1, I32 2, I32 3], (e\<lparr>en_guest := [[], [], [b]]\<rparr>, s))"
  using assms
  by (simp add: allocate_def call_function1_def m_simps guest_call_run [where c = c] guest_call_def
      ref_to_u32_def guest_memory)

text \<open>The result of a call is read back and its region released.\<close>

lemma guest_call_raw:
  assumes c: "en_points e = Some c" and g: "en_guest e = []"
    and run: "vm_call sample_x (Suc n) name [I32 1, I32 2, I32 3] (e\<lparr>en_guest := [[], [], [b]]\<rparr>, s) =
      (Ret [I32 p], (e\<lparr>en_guest := w\<rparr>, t))"
    and p: "p = of_nat (length w)" "length w \<in> {4, 6}" "length (last w) = 1"
  shows "call_raw sample_x (vm_call sample_x (Suc n)) name [[], [], [b]] READ_LIMIT (e, s) =
    (Ret (last w), (e\<lparr>en_guest := w\<rparr>, t))"
proof -
  have "last w = w ! (length w - 1)" using p(2) by (intro last_conv_nth) auto
  with p have 3: "read_region sample_x p READ_LIMIT (e\<lparr>en_guest := w\<rparr>, t) = (Ret (last w), (e\<lparr>en_guest := w\<rparr>, t))"
    by (auto simp: guest_memory m_simps READ_LIMIT_def MI_def)
  have 4: "deallocate (vm_call sample_x (Suc n)) p (e\<lparr>en_guest := w\<rparr>, t) = (Ret (), (e\<lparr>en_guest := w\<rparr>, t))"
    using c by (simp add: deallocate_def call_function0_def m_simps guest_call_run [where c = c] guest_call_def)
  show ?thesis
    by (simp add: call_raw_def call_function1_def m_simps guest_write_args [OF c g] run 3 4 ref_to_u32_def
        del: write_args.simps)
qed

lemma guest_execute_writes:
  assumes "en_points e = Some c" and "en_guest e = []" and "\<not> en_storage_readonly e"
    and "en_storage e = SharedStorage a" and "as_contract_states (sh_states s) a = Some cs"
    and "b \<in> {1, 2, 6}"
  shows "call_raw sample_x (vm_call sample_x (Suc (Suc n))) ''execute'' [[], [], [b]] READ_LIMIT (e, s) =
    (Ret [guest_answer b],
     (e\<lparr>en_guest := [[], [], [b], [1], [9], [guest_answer b]]\<rparr>,
      s\<lparr>sh_states := contract_state_insert a
         (cs\<lparr>cs_storage := bt_insert [1] [9] (cs_storage cs)\<rparr>) (sh_states s)\<rparr>))"
proof -
  let ?g = "[[], [], [b], [1], [9], [guest_answer b]]"
  have "vm_call sample_x (Suc (Suc n)) ''execute'' [I32 1, I32 2, I32 3] (e\<lparr>en_guest := [[], [], [b]]\<rparr>, s) =
    (Ret [I32 6], (e\<lparr>en_guest := ?g\<rparr>, s\<lparr>sh_states := contract_state_insert a
         (cs\<lparr>cs_storage := bt_insert [1] [9] (cs_storage cs)\<rparr>) (sh_states s)\<rparr>))"
    using assms
    by (auto simp: vm_call.simps(2) [of _ "Suc n"] call_function_def guest_call_def guest_execute_def m_simps
        charge_0 [where c = c] guest_memory guest_result_def env_imports_def ret0_def do_db_write_def
        with_storage_from_context_def load_storage_def store_storage_def contract_state_get_def settle_def
        process_gas_info_free [where c = c] RpcMockStorage_set_def contract_storage_update_def
        MAX_LENGTH_DB_KEY_def MAX_LENGTH_DB_VALUE_def KI_def)
  from guest_call_raw [OF assms(1,2) this] show ?thesis by simp
qed

lemma guest_execute_returns:
  assumes "en_points e = Some c" and "en_guest e = []" and "b \<notin> {1, 2, 5, 6}"
  shows "call_raw sample_x (vm_call sample_x (Suc n)) ''execute'' [[], [], [b]] READ_LIMIT (e, s) =
    (Ret [b], (e\<lparr>en_guest := [[], [], [b], [b]]\<rparr>, s))"
proof -
  have "vm_call sample_x (Suc n) ''execute'' [I32 1, I32 2, I32 3] (e\<lparr>en_guest := [[], [], [b]]\<rparr>, s) =
    (Ret [I32 4], (e\<lparr>en_guest := [[], [], [b], [b]]\<rparr>, s))"
    using assms by (subst guest_call_run [where c = c and g = "[[], [], [b], [b]]"])
      (simp_all add: guest_call_def guest_execute_def guest_result_def Let_def)
  from guest_call_raw [OF assms(1,2) this] show ?thesis by simp
qed

text \<open>The simulator on the contract \<open>vault\<close>: nothing is fetched, and nobody is paid.\<close>

definition sample_api :: RpcMockApi where
  "sample_api =
     \<lparr>api_canonical_length = 32, api_bech32_prefix = str_bytes ''wasm'' @ replicate 6 0,
      api_bech32_prefix_len = 4\<rparr>"

definition sample_instance :: "Addr \<Rightarrow> bytes list RpcContractInstance" where
  "sample_instance a =
     RpcContractInstance_new a (Environment_new sample_api U64_MAX False (SharedStorage a) [])"

lemma sample_create_instance:
  assumes "as_contract_states (sh_states s) a = Some cs" and "take 4 (cs_code cs) = WASM_MAGIC"
    and "as_bech32_prefix (sh_states s) = ''wasm''" and "as_canonical_address_length (sh_states s) = 32"
  shows "create_instance sample_x a s = (Ret (sample_instance a), s)"
proof -
  have "RpcMockApi_new 32 ''wasm'' = Ok sample_api"
    by (simp add: RpcMockApi_new_def BECH32_PREFIX_MAX_LEN_def sample_api_def Let_def eval_nat_numeral)
  with assms show ?thesis
    by (simp add: create_instance_def fetch_contract_state_def contract_state_get_def new_mock_def
        from_code_def compile_def from_module_def sample_wasm_def sample_instance_def m_simps)
qed

lemma sample_json [simp]:
  "json_env sample_x env = Ok []" "json_info sample_x info = Ok []"
  "length b = 1 \<Longrightarrow> parse_response sample_x b =
     map_errR (ParseErr (js_type_name sample_serde ''ContractResult<Response>'')) (sample_response b)"
  by (simp_all add: json_env_def json_info_def parse_response_def to_vec_def from_slice_def sample_serde_def
      DESERIALIZATION_LIMIT_def KI_def split: result.split)

definition put_entry :: "Addr \<Rightarrow> AllStates \<Rightarrow> AllStates" where
  "put_entry a st =
     (case as_contract_states st a of
        None \<Rightarrow> st
      | Some cs \<Rightarrow> contract_state_insert a (cs\<lparr>cs_storage := bt_insert [1] [9] (cs_storage cs)\<rparr>) st)"

lemma sample_run_writes:
  assumes "as_contract_states (sh_states s) a = Some cs" and "b \<in> {1, 2, 6}"
  shows "\<exists>i. with_instance (sample_instance a)
      (RpcContractInstance_execute sample_x (vm_call sample_x (Suc (Suc n))) env [b] sender funds) s =
    (Ret (if b = 1 then Ok (ContractResult_Err ''boom'') else if b = 2 then Ok (ContractResult_Ok Response_new)
          else Err (vm_error (ParseErr ''ContractResult<Response>'' ''not a response'')), i),
     s\<lparr>sh_states := put_entry a (sh_states s)\<rparr>)"
proof -
  let ?e = "(Environment_new sample_api U64_MAX False (SharedStorage a) ([] :: bytes list))\<lparr>en_storage_readonly := False\<rparr>"
  have "call_raw sample_x (vm_call sample_x (Suc (Suc n))) ''execute'' [[], [], [b]] READ_LIMIT (?e, s) =
    (Ret [guest_answer b],
     (?e\<lparr>en_guest := [[], [], [b], [1], [9], [guest_answer b]]\<rparr>, s\<lparr>sh_states := put_entry a (sh_states s)\<rparr>))"
    unfolding put_entry_def using assms
    by (subst guest_execute_writes [where c = U64_MAX and a = a and cs = cs]) (auto simp: Environment_new_def)
  then show ?thesis
    using assms(2)
    by (auto simp: with_instance_def sample_instance_def RpcContractInstance_new_def RpcContractInstance_execute_def
        call_execute_def call_execute_raw_def set_storage_readonly_def on_env_def m_simps sample_response_def guest_answer_def sample_serde_def)
qed

definition in_call :: "Addr \<Rightarrow> byte \<Rightarrow> DebugLog \<Rightarrow> nat \<times> DebugLog" where
  "in_call a b l = (case begin_execute (js_display sample_serde) a [b] l of Some r \<Rightarrow> r | None \<Rightarrow> (0, l))"

lemma sample_begin:
  "b \<noteq> 255 \<Longrightarrow> begin_execute (js_display sample_serde) a [b] l = Some (in_call a b l)"
  by (simp add: in_call_def begin_execute_def begin_context_def sample_serde_def Let_def case_prod_beta)

definition sample_ready :: "bytes Model \<Rightarrow> bool" where
  "sample_ready m \<longleftrightarrow>
     as_bech32_prefix (md_states m) = ''wasm'' \<and> as_canonical_address_length (md_states m) = 32 \<and>
     \<not> cv_enabled (md_coverage_info m)"

lemma sample_execute_fails:
  assumes "as_contract_states (md_states m) a = Some cs" and "take 4 (cs_code cs) = WASM_MAGIC"
    and "sample_ready m"
  shows "execute_inner sample_x (vm_call sample_x (Suc (Suc n))) hr a sender [1] [] (m, w) =
    (Ret (ContractResult_Err ''boom''),
     (m\<lparr>md_states := put_entry a (md_states m),
        md_debug_log := begin_error ''boom'' (set_err_msg ''boom'' (snd (in_call a 1 (md_debug_log m))))\<rparr>, w))"
proof -
  let ?s = "\<lparr>sh_states = md_states m, sh_debug_log = snd (in_call a 1 (md_debug_log m)), sh_world = w\<rparr>"
  obtain i where run: "(with_instance (sample_instance a)
      (RpcContractInstance_execute sample_x (vm_call sample_x (Suc (Suc n))) (block_env (md_states m) a) [1] sender [])
        :: (Error, _) sharedM) ?s =
    (Ret (Ok (ContractResult_Err ''boom''), i), ?s\<lparr>sh_states := put_entry a (md_states m)\<rparr>)"
    using sample_run_writes [of ?s a cs 1 n "block_env (md_states m) a" sender "[]"] assms(1) by auto
  obtain j d where l: "in_call a 1 (md_debug_log m) = (j, d)" by (cases "in_call a 1 (md_debug_log m)")
  show ?thesis
    using assms run
    by (simp add: execute_inner_def Model_env_def on_model_def shared_of_def put_shared_def transfer_funds_def
        sample_create_instance sample_ready_def begin_model_def on_log_begin_def sample_begin l run_instance_def
        handle_coverage_def on_model_log_def on_log_def m_simps)
qed

lemma sample_execute_ok:
  assumes "as_contract_states (md_states m) a = Some cs" and "take 4 (cs_code cs) = WASM_MAGIC"
    and "sample_ready m"
  shows "execute_inner sample_x (vm_call sample_x (Suc (Suc n))) (handle_response sample_x call (Suc k))
      a sender [2] [] (m, w) =
    (Ret (ContractResult_Ok Response_new),
     (m\<lparr>md_states := put_entry a (md_states m),
        md_debug_log := end_execute (fst (in_call a 2 (md_debug_log m)))
          (append_log Response_new (snd (in_call a 2 (md_debug_log m))))\<rparr>, w))"
proof -
  let ?s = "\<lparr>sh_states = md_states m, sh_debug_log = snd (in_call a 2 (md_debug_log m)), sh_world = w\<rparr>"
  obtain i where run: "(with_instance (sample_instance a)
      (RpcContractInstance_execute sample_x (vm_call sample_x (Suc (Suc n))) (block_env (md_states m) a) [2] sender [])
        :: (Error, _) sharedM) ?s =
    (Ret (Ok (ContractResult_Ok Response_new), i), ?s\<lparr>sh_states := put_entry a (md_states m)\<rparr>)"
    using sample_run_writes [of ?s a cs 2 n "block_env (md_states m) a" sender "[]"] assms(1) by auto
  obtain j d where l: "in_call a 2 (md_debug_log m) = (j, d)" by (cases "in_call a 2 (md_debug_log m)")
  show ?thesis
    using assms run
    by (simp add: execute_inner_def Model_env_def on_model_def shared_of_def put_shared_def transfer_funds_def
        sample_create_instance sample_ready_def begin_model_def on_log_begin_def sample_begin l run_instance_def
        handle_coverage_def on_model_log_def on_log_def handle_response.simps Response_new_def m_simps)
qed

lemma sample_model_simps [simp]:
  "sample_ready sample_model"
  "as_contract_states (md_states sample_model) ''vault'' = Some \<lparr>cs_code = WASM_MAGIC, cs_storage = []\<rparr>"
  "as_contract_states (md_states sample_model) ''child'' = Some \<lparr>cs_code = WASM_MAGIC, cs_storage = []\<rparr>"
  "take 4 WASM_MAGIC = WASM_MAGIC"
  "md_debug_log sample_model = DebugLog_new" "md_sender sample_model = ''alice''"
  by (simp_all add: sample_ready_def sample_model_def initial_model_def CoverageInfo_new_def sample_states_def
      WASM_MAGIC_def)

lemma sample_clone: "Model_clone sample_x (sample_model, w) = (Ret sample_model, (sample_model, w))"
  by (simp add: Model_clone_def clone_box_def sample_model_def initial_model_def sample_states_def m_simps)

definition sample_failed :: "bytes Model" where
  "sample_failed = sample_model\<lparr>md_states := put_entry ''vault'' (md_states sample_model),
     md_debug_log := begin_error ''boom'' (set_err_msg ''boom'' (snd (in_call ''vault'' 1 DebugLog_new)))\<rparr>"

definition sample_done :: "bytes Model" where
  "sample_done = sample_model\<lparr>md_states := put_entry ''vault'' (md_states sample_model),
     md_debug_log := end_execute (fst (in_call ''vault'' 2 DebugLog_new))
       (append_log Response_new (snd (in_call ''vault'' 2 DebugLog_new)))\<rparr>"

lemma sample_vault_fails:
  "execute_inner sample_x (vm_call sample_x 2) hr ''vault'' sender [1] [] (sample_model, w) =
     (Ret (ContractResult_Err ''boom''), (sample_failed, w))"
  using sample_execute_fails [of sample_model "''vault''" _ 0 hr sender w, folded numeral_2_eq_2]
  by (simp add: sample_failed_def)

lemma sample_vault_ok:
  "execute_inner sample_x (vm_call sample_x 2) (handle_response sample_x call 2) ''vault'' sender [2] []
     (sample_model, w) = (Ret (ContractResult_Ok Response_new), (sample_done, w))"
  using sample_execute_ok [of sample_model "''vault''" _ 0 call "Suc 0" sender w, folded numeral_2_eq_2]
  by (simp add: sample_done_def)

lemma sample_vault_errs:
  "execute_inner sample_x (vm_call sample_x 2) hr ''vault'' sender [6] [] (sample_model, w) =
     (Fail (vm_error (ParseErr ''ContractResult<Response>'' ''not a response'')),
      (sample_model\<lparr>md_states := put_entry ''vault'' (md_states sample_model),
         md_debug_log := snd (in_call ''vault'' 6 DebugLog_new)\<rparr>, w))"
proof -
  let ?a = "''vault''" and ?m = sample_model
  let ?s = "\<lparr>sh_states = md_states ?m, sh_debug_log = snd (in_call ?a 6 DebugLog_new), sh_world = w\<rparr>"
  obtain i where run: "(with_instance (sample_instance ?a)
      (RpcContractInstance_execute sample_x (vm_call sample_x 2) (block_env (md_states ?m) ?a) [6] sender [])
        :: (Error, _) sharedM) ?s =
    (Ret (Err (vm_error (ParseErr ''ContractResult<Response>'' ''not a response'')), i),
     ?s\<lparr>sh_states := put_entry ?a (md_states ?m)\<rparr>)"
    using sample_run_writes [of ?s ?a _ 6 0 "block_env (md_states ?m) ?a" sender "[]", folded numeral_2_eq_2]
    by auto
  obtain j d where l: "in_call ?a 6 DebugLog_new = (j, d)" by (cases "in_call ?a 6 DebugLog_new")
  show ?thesis
    using run sample_model_simps(1)
    by (simp add: execute_inner_def Model_env_def on_model_def shared_of_def put_shared_def transfer_funds_def
        sample_create_instance sample_ready_def begin_model_def on_log_begin_def sample_begin l run_instance_def
        m_simps del: sample_model_simps(1))
qed

end
