(* ===== verification/Transactions.thy ===== *)
theory Transactions
  imports Isolation Samples
begin

text \<open>
  What the operations of the simulator keep.  \<open>model_le\<close> relates two states inside one
  transaction; the locale \<open>responses\<close> is what a transaction needs of \<open>handle_response\<close>, and is
  interpreted on it.  The properties are about whole transactions: revert on an error of the
  contract, the next block otherwise, and an error of the simulator itself, which reverts nothing.
\<close>

section \<open>Inside a transaction\<close>

definition coverage_le :: "CoverageInfo \<Rightarrow> CoverageInfo \<Rightarrow> bool" where
  "coverage_le c d \<longleftrightarrow>
     cv_enabled d = cv_enabled c \<and>
     (\<forall>a xs. cv_coverage_data c a = Some xs \<longrightarrow> (\<exists>ys. cv_coverage_data d a = Some (xs @ ys)))"

definition model_le :: "nat \<Rightarrow> 'm Model \<times> World \<Rightarrow> 'm Model \<times> World \<Rightarrow> bool" where
  "model_le K s t \<longleftrightarrow>
     md_sender (fst t) = md_sender (fst s) \<and> md_custom_codes (fst t) = md_custom_codes (fst s) \<and>
     md_wasm_cache (fst s) \<subseteq>\<^sub>m md_wasm_cache (fst t) \<and>
     coverage_le (md_coverage_info (fst s)) (md_coverage_info (fst t)) \<and>
     log_step K (md_debug_log (fst s)) (md_debug_log (fst t)) \<and>
     same_block (md_states (fst s)) (md_states (fst t)) \<and>
     dom (as_bank_states (md_states (fst s))) \<subseteq> dom (as_bank_states (md_states (fst t))) \<and>
     (stores_ok (md_states (fst s)) \<longrightarrow> stores_ok (md_states (fst t))) \<and>
     client_le (as_client (md_states (fst s)), snd s) (as_client (md_states (fst t)), snd t)"

lemma coverage_le_refl: "coverage_le c c"
  by (simp add: coverage_le_def)

lemma coverage_le_trans:
  assumes "coverage_le c d" and "coverage_le d e"
  shows "coverage_le c e"
proof -
  have "\<exists>ys. cv_coverage_data e a = Some (xs @ ys)" if known: "cv_coverage_data c a = Some xs" for a xs
  proof -
    obtain ys where "cv_coverage_data d a = Some (xs @ ys)"
      using known assms(1) unfolding coverage_le_def by blast
    then obtain zs where "cv_coverage_data e a = Some ((xs @ ys) @ zs)"
      using assms(2) unfolding coverage_le_def by blast
    then show ?thesis by simp
  qed
  then show ?thesis using assms by (simp add: coverage_le_def)
qed

interpretation mdl: kept "model_le K"
proof
  show "model_le K s s" for s :: "'m Model \<times> World"
    by (simp add: model_le_def coverage_le_refl log_step_refl same_block_def cl.kept_refl)
  show "model_le K s u" if "model_le K s t" "model_le K t u" for s t u :: "'m Model \<times> World"
    using that by (auto simp: model_le_def same_block_def
        intro: map_le_trans coverage_le_trans log_step_trans cl.kept_trans)
qed

lemma keeps_on_model: "keeps (shared_le own K) m \<Longrightarrow> keeps (model_le K) (on_model m)"
  unfolding on_model_def
  by (erule keeps_zoom)
    (auto simp: model_le_def shared_of_def put_shared_def shared_le_def chain_le_def coverage_le_refl
      dest: map_le_implies_dom_le)

lemma keeps_on_model_log: "(\<And>d. log_step K d (f d)) \<Longrightarrow> keeps (model_le K) (on_model_log f)"
  unfolding on_model_log_def by (intro keeps_on_model [where own = None] keeps_on_log)

lemmas keeps_log_methods =
  keeps_on_model_log [OF log_step_methods(1)] keeps_on_model_log [OF log_step_methods(2)]
  keeps_on_model_log [OF log_step_methods(4)]

lemma keeps_begin_model:
  assumes "\<And>i K'. i \<le> K' \<Longrightarrow> keeps (model_le K') (g i)"
  shows "keeps (model_le K) (bindM (begin_model (begin_context j k a msg)) g)"
proof (rule keepsI)
  fix s :: "'a Model \<times> World"
  show "model_le K s (snd (bindM (begin_model (begin_context j k a msg)) g s))"
  proof (cases "begin_context j k a msg (md_debug_log (fst s))")
    case None
    then have "bindM (begin_model (begin_context j k a msg)) g s = (Panic, s)"
      by (simp add: begin_model_def on_model_def on_log_begin_def m_simps shared_of_def put_shared_def)
    then show ?thesis by (simp add: mdl.kept_refl)
  next
    case (Some r)
    obtain i d where r: "r = (i, d)" by (cases r)
    let ?s = "((fst s)\<lparr>md_debug_log := d\<rparr>, snd s)"
    have eq: "bindM (begin_model (begin_context j k a msg)) g s = g i ?s"
      using Some r by (simp add: begin_model_def on_model_def on_log_begin_def m_simps shared_of_def put_shared_def)
    have "model_le (max K i) ?s (snd (g i ?s))"
      using assms [of i "max K i"] by (simp add: keeps_def)
    then show ?thesis
      using log_step_begin [OF Some [unfolded r]] by (auto simp: eq model_le_def)
  qed
qed

text \<open>The bank changes balances only.\<close>

definition ledger_le :: "AllStates \<times> World \<Rightarrow> AllStates \<times> World \<Rightarrow> bool" where
  "ledger_le s t \<longleftrightarrow>
     as_contract_states (fst t) = as_contract_states (fst s) \<and> same_block (fst s) (fst t) \<and>
     dom (as_bank_states (fst s)) \<subseteq> dom (as_bank_states (fst t)) \<and>
     client_le (as_client (fst s), snd s) (as_client (fst t), snd t)"

interpretation ldg: kept ledger_le
  by unfold_locales (auto simp: ledger_le_def same_block_def cl.kept_refl intro: cl.kept_trans)

lemma keeps_ledger_set: "keeps ledger_le (on_self (modifyM (set_balance a d b)))"
  by (auto simp: keeps_def on_self_def m_simps ledger_le_def set_balance_def insert_bank_state_def
      same_block_def cl.kept_refl)

lemma keeps_ledger_fetch: "keeps ledger_le (fetch_bank_state E a)"
proof (rule keepsI, clarify)
  fix s w
  have "chain_le None (s, w) (snd (fetch_bank_state E a (s, w)))"
    using keeps_fetch_bank_state by (auto simp: keeps_def)
  moreover have "as_contract_states (fst (snd (fetch_bank_state E a (s, w)))) = as_contract_states s"
    by (auto simp: fetch_bank_state_def on_client_def on_self_def m_simps insert_bank_state_def
        split: option.split prod.split outcome.split)
  ultimately show "ledger_le (s, w) (snd (fetch_bank_state E a (s, w)))"
    by (auto simp: ledger_le_def chain_le_def dest: map_le_implies_dom_le)
qed

lemma keeps_ledger_get: "keeps ledger_le (get_balance E a d)"
  unfolding get_balance_def by (intro ldg.bind keeps_ledger_fetch ldg.return)

lemma keeps_ledger_query: "keeps ledger_le (bank_query E j k query)"
  unfolding bank_query_def get_balances_def
  by (auto intro!: ldg.bind ldg.lift_result ldg.return keeps_ledger_get keeps_ledger_fetch split: BankQuery.split)

lemma keeps_ledger_send: "keeps ledger_le (bank_send_loop E src dst cs ev)"
  by (induction cs arbitrary: ev)
    (auto intro!: ldg.bind ldg.seq ldg.return ldg.unwrap_option keeps_ledger_set keeps_ledger_get)

lemma keeps_ledger_burn: "keeps ledger_le (bank_burn E src cs)"
  by (induction cs)
    (auto intro!: ldg.bind ldg.seq ldg.return ldg.unwrap_option keeps_ledger_set keeps_ledger_get)

lemma keeps_ledger_execute: "keeps ledger_le (bank_execute E sender msg)"
  by (cases msg) (simp_all add: bank_execute_def bank_send_def keeps_ledger_send keeps_ledger_burn)

lemma keeps_on_model_bank:
  assumes "keeps ledger_le m"
  shows "keeps (model_le K) (on_model_bank m)"
proof -
  have "keeps (\<lambda>s t. ledger_le (sh_states s, sh_world s) (sh_states t, sh_world t) \<and>
      sh_debug_log t = sh_debug_log s) (on_states m)"
    unfolding on_states_def by (rule keeps_zoom [OF assms]) auto
  then show ?thesis
    unfolding on_model_bank_def on_model_def
    by (rule keeps_zoom)
      (auto simp: model_le_def ledger_le_def shared_of_def put_shared_def coverage_le_refl log_step_refl
        stores_ok_def)
qed

section \<open>Instances\<close>

lemma keeps_new_mock: "keeps (shared_le own K) (new_mock r)"
  unfolding new_mock_def by (intro shr.bind shr.get shr.lift_result shr.return)

lemma keeps_create_instance: "keeps (shared_le own K) (create_instance X a)"
  unfolding create_instance_def
  by (intro shr.seq shr.bind keeps_fetch shr.get shr.unwrap_option keeps_new_mock)
    (auto intro!: shr.bind shr.lift_result shr.return split: prod.split)

lemma keeps_contract_code: "keeps (model_le K) (contract_code X code_id)"
proof -
  have "keeps (model_le K) (maybe_unzip input)" for input
    by (simp add: maybe_unzip_def Let_def mdl.return mdl.panic)
  then show ?thesis
    unfolding contract_code_def
    by (auto intro!: mdl.bind mdl.get mdl.return keeps_on_model [where own = None]
        keeps_shared_client keeps_client_queries split: option.split)
qed

lemma keeps_create_instance_from_code: "keeps (model_le K) (create_instance_from_code X code deps)"
proof (rule keepsI)
  fix s :: "'a Model \<times> World"
  have "m \<subseteq>\<^sub>m m(k \<mapsto> v)" if "m k = None" for m :: "bytes \<rightharpoonup> 'a" and k v
    using that by (auto simp: map_le_def)
  then show "model_le K s (snd (create_instance_from_code X code deps s))"
    using mdl.kept_refl [of K s]
    by (cases "md_wasm_cache (fst s) (x_sha256 X code)"; cases "compile X code")
      (auto simp: create_instance_from_code_def Let_def m_simps model_le_def split: result.split)
qed

lemma keeps_generate_address: "keeps (model_le K) (generate_address X code_id)"
proof -
  have "keeps (model_le K) (set_counter code_id n)" for n
    unfolding set_counter_def
    by (rule keeps_modify) (simp add: model_le_def coverage_le_refl log_step_refl same_block_def cl.kept_refl)
  then show ?thesis
    unfolding generate_address_def
    by (intro mdl.bind mdl.seq mdl.get mdl.unwrap_option mdl.lift_result)
qed

lemma keeps_on_contracts:
  assumes "\<And>st. same_block st (f st) \<and> as_bank_states (f st) = as_bank_states st \<and>
    as_client (f st) = as_client st \<and> (stores_ok st \<longrightarrow> stores_ok (f st))"
  shows "keeps (model_le K) (on_contracts f)"
  unfolding on_contracts_def
  by (rule keeps_modify) (simp add: assms model_le_def coverage_le_refl log_step_refl cl.kept_refl)

lemma keeps_insert_contract:
  "bt_inv (cs_storage cs) \<Longrightarrow> keeps (model_le K) (on_contracts (contract_state_insert a cs))"
  by (rule keeps_on_contracts) (auto simp: contract_state_insert_def same_block_def stores_ok_def)

lemma keeps_remove_contract: "keeps (model_le K) (on_contracts (contract_state_remove a))"
  by (rule keeps_on_contracts) (auto simp: contract_state_remove_def same_block_def stores_ok_def split: if_splits)

lemma keeps_transfer_funds: "keeps (model_le K) (transfer_funds X sender a funds)"
  unfolding transfer_funds_def
  by (auto intro!: mdl.bind mdl.seq mdl.return keeps_on_model_bank keeps_ledger_execute keeps_log_methods
      split: ContractResult.split)

lemma coverage_le_add: "coverage_le c (add_coverage a x c)"
  by (auto simp: coverage_le_def add_coverage_def)

context vm_calls
begin

lemma coverage_kept: "keeps (model_le K) (handle_coverage X call inst)"
proof -
  have "keeps (home_le K) (dump_coverage X call)"
    unfolding dump_coverage_def
    by (intro hm.bind hm.attempt hm.return keeps_home [OF call_raw_kept])
  then have "keeps (model_le K) (on_model (with_instance inst (dump_coverage X call)))"
    by (intro keeps_on_model [OF with_instance_home])
  moreover have "keeps (model_le K) (on_coverage (add_coverage a x))" for a x
    unfolding on_coverage_def
    by (rule keeps_modify)
      (simp add: model_le_def coverage_le_add log_step_refl same_block_def cl.kept_refl)
  ultimately show ?thesis
    unfolding handle_coverage_def
    by (auto intro!: mdl.bind mdl.get mdl.return mdl.lift_result split: prod.split)
qed

lemma run_instance_kept:
  assumes "\<And>K. keeps (home_le K) m"
  shows "keeps (model_le K) (run_instance X call inst m)"
  unfolding run_instance_def
  by (intro mdl.bind keeps_on_model [OF with_instance_home] assms)
    (auto intro!: mdl.bind mdl.seq mdl.return mdl.lift_result coverage_kept split: prod.split)

end

section \<open>Messages\<close>

locale responses = vm_calls X call
  for X :: "('m, 'w) externs" and call :: "'w call_op" +
  fixes hr :: "'m response_op"
  assumes hr_kept: "keeps (model_le K) (hr origin response)"
begin

lemma execute_inner_kept: "keeps (model_le K) (execute_inner X call hr a sender msg funds)"
proof -
  have body: "keeps (model_le K')
      (bindM (run_instance X call inst (RpcContractInstance_execute X call env msg sender funds)) (\<lambda>result.
       case result of
         ContractResult_Err e \<Rightarrow>
           thenM (on_model_log (set_err_msg e)) (thenM (on_model_log (begin_error e)) (returnM (ContractResult_Err e)))
       | ContractResult_Ok r \<Rightarrow>
           thenM (on_model_log (append_log r))
             (bindM (hr a r) (\<lambda>response. thenM (on_model_log (end_execute i)) (returnM response)))))"
    if "i \<le> K'" for i K' inst env
    by (auto intro!: mdl.bind mdl.seq mdl.return run_instance_kept entry_points_kept keeps_log_methods hr_kept
        keeps_on_model_log [OF log_step_end [OF that]] simp: end_execute_def split: ContractResult.split)
  show ?thesis
    unfolding execute_inner_def Model_env_def begin_execute_def
    by (auto intro!: mdl.bind [OF mdl.get] mdl.bind [OF keeps_on_model [OF keeps_create_instance [where own = None]]]
        mdl.bind [OF keeps_transfer_funds] mdl.return keeps_begin_model body split: option.split)
qed

lemma instantiate_inner_kept: "keeps (model_le K) (instantiate_inner X call hr code_id sender msg funds)"
proof -
  have body: "keeps (model_le K')
      (bindM (run_instance X call inst (RpcContractInstance_instantiate X call env msg sender funds)) (\<lambda>result.
       case result of
         ContractResult_Err e \<Rightarrow>
           thenM (on_contracts (contract_state_remove a))
           (thenM (on_model_log (set_err_msg e))
           (thenM (on_model_log (begin_error e)) (returnM (ContractResult_Err e, None))))
       | ContractResult_Ok r \<Rightarrow>
           (let r = Response_add_event r (instantiate_event code_id a) in
            thenM (on_model_log (append_log r))
            (bindM (hr a r) (\<lambda>response.
             thenM (on_model_log (end_instantiate i)) (returnM (response, Some a)))))))"
    if "i \<le> K'" for i K' inst env a
    by (auto intro!: mdl.bind mdl.seq mdl.return run_instance_kept entry_points_kept keeps_log_methods hr_kept
        keeps_on_model_log [OF log_step_end [OF that]] keeps_remove_contract
        simp: end_instantiate_def Let_def split: ContractResult.split)
  show ?thesis
    unfolding instantiate_inner_def Model_env_def begin_instantiate_def
    by (auto intro!: mdl.bind [OF keeps_generate_address] mdl.bind [OF keeps_transfer_funds]
        mdl.bind [OF keeps_on_model [OF keeps_new_mock [where own = None]]] mdl.bind [OF keeps_contract_code]
        mdl.bind [OF keeps_create_instance_from_code] mdl.seq [OF keeps_insert_contract]
        mdl.bind [OF mdl.get] mdl.return keeps_begin_model body split: option.split)
qed

lemma finish_submessage_kept:
  "keeps (model_le K) (finish_submessage X call hr origin msg i reply_on response data)"
proof -
  have body: "keeps (model_le K')
      (bindM (run_instance X call inst (RpcContractInstance_reply X call env reply)) (\<lambda>maybe_response.
       case maybe_response of
         ContractResult_Err e \<Rightarrow> thenM (on_model_log (begin_error e)) (returnM maybe_response)
       | ContractResult_Ok response \<Rightarrow>
           thenM (on_model_log (append_log response))
           (bindM (hr origin response) (\<lambda>response. thenM (on_model_log (end_reply j)) (returnM response)))))"
    if "j \<le> K'" for j K' inst env reply
    by (auto intro!: mdl.bind mdl.seq mdl.return run_instance_kept entry_points_kept keeps_log_methods hr_kept
        keeps_on_model_log [OF log_step_end [OF that]] simp: end_reply_def split: ContractResult.split)
  show ?thesis
    unfolding finish_submessage_def Model_env_def begin_reply_def
    by (auto intro!: mdl.bind [OF mdl.get] mdl.bind [OF keeps_on_model [OF keeps_create_instance [where own = None]]]
        mdl.seq [OF keeps_log_methods(3)] mdl.return keeps_begin_model body hr_kept split: ContractResult.split)
qed

lemma handle_submessage_kept: "keeps (model_le K) (handle_submessage X call hr origin sub_msg)"
  unfolding handle_submessage_def handle_submessage_instantiate_def handle_submessage_execute_def
  by (auto intro!: mdl.bind [OF execute_inner_kept] mdl.bind [OF instantiate_inner_kept] mdl.panic
      finish_submessage_kept keeps_on_model_bank keeps_ledger_execute
      split: CosmosMsg.split WasmMsg.split option.split prod.split)

lemma handle_messages_kept: "keeps (model_le K) (handle_messages X call hr origin latest msgs)"
  by (induction msgs arbitrary: latest)
    (auto intro!: mdl.bind mdl.return handle_submessage_kept split: ContractResult.split)

end

context vm_calls
begin

lemma handle_response_kept: "keeps (model_le K) (handle_response X call n origin response)"
proof (induction n arbitrary: K origin response)
  case 0
  show ?case unfolding handle_response.simps by (rule mdl.diverge)
next
  case (Suc n)
  have "responses call (handle_response X call n)"
    by (intro responses.intro responses_axioms.intro vm_calls_axioms Suc.IH)
  then show ?case
    unfolding handle_response.simps by (simp add: mdl.return responses.handle_messages_kept)
qed

end

interpretation rsp: responses X "vm_call X n" "handle_response X (vm_call X n) k" for X n k
  by unfold_locales (rule vmc.handle_response_kept)

section \<open>How a transaction ends\<close>

lemma finish_reverts:
  "finish_transaction X c (Ok (ContractResult_Err e)) (m, w) =
     (Ret (md_debug_log m),
      (c\<lparr>md_coverage_info := md_coverage_info m\<rparr>, client_drop (x_client X) (as_client (md_states m)) w))"
  by (simp add: finish_transaction_def revert_def drop_model_def m_simps)

lemma finish_fails:
  "finish_transaction X c (Err e) (m, w) =
     (Fail e, (m, client_drop (x_client X) (as_client (md_states c)) w))"
  by (simp add: finish_transaction_def drop_model_def m_simps)

lemma finish_commits:
  assumes "prim_add (x_checks X) (as_block_number (md_states m)) 1 = Some n"
    and "Timestamp_plus_nanos (x_checks X) (as_block_timestamp (md_states m)) BLOCK_EPOCH = Some t"
  shows "finish_transaction X c (Ok (ContractResult_Ok r)) (m, w) =
     (Ret (md_debug_log m),
      (m\<lparr>md_states := (md_states m)\<lparr>as_block_number := n\<rparr>, md_debug_log := DebugLog_new\<rparr>,
       client_drop (x_client X) (as_client (md_states c)) w))"
  using assms by (simp add: finish_transaction_def update_block_def take_log_def drop_model_def m_simps)

lemma clone_Ret:
  assumes "Model_clone X (m, w) = (Ret c, (m', v))"
  shows "m' = m" and "c = m\<lparr>md_states := (md_states m)\<lparr>as_client := as_client (md_states c)\<rparr>\<rparr>"
  using assms by (auto simp: Model_clone_def m_simps split: prod.splits outcome.splits)

lemma clone_with_coverage:
  assumes "Model_clone X (m, w) = (Ret c, (m', v))"
  shows "c\<lparr>md_coverage_info := cov\<rparr> =
    m\<lparr>md_states := (md_states m)\<lparr>as_client := as_client (md_states c)\<rparr>, md_coverage_info := cov\<rparr>"
  by (subst clone_Ret(2) [OF assms]) simp

section \<open>Properties of transactions\<close>

text \<open>
  C1: A transaction whose contract fails, at whatever depth of messages, is rolled back:
  \<^verbatim>\<open>execute\<close> returns the log of the failed run, and every field of the simulator is what it was
  before (contracts, balances, block, counters, codes, log), except the coverage data, which keeps
  what the failed run added, and the client, which is the copy made at the start.
\<close>

theorem execute_reverts:
  assumes "Model_clone X (m, w) = (Ret c, (m, v))"
    and "execute_inner X (vm_call X n) (handle_response X (vm_call X n) n) a (md_sender m) msg funds (m, v) =
      (Ret (ContractResult_Err e), (m', v'))"
  shows "\<exists>w' client cov.
    execute X n a msg funds (m, w) =
      (Ret (md_debug_log m'), (m\<lparr>md_states := (md_states m)\<lparr>as_client := client\<rparr>, md_coverage_info := cov\<rparr>, w')) \<and>
    coverage_le (md_coverage_info m) cov \<and> log_le (md_debug_log m) (md_debug_log m')"
proof -
  have le: "model_le 0 (m, v) (m', v')"
    using keepsD [OF rsp.execute_inner_kept assms(2)] .
  have "execute X n a msg funds (m, w) =
      (Ret (md_debug_log m'), (c\<lparr>md_coverage_info := md_coverage_info m'\<rparr>,
        client_drop (x_client X) (as_client (md_states m')) v'))"
    using assms by (simp add: execute_def m_simps finish_reverts)
  then show ?thesis
    using le by (auto simp: clone_with_coverage [OF assms(1)] model_le_def log_step_def)
qed

theorem execute_reverts_witness:
  "\<exists>log m' w'. execute sample_x 2 ''vault'' [1] [] (sample_model, sample_world) = (Ret log, (m', w')) \<and>
     dl_err_msg log = Some ''boom'' \<and> as_contract_states (md_states m') ''vault'' = Some \<lparr>cs_code = WASM_MAGIC, cs_storage = []\<rparr> \<and>
     as_block_number (md_states m') = 7"
  using execute_reverts [OF sample_clone [of sample_world] sample_vault_fails]
  by (auto simp: sample_failed_def set_err_msg_def begin_error_def sample_model_def initial_model_def
      sample_states_def)

text \<open>
  C2: A transaction whose contract succeeds moves the simulator to the next block and changes
  nothing else after the contract's run: \<^verbatim>\<open>execute\<close> returns the log of the run and starts a new
  one, the block number is one higher, and the block timestamp, the sender, the custom codes and
  the chain parameters are those from before the transaction.
\<close>

theorem execute_commits:
  assumes "Model_clone X (m, w) = (Ret c, (m, v))"
    and "execute_inner X (vm_call X n) (handle_response X (vm_call X n) n) a (md_sender m) msg funds (m, v) =
      (Ret (ContractResult_Ok r), (m', v'))"
    and "unat (as_block_number (md_states m)) + 1 < 2 ^ 64"
    and "unat (as_block_timestamp (md_states m)) + unat BLOCK_EPOCH < 2 ^ 64"
  shows "\<exists>w' m''. execute X n a msg funds (m, w) = (Ret (md_debug_log m'), (m'', w')) \<and>
    m'' = m'\<lparr>md_states := (md_states m')\<lparr>as_block_number := as_block_number (md_states m) + 1\<rparr>,
             md_debug_log := DebugLog_new\<rparr> \<and>
    as_block_timestamp (md_states m'') = as_block_timestamp (md_states m) \<and>
    as_chain_id (md_states m'') = as_chain_id (md_states m) \<and>
    md_sender m'' = md_sender m \<and> md_custom_codes m'' = md_custom_codes m \<and>
    coverage_le (md_coverage_info m) (md_coverage_info m'')"
proof -
  have le: "model_le 0 (m, v) (m', v')"
    using keepsD [OF rsp.execute_inner_kept assms(2)] .
  then have blk: "same_block (md_states m) (md_states m')" by (simp add: model_le_def)
  then have "prim_add (x_checks X) (as_block_number (md_states m')) 1 = Some (as_block_number (md_states m) + 1)"
    using assms(3) by (simp add: prim_add_def chk_add_def same_block_def)
  moreover have "\<exists>t. Timestamp_plus_nanos (x_checks X) (as_block_timestamp (md_states m')) BLOCK_EPOCH = Some t"
    using assms(4) blk by (simp add: Timestamp_plus_nanos_def prim_add_def chk_add_def same_block_def)
  ultimately have "execute X n a msg funds (m, w) =
      (Ret (md_debug_log m'),
       (m'\<lparr>md_states := (md_states m')\<lparr>as_block_number := as_block_number (md_states m) + 1\<rparr>,
          md_debug_log := DebugLog_new\<rparr>, client_drop (x_client X) (as_client (md_states c)) v'))"
    using assms(1,2) by (auto simp: execute_def m_simps finish_commits)
  then show ?thesis
    using le blk by (simp add: model_le_def same_block_def)
qed

theorem execute_commits_witness:
  "\<exists>log m' w'. execute sample_x 2 ''vault'' [2] [] (sample_model, sample_world) = (Ret log, (m', w')) \<and>
     as_contract_states (md_states m') ''vault'' = Some \<lparr>cs_code = WASM_MAGIC, cs_storage = [([1], [9])]\<rparr> \<and>
     as_block_number (md_states m') = 8 \<and> as_block_timestamp (md_states m') = 0"
proof -
  have "as_block_number (md_states sample_model) = 7" "as_block_timestamp (md_states sample_model) = 0"
    by (simp_all add: sample_model_def initial_model_def sample_states_def)
  then show ?thesis
    using execute_commits [OF sample_clone [of sample_world] sample_vault_ok]
    by (auto simp: sample_done_def put_entry_def contract_state_insert_def bt_insert_def BLOCK_EPOCH_def)
qed

text \<open>
  C12: When the simulator itself reports an error in the middle of a transaction (a failing fetch,
  a trap in the VM, a response that does not parse), \<^verbatim>\<open>execute\<close> passes the error on and rolls
  nothing back: the simulator is left as the interrupted run left it, in the same block and with
  the log of that run still open.
\<close>

theorem execute_error_keeps_changes:
  assumes "Model_clone X (m, w) = (Ret c, (m, v))"
    and "execute_inner X (vm_call X n) (handle_response X (vm_call X n) n) a (md_sender m) msg funds (m, v) =
      (Fail e, (m', v'))"
  shows "\<exists>w'. execute X n a msg funds (m, w) = (Fail e, (m', w')) \<and>
    as_block_number (md_states m') = as_block_number (md_states m) \<and>
    log_le (md_debug_log m) (md_debug_log m')"
  using assms keepsD [OF rsp.execute_inner_kept assms(2), of 0]
  by (simp add: execute_def m_simps finish_fails model_le_def same_block_def log_step_def)

theorem execute_error_keeps_changes_witness:
  "\<exists>e m' w'. execute sample_x 2 ''vault'' [6] [] (sample_model, sample_world) = (Fail e, (m', w')) \<and>
     as_contract_states (md_states m') ''vault'' = Some \<lparr>cs_code = WASM_MAGIC, cs_storage = [([1], [9])]\<rparr>"
  using execute_error_keeps_changes [OF sample_clone [of sample_world] sample_vault_errs]
  by (auto simp: put_entry_def contract_state_insert_def bt_insert_def)

end
