(* ===== verification/Fuel.thy ===== *)
theory Fuel
  imports Transactions
begin

text \<open>
  The fuel of \<open>vm_call\<close> and \<open>handle_response\<close> bounds only how deep calls and messages nest: a
  computation that does not run out of fuel gives the same outcome and the same state with more.
  The locale \<open>more_fuel\<close> compares two ways to call exports, \<open>more_fuel_responses\<close> two ways to
  handle responses; both are interpreted on successive amounts of fuel.
\<close>

section \<open>Exports and imports\<close>

lemma approx_run_prog:
  assumes "\<And>c. approx (H c) (H' c)"
  shows "approx (run_prog H p) (run_prog H' p)"
proof (induction p)
  case (Host used guest c k)
  have "approx (case r of Ok vals \<Rightarrow> bindM (get_env en_guest) (\<lambda>g. run_prog H (k g vals))
      | Err e \<Rightarrow> trap (RuntimeError_from_VmError e))
    (case r of Ok vals \<Rightarrow> bindM (get_env en_guest) (\<lambda>g. run_prog H' (k g vals))
      | Err e \<Rightarrow> trap (RuntimeError_from_VmError e))" for r
    by (cases r) (auto intro!: approx_bind Host.IH)
  then show ?case by (auto intro!: approx_bind approx_try assms)
qed simp_all

lemma approx_call_function:
  "(\<And>c. approx (H c) (H' c)) \<Longrightarrow> approx (call_function X H name args) (call_function X H' name args)"
  unfolding call_function_def
  by (rule approx_bind) (auto intro: approx_run_prog split: result.split)

lemma approx_with_instance:
  assumes "approx m m'"
  shows "approx (with_instance i m) (with_instance i m')"
  unfolding approx_def
proof (intro allI)
  fix s
  from assms show "fst (with_instance i m s) = Diverge \<or> with_instance i m' s = with_instance i m s"
    by (rule approx_cases [of m m' "(ri_instance i, s)"]) (simp_all add: with_instance_def split: prod.split)
qed

locale more_fuel =
  fixes X :: "('m, 'w) externs" and call call' :: "'w call_op"
  assumes call_approx: "approx (call name args) (call' name args)"
begin

lemma call_function0_approx: "approx (call_function0 call name args) (call_function0 call' name args)"
  unfolding call_function0_def by (intro approx_bind call_approx approx_refl)

lemma call_function1_approx: "approx (call_function1 call name args) (call_function1 call' name args)"
  unfolding call_function1_def by (intro approx_bind call_approx approx_refl)

lemma write_to_contract_approx: "approx (write_to_contract X call b) (write_to_contract X call' b)"
  unfolding write_to_contract_def by (intro approx_bind call_function1_approx approx_refl)

lemma db_read_approx: "approx (do_db_read X call p) (do_db_read X call' p)"
  unfolding do_db_read_def
  by (intro approx_bind approx_refl) (simp add: write_to_contract_approx split: option.split)

lemma addr_validate_approx: "approx (do_addr_validate X call p) (do_addr_validate X call' p)"
  unfolding do_addr_validate_def
  by (rule approx_bind)
    (auto intro!: approx_bind approx_then write_to_contract_approx
      split: option.split prod.split result.split BackendError.split)

lemma addr_canonicalize_approx: "approx (do_addr_canonicalize X call p q) (do_addr_canonicalize X call' p q)"
  unfolding do_addr_canonicalize_def
  by (rule approx_bind)
    (auto intro!: approx_bind approx_then write_to_contract_approx
      split: option.split prod.split result.split BackendError.split)

lemma addr_humanize_approx: "approx (do_addr_humanize X call p q) (do_addr_humanize X call' p q)"
  unfolding do_addr_humanize_def
  by (rule approx_bind)
    (auto intro!: approx_bind approx_then write_to_contract_approx
      split: option.split prod.split result.split BackendError.split)

lemma secp256k1_recover_approx:
  "approx (do_secp256k1_recover_pubkey X call p q r) (do_secp256k1_recover_pubkey X call' p q r)"
  unfolding do_secp256k1_recover_pubkey_def
  by (intro approx_bind approx_refl)
    (auto intro!: approx_bind approx_then write_to_contract_approx split: result.split CryptoError.split)

lemma db_next_approx: "approx (do_db_next X call i) (do_db_next X call' i)"
  unfolding do_db_next_def
  by (intro approx_bind approx_refl) (auto intro!: approx_bind write_to_contract_approx split: prod.split)

lemma query_chain_approx:
  assumes "\<And>r g. approx (query r g) (query' r g)"
  shows "approx (do_query_chain X call query p) (do_query_chain X call' query' p)"
  unfolding do_query_chain_def on_shared_def
  by (intro approx_bind approx_zoom assms write_to_contract_approx approx_refl)

lemma imports_approx:
  assumes "\<And>r g. approx (query r g) (query' r g)"
  shows "approx (env_imports X call query c) (env_imports X call' query' c)"
  unfolding env_imports_def ret32_def ret64_def ret0_def
  by (cases c)
    (auto intro!: approx_bind db_read_approx addr_validate_approx addr_canonicalize_approx
      addr_humanize_approx secp256k1_recover_approx query_chain_approx assms db_next_approx)

lemma allocate_approx: "approx (allocate X call n) (allocate X call' n)"
  unfolding allocate_def by (intro approx_bind call_function1_approx approx_refl)

lemma write_args_approx: "approx (write_args X call bs) (write_args X call' bs)"
  by (induction bs) (auto intro!: approx_bind approx_then allocate_approx)

lemma call_raw_approx: "approx (call_raw X call name args n) (call_raw X call' name args n)"
  unfolding call_raw_def deallocate_def
  by (intro approx_bind approx_then write_args_approx call_function1_approx call_function0_approx approx_refl)

lemma entry_points_approx:
  "approx (RpcContractInstance_instantiate X call env msg sender funds)
     (RpcContractInstance_instantiate X call' env msg sender funds)"
  "approx (RpcContractInstance_execute X call env msg sender funds)
     (RpcContractInstance_execute X call' env msg sender funds)"
  "approx (RpcContractInstance_reply X call env reply) (RpcContractInstance_reply X call' env reply)"
  unfolding RpcContractInstance_instantiate_def RpcContractInstance_execute_def RpcContractInstance_reply_def
    call_instantiate_def call_execute_def call_reply_def call_instantiate_raw_def call_execute_raw_def
    call_reply_raw_def
  by (intro approx_map_err approx_bind approx_then call_raw_approx approx_refl)+

lemma query_approx: "approx (RpcContractInstance_query X call ci env q) (RpcContractInstance_query X call' ci env q)"
  unfolding RpcContractInstance_query_def call_query_def call_query_raw_def
  by (cases q) (auto intro!: approx_map_err approx_bind approx_then call_raw_approx)

lemma query_raw_approx: "approx (query_raw X call r g) (query_raw X call' r g)"
proof -
  have run: "approx (run_query X call i env q) (run_query X call' i env q)" for i env q
    unfolding run_query_def by (intro approx_bind approx_with_instance query_approx approx_refl)
  have "approx (query_contract X call q) (query_contract X call' q)" for q
    unfolding query_contract_def Let_def
    by (rule approx_bind) (auto intro!: approx_bind run split: result.split)
  then show ?thesis
    unfolding query_raw_def by (auto split: result.split QueryRequest.split)
qed

end

lemma vm_call_approx: "approx (vm_call X n name args) (vm_call X (Suc n) name args)"
proof (induction n arbitrary: name args)
  case 0
  have "vm_call X 0 name args = divergeM" by (rule vm_call.simps)
  then show ?case by (simp add: approx_diverge)
next
  case (Suc n)
  have f: "more_fuel (vm_call X n) (vm_call X (Suc n))" by unfold_locales (rule Suc.IH)
  show ?case
    unfolding vm_call.simps(2) [of X "Suc n"] vm_call.simps(2) [of X n]
    by (intro approx_call_function more_fuel.imports_approx more_fuel.query_raw_approx)
      (use f in \<open>simp_all add: vm_call.simps(2) [abs_def]\<close>)
qed

interpretation vmf: more_fuel X "vm_call X n" "vm_call X (Suc n)" for X n
  by unfold_locales (rule vm_call_approx)

section \<open>Transactions\<close>

context more_fuel
begin

lemma handle_coverage_approx: "approx (handle_coverage X call inst) (handle_coverage X call' inst)"
  unfolding handle_coverage_def dump_coverage_def on_model_def
  by (rule approx_bind)
    (auto intro!: approx_bind approx_zoom approx_with_instance approx_try call_raw_approx split: prod.split)

lemma run_instance_approx:
  assumes "approx m m'"
  shows "approx (run_instance X call inst m) (run_instance X call' inst m')"
  unfolding run_instance_def on_model_def
  by (intro approx_bind approx_zoom approx_with_instance assms)
    (auto intro!: approx_bind approx_then handle_coverage_approx split: prod.split)

end

locale more_fuel_responses = more_fuel X call call'
  for X :: "('m, 'w) externs" and call call' :: "'w call_op" +
  fixes hr hr' :: "'m response_op"
  assumes hr_approx: "approx (hr origin response) (hr' origin response)"
begin

lemma execute_inner_approx:
  "approx (execute_inner X call hr a sender msg funds) (execute_inner X call' hr' a sender msg funds)"
  unfolding execute_inner_def
  by (intro approx_bind approx_refl)
    (auto intro!: approx_bind approx_then run_instance_approx entry_points_approx hr_approx
      split: option.split ContractResult.split)

lemma instantiate_inner_approx:
  "approx (instantiate_inner X call hr code_id sender msg funds)
     (instantiate_inner X call' hr' code_id sender msg funds)"
  unfolding instantiate_inner_def Let_def
  by (intro approx_bind approx_refl)
    (auto intro!: approx_bind approx_then run_instance_approx entry_points_approx hr_approx
      split: option.split ContractResult.split)

lemma finish_submessage_approx:
  "approx (finish_submessage X call hr origin msg i reply_on response data)
     (finish_submessage X call' hr' origin msg i reply_on response data)"
  unfolding finish_submessage_def
  by (auto intro!: approx_bind approx_then run_instance_approx entry_points_approx hr_approx
      split: ContractResult.split)

lemma handle_submessage_approx:
  "approx (handle_submessage X call hr origin sub_msg) (handle_submessage X call' hr' origin sub_msg)"
  unfolding handle_submessage_def handle_submessage_instantiate_def handle_submessage_execute_def
  by (auto intro!: approx_bind execute_inner_approx instantiate_inner_approx finish_submessage_approx
      split: CosmosMsg.split WasmMsg.split option.split prod.split)

lemma handle_messages_approx:
  "approx (handle_messages X call hr origin latest msgs) (handle_messages X call' hr' origin latest msgs)"
  by (induction msgs arbitrary: latest)
    (auto intro!: approx_bind handle_submessage_approx split: ContractResult.split)

end

context more_fuel
begin

lemma handle_response_approx:
  "approx (handle_response X call n origin response) (handle_response X call' (Suc n) origin response)"
proof (induction n arbitrary: origin response)
  case 0
  show ?case unfolding handle_response.simps(1) by (rule approx_diverge)
next
  case (Suc n)
  have "more_fuel_responses call call' (handle_response X call n) (handle_response X call' (Suc n))"
    by (intro more_fuel_responses.intro more_fuel_responses_axioms.intro more_fuel_axioms Suc.IH)
  then show ?case
    unfolding handle_response.simps(2) by (simp add: more_fuel_responses.handle_messages_approx)
qed

end

interpretation rspf: more_fuel_responses X "vm_call X n" "vm_call X (Suc n)"
    "handle_response X (vm_call X n) n" "handle_response X (vm_call X (Suc n)) (Suc n)" for X n
  by unfold_locales (rule vmf.handle_response_approx)

lemma approx_add:
  assumes "\<And>n. approx (f n) (f (Suc n))"
  shows "approx (f n) (f (n + k))"
  by (induction k) (auto intro: approx_trans assms)

lemma execute_approx: "approx (execute X n a msg funds) (execute X (n + k) a msg funds)"
proof (rule approx_add)
  show "approx (execute X n a msg funds) (execute X (Suc n) a msg funds)" for n
    unfolding execute_def by (intro approx_bind approx_try rspf.execute_inner_approx approx_refl)
qed

lemma instantiate_approx: "approx (instantiate X n i msg funds) (instantiate X (n + k) i msg funds)"
proof (rule approx_add)
  show "approx (instantiate X n i msg funds) (instantiate X (Suc n) i msg funds)" for n
    unfolding instantiate_def by (intro approx_bind approx_try rspf.instantiate_inner_approx approx_refl)
qed

lemma wasm_query_approx: "approx (wasm_query X n a msg) (wasm_query X (n + k) a msg)"
proof (rule approx_add)
  show "approx (wasm_query X n a msg) (wasm_query X (Suc n) a msg)" for n
    unfolding wasm_query_def on_model_def
    by (intro approx_bind approx_zoom approx_with_instance vmf.query_approx approx_refl)
      (auto intro!: approx_then vmf.handle_coverage_approx split: prod.split)
qed



end
