(* ===== verification/Invariants.thy ===== *)
theory Invariants
  imports Fuel
begin

text \<open>
  What holds of a simulator in every state its public operations can reach.  \<open>public_step\<close> has one
  rule per public operation of \<^verbatim>\<open>Model\<close>, whatever its outcome; \<open>reachable\<close> starts at a new model.
\<close>

section \<open>Queries from outside\<close>

text \<open>\<open>query_le\<close> is what a query may change: what it fetches, the log and the coverage data.\<close>

definition query_le :: "nat \<Rightarrow> 'm Model \<times> World \<Rightarrow> 'm Model \<times> World \<Rightarrow> bool" where
  "query_le K s t \<longleftrightarrow>
     md_sender (fst t) = md_sender (fst s) \<and> md_custom_codes (fst t) = md_custom_codes (fst s) \<and>
     md_wasm_cache (fst t) = md_wasm_cache (fst s) \<and>
     md_code_id_counters (fst t) = md_code_id_counters (fst s) \<and>
     coverage_le (md_coverage_info (fst s)) (md_coverage_info (fst t)) \<and>
     log_step K (md_debug_log (fst s)) (md_debug_log (fst t)) \<and>
     chain_le None (md_states (fst s), snd s) (md_states (fst t), snd t)"

interpretation qry: kept "query_le K"
proof
  show "query_le K s s" for s :: "'m Model \<times> World"
    by (simp add: query_le_def coverage_le_refl log_step_refl chain.kept_refl)
  show "query_le K s u" if "query_le K s t" "query_le K t u" for s t u :: "'m Model \<times> World"
    using that by (auto simp: query_le_def intro: coverage_le_trans log_step_trans chain.kept_trans)
qed

lemma query_le_model: "query_le K s t \<Longrightarrow> model_le K s t"
  by (auto simp: query_le_def model_le_def chain_le_def dest: map_le_implies_dom_le)

lemma keeps_query_model: "keeps (shared_le None K) m \<Longrightarrow> keeps (query_le K) (on_model m)"
  unfolding on_model_def
  by (erule keeps_zoom)
    (auto simp: query_le_def shared_of_def put_shared_def shared_le_def coverage_le_refl)

context kept
begin

text \<open>The continuation need only keep the relation for results the first part can have.\<close>

lemma bind_known:
  assumes "keeps R m" and "\<And>s a t. m s = (Ret a, t) \<Longrightarrow> keeps R (f a)"
  shows "keeps R (bindM m f)"
proof (rule keepsI)
  fix s
  obtain r t where m: "m s = (r, t)" by (metis surj_pair)
  have st: "R s t" using assms(1) m by (rule keepsD)
  show "R s (snd (bindM m f s))"
  proof (cases r)
    case (Ret a)
    then have "R t (snd (f a t))" using assms(2) m unfolding keeps_def by blast
    then show ?thesis using m Ret kept_trans [OF st] by (simp add: bindM_def)
  qed (use m st in \<open>simp_all add: bindM_def\<close>)
qed

end

lemma map_errR_Ok: "map_errR f r = Ok a \<longleftrightarrow> r = Ok a"
  by (cases r) simp_all

lemma create_instance_readonly:
  assumes "on_model (create_instance X a) s = (Ret inst, t)"
  shows "en_storage_readonly (ri_instance inst)"
proof -
  have "create_instance X a u = (Ret inst, v) \<Longrightarrow> en_storage_readonly (ri_instance inst)" for u v
    by (auto simp: create_instance_def m_simps RpcContractInstance_new_def map_errR_Ok
        split: prod.splits outcome.splits option.splits result.splits
        dest: from_code_Ok(1))
  then show ?thesis using assms by (auto simp: on_model_def zoomM_def split: prod.splits)
qed

lemma with_instance_readonly:
  assumes "keeps (reading_le K) m" and "en_storage_readonly (ri_instance inst)"
    and "on_model (with_instance inst m) s = (Ret (r, inst'), t)"
  shows "en_storage_readonly (ri_instance inst')"
proof -
  obtain o1 e u where m: "m (ri_instance inst, shared_of s) = (o1, (e, u))" by (metis surj_pair)
  then have "en_storage_readonly e"
    using keepsD [OF assms(1) m] assms(2) by (simp add: reading_le_def vm_le_def env_le_def)
  then show ?thesis
    using assms(3) m by (cases o1) (auto simp: on_model_def zoomM_def with_instance_def)
qed

lemma keeps_query_coverage:
  assumes "en_storage_readonly (ri_instance inst)"
  shows "keeps (query_le K) (handle_coverage X (vm_call X n) inst)"
proof -
  have "keeps (reading_le K) (dump_coverage X (vm_call X n))"
    unfolding dump_coverage_def
    by (intro rd.bind rd.attempt rd.return keeps_reading [OF vmc.call_raw_kept])
  then have "keeps (query_le K) (on_model (with_instance inst (dump_coverage X (vm_call X n))))"
    using assms by (intro keeps_query_model with_instance_reading)
  moreover have "keeps (query_le K) (on_coverage (add_coverage a x))" for a x
    unfolding on_coverage_def
    by (rule keeps_modify) (simp add: query_le_def coverage_le_add log_step_refl chain.kept_refl)
  ultimately show ?thesis
    unfolding handle_coverage_def
    by (auto intro!: qry.bind qry.get qry.return qry.lift_result split: prod.split)
qed

lemma keeps_wasm_query: "keeps (query_le K) (wasm_query X n a msg)"
proof -
  have body: "keeps (query_le K)
      (bindM (on_model (with_instance inst (RpcContractInstance_query X (vm_call X n) ci env q))) (\<lambda>(result, inst').
       thenM (handle_coverage X (vm_call X n) inst') (liftR result)))"
    if ro: "en_storage_readonly (ri_instance inst)" for inst ci env q
  proof (rule qry.bind_known [OF keeps_query_model [OF with_instance_reading [OF vmc.query_kept ro]]], clarify)
    fix s result inst' t
    assume "on_model (with_instance inst (RpcContractInstance_query X (vm_call X n) ci env q)) s = (Ret (result, inst'), t)"
    then have "en_storage_readonly (ri_instance inst')" by (rule with_instance_readonly [OF vmc.query_kept ro])
    then show "keeps (query_le K) (thenM (handle_coverage X (vm_call X n) inst') (liftR result))"
      by (intro qry.seq qry.lift_result keeps_query_coverage)
  qed
  show ?thesis
    unfolding wasm_query_def Model_env_def
    by (rule qry.bind [OF qry.get], rule qry.bind_known [OF keeps_query_model [OF keeps_create_instance]],
        rule body, erule create_instance_readonly)
qed

section \<open>Reachable states\<close>

inductive public_step ::
  "('m, 'w) externs \<Rightarrow> 'm Model \<times> World \<Rightarrow> 'm Model \<times> World \<Rightarrow> bool" for X where
  execute: "public_step X s (snd (execute X n a msg funds s))"
| instantiate: "public_step X s (snd (instantiate X n code_id msg funds s))"
| wasm_query: "public_step X s (snd (wasm_query X n a msg s))"
| bank_query: "public_step X s (snd (Model_bank_query X query s))"
| custom_code: "public_step X s (snd (add_custom_code code_id code s))"
| block_number: "public_step X s (snd (cheat_block_number number s))"
| block_timestamp: "public_step X s (snd (cheat_block_timestamp time s))"
| bank_balance: "public_step X s (snd (cheat_bank_balance a denom balance s))"
| code: "public_step X s (snd (cheat_code X a new_code s))"
| sender: "public_step X s (snd (cheat_message_sender a s))"
| storage: "public_step X s (snd (cheat_storage X a key val s))"
| enable_coverage: "public_step X s (snd (enable_code_coverage s))"
| disable_coverage: "public_step X s (snd (disable_code_coverage s))"

inductive reachable :: "('m, 'w) externs \<Rightarrow> 'm Model \<times> World \<Rightarrow> bool" for X where
  new: "Model_new X url number prefix w = (Ret m, v) \<Longrightarrow> reachable X (m, v)"
| new_lcd: "Model_new_lcd X url prefix w = (Ret m, v) \<Longrightarrow> reachable X (m, v)"
| step: "reachable X s \<Longrightarrow> public_step X s t \<Longrightarrow> reachable X t"

text \<open>
  The invariant: every stored map is a well-formed \<^verbatim>\<open>BTreeMap\<close>, the call trace is a tree over the
  call numbers given out, and addresses have 32 bytes.
\<close>

definition model_inv :: "'m Model \<Rightarrow> bool" where
  "model_inv m \<longleftrightarrow>
     stores_ok (md_states m) \<and> wf_trace (dl_call_trace (md_debug_log m)) \<and>
     as_canonical_address_length (md_states m) = 32"

lemma model_inv_le: "model_le 0 s t \<Longrightarrow> model_inv (fst s) \<Longrightarrow> model_inv (fst t)"
  by (auto simp: model_le_def model_inv_def same_block_def log_step_def log_tree_def)

lemma model_inv_client:
  "model_inv (m\<lparr>md_states := (md_states m)\<lparr>as_client := c\<rparr>, md_coverage_info := cov\<rparr>) = model_inv m"
  "model_inv (m\<lparr>md_states := (md_states m)\<lparr>as_client := c\<rparr>\<rparr>) = model_inv m"
  "model_inv (m\<lparr>md_coverage_info := cov\<rparr>) = model_inv m"
  by (simp_all add: model_inv_def stores_ok_def)

text \<open>\<open>invariantly\<close>: a computation keeps the invariant of the model, whatever its outcome.\<close>

definition inv_le :: "'m Model \<times> World \<Rightarrow> 'm Model \<times> World \<Rightarrow> bool" where
  "inv_le s t \<longleftrightarrow> (model_inv (fst s) \<longrightarrow> model_inv (fst t))"

interpretation inv: kept inv_le
  by unfold_locales (auto simp: inv_le_def)

lemma keeps_inv: "keeps (model_le 0) m \<Longrightarrow> keeps inv_le m"
  unfolding keeps_def inv_le_def by (blast intro: model_inv_le)

lemma keeps_invD: "keeps inv_le m \<Longrightarrow> model_inv (fst s) \<Longrightarrow> model_inv (fst (snd (m s)))"
  unfolding keeps_def inv_le_def by blast

lemma keeps_inv_clone: "keeps inv_le (Model_clone X)"
  by (auto simp: keeps_def inv_le_def Model_clone_def m_simps split: prod.split outcome.split)

lemma finish_inv:
  assumes "model_inv c" and "model_inv (fst s)"
  shows "model_inv (fst (snd (finish_transaction X c r s)))"
proof (cases r)
  case (Err e)
  then show ?thesis using assms by (cases s) (simp add: finish_fails)
next
  case (Ok res)
  show ?thesis
  proof (cases res)
    case (ContractResult_Err e)
    then show ?thesis using assms Ok by (cases s) (simp add: finish_reverts model_inv_client)
  next
    case (ContractResult_Ok x)
    then show ?thesis
      using assms Ok log_tree_new
      by (auto simp: finish_transaction_def update_block_def take_log_def drop_model_def m_simps
          model_inv_def stores_ok_def log_tree_def split: option.split)
  qed
qed

text \<open>A transaction is a run that keeps the invariant between a copy and its end.\<close>

lemma transaction_inv:
  assumes "keeps (model_le 0) run"
  shows "keeps inv_le (bindM (Model_clone X) (\<lambda>c. bindM (tryM run) (\<lambda>r. finish_transaction X c (f r))))"
proof (rule keepsI, unfold inv_le_def, clarify)
  fix m :: "'a Model" and w :: World
  let ?tx = "bindM (Model_clone X) (\<lambda>c. bindM (tryM run) (\<lambda>r. finish_transaction X c (f r)))"
  assume inv: "model_inv (fst (m, w))"
  obtain o1 m1 v where cl: "Model_clone X (m, w) = (o1, (m1, v))" by (metis surj_pair)
  show "model_inv (fst (snd (?tx (m, w))))"
  proof (cases o1)
    case (Ret c)
    have "m1 = m" "model_inv c"
      using clone_Ret [OF cl [unfolded Ret]] inv by (simp, metis fst_conv model_inv_client(2))
    let ?attempt = "tryM run :: ('a, _) modelM"
    obtain o2 s2 where t: "?attempt (m, v) = (o2, s2)" by (metis surj_pair)
    have "keeps (model_le 0) ?attempt" using assms by (rule mdl.attempt)
    then have "model_le 0 (m, v) s2" using t by (rule keepsD)
    then have "model_inv (fst s2)" using inv by (simp add: model_inv_le [of "(m, v)"])
    then show ?thesis
      using cl Ret \<open>m1 = m\<close> t \<open>model_inv c\<close> by (cases o2) (simp_all add: bindM_def finish_inv)
  qed (use keeps_invD [OF keeps_inv_clone inv, of X] cl in \<open>simp_all add: bindM_def\<close>)
qed

lemma keeps_inv_contracts:
  assumes "\<And>st. stores_ok st \<Longrightarrow> stores_ok (f st)"
    and "\<And>st. as_canonical_address_length (f st) = as_canonical_address_length st"
  shows "keeps inv_le (on_contracts f)"
  by (auto simp: keeps_def inv_le_def on_contracts_def m_simps model_inv_def assms)

lemma keeps_inv_insert:
  "bt_inv (cs_storage cs) \<Longrightarrow> keeps inv_le (on_contracts (contract_state_insert a cs))"
  by (rule keeps_inv_contracts) (auto simp: stores_ok_def contract_state_insert_def)

text \<open>A contract found in a state that satisfies the invariant has a well-formed storage.\<close>

lemma keeps_inv_found:
  assumes "\<And>cs. bt_inv (cs_storage cs) \<Longrightarrow> keeps inv_le (g cs)"
  shows "keeps inv_le (bindM (getM (\<lambda>s. contract_state_get (md_states (fst s)) a)) (\<lambda>found. bindM (unwrapM found) g))"
proof (rule keepsI, unfold inv_le_def, intro impI)
  fix s :: "'a Model \<times> World"
  assume inv: "model_inv (fst s)"
  show "model_inv (fst (snd (bindM (getM (\<lambda>s. contract_state_get (md_states (fst s)) a))
      (\<lambda>found. bindM (unwrapM found) g) s)))"
  proof (cases "contract_state_get (md_states (fst s)) a")
    case (Some cs)
    then have "bt_inv (cs_storage cs)"
      using inv by (auto simp: model_inv_def stores_ok_def contract_state_get_def)
    then have "model_inv (fst (snd (g cs s)))" using assms inv by (intro keeps_invD)
    then show ?thesis using Some by (simp add: m_simps)
  qed (use inv in \<open>simp add: m_simps\<close>)
qed

lemma keeps_inv_model: "keeps (shared_le None 0) m \<Longrightarrow> keeps inv_le (on_model m)"
  by (intro keeps_inv keeps_on_model)

lemma keeps_inv_cheats:
  "keeps inv_le (cheat_block_number number)"
  "keeps inv_le (cheat_block_timestamp time)"
  "keeps inv_le (cheat_bank_balance a denom balance)"
  "keeps inv_le (cheat_code X a new_code)"
  "keeps inv_le (cheat_message_sender a)"
  "keeps inv_le (cheat_storage X a key val)"
proof -
  show "keeps inv_le (cheat_block_number number)" "keeps inv_le (cheat_block_timestamp time)"
    "keeps inv_le (cheat_bank_balance a denom balance)"
    unfolding cheat_block_number_def cheat_block_timestamp_def cheat_bank_balance_def
    by (rule keeps_inv_contracts; simp add: stores_ok_def set_balance_def insert_bank_state_def)+
  show "keeps inv_le (cheat_message_sender a)"
    by (auto simp: keeps_def inv_le_def cheat_message_sender_def m_simps model_inv_def)
  show "keeps inv_le (cheat_code X a new_code)"
    unfolding cheat_code_def
    apply (rule inv.seq [OF keeps_inv_model [OF keeps_fetch]], rule keeps_inv_found)
    apply (intro inv.seq keeps_inv_insert inv.bind inv.attempt keeps_inv_model [OF keeps_create_instance])
    apply (auto intro!: inv.return inv.fail inv.seq keeps_inv_insert split: result.split)
    done
  show "keeps inv_le (cheat_storage X a key val)"
    unfolding cheat_storage_def
    by (rule inv.seq [OF keeps_inv_model [OF keeps_fetch]], rule keeps_inv_found, rule keeps_inv_insert)
      (simp add: bt_inv_insert)
qed

text \<open>
  The public operations together.
\<close>

lemma public_step_inv: "public_step X s t \<Longrightarrow> model_inv (fst s) \<Longrightarrow> model_inv (fst t)"
proof (induction rule: public_step.induct)
  case (execute s n a msg funds)
  have "keeps inv_le (execute X n a msg funds)"
    unfolding execute_def
    by (rule inv.bind [OF inv.get]) (rule transaction_inv [OF rsp.execute_inner_kept, where f = "\<lambda>r. r"])
  then show ?case using execute by (intro keeps_invD)
next
  case (instantiate s n code_id msg funds)
  have "keeps inv_le (instantiate X n code_id msg funds)"
    unfolding instantiate_def
    by (rule inv.bind [OF inv.get])
      (rule transaction_inv [OF rsp.instantiate_inner_kept,
        where f = "case_result (\<lambda>(res, _). Ok res) Err"])
  then show ?case using instantiate by (intro keeps_invD)
next
  case (wasm_query s n a msg)
  have "keeps inv_le (wasm_query X n a msg)"
    by (rule keeps_inv, rule keepsI, rule query_le_model, rule keepsD [OF keeps_wasm_query surjective_pairing])
  then show ?case using wasm_query by (intro keeps_invD)
next
  case (bank_query s query)
  have "keeps inv_le (Model_bank_query X query)"
    unfolding Model_bank_query_def
    by (intro inv.bind inv.lift_result keeps_inv keeps_on_model_bank keeps_ledger_query)
  then show ?case using bank_query by (intro keeps_invD)
next
  case (enable_coverage s)
  then show ?case by (simp add: enable_code_coverage_def on_coverage_def m_simps model_inv_client)
next
  case (disable_coverage s)
  then show ?case by (simp add: disable_code_coverage_def on_coverage_def m_simps model_inv_client)
next
  case (custom_code s code_id code)
  then show ?case by (simp add: add_custom_code_def m_simps model_inv_def)
qed (rule keeps_inv_cheats [THEN keeps_invD], assumption)+

section \<open>Properties\<close>

text \<open>
  C5: In every state that a sequence of public operations reaches from a new simulator, whatever
  the operations return, every contract's storage is a well-formed ordered map with distinct keys,
  the call trace is a tree over the call numbers given out so far, and canonical addresses have
  32 bytes.
\<close>

theorem reachable_wf:
  assumes "reachable X s"
  shows "stores_ok (md_states (fst s)) \<and> wf_trace (dl_call_trace (md_debug_log (fst s))) \<and>
    as_canonical_address_length (md_states (fst s)) = 32"
proof -
  have new: "model_inv (initial_model st)"
    if "AllStates_new E client 32 prefix w = (Ret st, v)" for E client prefix w st v
    using that log_tree_new
    by (auto simp: AllStates_new_def Let_def model_inv_def initial_model_def stores_ok_def log_tree_def
        split: prod.splits outcome.splits)
  from assms have "model_inv (fst s)"
  proof (induction rule: reachable.induct)
    case (step s t)
    then show ?case using public_step_inv by blast
  qed (auto simp: Model_new_def Model_new_lcd_def m_simps intro: new split: prod.splits outcome.splits)
  then show ?thesis by (simp add: model_inv_def)
qed

lemma sample_header:
  "Lcd_get_latest_block_header sample_lcd (c, w) =
     (Ret \<lparr>bh_chain_id = ''test-1'', bh_height = ''7'', bh_time = []\<rparr>, (c, tick w))"
  by (simp add: Lcd_get_latest_block_header_def lcd_get_def Lcd_request_inner_def sample_lcd_def m_simps)

lemma sample_new: "\<exists>m w. Model_new_lcd sample_x ''http://node'' ''wasm'' sample_world = (Ret m, w)"
proof -
  have "nat_str 7 = ''7''" by code_simp
  then have "parse_uint 64 ''7'' = Ok 7" using parse_nat_str [of 7 64] by simp
  then have 1: "CwLcdClient_new sample_lcd url w = (Ret \<lparr>lc_url = url, lc_block_number = 7\<rparr>, tick w)" for url w
    by (simp add: CwLcdClient_new_def Lcd_block_height_def sample_header m_simps)
  have nanos: "lcd_rfc3339_nanos sample_lcd t = Ok 0" for t by (simp add: sample_lcd_def)
  have 2: "\<exists>st v. AllStates_new sample_ext (LcdClient c) 32 ''wasm'' w = (Ret st, v)" for c w
    by (simp add: AllStates_new_def Client_timestamp_def Client_chain_id_def Lcd_timestamp_def Lcd_chain_id_def
        dispatch_def sample_ext_def sample_header nanos m_simps)
  then obtain st v where "AllStates_new sample_ext (LcdClient \<lparr>lc_url = ''http://node'', lc_block_number = 7\<rparr>) 32
      ''wasm'' (tick sample_world) = (Ret st, v)" by blast
  moreover have "ce_lcd sample_ext = sample_lcd" by (simp add: sample_ext_def)
  ultimately show ?thesis by (simp add: Model_new_lcd_def 1 m_simps)
qed

theorem reachable_wf_witness:
  "\<exists>m w. Model_new_lcd sample_x ''http://node'' ''wasm'' sample_world = (Ret m, w) \<and>
     stores_ok (md_states (fst (snd (cheat_storage sample_x ''vault'' [1] [2] (m, w)))))"
proof -
  obtain m w where new: "Model_new_lcd sample_x ''http://node'' ''wasm'' sample_world = (Ret m, w)"
    using sample_new by blast
  have "reachable sample_x (snd (cheat_storage sample_x ''vault'' [1] [2] (m, w)))"
    by (rule reachable.step [OF reachable.new_lcd [OF new] public_step.storage])
  then show ?thesis using reachable_wf new by blast
qed

text \<open>
  C7: A query from outside leaves the simulator as it is, whether it succeeds or fails: contracts
  and accounts that were known are unchanged, it only adds what it fetches; block, sender, codes,
  address counters, compiled modules and the host's files stay, and the log and the coverage data
  are only appended to.
\<close>

theorem wasm_query_changes_nothing:
  "let t = snd (wasm_query X n a msg s) in
     as_contract_states (md_states (fst s)) \<subseteq>\<^sub>m as_contract_states (md_states (fst t)) \<and>
     as_bank_states (md_states (fst s)) \<subseteq>\<^sub>m as_bank_states (md_states (fst t)) \<and>
     same_block (md_states (fst s)) (md_states (fst t)) \<and>
     md_sender (fst t) = md_sender (fst s) \<and> md_custom_codes (fst t) = md_custom_codes (fst s) \<and>
     md_code_id_counters (fst t) = md_code_id_counters (fst s) \<and>
     md_wasm_cache (fst t) = md_wasm_cache (fst s) \<and> files_same (snd s) (snd t) \<and>
     log_le (md_debug_log (fst s)) (md_debug_log (fst t)) \<and>
     coverage_le (md_coverage_info (fst s)) (md_coverage_info (fst t))"
proof -
  have "query_le 0 s (snd (wasm_query X n a msg s))"
    by (rule keepsD [OF keeps_wasm_query surjective_pairing])
  then show ?thesis
    using client_le_files by (fastforce simp: Let_def query_le_def chain_le_def contracts_le_None log_step_def)
qed

end
