(* ===== verification/Operations.thy ===== *)
theory Operations
  imports Invariants
begin

text \<open>
  What single operations of the simulator do, exactly: the addresses of new contracts, the cheat
  codes and what later reads see of them, and a failed instantiation.
\<close>

section \<open>Addresses of new contracts\<close>

lemma nat_str_no_separator: "CHR ''_'' \<notin> set (nat_str n)"
proof
  assume "CHR ''_'' \<in> set (nat_str n)"
  then have "digit_val (CHR ''_'') \<noteq> None" by (rule digit_val_nat_str)
  then show False by (simp add: digit_val_def)
qed

lemma address_seed_inj: "address_seed i c = address_seed j d \<longleftrightarrow> i = j \<and> c = d"
proof
  assume "address_seed i c = address_seed j d"
  then have "nat_str (unat i) @ CHR ''_'' # nat_str (unat c) = nat_str (unat j) @ CHR ''_'' # nat_str (unat d)"
    by (simp add: address_seed_def)
  then have "nat_str (unat i) = nat_str (unat j) \<and> nat_str (unat c) = nat_str (unat d)"
    using nat_str_no_separator by (simp add: append_Cons_eq_iff)
  then show "i = j \<and> c = d" by (auto simp: nat_str_inj word_unat_eq_iff)
qed simp

text \<open>
  C15: The address of a new contract is derived from the code's number and a counter per code.
  Each call uses the counter's value and raises it by one, touches nothing else, and no two pairs
  of a code and a counter have the same seed, so an address repeats only if the hash or the
  encoding of two different seeds does.
\<close>

theorem generate_address_exact:
  assumes "unat (case md_code_id_counters m i of None \<Rightarrow> 0 | Some c \<Rightarrow> c) + 1 < 2 ^ 64"
  shows "\<exists>c. c = (case md_code_id_counters m i of None \<Rightarrow> 0 | Some c \<Rightarrow> c) \<and>
    generate_address X i (m, w) =
      (case canonical_to_human (x_bech32 X) (x_sha256 X (str_bytes (address_seed i c)))
              (as_bech32_prefix (md_states m)) (as_canonical_address_length (md_states m)) of
         Ok a \<Rightarrow> Ret a | Err e \<Rightarrow> Fail (FormatError e),
       (m\<lparr>md_code_id_counters := (md_code_id_counters m)(i \<mapsto> c + 1)\<rparr>, w)) \<and>
    (\<forall>j d. address_seed i c = address_seed j d \<longleftrightarrow> i = j \<and> c = d)"
  using assms
  by (auto simp: generate_address_def set_counter_def m_simps prim_add_def chk_add_def address_seed_inj
      split: result.split)

theorem generate_address_exact_witness:
  "snd (generate_address sample_x 3 (sample_model, sample_world)) =
     (sample_model\<lparr>md_code_id_counters := [3 \<mapsto> 1]\<rparr>, sample_world)"
proof -
  have "md_code_id_counters sample_model = Map.empty" by (simp add: sample_model_def initial_model_def)
  then show ?thesis using generate_address_exact [of sample_model 3 sample_x sample_world] by simp
qed

section \<open>Cheat codes\<close>

lemma on_model_fetch_known:
  "as_contract_states (md_states m) a = Some cs \<Longrightarrow> on_model (fetch_contract_state X a) (m, w) = (Ret (), (m, w))"
  by (simp add: on_model_def zoomM_def shared_of_def put_shared_def fetch_known)

lemma on_model_create_known:
  assumes "as_contract_states (md_states m) a = Some cs"
    and "RpcMockApi_new (as_canonical_address_length (md_states m)) (as_bech32_prefix (md_states m)) = Ok api"
  shows "on_model (create_instance X a) (m, w) =
    (case from_code X (cs_code cs) api (SharedStorage a) U64_MAX False of
       Ok e \<Rightarrow> Ret (RpcContractInstance_new a e) | Err e \<Rightarrow> Fail (vm_error e), (m, w))"
  using assms
  by (cases "from_code X (cs_code cs) api (SharedStorage a) U64_MAX False")
    (simp_all add: on_model_def create_instance_def new_mock_def shared_of_def put_shared_def fetch_known
      contract_state_get_def m_simps)

text \<open>
  C13: \<^verbatim>\<open>cheat_code\<close> replaces the code of a known contract and keeps its storage when an instance
  can be created from the new code; when it cannot, the error is returned and the simulator is
  exactly as before.
\<close>

theorem cheat_code_exact:
  assumes "as_contract_states (md_states m) a = Some cs"
    and "RpcMockApi_new (as_canonical_address_length (md_states m)) (as_bech32_prefix (md_states m)) = Ok api"
  shows "cheat_code X a code (m, w) =
    (case from_code X code api (SharedStorage a) U64_MAX False of
       Ok _ \<Rightarrow> (Ret (), (m\<lparr>md_states := (md_states m)\<lparr>as_contract_states :=
                 (as_contract_states (md_states m))(a \<mapsto> cs\<lparr>cs_code := code\<rparr>)\<rparr>\<rparr>, w))
     | Err e \<Rightarrow> (Fail (vm_error e), (m, w)))"
proof -
  have same: "(as_contract_states (md_states m))(a \<mapsto> cs) = as_contract_states (md_states m)"
    using assms(1) by auto
  have new: "on_model (create_instance X a)
      (m\<lparr>md_states := contract_state_insert a (cs\<lparr>cs_code := code\<rparr>) (md_states m)\<rparr>, w) =
    (case from_code X code api (SharedStorage a) U64_MAX False of
       Ok e \<Rightarrow> Ret (RpcContractInstance_new a e) | Err e \<Rightarrow> Fail (vm_error e),
     (m\<lparr>md_states := contract_state_insert a (cs\<lparr>cs_code := code\<rparr>) (md_states m)\<rparr>, w))"
    using on_model_create_known [of "m\<lparr>md_states := contract_state_insert a (cs\<lparr>cs_code := code\<rparr>) (md_states m)\<rparr>"
        a "cs\<lparr>cs_code := code\<rparr>" api X w] assms(2)
    by (simp add: contract_state_insert_def)
  show ?thesis
    using assms(1)
    by (cases "from_code X code api (SharedStorage a) U64_MAX False")
      (simp_all add: cheat_code_def on_model_fetch_known contract_state_get_def m_simps on_contracts_def new,
       simp_all add: contract_state_insert_def same)
qed

lemma sample_mock_api:
  "RpcMockApi_new (as_canonical_address_length (md_states sample_model)) (as_bech32_prefix (md_states sample_model)) =
     Ok sample_api"
  by (simp add: sample_model_def initial_model_def sample_states_def RpcMockApi_new_def BECH32_PREFIX_MAX_LEN_def
      sample_api_def Let_def eval_nat_numeral)

lemma sample_vault:
  "as_contract_states (md_states sample_model) ''vault'' = Some \<lparr>cs_code = WASM_MAGIC, cs_storage = []\<rparr>"
  by (simp add: sample_model_def initial_model_def)

theorem cheat_code_exact_witness:
  "cheat_code sample_x ''vault'' [1] (sample_model, sample_world) =
     (Fail (vm_error (CompileErr ''Could not compile: bad magic number'')), (sample_model, sample_world))"
  by (simp add: cheat_code_exact [OF sample_vault sample_mock_api] from_code_def compile_def sample_wasm_def
      WASM_MAGIC_def)

text \<open>
  C14: What \<^verbatim>\<open>cheat_storage\<close> writes, a raw query of the same key reads: for a contract the simulator
  knows and whose code can be instantiated, the answer is the written value, and the write changed
  no other key.
\<close>

theorem cheat_storage_roundtrip:
  assumes "as_contract_states (md_states m) a = Some cs"
    and "cheat_storage X a key val (m, w) = (Ret (), (m', w'))"
    and "RpcMockApi_new (as_canonical_address_length (md_states m)) (as_bech32_prefix (md_states m)) = Ok api"
    and "from_code X (cs_code cs) api (PrivateStorage (bt_insert key val (cs_storage cs))) U64_MAX False = Ok e"
  shows "query_contract X call (WasmQuery_Raw a key) (shared_of (m', w')) =
      (Ret (answer_ok val), shared_of (m', w')) \<and>
    (\<forall>k. k \<noteq> key \<longrightarrow> bt_get (bt_insert key val (cs_storage cs)) k = bt_get (cs_storage cs) k)"
proof -
  let ?st = "bt_insert key val (cs_storage cs)"
  have m': "m' = m\<lparr>md_states := contract_state_insert a (cs\<lparr>cs_storage := ?st\<rparr>) (md_states m)\<rparr>"
    using assms(1,2)
    by (simp add: cheat_storage_def on_model_fetch_known contract_state_get_def m_simps on_contracts_def)
  have known: "as_contract_states (sh_states (shared_of (m', w'))) a = Some (cs\<lparr>cs_storage := ?st\<rparr>)"
    by (simp add: shared_of_def m' contract_state_insert_def)
  have api: "RpcMockApi_new (as_canonical_address_length (sh_states (shared_of (m', w'))))
      (as_bech32_prefix (sh_states (shared_of (m', w')))) = Ok api"
    using assms(3) by (simp add: shared_of_def m' contract_state_insert_def)
  have st: "en_storage e = PrivateStorage ?st" using assms(4) by (rule from_code_Ok)
  let ?s = "shared_of (m', w')"
  have fetch: "tryM (fetch_contract_state X a) ?s = (Ret (Ok ()), ?s)"
    by (simp add: tryM_def fetch_known [OF known])
  have run: "with_instance (RpcContractInstance_new a e) (RpcContractInstance_query X call ci env (WasmQuery_Raw a key)) ?s =
      (Ret (Ok val, RpcContractInstance_new a e), ?s)" for ci env
    by (simp add: with_instance_def RpcContractInstance_query_def with_storage_from_context_def load_storage_def
        store_storage_def st RpcMockStorage_get_def RpcContractInstance_new_def bt_get_insert m_simps)
  have "query_contract X call (WasmQuery_Raw a key) ?s = (Ret (answer_ok val), ?s)"
    using known api assms(4)
    by (simp add: query_contract_def wasm_query_addr_def fetch bindM_def getM_def unwrapM_def returnM_def
        contract_state_get_def run_query_def run thenM_def)
  then show ?thesis by (simp add: bt_get_insert)
qed

theorem cheat_storage_roundtrip_witness:
  "\<exists>m w. cheat_storage sample_x ''vault'' [1] [7] (sample_model, sample_world) = (Ret (), (m, w)) \<and>
     query_contract sample_x (vm_call sample_x 5) (WasmQuery_Raw ''vault'' [1]) (shared_of (m, w)) =
       (Ret (answer_ok [7]), shared_of (m, w))"
proof -
  obtain m w where run: "cheat_storage sample_x ''vault'' [1] [7] (sample_model, sample_world) = (Ret (), (m, w))"
    using sample_vault
    by (simp add: cheat_storage_def on_model_fetch_known contract_state_get_def m_simps on_contracts_def)
  have "\<exists>e. from_code sample_x WASM_MAGIC sample_api st U64_MAX False = Ok e" for st
    by (simp add: from_code_def compile_def from_module_def sample_wasm_def WASM_MAGIC_def)
  then show ?thesis
    using cheat_storage_roundtrip [OF sample_vault run sample_mock_api] run by fastforce
qed

text \<open>
  C16: A balance set by \<^verbatim>\<open>cheat_bank_balance\<close> is what the bank reports from then on: a bank query
  for that account and denomination answers with it, asks no node and changes nothing.
\<close>

theorem cheat_balance_roundtrip:
  assumes "cheat_bank_balance a d b (m, w) = (Ret (), (m', w'))"
    and "js_bank_query (x_serde X) q = Ok (BankQuery_Balance a d)"
  shows "Model_bank_query X q (m', w') =
      (case js_balance_response (x_serde X) \<lparr>br_amount = \<lparr>c_denom = d, c_amount = b\<rparr>\<rparr> of
         Ok r \<Rightarrow> Ret r | Err e \<Rightarrow> Fail (Error_StdError e), (m', w'))"
proof -
  have m': "m' = m\<lparr>md_states := set_balance a d b (md_states m)\<rparr>" and w': "w' = w"
    using assms(1) by (simp_all add: cheat_bank_balance_def on_contracts_def m_simps)
  have "get_balance (x_client X) a d (md_states m', w') = (Ret b, (md_states m', w'))"
    by (simp add: m' get_balance_def fetch_bank_state_def get_bank_state_def set_balance_def insert_bank_state_def
        hm_get_insert m_simps)
  then show ?thesis
    using assms(2)
    by (cases "js_balance_response (x_serde X) \<lparr>br_amount = \<lparr>c_denom = d, c_amount = b\<rparr>\<rparr>")
      (simp_all add: Model_bank_query_def on_model_bank_def on_model_def on_states_def bank_query_def m_simps
        shared_of_def put_shared_def)
qed

theorem cheat_balance_roundtrip_witness:
  "\<exists>m w. cheat_bank_balance ''alice'' ''ucosm'' 5 (sample_model, sample_world) = (Ret (), (m, w)) \<and>
     Model_bank_query sample_x [] (m, w) = (Ret [1], (m, w))"
proof -
  obtain m w where run: "cheat_bank_balance ''alice'' ''ucosm'' 5 (sample_model, sample_world) = (Ret (), (m, w))"
    by (simp add: cheat_bank_balance_def on_contracts_def m_simps)
  then show ?thesis
    using cheat_balance_roundtrip [OF run, of sample_x "[]"] by (simp add: sample_serde_def)
qed

section \<open>A failed instantiation\<close>

text \<open>
  C9: An instantiation whose contract fails is rolled back: contracts, balances, block, codes and
  the log are those from before, and so are the address counters, so that the next instantiation
  of the same code derives the same address.
\<close>

theorem instantiate_reverts:
  assumes "Model_clone X (m, w) = (Ret c, (m, v))"
    and "instantiate_inner X (vm_call X n) (handle_response X (vm_call X n) n) i (md_sender m) msg funds (m, v) =
      (Ret (ContractResult_Err e, addr), (m', v'))"
  shows "\<exists>w' client cov.
    instantiate X n i msg funds (m, w) =
      (Ret (md_debug_log m'), (m\<lparr>md_states := (md_states m)\<lparr>as_client := client\<rparr>, md_coverage_info := cov\<rparr>, w')) \<and>
    coverage_le (md_coverage_info m) cov \<and> log_le (md_debug_log m) (md_debug_log m')"
proof -
  have le: "model_le 0 (m, v) (m', v')"
    using keepsD [OF rsp.instantiate_inner_kept assms(2)] .
  have "instantiate X n i msg funds (m, w) =
      (Ret (md_debug_log m'), (c\<lparr>md_coverage_info := md_coverage_info m'\<rparr>,
        client_drop (x_client X) (as_client (md_states m')) v'))"
    using assms by (simp add: instantiate_def m_simps finish_reverts)
  then show ?thesis
    using le by (auto simp: clone_with_coverage [OF assms(1)] model_le_def log_step_def)
qed

lemma sample_get_balance:
  assumes "as_client st = LcdClient c"
  shows "\<exists>b st' w'. get_balance sample_ext a d (st, w) = (Ret b, (st', w'))"
proof -
  have "parse_uint 128 ''100'' = Ok 100"
    by (simp add: parse_uint_def digit_val_def Let_def)
  then show ?thesis
    using assms
    by (cases "as_bank_states st a")
      (simp_all add: get_balance_def fetch_bank_state_def get_bank_state_def m_simps on_client_def
        query_bank_all_balances_def dispatch_def Lcd_query_bank_all_balances_def lcd_get_def
        Lcd_request_inner_def sample_ext_def sample_lcd_def insert_bank_state_def)
qed

lemma sample_transfer_fails:
  "\<exists>e m' w'. transfer_funds sample_x ''alice'' a [\<lparr>c_denom = ''ucosm'', c_amount = 11\<rparr>]
     (sample_model\<lparr>md_code_id_counters := cs\<rparr>, w) = (Ret (Some e), (m', w')) \<and> dl_err_msg (md_debug_log m') = Some e"
proof -
  let ?st = "md_states sample_model"
  have alice: "get_balance sample_ext ''alice'' ''ucosm'' (?st, v) = (Ret 10, (?st, v))" for v
    using get_balance_cached [of ?st "''alice''"] sample_books
    by (simp add: sample_model_def initial_model_def held_def cached_def)
  have "as_client ?st = LcdClient \<lparr>lc_url = ''http://node'', lc_block_number = 7\<rparr>"
    by (simp add: sample_model_def initial_model_def sample_states_def)
  then obtain b st' w' where dst: "get_balance sample_ext a ''ucosm'' (?st, w) = (Ret b, (st', w'))"
    using sample_get_balance by blast
  show ?thesis
    by (simp add: transfer_funds_def on_model_bank_def on_model_def on_states_def on_model_log_def on_log_def
        bank_execute_def bank_send_def alice dst shared_of_def put_shared_def set_err_msg_def m_simps)
qed

lemma sample_address:
  "\<exists>a. generate_address sample_x 3 (sample_model, w) =
     (Ret a, (sample_model\<lparr>md_code_id_counters := [3 \<mapsto> 1]\<rparr>, w))"
proof -
  have "nat_str 3 = ''3''" "nat_str 0 = ''0''" by code_simp+
  then have "canonical_to_human sample_bech32 (x_sha256 sample_x (str_bytes (address_seed 3 0))) ''wasm'' 32 \<noteq> Err e" for e
    by (simp add: address_seed_def canonical_to_human_def sample_bech32_def sample_x_def str_bytes_def char_of_def)
  then obtain a where a: "canonical_to_human sample_bech32 (x_sha256 sample_x (str_bytes (address_seed 3 0))) ''wasm'' 32 = Ok a"
    by (metis result.exhaust)
  then show ?thesis
    by (simp add: generate_address_def set_counter_def m_simps prim_add_def chk_add_def sample_model_def
        initial_model_def sample_states_def sample_x_def)
qed

theorem instantiate_reverts_witness:
  "\<exists>e log m w. instantiate sample_x 2 3 [] [\<lparr>c_denom = ''ucosm'', c_amount = 11\<rparr>] (sample_model, sample_world) =
       (Ret log, (m, w)) \<and>
     dl_err_msg log = Some e \<and> md_code_id_counters m = Map.empty \<and> md_debug_log m = DebugLog_new"
proof -
  have sender: "md_sender sample_model = ''alice''" by (simp add: sample_model_def)
  obtain a where a: "generate_address sample_x 3 (sample_model, sample_world) =
      (Ret a, (sample_model\<lparr>md_code_id_counters := [3 \<mapsto> 1]\<rparr>, sample_world))"
    using sample_address by blast
  obtain e m' w' where t: "transfer_funds sample_x ''alice'' a [\<lparr>c_denom = ''ucosm'', c_amount = 11\<rparr>]
      (sample_model\<lparr>md_code_id_counters := [3 \<mapsto> 1]\<rparr>, sample_world) = (Ret (Some e), (m', w'))"
    and e: "dl_err_msg (md_debug_log m') = Some e"
    using sample_transfer_fails by blast
  have "instantiate_inner sample_x (vm_call sample_x 2) (handle_response sample_x (vm_call sample_x 2) 2) 3
      (md_sender sample_model) [] [\<lparr>c_denom = ''ucosm'', c_amount = 11\<rparr>] (sample_model, sample_world) =
    (Ret (ContractResult_Err e, None), (m', w'))"
    by (simp add: instantiate_inner_def sender a t m_simps)
  from instantiate_reverts [OF sample_clone this] e show ?thesis
    by (auto simp: sample_model_def initial_model_def)
qed

end
