(* ===== verification/Messages.thy ===== *)
theory Messages
  imports Operations
begin

text \<open>
  The messages of a response: a response that comes back from a transaction carries no message
  any more, and a failed submessage whose error is replied to is not undone.
\<close>

section \<open>Responses without messages\<close>

text \<open>\<open>yields P m\<close>: every result of \<open>m\<close> satisfies \<open>P\<close>.\<close>

definition yields :: "('a \<Rightarrow> bool) \<Rightarrow> ('s, 'e, 'a) M \<Rightarrow> bool" where
  "yields P m \<longleftrightarrow> (\<forall>s a t. m s = (Ret a, t) \<longrightarrow> P a)"

lemma yields_bind: "(\<And>a. yields P (f a)) \<Longrightarrow> yields P (bindM m f)"
  by (auto simp: yields_def bindM_Ret_iff)

lemma yields_bind_known: "yields Q m \<Longrightarrow> (\<And>a. Q a \<Longrightarrow> yields P (f a)) \<Longrightarrow> yields P (bindM m f)"
  unfolding yields_def bindM_Ret_iff by blast

lemma yields_then: "yields P k \<Longrightarrow> yields P (thenM m k)"
  unfolding thenM_def by (rule yields_bind)

lemma yields_return: "P a \<Longrightarrow> yields P (returnM a)"
  by (simp add: yields_def returnM_def)

lemma yields_panic: "yields P panicM"
  by (simp add: yields_def panicM_def)

lemma yields_diverge: "yields P divergeM"
  by (simp add: yields_def divergeM_def)

lemma yields_zoom: "yields P m \<Longrightarrow> yields P (zoomM g p m)"
  by (auto simp: yields_def zoomM_def split: prod.splits)

lemmas yields_intros = yields_bind yields_then yields_return yields_panic yields_diverge

definition settled :: "Response ContractResult \<Rightarrow> bool" where
  "settled r \<longleftrightarrow> (case r of ContractResult_Ok x \<Rightarrow> r_messages x = [] | ContractResult_Err _ \<Rightarrow> True)"

lemma settled_simps [simp]: "settled (ContractResult_Err e)" "settled (ContractResult_Ok x) \<longleftrightarrow> r_messages x = []"
  by (simp_all add: settled_def)

lemma bank_settled: "yields settled (on_model_bank (bank_execute E sender msg))"
proof -
  have "yields settled (bank_send_loop E src dst cs ev)" for src dst cs ev
    by (induction cs arbitrary: ev)
      (auto intro!: yields_intros simp: Response_add_events_def Response_new_def)
  moreover have "yields settled (bank_burn E src cs)" for src cs
    by (induction cs) (auto intro!: yields_intros simp: Response_new_def)
  ultimately have "yields settled (bank_execute E sender msg)"
    by (simp add: bank_execute_def bank_send_def split: BankMsg.split)
  then show ?thesis
    unfolding on_model_bank_def on_model_def on_states_def by (intro yields_zoom)
qed

text \<open>What a transaction needs of \<open>handle_response\<close>: that the response it gives back is settled.\<close>

locale settling =
  fixes X :: "('m, 'w) externs" and call :: "'w call_op" and hr :: "'m response_op"
  assumes hr_settled: "yields settled (hr origin response)"
begin

lemma hr_end: "yields settled (bindM (hr a r) (\<lambda>response. thenM (on_model_log f) (returnM response)))"
  by (rule yields_bind_known [OF hr_settled]) (intro yields_then yields_return)

lemma execute_inner_settled: "yields settled (execute_inner X call hr a sender msg funds)"
  unfolding execute_inner_def
  by (auto intro!: yields_bind hr_end yields_then yields_return split: option.split ContractResult.split)

lemma instantiate_inner_settled:
  "yields (\<lambda>(r, _). settled r) (instantiate_inner X call hr code_id sender msg funds)"
proof -
  have hr_end': "yields (\<lambda>(r, _). settled r)
      (bindM (hr a r) (\<lambda>response. thenM (on_model_log f) (returnM (response, Some a))))" for a r f
    by (rule yields_bind_known [OF hr_settled]) (intro yields_then yields_return, simp)
  show ?thesis
    unfolding instantiate_inner_def Let_def
    by (auto intro!: yields_bind hr_end' yields_then yields_return split: option.split ContractResult.split)
qed

lemma finish_submessage_settled:
  "yields settled (finish_submessage X call hr origin msg i reply_on response data)"
  unfolding finish_submessage_def
  by (auto intro!: yields_bind hr_end yields_then yields_return hr_settled split: ContractResult.split)

lemma handle_submessage_settled: "yields settled (handle_submessage X call hr origin sub_msg)"
  unfolding handle_submessage_def handle_submessage_instantiate_def handle_submessage_execute_def
  by (auto intro!: yields_bind finish_submessage_settled bank_settled yields_panic
      split: CosmosMsg.split WasmMsg.split option.split prod.split)

lemma handle_messages_settled:
  "settled latest \<Longrightarrow> yields settled (handle_messages X call hr origin latest msgs)"
  by (induction msgs arbitrary: latest)
    (auto intro!: yields_return yields_bind_known [OF handle_submessage_settled] split: ContractResult.split)

end

lemma handle_response_settled: "yields settled (handle_response X call n origin response)"
proof (induction n arbitrary: origin response)
  case 0
  show ?case unfolding handle_response.simps by (rule yields_diverge)
next
  case (Suc n)
  have "settling (handle_response X call n)" by unfold_locales (rule Suc.IH)
  then have "yields settled (handle_messages X call (handle_response X call n) origin
      (ContractResult_Ok Response_new) (r_messages response))"
    by (rule settling.handle_messages_settled) (simp add: Response_new_def)
  then show ?case unfolding handle_response.simps by (simp add: yields_return)
qed

interpretation stl: settling X "vm_call X n" "handle_response X (vm_call X n) k" for X n k
  by unfold_locales (rule handle_response_settled)



section \<open>A failed submessage with a reply\<close>

lemma guest_reply:
  assumes c: "en_points e = Some c" and g: "en_guest e = []"
  shows "call_raw sample_x (vm_call sample_x (Suc n)) ''reply'' [[], []] READ_LIMIT (e, s) =
    (Ret [0], (e\<lparr>en_guest := [[], [], [0]]\<rparr>, s))"
proof -
  have 1: "write_args sample_x (vm_call sample_x (Suc n)) [[], []] (e, s) =
      (Ret [I32 1, I32 2], (e\<lparr>en_guest := [[], []]\<rparr>, s))"
    using c g
    by (simp add: allocate_def call_function1_def m_simps guest_call_run [where c = c] guest_call_def
        ref_to_u32_def guest_memory)
  have 2: "vm_call sample_x (Suc n) ''reply'' [I32 1, I32 2] (e\<lparr>en_guest := [[], []]\<rparr>, s) =
      (Ret [I32 3], (e\<lparr>en_guest := [[], [], [0]]\<rparr>, s))"
    using c by (subst guest_call_run [where c = c and g = "[[], [], [0]]"])
      (simp_all add: guest_call_def guest_result_def)
  have 3: "read_region sample_x 3 READ_LIMIT (e\<lparr>en_guest := [[], [], [0]]\<rparr>, s) =
      (Ret [0], (e\<lparr>en_guest := [[], [], [0]]\<rparr>, s))"
    by (simp add: guest_memory m_simps READ_LIMIT_def MI_def)
  have 4: "deallocate (vm_call sample_x (Suc n)) 3 (e\<lparr>en_guest := [[], [], [0]]\<rparr>, s) =
      (Ret (), (e\<lparr>en_guest := [[], [], [0]]\<rparr>, s))"
    using c by (simp add: deallocate_def call_function0_def m_simps guest_call_run [where c = c] guest_call_def)
  show ?thesis
    by (simp add: call_raw_def call_function1_def m_simps 1 2 3 4 ref_to_u32_def del: write_args.simps)
qed

abbreviation fresh_env :: "Addr \<Rightarrow> bytes list Environment" where
  "fresh_env a \<equiv> (Environment_new sample_api U64_MAX False (SharedStorage a) [])\<lparr>en_storage_readonly := False\<rparr>"

lemma fresh_env_sel: "en_points (fresh_env a) = Some U64_MAX" "en_guest (fresh_env a) = []"
  by (simp_all add: Environment_new_def)

lemma sample_run_reply:
  "\<exists>i. with_instance (sample_instance a)
      (RpcContractInstance_reply sample_x (vm_call sample_x (Suc n)) env reply) s =
    (Ret (Ok (ContractResult_Ok Response_new), i), s)"
proof -
  have "to_vec name (js_reply sample_serde) reply = Ok []" for name
    by (simp add: to_vec_def sample_serde_def)
  then show ?thesis
    by (simp add: with_instance_def sample_instance_def RpcContractInstance_new_def RpcContractInstance_reply_def
        call_reply_def call_reply_raw_def set_storage_readonly_def on_env_def m_simps
        guest_reply [OF fresh_env_sel] sample_response_def sample_serde_def)
qed

lemma sample_run_message:
  "\<exists>i. with_instance (sample_instance a)
      (RpcContractInstance_execute sample_x (vm_call sample_x (Suc n)) env [3] sender funds) s =
    (Ret (Ok (ContractResult_Ok (Response_new\<lparr>r_messages := [sample_submsg]\<rparr>)), i), s)"
  using guest_execute_returns [OF fresh_env_sel, where b = 3]
  by (simp add: with_instance_def sample_instance_def RpcContractInstance_new_def RpcContractInstance_execute_def
      call_execute_def call_execute_raw_def set_storage_readonly_def on_env_def m_simps sample_response_def
      sample_serde_def)

lemma sample_finish:
  assumes "as_contract_states (md_states m) a = Some cs" and "take 4 (cs_code cs) = WASM_MAGIC"
    and "sample_ready m"
  shows "\<exists>d. finish_submessage sample_x (vm_call sample_x (Suc n)) (handle_response sample_x call (Suc k)) a [1] 5
      ReplyOn_Error (ContractResult_Err e) data (m, w) =
    (Ret (ContractResult_Ok Response_new), (m\<lparr>md_debug_log := d\<rparr>, w))"
proof -
  obtain j d where l: "begin_reply (js_display sample_serde) a [1] (md_debug_log m) = Some (j, d)"
    by (simp add: begin_reply_def begin_context_def sample_serde_def Let_def case_prod_beta)
  let ?s = "\<lparr>sh_states = md_states m, sh_debug_log = d, sh_world = w\<rparr>"
  obtain i where run: "(with_instance (sample_instance a)
      (RpcContractInstance_reply sample_x (vm_call sample_x (Suc n)) (block_env (md_states m) a)
         (reply_of 5 data (ContractResult_Err e))) :: (Error, _) sharedM) ?s =
    (Ret (Ok (ContractResult_Ok Response_new), i), ?s)"
    using sample_run_reply by blast
  show ?thesis
    using assms run
    by (simp add: finish_submessage_def do_reply_def Model_env_def on_model_def shared_of_def put_shared_def
        sample_create_instance sample_ready_def begin_model_def on_log_begin_def l run_instance_def
        handle_coverage_def on_model_log_def on_log_def handle_response.simps Response_new_def m_simps)
      (rule exI, rule refl)
qed

lemma sample_vault_child:
  "\<exists>d. execute_inner sample_x (vm_call sample_x 2) (handle_response sample_x (vm_call sample_x 2) 2) ''vault'' sender
      [3] [] (sample_model, w) =
    (Ret (ContractResult_Ok Response_new),
     (sample_model\<lparr>md_states := put_entry ''child'' (md_states sample_model), md_debug_log := d\<rparr>, w))"
proof -
  let ?st = "md_states sample_model" and ?vm = "vm_call sample_x 2"
  let ?r = "Response_new\<lparr>r_messages := [sample_submsg]\<rparr>"
  obtain j d where l: "in_call ''vault'' 3 DebugLog_new = (j, d)" by (cases "in_call ''vault'' 3 DebugLog_new")
  let ?m = "sample_model\<lparr>md_debug_log := append_log ?r d\<rparr>"
  have m: "sample_ready ?m" "as_contract_states (md_states ?m) ''child'' = Some \<lparr>cs_code = WASM_MAGIC, cs_storage = []\<rparr>"
    using sample_model_simps(1) by (simp_all add: sample_ready_def)
  obtain d1 where fails: "execute_inner sample_x ?vm hr ''child'' ''vault'' [1] [] (?m, w) =
      (Ret (ContractResult_Err ''boom''), (sample_model\<lparr>md_states := put_entry ''child'' ?st, md_debug_log := d1\<rparr>, w))" for hr
    using sample_execute_fails [OF m(2) _ m(1), of 0, folded numeral_2_eq_2] by simp
  let ?n = "sample_model\<lparr>md_states := put_entry ''child'' ?st, md_debug_log := d1\<rparr>"
  have n: "sample_ready ?n" "as_contract_states (md_states ?n) ''vault'' = Some \<lparr>cs_code = WASM_MAGIC, cs_storage = []\<rparr>"
    using sample_model_simps(1) by (simp_all add: sample_ready_def put_entry_def contract_state_insert_def)
  let ?data = "x_pb_execute_response sample_x"
  obtain d2 where reply: "finish_submessage sample_x ?vm (handle_response sample_x ?vm (Suc 0)) ''vault'' [1] 5
      ReplyOn_Error (ContractResult_Err ''boom'') ?data (?n, w) =
    (Ret (ContractResult_Ok Response_new), (?n\<lparr>md_debug_log := d2\<rparr>, w))"
    using sample_finish [OF n(2) _ n(1), of "Suc 0" ?vm 0 "''boom''" ?data w, folded numeral_2_eq_2] by auto
  have hr: "handle_response sample_x ?vm 2 ''vault'' ?r (?m, w) =
      (Ret (ContractResult_Ok Response_new), (?n\<lparr>md_debug_log := d2\<rparr>, w))"
    unfolding numeral_2_eq_2
    by (simp add: handle_response.simps(2) [of _ _ "Suc 0"] handle_submessage_def sample_submsg_def
        handle_submessage_execute_def fails [unfolded numeral_2_eq_2 sample_submsg_def]
        reply [unfolded numeral_2_eq_2] m_simps)
  let ?s = "\<lparr>sh_states = ?st, sh_debug_log = d, sh_world = w\<rparr>"
  obtain i where run: "(with_instance (sample_instance ''vault'')
      (RpcContractInstance_execute sample_x ?vm (block_env ?st ''vault'') [3] sender [])
        :: (Error, _) sharedM) ?s = (Ret (Ok (ContractResult_Ok ?r), i), ?s)"
    using sample_run_message [of "''vault''" "Suc 0", folded numeral_2_eq_2] by blast
  show ?thesis
    using run sample_model_simps(1)
    by (simp add: execute_inner_def Model_env_def on_model_def shared_of_def put_shared_def transfer_funds_def
        sample_create_instance sample_ready_def begin_model_def on_log_begin_def sample_begin l run_instance_def
        handle_coverage_def on_model_log_def on_log_def hr m_simps)
      (rule exI, rule refl)
qed


end
