(* ===== verification/StdErrors.thy ===== *)
theory StdErrors
  imports Errors CwMath
begin

text \<open>
  The errors of \<^verbatim>\<open>cosmwasm_std::errors\<close>: \<^verbatim>\<open>StdError\<close> with its constructors, texts and
  conversions, and the comparison that the source writes out case by case.  Backtraces are a
  build option and are not part of the values.
\<close>

section \<open>Verification errors\<close>

datatype VerificationError =
    VE_BatchErr
  | VE_GenericErr
  | VE_InvalidHashFormat
  | VE_InvalidSignatureFormat
  | VE_InvalidPubkeyFormat
  | VE_InvalidRecoveryParam
  | VE_UnknownErr u32

definition VerificationError_unknown_err :: "u32 \<Rightarrow> VerificationError" where
  "VerificationError_unknown_err error_code = VE_UnknownErr error_code"

fun VerificationError_to_string :: "VerificationError \<Rightarrow> string" where
  "VerificationError_to_string VE_BatchErr = ''Batch error''"
| "VerificationError_to_string VE_GenericErr = ''Generic error''"
| "VerificationError_to_string VE_InvalidHashFormat = ''Invalid hash format''"
| "VerificationError_to_string VE_InvalidSignatureFormat = ''Invalid signature format''"
| "VerificationError_to_string VE_InvalidPubkeyFormat = ''Invalid public key format''"
| "VerificationError_to_string VE_InvalidRecoveryParam =
     ''Invalid recovery parameter. Supported values: 0 and 1.''"
| "VerificationError_to_string (VE_UnknownErr code) = ''Unknown error: '' @ nat_str (unat code)"

definition VerificationError_eq :: "VerificationError \<Rightarrow> VerificationError \<Rightarrow> bool" where
  "VerificationError_eq self rhs =
     (case self of
        VE_BatchErr \<Rightarrow> (case rhs of VE_BatchErr \<Rightarrow> True | _ \<Rightarrow> False)
      | VE_GenericErr \<Rightarrow> (case rhs of VE_GenericErr \<Rightarrow> True | _ \<Rightarrow> False)
      | VE_InvalidHashFormat \<Rightarrow> (case rhs of VE_InvalidHashFormat \<Rightarrow> True | _ \<Rightarrow> False)
      | VE_InvalidPubkeyFormat \<Rightarrow> (case rhs of VE_InvalidPubkeyFormat \<Rightarrow> True | _ \<Rightarrow> False)
      | VE_InvalidSignatureFormat \<Rightarrow> (case rhs of VE_InvalidSignatureFormat \<Rightarrow> True | _ \<Rightarrow> False)
      | VE_InvalidRecoveryParam \<Rightarrow> (case rhs of VE_InvalidRecoveryParam \<Rightarrow> True | _ \<Rightarrow> False)
      | VE_UnknownErr code \<Rightarrow> (case rhs of VE_UnknownErr rhs_code \<Rightarrow> code = rhs_code | _ \<Rightarrow> False))"

fun VerificationError_from :: "CryptoError \<Rightarrow> VerificationError" where
  "VerificationError_from InvalidHashFormat = VE_InvalidHashFormat"
| "VerificationError_from InvalidPubkeyFormat = VE_InvalidPubkeyFormat"
| "VerificationError_from InvalidSignatureFormat = VE_InvalidSignatureFormat"
| "VerificationError_from (CryptoError_GenericErr _) = VE_GenericErr"
| "VerificationError_from InvalidRecoveryParam = VE_InvalidRecoveryParam"
| "VerificationError_from (BatchErr _) = VE_BatchErr"

datatype RecoverPubkeyError =
    RP_InvalidHashFormat
  | RP_InvalidSignatureFormat
  | RP_InvalidRecoveryParam
  | RP_UnknownErr u32

definition RecoverPubkeyError_unknown_err :: "u32 \<Rightarrow> RecoverPubkeyError" where
  "RecoverPubkeyError_unknown_err error_code = RP_UnknownErr error_code"

fun RecoverPubkeyError_to_string :: "RecoverPubkeyError \<Rightarrow> string" where
  "RecoverPubkeyError_to_string RP_InvalidHashFormat = ''Invalid hash format''"
| "RecoverPubkeyError_to_string RP_InvalidSignatureFormat = ''Invalid signature format''"
| "RecoverPubkeyError_to_string RP_InvalidRecoveryParam =
     ''Invalid recovery parameter. Supported values: 0 and 1.''"
| "RecoverPubkeyError_to_string (RP_UnknownErr code) = ''Unknown error: '' @ nat_str (unat code)"

definition RecoverPubkeyError_eq :: "RecoverPubkeyError \<Rightarrow> RecoverPubkeyError \<Rightarrow> bool" where
  "RecoverPubkeyError_eq self rhs =
     (case self of
        RP_InvalidHashFormat \<Rightarrow> (case rhs of RP_InvalidHashFormat \<Rightarrow> True | _ \<Rightarrow> False)
      | RP_InvalidSignatureFormat \<Rightarrow> (case rhs of RP_InvalidSignatureFormat \<Rightarrow> True | _ \<Rightarrow> False)
      | RP_InvalidRecoveryParam \<Rightarrow> (case rhs of RP_InvalidRecoveryParam \<Rightarrow> True | _ \<Rightarrow> False)
      | RP_UnknownErr code \<Rightarrow> (case rhs of RP_UnknownErr rhs_code \<Rightarrow> code = rhs_code | _ \<Rightarrow> False))"

text \<open>\<open>None\<close> is the panic of a conversion that is not supported.\<close>

fun RecoverPubkeyError_from :: "CryptoError \<Rightarrow> RecoverPubkeyError option" where
  "RecoverPubkeyError_from InvalidHashFormat = Some RP_InvalidHashFormat"
| "RecoverPubkeyError_from InvalidPubkeyFormat = None"
| "RecoverPubkeyError_from InvalidSignatureFormat = Some RP_InvalidSignatureFormat"
| "RecoverPubkeyError_from (CryptoError_GenericErr m) =
     Some (RecoverPubkeyError_unknown_err (CryptoError_code (CryptoError_GenericErr m)))"
| "RecoverPubkeyError_from InvalidRecoveryParam = Some RP_InvalidRecoveryParam"
| "RecoverPubkeyError_from (BatchErr _) = None"

section \<open>Arithmetic errors\<close>

fun OverflowOperation_to_string :: "OverflowOperation \<Rightarrow> string" where
  "OverflowOperation_to_string OpAdd = ''Add''"
| "OverflowOperation_to_string OpSub = ''Sub''"
| "OverflowOperation_to_string OpMul = ''Mul''"
| "OverflowOperation_to_string OpPow = ''Pow''"
| "OverflowOperation_to_string OpShr = ''Shr''"
| "OverflowOperation_to_string OpShl = ''Shl''"

definition OverflowError_to_string :: "OverflowError \<Rightarrow> string" where
  "OverflowError_to_string e =
     ''Cannot '' @ OverflowOperation_to_string (oe_operation e) @ '' with '' @ oe_operand1 e @
     '' and '' @ oe_operand2 e"

definition DivideByZeroError_to_string :: "DivideByZeroError \<Rightarrow> string" where
  "DivideByZeroError_to_string e = ''Cannot devide '' @ dz_operand e @ '' by zero''"

record ConversionOverflowError =
  co_source_type :: string
  co_target_type :: string
  co_value :: string

definition ConversionOverflowError_new :: "string \<Rightarrow> string \<Rightarrow> string \<Rightarrow> ConversionOverflowError" where
  "ConversionOverflowError_new source_type target_type v =
     \<lparr>co_source_type = source_type, co_target_type = target_type, co_value = v\<rparr>"

definition ConversionOverflowError_to_string :: "ConversionOverflowError \<Rightarrow> string" where
  "ConversionOverflowError_to_string e =
     ''Error converting '' @ co_source_type e @ '' to '' @ co_target_type e @ '' for '' @ co_value e"

datatype CheckedFromRatioError = CFR_DivideByZero | CFR_Overflow

fun CheckedFromRatioError_to_string :: "CheckedFromRatioError \<Rightarrow> string" where
  "CheckedFromRatioError_to_string CFR_DivideByZero = ''Denominator must not be zero''"
| "CheckedFromRatioError_to_string CFR_Overflow = ''Overflow''"

datatype RoundUpOverflowError = RoundUpOverflowError

definition RoundUpOverflowError_to_string :: "RoundUpOverflowError \<Rightarrow> string" where
  "RoundUpOverflowError_to_string e = ''Round up operation failed because of overflow''"

fun CheckedMultiplyRatioError_to_string :: "CheckedMultiplyRatioError \<Rightarrow> string" where
  "CheckedMultiplyRatioError_to_string CMR_DivideByZero = ''Denominator must not be zero''"
| "CheckedMultiplyRatioError_to_string CMR_Overflow = ''Multiplication overflow''"

section \<open>\<^verbatim>\<open>StdError\<close>\<close>

datatype StdError =
    StdErr_VerificationErr VerificationError
  | StdErr_RecoverPubkeyErr RecoverPubkeyError
  | StdErr_GenericErr string
  | StdErr_InvalidBase64 string
  | StdErr_InvalidDataSize u64 u64
  | StdErr_InvalidHex string
  | StdErr_InvalidUtf8 string
  | StdErr_NotFound string
  | StdErr_ParseErr string string
  | StdErr_SerializeErr string string
  | StdErr_Overflow OverflowError
  | StdErr_DivideByZero DivideByZeroError
  | StdErr_ConversionOverflow ConversionOverflowError

type_synonym 'a StdResult = "(StdError, 'a) result"

fun StdError_to_string :: "StdError \<Rightarrow> string" where
  "StdError_to_string (StdErr_VerificationErr e) = ''Verification error: '' @ VerificationError_to_string e"
| "StdError_to_string (StdErr_RecoverPubkeyErr e) = ''Recover pubkey error: '' @ RecoverPubkeyError_to_string e"
| "StdError_to_string (StdErr_GenericErr msg) = ''Generic error: '' @ msg"
| "StdError_to_string (StdErr_InvalidBase64 msg) = ''Invalid Base64 string: '' @ msg"
| "StdError_to_string (StdErr_InvalidDataSize expected actual) =
     ''Invalid data size: expected='' @ nat_str (unat expected) @ '' actual='' @ nat_str (unat actual)"
| "StdError_to_string (StdErr_InvalidHex msg) = ''Invalid hex string: '' @ msg"
| "StdError_to_string (StdErr_InvalidUtf8 msg) = ''Cannot decode UTF8 bytes into string: '' @ msg"
| "StdError_to_string (StdErr_NotFound kind) = kind @ '' not found''"
| "StdError_to_string (StdErr_ParseErr target_type msg) =
     ''Error parsing into type '' @ target_type @ '': '' @ msg"
| "StdError_to_string (StdErr_SerializeErr source_type msg) =
     ''Error serializing type '' @ source_type @ '': '' @ msg"
| "StdError_to_string (StdErr_Overflow e) = ''Overflow: '' @ OverflowError_to_string e"
| "StdError_to_string (StdErr_DivideByZero e) = ''Divide by zero: '' @ DivideByZeroError_to_string e"
| "StdError_to_string (StdErr_ConversionOverflow e) = ''Conversion error: ''"

definition StdError_verification_err :: "VerificationError \<Rightarrow> StdError" where
  "StdError_verification_err source = StdErr_VerificationErr source"

definition StdError_recover_pubkey_err :: "RecoverPubkeyError \<Rightarrow> StdError" where
  "StdError_recover_pubkey_err source = StdErr_RecoverPubkeyErr source"

definition StdError_generic_err :: "string \<Rightarrow> StdError" where
  "StdError_generic_err msg = StdErr_GenericErr msg"

definition StdError_invalid_base64 :: "string \<Rightarrow> StdError" where
  "StdError_invalid_base64 msg = StdErr_InvalidBase64 msg"

definition StdError_invalid_data_size :: "nat \<Rightarrow> nat \<Rightarrow> StdError" where
  "StdError_invalid_data_size expected actual = StdErr_InvalidDataSize (of_nat expected) (of_nat actual)"

definition StdError_invalid_hex :: "string \<Rightarrow> StdError" where
  "StdError_invalid_hex msg = StdErr_InvalidHex msg"

definition StdError_invalid_utf8 :: "string \<Rightarrow> StdError" where
  "StdError_invalid_utf8 msg = StdErr_InvalidUtf8 msg"

definition StdError_not_found :: "string \<Rightarrow> StdError" where
  "StdError_not_found kind = StdErr_NotFound kind"

definition StdError_parse_err :: "string \<Rightarrow> string \<Rightarrow> StdError" where
  "StdError_parse_err target msg = StdErr_ParseErr target msg"

definition StdError_serialize_err :: "string \<Rightarrow> string \<Rightarrow> StdError" where
  "StdError_serialize_err source msg = StdErr_SerializeErr source msg"

definition StdError_overflow :: "OverflowError \<Rightarrow> StdError" where
  "StdError_overflow source = StdErr_Overflow source"

definition StdError_divide_by_zero :: "DivideByZeroError \<Rightarrow> StdError" where
  "StdError_divide_by_zero source = StdErr_DivideByZero source"

definition StdError_eq :: "StdError \<Rightarrow> StdError \<Rightarrow> bool" where
  "StdError_eq self rhs =
     (case self of
        StdErr_VerificationErr source \<Rightarrow>
          (case rhs of StdErr_VerificationErr rhs_source \<Rightarrow> VerificationError_eq source rhs_source | _ \<Rightarrow> False)
      | StdErr_RecoverPubkeyErr source \<Rightarrow>
          (case rhs of StdErr_RecoverPubkeyErr rhs_source \<Rightarrow> RecoverPubkeyError_eq source rhs_source | _ \<Rightarrow> False)
      | StdErr_GenericErr msg \<Rightarrow> (case rhs of StdErr_GenericErr rhs_msg \<Rightarrow> msg = rhs_msg | _ \<Rightarrow> False)
      | StdErr_InvalidBase64 msg \<Rightarrow> (case rhs of StdErr_InvalidBase64 rhs_msg \<Rightarrow> msg = rhs_msg | _ \<Rightarrow> False)
      | StdErr_InvalidDataSize expected actual \<Rightarrow>
          (case rhs of
             StdErr_InvalidDataSize rhs_expected rhs_actual \<Rightarrow> expected = rhs_expected \<and> actual = rhs_actual
           | _ \<Rightarrow> False)
      | StdErr_InvalidHex msg \<Rightarrow> (case rhs of StdErr_InvalidHex rhs_msg \<Rightarrow> msg = rhs_msg | _ \<Rightarrow> False)
      | StdErr_InvalidUtf8 msg \<Rightarrow> (case rhs of StdErr_InvalidUtf8 rhs_msg \<Rightarrow> msg = rhs_msg | _ \<Rightarrow> False)
      | StdErr_NotFound kind \<Rightarrow> (case rhs of StdErr_NotFound rhs_kind \<Rightarrow> kind = rhs_kind | _ \<Rightarrow> False)
      | StdErr_ParseErr target_type msg \<Rightarrow>
          (case rhs of
             StdErr_ParseErr rhs_target_type rhs_msg \<Rightarrow> target_type = rhs_target_type \<and> msg = rhs_msg
           | _ \<Rightarrow> False)
      | StdErr_SerializeErr source_type msg \<Rightarrow>
          (case rhs of
             StdErr_SerializeErr rhs_source_type rhs_msg \<Rightarrow> source_type = rhs_source_type \<and> msg = rhs_msg
           | _ \<Rightarrow> False)
      | StdErr_Overflow source \<Rightarrow> (case rhs of StdErr_Overflow rhs_source \<Rightarrow> source = rhs_source | _ \<Rightarrow> False)
      | StdErr_DivideByZero source \<Rightarrow>
          (case rhs of StdErr_DivideByZero rhs_source \<Rightarrow> source = rhs_source | _ \<Rightarrow> False)
      | StdErr_ConversionOverflow source \<Rightarrow>
          (case rhs of StdErr_ConversionOverflow rhs_source \<Rightarrow> source = rhs_source | _ \<Rightarrow> False))"

text \<open>The comparisons decide equality.\<close>

lemma VerificationError_eq_iff: "VerificationError_eq a b \<longleftrightarrow> a = b"
  by (cases a; cases b) (simp_all add: VerificationError_eq_def)

lemma RecoverPubkeyError_eq_iff: "RecoverPubkeyError_eq a b \<longleftrightarrow> a = b"
  by (cases a; cases b) (simp_all add: RecoverPubkeyError_eq_def)

lemma StdError_eq_iff: "StdError_eq a b \<longleftrightarrow> a = b"
  by (cases a; cases b)
    (simp_all add: StdError_eq_def VerificationError_eq_iff RecoverPubkeyError_eq_iff)

end
