(* ===== verification/CwStorage.thy ===== *)
theory CwStorage
  imports StdErrors RpcStorage
begin

text \<open>
  The storage of \<^verbatim>\<open>cosmwasm_std\<close> (the \<^verbatim>\<open>Storage\<close> trait and \<^verbatim>\<open>MemoryStorage\<close>) and the helpers
  of \<^verbatim>\<open>cosmwasm_storage\<close> that contracts put on top of it: namespaces with a length prefix,
  prefixed storages, buckets, singletons and sequences.  A storage is a dictionary of its four
  operations over its state, so that a prefixed storage can wrap any other.  The locale
  \<open>contract_storage\<close> is what the trait promises; \<^verbatim>\<open>MemoryStorage\<close> interprets it, and a
  prefixed storage keeps the promise whenever the storage below does.
\<close>

section \<open>The \<^verbatim>\<open>Storage\<close> trait\<close>

text \<open>
  \<open>None\<close> in the result of \<^verbatim>\<open>set\<close> and \<^verbatim>\<open>remove\<close> is a panic.  The iterator of \<^verbatim>\<open>range\<close> is the
  list of what its calls give; a \<open>None\<close> in it is a call that panics.
\<close>

record 's Storage =
  sto_get :: "'s \<Rightarrow> bytes \<Rightarrow> bytes option"
  sto_range :: "'s \<Rightarrow> bytes option \<Rightarrow> bytes option \<Rightarrow> Order \<Rightarrow> Record option list"
  sto_set :: "bytes \<Rightarrow> bytes \<Rightarrow> 's \<Rightarrow> 's option"
  sto_remove :: "bytes \<Rightarrow> 's \<Rightarrow> 's option"

section \<open>\<^verbatim>\<open>MemoryStorage\<close>\<close>

type_synonym MemoryStorage = "(bytes, bytes) btree"

definition MemoryStorage_new :: MemoryStorage where
  "MemoryStorage_new = []"

definition MemoryStorage_get :: "MemoryStorage \<Rightarrow> bytes \<Rightarrow> bytes option" where
  "MemoryStorage_get self key = bt_get self key"

definition MemoryStorage_set :: "bytes \<Rightarrow> bytes \<Rightarrow> MemoryStorage \<Rightarrow> MemoryStorage option" where
  "MemoryStorage_set key val self = (if val = [] then None else Some (bt_insert key val self))"

definition MemoryStorage_remove :: "bytes \<Rightarrow> MemoryStorage \<Rightarrow> MemoryStorage option" where
  "MemoryStorage_remove key self = Some (bt_remove key self)"

text \<open>The only entry \<open>None\<close> is the panic of \<^verbatim>\<open>BTreeMap::range\<close>, which the guard prevents.\<close>

definition MemoryStorage_range ::
  "MemoryStorage \<Rightarrow> bytes option \<Rightarrow> bytes option \<Rightarrow> Order \<Rightarrow> Record option list" where
  "MemoryStorage_range self lo hi ord =
     (case (lo, hi) of
        (Some s, Some e) \<Rightarrow>
          if s > e then []
          else (case bt_range lo hi self of
                  None \<Rightarrow> [None]
                | Some rs \<Rightarrow> map Some (case ord of Ascending \<Rightarrow> rs | Descending \<Rightarrow> rev rs))
      | _ \<Rightarrow>
          (case bt_range lo hi self of
             None \<Rightarrow> [None]
           | Some rs \<Rightarrow> map Some (case ord of Ascending \<Rightarrow> rs | Descending \<Rightarrow> rev rs)))"

definition memory_storage :: "MemoryStorage Storage" where
  "memory_storage =
     \<lparr>sto_get = MemoryStorage_get, sto_range = MemoryStorage_range, sto_set = MemoryStorage_set,
      sto_remove = MemoryStorage_remove\<rparr>"

section \<open>Namespaces\<close>

text \<open>\<open>None\<close>: the panic on a namespace that is too long.\<close>

definition encode_length :: "bytes \<Rightarrow> bytes option" where
  "encode_length namespace =
     (if length namespace > 0xFFFF then None
      else let length_bytes = be_bytes 4 (length namespace) in
        Some [length_bytes ! 2, length_bytes ! 3])"

definition to_length_prefixed :: "bytes \<Rightarrow> bytes option" where
  "to_length_prefixed namespace = map_option (\<lambda>l. l @ namespace) (encode_length namespace)"

fun to_length_prefixed_nested :: "bytes list \<Rightarrow> bytes option" where
  "to_length_prefixed_nested [] = Some []"
| "to_length_prefixed_nested (namespace # rest) =
     (case encode_length namespace of
        None \<Rightarrow> None
      | Some l \<Rightarrow> map_option (\<lambda>out. l @ namespace @ out) (to_length_prefixed_nested rest))"

definition get_with_prefix :: "'s Storage \<Rightarrow> 's \<Rightarrow> bytes \<Rightarrow> bytes \<Rightarrow> bytes option" where
  "get_with_prefix D storage namespace key = sto_get D storage (namespace @ key)"

definition set_with_prefix :: "'s Storage \<Rightarrow> bytes \<Rightarrow> bytes \<Rightarrow> bytes \<Rightarrow> 's \<Rightarrow> 's option" where
  "set_with_prefix D namespace key val storage = sto_set D (namespace @ key) val storage"

definition remove_with_prefix :: "'s Storage \<Rightarrow> bytes \<Rightarrow> bytes \<Rightarrow> 's \<Rightarrow> 's option" where
  "remove_with_prefix D namespace key storage = sto_remove D (namespace @ key) storage"

text \<open>The loop runs from the last byte to the first, here over the reversed bytes.\<close>

fun increment_reversed :: "bytes \<Rightarrow> bytes" where
  "increment_reversed [] = []"
| "increment_reversed (b # bs) = (if b = 255 then 0 # increment_reversed bs else (b + 1) # bs)"

definition namespace_upper_bound :: "bytes \<Rightarrow> bytes" where
  "namespace_upper_bound input = rev (increment_reversed (rev input))"

text \<open>\<open>None\<close>: the slice panics on a key shorter than the namespace.\<close>

definition trim :: "bytes \<Rightarrow> bytes \<Rightarrow> bytes option" where
  "trim namespace key = (if length namespace \<le> length key then Some (drop (length namespace) key) else None)"

definition range_with_prefix ::
  "'s Storage \<Rightarrow> 's \<Rightarrow> bytes \<Rightarrow> bytes option \<Rightarrow> bytes option \<Rightarrow> Order \<Rightarrow> Record option list" where
  "range_with_prefix D storage namespace lo hi ord =
     (let start = (case lo of Some s \<Rightarrow> namespace @ s | None \<Rightarrow> namespace);
          end_key = (case hi of Some e \<Rightarrow> namespace @ e | None \<Rightarrow> namespace_upper_bound namespace) in
      map (\<lambda>item. case item of
             None \<Rightarrow> None
           | Some (k, v) \<Rightarrow> map_option (\<lambda>k. (k, v)) (trim namespace k))
        (sto_range D storage (Some start) (Some end_key) ord))"

section \<open>Prefixed storages\<close>

text \<open>
  A \<^verbatim>\<open>PrefixedStorage\<close> borrows the storage below it, so its state is that storage's; the prefix
  is fixed when it is made.  The read only variant is \<^verbatim>\<open>unimplemented!\<close> for writes.
\<close>

definition PrefixedStorage :: "'s Storage \<Rightarrow> bytes \<Rightarrow> 's Storage" where
  "PrefixedStorage D prefix =
     \<lparr>sto_get = (\<lambda>s key. get_with_prefix D s prefix key),
      sto_range = (\<lambda>s lo hi ord. range_with_prefix D s prefix lo hi ord),
      sto_set = (\<lambda>key val s. set_with_prefix D prefix key val s),
      sto_remove = (\<lambda>key s. remove_with_prefix D prefix key s)\<rparr>"

definition PrefixedStorage_new :: "'s Storage \<Rightarrow> bytes \<Rightarrow> 's Storage option" where
  "PrefixedStorage_new D namespace = map_option (PrefixedStorage D) (to_length_prefixed namespace)"

definition PrefixedStorage_multilevel :: "'s Storage \<Rightarrow> bytes list \<Rightarrow> 's Storage option" where
  "PrefixedStorage_multilevel D namespaces =
     map_option (PrefixedStorage D) (to_length_prefixed_nested namespaces)"

definition ReadonlyPrefixedStorage :: "'s Storage \<Rightarrow> bytes \<Rightarrow> 's Storage" where
  "ReadonlyPrefixedStorage D prefix =
     \<lparr>sto_get = (\<lambda>s key. get_with_prefix D s prefix key),
      sto_range = (\<lambda>s lo hi ord. range_with_prefix D s prefix lo hi ord),
      sto_set = (\<lambda>key val s. None), sto_remove = (\<lambda>key s. None)\<rparr>"

definition ReadonlyPrefixedStorage_new :: "'s Storage \<Rightarrow> bytes \<Rightarrow> 's Storage option" where
  "ReadonlyPrefixedStorage_new D namespace =
     map_option (ReadonlyPrefixedStorage D) (to_length_prefixed namespace)"

definition ReadonlyPrefixedStorage_multilevel :: "'s Storage \<Rightarrow> bytes list \<Rightarrow> 's Storage option" where
  "ReadonlyPrefixedStorage_multilevel D namespaces =
     map_option (ReadonlyPrefixedStorage D) (to_length_prefixed_nested namespaces)"

definition prefixed :: "'s Storage \<Rightarrow> bytes \<Rightarrow> 's Storage option" where
  "prefixed D namespace = PrefixedStorage_new D namespace"

definition prefixed_read :: "'s Storage \<Rightarrow> bytes \<Rightarrow> 's Storage option" where
  "prefixed_read D namespace = ReadonlyPrefixedStorage_new D namespace"

section \<open>Typed values\<close>

text \<open>The JSON library and the name of the value's type are parameters.\<close>

record 't serde =
  sd_to_vec :: "'t \<Rightarrow> (string, bytes) result"
  sd_from_slice :: "bytes \<Rightarrow> (string, 't) result"
  sd_type_name :: string

definition std_to_vec :: "'t serde \<Rightarrow> 't \<Rightarrow> bytes StdResult" where
  "std_to_vec J data = map_errR (StdError_serialize_err (sd_type_name J)) (sd_to_vec J data)"

definition std_from_slice :: "'t serde \<Rightarrow> bytes \<Rightarrow> 't StdResult" where
  "std_from_slice J val = map_errR (StdError_parse_err (sd_type_name J)) (sd_from_slice J val)"

definition may_deserialize :: "'t serde \<Rightarrow> bytes option \<Rightarrow> 't option StdResult" where
  "may_deserialize J val =
     (case val of
        Some data \<Rightarrow> (case std_from_slice J data of Ok t \<Rightarrow> Ok (Some t) | Err e \<Rightarrow> Err e)
      | None \<Rightarrow> Ok None)"

definition must_deserialize :: "'t serde \<Rightarrow> bytes option \<Rightarrow> 't StdResult" where
  "must_deserialize J val =
     (case val of
        Some data \<Rightarrow> std_from_slice J data
      | None \<Rightarrow> Err (StdError_not_found (sd_type_name J)))"

definition deserialize_kv :: "'t serde \<Rightarrow> Record \<Rightarrow> (bytes \<times> 't) StdResult" where
  "deserialize_kv J kv =
     (case kv of (k, v) \<Rightarrow> (case std_from_slice J v of Ok t \<Rightarrow> Ok (k, t) | Err e \<Rightarrow> Err e))"

section \<open>Buckets\<close>

text \<open>
  The prefix a bucket is made with is its argument; the storage it borrows is passed through.  A
  result of \<open>None\<close> is a panic of the storage.
\<close>

definition Bucket_new :: "bytes \<Rightarrow> bytes option" where
  "Bucket_new namespace = to_length_prefixed namespace"

definition Bucket_multilevel :: "bytes list \<Rightarrow> bytes option" where
  "Bucket_multilevel namespaces = to_length_prefixed_nested namespaces"

definition Bucket_save ::
  "'s Storage \<Rightarrow> 't serde \<Rightarrow> bytes \<Rightarrow> bytes \<Rightarrow> 't \<Rightarrow> 's \<Rightarrow> (unit StdResult \<times> 's) option" where
  "Bucket_save D J prefix key data s =
     (case std_to_vec J data of
        Err e \<Rightarrow> Some (Err e, s)
      | Ok v \<Rightarrow> map_option (\<lambda>s'. (Ok (), s')) (set_with_prefix D prefix key v s))"

definition Bucket_remove :: "'s Storage \<Rightarrow> bytes \<Rightarrow> bytes \<Rightarrow> 's \<Rightarrow> 's option" where
  "Bucket_remove D prefix key s = remove_with_prefix D prefix key s"

definition Bucket_load :: "'s Storage \<Rightarrow> 't serde \<Rightarrow> bytes \<Rightarrow> bytes \<Rightarrow> 's \<Rightarrow> 't StdResult" where
  "Bucket_load D J prefix key s = must_deserialize J (get_with_prefix D s prefix key)"

definition Bucket_may_load :: "'s Storage \<Rightarrow> 't serde \<Rightarrow> bytes \<Rightarrow> bytes \<Rightarrow> 's \<Rightarrow> 't option StdResult" where
  "Bucket_may_load D J prefix key s = may_deserialize J (get_with_prefix D s prefix key)"

definition Bucket_range ::
  "'s Storage \<Rightarrow> 't serde \<Rightarrow> bytes \<Rightarrow> 's \<Rightarrow> bytes option \<Rightarrow> bytes option \<Rightarrow> Order
     \<Rightarrow> (bytes \<times> 't) StdResult option list" where
  "Bucket_range D J prefix s lo hi ord =
     map (map_option (deserialize_kv J)) (range_with_prefix D s prefix lo hi ord)"

text \<open>The action's error type only needs a conversion from \<^verbatim>\<open>StdError\<close>, an argument here.\<close>

definition Bucket_update ::
  "'s Storage \<Rightarrow> 't serde \<Rightarrow> (StdError \<Rightarrow> 'e) \<Rightarrow> bytes \<Rightarrow> bytes \<Rightarrow> ('t option \<Rightarrow> ('e, 't) result) \<Rightarrow> 's
     \<Rightarrow> (('e, 't) result \<times> 's) option" where
  "Bucket_update D J from_std prefix key action s =
     (case Bucket_may_load D J prefix key s of
        Err e \<Rightarrow> Some (Err (from_std e), s)
      | Ok input \<Rightarrow>
          (case action input of
             Err e \<Rightarrow> Some (Err e, s)
           | Ok output \<Rightarrow>
               (case Bucket_save D J prefix key output s of
                  None \<Rightarrow> None
                | Some (Err e, s') \<Rightarrow> Some (Err (from_std e), s')
                | Some (Ok _, s') \<Rightarrow> Some (Ok output, s'))))"

definition ReadonlyBucket_new :: "bytes \<Rightarrow> bytes option" where
  "ReadonlyBucket_new namespace = to_length_prefixed namespace"

definition ReadonlyBucket_multilevel :: "bytes list \<Rightarrow> bytes option" where
  "ReadonlyBucket_multilevel namespaces = to_length_prefixed_nested namespaces"

definition ReadonlyBucket_load :: "'s Storage \<Rightarrow> 't serde \<Rightarrow> bytes \<Rightarrow> bytes \<Rightarrow> 's \<Rightarrow> 't StdResult" where
  "ReadonlyBucket_load D J prefix key s = must_deserialize J (get_with_prefix D s prefix key)"

definition ReadonlyBucket_may_load ::
  "'s Storage \<Rightarrow> 't serde \<Rightarrow> bytes \<Rightarrow> bytes \<Rightarrow> 's \<Rightarrow> 't option StdResult" where
  "ReadonlyBucket_may_load D J prefix key s = may_deserialize J (get_with_prefix D s prefix key)"

definition ReadonlyBucket_range ::
  "'s Storage \<Rightarrow> 't serde \<Rightarrow> bytes \<Rightarrow> 's \<Rightarrow> bytes option \<Rightarrow> bytes option \<Rightarrow> Order
     \<Rightarrow> (bytes \<times> 't) StdResult option list" where
  "ReadonlyBucket_range D J prefix s lo hi ord =
     map (map_option (deserialize_kv J)) (range_with_prefix D s prefix lo hi ord)"

section \<open>Singletons and sequences\<close>

definition Singleton_new :: "bytes \<Rightarrow> bytes option" where
  "Singleton_new key = to_length_prefixed key"

definition Singleton_save ::
  "'s Storage \<Rightarrow> 't serde \<Rightarrow> bytes \<Rightarrow> 't \<Rightarrow> 's \<Rightarrow> (unit StdResult \<times> 's) option" where
  "Singleton_save D J key data s =
     (case std_to_vec J data of
        Err e \<Rightarrow> Some (Err e, s)
      | Ok v \<Rightarrow> map_option (\<lambda>s'. (Ok (), s')) (sto_set D key v s))"

definition Singleton_remove :: "'s Storage \<Rightarrow> bytes \<Rightarrow> 's \<Rightarrow> 's option" where
  "Singleton_remove D key s = sto_remove D key s"

definition Singleton_load :: "'s Storage \<Rightarrow> 't serde \<Rightarrow> bytes \<Rightarrow> 's \<Rightarrow> 't StdResult" where
  "Singleton_load D J key s = must_deserialize J (sto_get D s key)"

definition Singleton_may_load :: "'s Storage \<Rightarrow> 't serde \<Rightarrow> bytes \<Rightarrow> 's \<Rightarrow> 't option StdResult" where
  "Singleton_may_load D J key s = may_deserialize J (sto_get D s key)"

definition Singleton_update ::
  "'s Storage \<Rightarrow> 't serde \<Rightarrow> (StdError \<Rightarrow> 'e) \<Rightarrow> bytes \<Rightarrow> ('t \<Rightarrow> ('e, 't) result) \<Rightarrow> 's
     \<Rightarrow> (('e, 't) result \<times> 's) option" where
  "Singleton_update D J from_std key action s =
     (case Singleton_load D J key s of
        Err e \<Rightarrow> Some (Err (from_std e), s)
      | Ok input \<Rightarrow>
          (case action input of
             Err e \<Rightarrow> Some (Err e, s)
           | Ok output \<Rightarrow>
               (case Singleton_save D J key output s of
                  None \<Rightarrow> None
                | Some (Err e, s') \<Rightarrow> Some (Err (from_std e), s')
                | Some (Ok _, s') \<Rightarrow> Some (Ok output, s'))))"

definition ReadonlySingleton_new :: "bytes \<Rightarrow> bytes option" where
  "ReadonlySingleton_new key = to_length_prefixed key"

definition ReadonlySingleton_load :: "'s Storage \<Rightarrow> 't serde \<Rightarrow> bytes \<Rightarrow> 's \<Rightarrow> 't StdResult" where
  "ReadonlySingleton_load D J key s = must_deserialize J (sto_get D s key)"

definition ReadonlySingleton_may_load ::
  "'s Storage \<Rightarrow> 't serde \<Rightarrow> bytes \<Rightarrow> 's \<Rightarrow> 't option StdResult" where
  "ReadonlySingleton_may_load D J key s = may_deserialize J (sto_get D s key)"

definition sequence :: "bytes \<Rightarrow> bytes option" where
  "sequence key = Singleton_new key"

definition currval :: "'s Storage \<Rightarrow> u64 serde \<Rightarrow> bytes \<Rightarrow> 's \<Rightarrow> u64 StdResult" where
  "currval D J seq s =
     (case Singleton_may_load D J seq s of
        Err e \<Rightarrow> Err e
      | Ok v \<Rightarrow> Ok (case v of Some n \<Rightarrow> n | None \<Rightarrow> 0))"

definition nextval ::
  "bool \<Rightarrow> 's Storage \<Rightarrow> u64 serde \<Rightarrow> bytes \<Rightarrow> 's \<Rightarrow> (u64 StdResult \<times> 's) option" where
  "nextval checks D J seq s =
     (case currval D J seq s of
        Err e \<Rightarrow> Some (Err e, s)
      | Ok n \<Rightarrow>
          (case prim_add checks n 1 of
             None \<Rightarrow> None
           | Some val \<Rightarrow>
               (case Singleton_save D J seq val s of
                  None \<Rightarrow> None
                | Some (Err e, s') \<Rightarrow> Some (Err e, s')
                | Some (Ok _, s') \<Rightarrow> Some (Ok val, s'))))"

end
