(* ===== verification/Namespaces.thy ===== *)
theory Namespaces
  imports CwStorage Sections "HOL-Library.Sublist"
begin

text \<open>
  Correctness of the storage helpers.  \<open>contract_storage\<close> is the contract of the \<^verbatim>\<open>Storage\<close>
  trait; prefixed storages satisfy it again, seen through the keys below their prefix, as long as
  the keys around them are built with a length prefix.
\<close>

section \<open>The contract of a storage\<close>

locale contract_storage =
  fixes D :: "'s Storage" and sto_inv :: "'s \<Rightarrow> bool" and contents :: "'s \<Rightarrow> bytes \<rightharpoonup> bytes"
  assumes get_contents: "sto_get D s k = contents s k"
    and set_total: "v \<noteq> [] \<Longrightarrow> \<exists>s'. sto_set D k v s = Some s'"
    and set_contents: "sto_set D k v s = Some s' \<Longrightarrow> contents s' = (contents s)(k \<mapsto> v)"
    and set_inv: "sto_inv s \<Longrightarrow> sto_set D k v s = Some s' \<Longrightarrow> sto_inv s'"
    and remove_contents: "\<exists>s'. sto_remove D k s = Some s' \<and> contents s' = (contents s)(k := None)"
    and remove_inv: "sto_inv s \<Longrightarrow> sto_remove D k s = Some s' \<Longrightarrow> sto_inv s'"
    and range_records: "sto_inv s \<Longrightarrow>
      \<exists>rs. sto_range D s lo hi ord = map Some (order_records ord rs) \<and>
        set rs = {(k, v). in_range lo hi k \<and> contents s k = Some v} \<and> sorted_wrt (<) (map fst rs)"
begin

lemma load_after_save:
  assumes "sd_from_slice J v = Ok t" and "sto_set D k v s = Some s'"
  shows "Singleton_load D J k s' = Ok t" and "Singleton_may_load D J k s' = Ok (Some t)"
  using assms
  by (simp_all add: Singleton_load_def Singleton_may_load_def must_deserialize_def may_deserialize_def
      std_from_slice_def get_contents set_contents)

end

interpretation mem: contract_storage memory_storage bt_inv MemoryStorage_get
proof
  fix s :: MemoryStorage and lo hi ord
  assume inv: "bt_inv s"
  let ?rs = "filter (\<lambda>x. in_range lo hi (fst x)) s"
  have "set ?rs = {(k, v). in_range lo hi k \<and> MemoryStorage_get s k = Some v}"
    using bt.select_exact [OF inv] by (simp add: MemoryStorage_get_def)
  moreover have "sorted_wrt (<) (map fst ?rs)" by (rule bt.select_sorted [OF inv])
  moreover have "sto_range memory_storage s lo hi ord = map Some (order_records ord ?rs)"
    by (auto simp: memory_storage_def MemoryStorage_range_def bt_range_def order_records_def in_range_def
        filter_empty_conv split: option.split Order.split)
  ultimately show "\<exists>rs. sto_range memory_storage s lo hi ord = map Some (order_records ord rs) \<and>
      set rs = {(k, v). in_range lo hi k \<and> MemoryStorage_get s k = Some v} \<and> sorted_wrt (<) (map fst rs)"
    by blast
qed (auto simp: memory_storage_def MemoryStorage_get_def MemoryStorage_set_def MemoryStorage_remove_def
    bt_get_insert bt_get_remove bt_inv_insert bt_inv_remove split: if_splits)

section \<open>The upper bound of a namespace\<close>

lemma increment_append:
  "increment_reversed (xs @ ys) =
     (if \<forall>b\<in>set xs. b = 255 then replicate (length xs) 0 @ increment_reversed ys
      else increment_reversed xs @ ys)"
  by (induction xs) auto

lemma upper_bound_Cons:
  "namespace_upper_bound (b # bs) =
     (if \<forall>c\<in>set bs. c = 255 then (if b = 255 then 0 else b + 1) # replicate (length bs) 0
      else b # namespace_upper_bound bs)"
  by (simp add: namespace_upper_bound_def increment_append)

lemma upper_bound_Nil [simp]: "namespace_upper_bound [] = []"
  by (simp add: namespace_upper_bound_def)

lemma less_zeros: "k < replicate n (0 :: byte) \<longleftrightarrow> (\<exists>m < n. k = replicate m 0)"
proof (induction n arbitrary: k)
  case (Suc n)
  show ?case
  proof (cases k)
    case Nil
    then show ?thesis by auto
  next
    case (Cons c cs)
    have "c # cs < 0 # replicate n 0 \<longleftrightarrow> c = 0 \<and> (\<exists>m < n. cs = replicate m 0)"
      using Suc.IH [of cs] by simp
    also have "\<dots> \<longleftrightarrow> (\<exists>m < Suc n. c # cs = replicate m 0)"
      by (auto simp: less_Suc_eq_0_disj)
    finally show ?thesis using Cons by simp
  qed
qed simp

lemma byte_less_succ: "b \<noteq> 255 \<Longrightarrow> c < b + 1 \<longleftrightarrow> c \<le> (b :: byte)"
proof -
  assume b: "b \<noteq> 255"
  have "unat b < 256" using unsigned_less [of b, where 'a = nat] by simp
  moreover have "unat b \<noteq> unat (255 :: byte)" using b by (simp add: word_unat_eq_iff)
  ultimately have "unat (b + 1) = unat b + 1" by (simp add: unat_word_ariths)
  then show ?thesis by (simp add: word_less_nat_alt word_le_nat_alt less_Suc_eq_le)
qed

lemma le_255: "(b :: byte) \<le> 255"
  using unsigned_less [of b, where 'a = nat] by (simp add: word_le_nat_alt)

lemma max_prefix: "\<forall>b\<in>set p. b = (255 :: byte) \<Longrightarrow> p \<le> k \<longleftrightarrow> prefix p k"
proof (induction p arbitrary: k)
  case (Cons b p)
  have "\<not> 255 < c" for c :: byte using le_255 [of c] by simp
  then show ?case using Cons by (cases k) auto
qed simp

text \<open>
  Every key of the namespace lies between the namespace and its upper bound, and no other key
  that is as long as the namespace does.
\<close>

lemma upper_bound_exact:
  assumes "\<exists>b\<in>set p. b \<noteq> 255" and "length p \<le> length k"
  shows "p \<le> k \<and> k < namespace_upper_bound p \<longleftrightarrow> prefix p k"
  using assms
proof (induction p arbitrary: k)
  case (Cons b p)
  then obtain c k' where k: "k = c # k'" "length p \<le> length k'" by (cases k) auto
  show ?case
  proof (cases "\<forall>b\<in>set p. b = 255")
    case True
    then have b: "b \<noteq> 255" using Cons.prems(1) by auto
    have "\<not> k' < replicate (length p) 0" using k(2) by (auto simp: less_zeros)
    then show ?thesis
      using max_prefix [OF True, of k'] b byte_less_succ [OF b, of c] True
      by (auto simp: upper_bound_Cons k(1))
  next
    case False
    then show ?thesis using Cons.IH [OF _ k(2)] by (auto simp: upper_bound_Cons k(1))
  qed
qed simp

text \<open>The keys in between that are shorter than the namespace.\<close>

lemma upper_bound_short:
  assumes "p \<le> k" and "k < namespace_upper_bound p" and "length k < length p"
  shows "\<exists>x b m j. p = x @ b # replicate m 255 \<and> b \<noteq> 255 \<and> k = x @ (b + 1) # replicate j 0 \<and> j < m"
  using assms
proof (induction p arbitrary: k)
  case (Cons b p)
  then obtain c k' where k: "k = c # k'" by (cases k) auto
  show ?case
  proof (cases "\<forall>b\<in>set p. b = 255")
    case True
    then have p: "p = replicate (length p) 255" by (induction p) auto
    have b: "b \<noteq> 255"
    proof
      assume "b = 255"
      then have "c < 0 \<or> c = 0 \<and> k' < replicate (length p) 0" and "\<not> 255 < c"
        using Cons.prems True le_255 [of c] by (auto simp: upper_bound_Cons k)
      then show False using Cons.prems(1) \<open>b = 255\<close> by (auto simp: k)
    qed
    show ?thesis
    proof (cases "c = b + 1")
      case True
      then have "k' < replicate (length p) 0"
        using Cons.prems(2) \<open>\<forall>b\<in>set p. b = 255\<close> b by (simp add: upper_bound_Cons k)
      then obtain j where "j < length p" "k' = replicate j 0" by (auto simp: less_zeros)
      then show ?thesis using True b p k by (metis append_Nil)
    next
      case False
      then have "c \<le> b"
        using Cons.prems(2) \<open>\<forall>b\<in>set p. b = 255\<close> b byte_less_succ [OF b, of c] by (simp add: upper_bound_Cons k)
      then have "p \<le> k'" using Cons.prems(1) by (auto simp: k)
      then have "length p \<le> length k'"
        using max_prefix [OF \<open>\<forall>b\<in>set p. b = 255\<close>] prefix_length_le by blast
      then show ?thesis using Cons.prems(3) by (simp add: k)
    qed
  next
    case False
    then have "namespace_upper_bound (b # p) = b # namespace_upper_bound p" by (simp add: upper_bound_Cons)
    then have "b = c" "p \<le> k'" "k' < namespace_upper_bound p" "length k' < length p"
      using Cons.prems by (auto simp: k)
    from Cons.IH [OF this(2-4)] obtain x d m j where
      "p = x @ d # replicate m 255 \<and> d \<noteq> 255 \<and> k' = x @ (d + 1) # replicate j 0 \<and> j < m" by blast
    then show ?thesis using \<open>b = c\<close> k by (intro exI [of _ "b # x"]) auto
  qed
qed simp

lemma between_prefixed: "p @ a \<le> k \<and> k < p @ e \<longleftrightarrow> (\<exists>k'. k = p @ k' \<and> a \<le> k' \<and> k' < (e :: bytes))"
proof (induction p arbitrary: k)
  case (Cons b p)
  show ?case
  proof (cases k)
    case Nil
    then show ?thesis by auto
  next
    case (Cons c k')
    then show ?thesis using Cons.IH [of k'] by auto
  qed
qed auto

lemma append_less_iff: "p @ a < p @ (b :: bytes) \<longleftrightarrow> a < b"
  by (induction p) auto

lemma append_le_iff: "p @ a \<le> p @ (b :: bytes) \<longleftrightarrow> a \<le> b"
  by (induction p) auto

lemma le_append: "p \<le> p @ (a :: bytes)"
  using append_le_iff [of p "[]" a] by simp

section \<open>Length prefixes\<close>

definition header :: "nat \<Rightarrow> bytes" where
  "header n = [of_nat (n div 256), of_nat (n mod 256)]"

lemma to_length_prefixed_header:
  "to_length_prefixed ns = Some p \<longleftrightarrow> length ns \<le> 0xFFFF \<and> p = header (length ns) @ ns"
  by (auto simp: to_length_prefixed_def encode_length_def Let_def be_bytes_4 header_def)

lemma header_value: "n \<le> 0xFFFF \<Longrightarrow> header n = [h, l] \<Longrightarrow> n = 256 * unat h + unat l"
  by (auto simp: header_def unsigned_of_nat take_bit_nat_eq_self)

lemma header_inj: "m \<le> 0xFFFF \<Longrightarrow> n \<le> 0xFFFF \<Longrightarrow> header m = header n \<Longrightarrow> m = n"
  using header_value [of m] header_value [of n] by (auto simp: header_def)

lemma length_prefixed_prefix_free:
  assumes "to_length_prefixed ns = Some p" and "to_length_prefixed ms = Some q" and "p @ j = q @ k"
  shows "ns = ms"
proof -
  have "header (length ns) = header (length ms)" and "ns @ j = ms @ k"
    using assms by (auto simp: to_length_prefixed_header header_def)
  moreover from this have "length ns = length ms"
    using assms header_inj by (simp add: to_length_prefixed_header)
  ultimately show ?thesis by simp
qed

text \<open>A key that a helper of the library made: a length prefixed namespace and anything after it.\<close>

definition well_formed_key :: "bytes \<Rightarrow> bool" where
  "well_formed_key k \<longleftrightarrow> (\<exists>ns p r. to_length_prefixed ns = Some p \<and> k = p @ r)"

text \<open>No key of the storage lies in the namespace's range without belonging to it.\<close>

definition keys_clear :: "bytes \<Rightarrow> (bytes \<rightharpoonup> bytes) \<Rightarrow> bool" where
  "keys_clear p m \<longleftrightarrow>
     (\<forall>k. m k \<noteq> None \<longrightarrow> p \<le> k \<longrightarrow> k < namespace_upper_bound p \<longrightarrow> length p \<le> length k)"

lemma unat_succ_byte: "(b :: byte) \<noteq> 255 \<Longrightarrow> unat (b + 1) = unat b + 1"
proof -
  assume b: "b \<noteq> 255"
  have "unat b < 256" using unsigned_less [of b, where 'a = nat] by simp
  moreover have "unat b \<noteq> unat (255 :: byte)" using b by (simp add: word_unat_eq_iff)
  ultimately show ?thesis by (simp add: unat_word_ariths)
qed

lemma well_formed_clear:
  assumes p: "to_length_prefixed ns = Some p" and k: "well_formed_key k"
    and "p \<le> k" and "k < namespace_upper_bound p"
  shows "length p \<le> length k"
proof (rule ccontr)
  assume short: "\<not> length p \<le> length k"
  obtain x b m j where pk: "p = x @ b # replicate m 255" "b \<noteq> 255" "k = x @ (b + 1) # replicate j 0" "j < m"
    using upper_bound_short [OF assms(3,4)] short by (metis not_le)
  obtain ms r where ms: "length ms \<le> 0xFFFF" "k = header (length ms) @ ms @ r"
    using k by (auto simp: well_formed_key_def to_length_prefixed_header)
  have ns: "length ns \<le> 0xFFFF" "p = header (length ns) @ ns"
    using p by (simp_all add: to_length_prefixed_header)
  obtain h l where hl: "header (length ns) = [h, l]" by (simp add: header_def)
  obtain h' l' where hl': "header (length ms) = [h', l']" by (simp add: header_def)
  note n = header_value [OF ns(1) hl] and n' = header_value [OF ms(1) hl']
  have len: "length p = length ns + 2" "length k \<ge> length ms + 2"
    using ns(2) ms(2) by (simp_all add: hl hl')
  have "length ns \<le> length ms"
  proof (cases x)
    case Nil
    then have "h = b" "l = 255" "h' = b + 1"
      using pk ns(2) ms(2) by (auto simp: hl hl' Cons_replicate_eq split: if_splits)
    then show ?thesis using n n' unat_succ_byte [OF pk(2)] by simp
  next
    case (Cons x0 xs)
    show ?thesis
    proof (cases xs)
      case Nil
      then have "h = x0" "l = b" "h' = x0" "l' = b + 1" using Cons pk ns(2) ms(2) by (auto simp: hl hl')
      then show ?thesis using n n' unat_succ_byte [OF pk(2)] by simp
    next
      case (Cons x1 ys)
      then have "h = h'" "l = l'" using \<open>x = x0 # xs\<close> pk ns(2) ms(2) by (auto simp: hl hl')
      then show ?thesis using n n' by simp
    qed
  qed
  then show False using len short by simp
qed

lemma well_formed_keys_clear:
  "to_length_prefixed ns = Some p \<Longrightarrow> (\<And>k. m k \<noteq> None \<Longrightarrow> well_formed_key k) \<Longrightarrow> keys_clear p m"
  unfolding keys_clear_def using well_formed_clear by blast

section \<open>Prefixed storages\<close>

context contract_storage
begin

lemma prefixed_range:
  assumes inv: "sto_inv s" and p: "\<exists>b\<in>set p. b \<noteq> 255" and clear: "keys_clear p (contents s)"
  shows "\<exists>rs. range_with_prefix D s p lo hi ord = map Some (order_records ord rs) \<and>
    set rs = {(k, v). in_range lo hi k \<and> contents s (p @ k) = Some v} \<and> sorted_wrt (<) (map fst rs)"
proof -
  define a where "a = (case lo of Some x \<Rightarrow> p @ x | None \<Rightarrow> p)"
  define e where "e = (case hi of Some x \<Rightarrow> p @ x | None \<Rightarrow> namespace_upper_bound p)"
  obtain rs where rs: "sto_range D s (Some a) (Some e) ord = map Some (order_records ord rs)"
    "set rs = {(k, v). in_range (Some a) (Some e) k \<and> contents s k = Some v}" "sorted_wrt (<) (map fst rs)"
    using range_records [OF inv] by blast
  define x where "x = (case lo of Some x \<Rightarrow> x | None \<Rightarrow> [])"
  have a': "a = p @ x" by (simp add: a_def x_def split: option.split)
  have keys: "in_range (Some a) (Some e) k \<longleftrightarrow> (\<exists>j. k = p @ j \<and> in_range lo hi j)" if known: "contents s k \<noteq> None" for k
  proof (cases hi)
    case (Some y)
    then have "in_range (Some a) (Some e) k \<longleftrightarrow> (\<exists>j. k = p @ j \<and> x \<le> j \<and> j < y)"
      using between_prefixed [of p x k y] by (simp add: in_range_def a' e_def)
    then show ?thesis by (auto simp: Some in_range_def x_def split: option.split)
  next
    case None
    have ub: "p \<le> k \<and> k < namespace_upper_bound p \<longleftrightarrow> prefix p k"
      using upper_bound_exact [OF p] clear known prefix_length_le [of p k] unfolding keys_clear_def by blast
    have "p \<le> a" by (simp add: a' le_append)
    then have "in_range (Some a) (Some e) k \<longleftrightarrow> prefix p k \<and> a \<le> k"
      using ub by (auto simp: in_range_def e_def None)
    then show ?thesis by (auto simp: None in_range_def a' x_def prefix_def append_le_iff le_append split: option.split)
  qed
  define cut where "cut = (\<lambda>(k :: bytes, v :: bytes). (drop (length p) k, v))"
  have under: "\<exists>j. k = p @ j" if "(k, v) \<in> set rs" for k v
    using that keys unfolding rs(2) by auto
  have len: "length p \<le> length k" if "(k, v) \<in> set rs" for k v
    using under [OF that] by auto
  have "(case item of None \<Rightarrow> None | Some (k, v) \<Rightarrow> map_option (\<lambda>k. (k, v)) (trim p k)) = map_option cut item"
    if "item \<in> set (map Some (order_records ord rs))" for item
    using that len by (auto simp: trim_def cut_def order_records_def split: Order.splits)
  then have "range_with_prefix D s p lo hi ord = map (map_option cut) (map Some (order_records ord rs))"
    unfolding range_with_prefix_def Let_def a_def [symmetric] e_def [symmetric] rs(1) by (rule map_cong [OF refl])
  then have "range_with_prefix D s p lo hi ord = map Some (order_records ord (map cut rs))"
    by (simp add: order_records_def rev_map split: Order.split)
  moreover have "set (map cut rs) = {(k, v). in_range lo hi k \<and> contents s (p @ k) = Some v}"
  proof -
    have "(k, v) \<in> set (map cut rs) \<longleftrightarrow> (p @ k, v) \<in> set rs" for k v
      using under by (force simp: cut_def)
    then show ?thesis using keys unfolding rs(2) by auto
  qed
  moreover have "sorted_wrt (<) (map fst (map cut rs))"
  proof -
    have "map fst rs = map (\<lambda>k. p @ k) (map fst (map cut rs))"
      using under by (force simp: cut_def)
    then have "sorted_wrt (<) (map (\<lambda>k. p @ k) (map fst (map cut rs)))" using rs(3) by (simp only:)
    then show ?thesis unfolding sorted_wrt_map append_less_iff .
  qed
  ultimately show ?thesis by blast
qed

text \<open>A prefixed storage is a storage again.\<close>

lemma prefixed_storage:
  assumes p: "\<exists>b\<in>set p. b \<noteq> 255"
  shows "contract_storage (PrefixedStorage D p) (\<lambda>s. sto_inv s \<and> keys_clear p (contents s))
    (\<lambda>s k. contents s (p @ k))"
proof
  fix s k v s'
  assume set: "sto_set (PrefixedStorage D p) k v s = Some s'"
  then show "(\<lambda>j. contents s' (p @ j)) = (\<lambda>j. contents s (p @ j))(k \<mapsto> v)"
    by (auto simp: PrefixedStorage_def set_with_prefix_def set_contents)
  show "sto_inv s' \<and> keys_clear p (contents s')" if "sto_inv s \<and> keys_clear p (contents s)"
    using that set set_inv
    by (auto simp: PrefixedStorage_def set_with_prefix_def set_contents keys_clear_def)
next
  fix s k s'
  show "\<exists>s'. sto_remove (PrefixedStorage D p) k s = Some s' \<and>
      (\<lambda>j. contents s' (p @ j)) = (\<lambda>j. contents s (p @ j))(k := None)"
    using remove_contents [of "p @ k" s] by (auto simp: PrefixedStorage_def remove_with_prefix_def fun_eq_iff)
  show "sto_inv s' \<and> keys_clear p (contents s')"
    if "sto_inv s \<and> keys_clear p (contents s)" and "sto_remove (PrefixedStorage D p) k s = Some s'"
    using that remove_inv remove_contents [of "p @ k" s]
    by (auto simp: PrefixedStorage_def remove_with_prefix_def keys_clear_def split: if_splits)
qed (use prefixed_range [OF _ p] set_total in
    \<open>auto simp: PrefixedStorage_def get_with_prefix_def set_with_prefix_def get_contents\<close>)

text \<open>Records that agree as sets and are in key order agree as lists.\<close>

lemma range_determined:
  assumes "sto_inv s" and "sto_inv t"
    and "\<And>k. in_range lo hi k \<Longrightarrow> contents s k = contents t k"
  shows "sto_range D s lo hi ord = sto_range D t lo hi ord"
proof -
  obtain rs where rs: "sto_range D s lo hi ord = map Some (order_records ord rs)"
    "set rs = {(k, v). in_range lo hi k \<and> contents s k = Some v}" "sorted_wrt (<) (map fst rs)"
    using range_records [OF assms(1)] by blast
  obtain us where us: "sto_range D t lo hi ord = map Some (order_records ord us)"
    "set us = {(k, v). in_range lo hi k \<and> contents t k = Some v}" "sorted_wrt (<) (map fst us)"
    using range_records [OF assms(2)] by blast
  have eq: "set rs = set us" unfolding rs(2) us(2) using assms(3) by auto
  moreover have "inj_on fst (set rs \<union> set us)"
    unfolding eq using us(3) by (simp add: distinct_map strict_sorted_iff)
  ultimately have "rs = us"
    using rs(3) us(3) map_sorted_distinct_set_unique [of fst rs us] by (simp add: strict_sorted_iff)
  then show ?thesis using rs(1) us(1) by simp
qed

end

section \<open>Properties\<close>

text \<open>
  C17: A prefixed storage on a \<^verbatim>\<open>MemoryStorage\<close> whose keys all carry a length prefix implements a
  storage of its own: reading, writing, removing and iterating act on the map of the keys below
  the prefix exactly as they would on a storage that holds just that map, iterators panic on no
  key, and keys outside the namespace are left alone.  The one namespace this excludes is that of
  65535 bytes 255, whose prefix has no upper bound.
\<close>

theorem prefixed_storage_refines:
  assumes "bt_inv s" and "to_length_prefixed ns = Some p" and "\<exists>b\<in>set p. b \<noteq> 255"
    and "\<And>k. MemoryStorage_get s k \<noteq> None \<Longrightarrow> well_formed_key k"
  defines "P \<equiv> PrefixedStorage memory_storage p" and "view \<equiv> \<lambda>s k. MemoryStorage_get s (p @ k)"
  shows "sto_get P s k = view s k \<and>
    (v \<noteq> [] \<longrightarrow> (\<exists>s'. sto_set P k v s = Some s' \<and> bt_inv s' \<and> view s' = (view s)(k \<mapsto> v) \<and>
       (\<forall>j. \<not> prefix p j \<longrightarrow> MemoryStorage_get s' j = MemoryStorage_get s j))) \<and>
    (\<exists>s'. sto_remove P k s = Some s' \<and> bt_inv s' \<and> view s' = (view s)(k := None) \<and>
       (\<forall>j. \<not> prefix p j \<longrightarrow> MemoryStorage_get s' j = MemoryStorage_get s j)) \<and>
    (\<exists>rs. sto_range P s lo hi ord = map Some (order_records ord rs) \<and>
       set rs = {(k, v). in_range lo hi k \<and> view s k = Some v} \<and> sorted_wrt (<) (map fst rs))"
proof -
  have clear: "keys_clear p (MemoryStorage_get s)"
    using assms(2,4) by (rule well_formed_keys_clear)
  note P = mem.prefixed_storage [OF assms(3), folded P_def]
  have outside: "j \<noteq> p @ i" if "\<not> prefix p j" for i j using that by auto
  have "sto_get P s k = view s k"
    by (simp add: view_def contract_storage.get_contents [OF P])
  moreover have "\<exists>s'. sto_set P k v s = Some s' \<and> bt_inv s' \<and> view s' = (view s)(k \<mapsto> v) \<and>
      (\<forall>j. \<not> prefix p j \<longrightarrow> MemoryStorage_get s' j = MemoryStorage_get s j)" if "v \<noteq> []"
    using that assms(1) outside
    by (auto simp: P_def view_def PrefixedStorage_def set_with_prefix_def memory_storage_def MemoryStorage_set_def
        MemoryStorage_get_def bt_get_insert bt_inv_insert fun_eq_iff)
  moreover have "\<exists>s'. sto_remove P k s = Some s' \<and> bt_inv s' \<and> view s' = (view s)(k := None) \<and>
      (\<forall>j. \<not> prefix p j \<longrightarrow> MemoryStorage_get s' j = MemoryStorage_get s j)"
    using assms(1) outside
    by (auto simp: P_def view_def PrefixedStorage_def remove_with_prefix_def memory_storage_def
        MemoryStorage_remove_def MemoryStorage_get_def bt_get_remove bt_inv_remove fun_eq_iff)
  moreover have "\<exists>rs. sto_range P s lo hi ord = map Some (order_records ord rs) \<and>
       set rs = {(k, v). in_range lo hi k \<and> view s k = Some v} \<and> sorted_wrt (<) (map fst rs)"
    unfolding view_def using contract_storage.range_records [OF P] assms(1) clear by blast
  ultimately show ?thesis by blast
qed

definition sample_store :: MemoryStorage where
  "sample_store = [([0, 1, 97, 1], [5]), ([0, 2, 97, 98, 1], [6])]"

lemma sample_store_ok:
  "bt_inv sample_store" "to_length_prefixed [97] = Some [0, 1, 97]" "to_length_prefixed [97, 98] = Some [0, 2, 97, 98]"
  "MemoryStorage_get sample_store k \<noteq> None \<Longrightarrow> well_formed_key k"
proof -
  show "bt_inv sample_store" by (simp add: sample_store_def bt_inv_def)
  show p: "to_length_prefixed [97] = Some [0, 1, 97]" and q: "to_length_prefixed [97, 98] = Some [0, 2, 97, 98]"
    by (simp_all add: to_length_prefixed_header header_def)
  assume "MemoryStorage_get sample_store k \<noteq> None"
  then have "k = [0, 1, 97] @ [1] \<or> k = [0, 2, 97, 98] @ [1]"
    by (auto simp: MemoryStorage_get_def bt_get_def sample_store_def split: if_splits)
  then show "well_formed_key k" unfolding well_formed_key_def using p q by blast
qed

theorem prefixed_storage_refines_witness:
  "sto_get (PrefixedStorage memory_storage [0, 1, 97]) sample_store [1] = Some [5] \<and>
   (\<exists>rs. sto_range (PrefixedStorage memory_storage [0, 1, 97]) sample_store None None Ascending = map Some rs)"
  using prefixed_storage_refines [OF sample_store_ok(1,2) _ sample_store_ok(4), of "[1]" "[7]" None None Ascending]
  by (simp add: order_records_def MemoryStorage_get_def bt_get_def sample_store_def) blast

text \<open>
  C18: Namespaces do not interfere: a write or a removal through one prefixed storage is seen by
  no other namespace of the same storage, neither by a read nor by an iterator.
\<close>

theorem namespaces_isolated:
  assumes "bt_inv s" and "\<And>k. MemoryStorage_get s k \<noteq> None \<Longrightarrow> well_formed_key k"
    and "to_length_prefixed ns = Some p" and "to_length_prefixed ms = Some q" and "ns \<noteq> ms"
    and "\<exists>b\<in>set q. b \<noteq> 255"
    and "sto_set (PrefixedStorage memory_storage p) k v s = Some s' \<or>
      sto_remove (PrefixedStorage memory_storage p) k s = Some s'"
  shows "sto_get (PrefixedStorage memory_storage q) s' j = sto_get (PrefixedStorage memory_storage q) s j \<and>
    sto_range (PrefixedStorage memory_storage q) s' lo hi ord =
      sto_range (PrefixedStorage memory_storage q) s lo hi ord"
proof -
  note Q = mem.prefixed_storage [OF assms(6)]
  have s': "bt_inv s'" "MemoryStorage_get s' i = (if i = p @ k then MemoryStorage_get s' i else MemoryStorage_get s i)" for i
    using assms(1,7)
    by (auto simp: PrefixedStorage_def set_with_prefix_def remove_with_prefix_def memory_storage_def
        MemoryStorage_set_def MemoryStorage_remove_def MemoryStorage_get_def bt_get_insert bt_get_remove
        bt_inv_insert bt_inv_remove split: if_splits)
  have "p @ k \<noteq> q @ i" for i using length_prefixed_prefix_free [OF assms(3,4)] assms(5) by blast
  then have same: "MemoryStorage_get s' (q @ i) = MemoryStorage_get s (q @ i)" for i using s'(2) [of "q @ i"] by metis
  have "well_formed_key i" if "MemoryStorage_get s' i \<noteq> None" for i
    using that s'(2) [of i] assms(2,3) unfolding well_formed_key_def by metis
  then have "keys_clear q (MemoryStorage_get s')" "keys_clear q (MemoryStorage_get s)"
    using assms(2,4) well_formed_keys_clear by blast+
  then show ?thesis
    using same contract_storage.range_determined [OF Q, of s' s lo hi ord] assms(1) s'(1)
    by (simp add: contract_storage.get_contents [OF Q])
qed

theorem namespaces_isolated_witness:
  "\<exists>s. sto_set (PrefixedStorage memory_storage [0, 1, 97]) [1] [7] sample_store = Some s \<and>
     sto_get (PrefixedStorage memory_storage [0, 2, 97, 98]) s [1] = Some [6]"
proof -
  obtain s where s: "sto_set (PrefixedStorage memory_storage [0, 1, 97]) [1] [7] sample_store = Some s"
    by (simp add: PrefixedStorage_def set_with_prefix_def memory_storage_def MemoryStorage_set_def)
  have "sto_get (PrefixedStorage memory_storage [0, 2, 97, 98]) s [1] =
      sto_get (PrefixedStorage memory_storage [0, 2, 97, 98]) sample_store [1]"
    using namespaces_isolated [OF sample_store_ok(1,4,2,3) _ _ disjI1 [OF s], of "[1]" None None Ascending] by simp
  also have "\<dots> = Some [6]"
    by (simp add: PrefixedStorage_def get_with_prefix_def memory_storage_def MemoryStorage_get_def bt_get_def
        sample_store_def)
  finally show ?thesis using s by blast
qed

text \<open>
  C19: The values of a sequence: as long as the JSON library reads back the numbers it writes,
  \<^verbatim>\<open>nextval\<close> returns the successor of \<^verbatim>\<open>currval\<close>, stores it as the new \<^verbatim>\<open>currval\<close> and changes no
  other key.  At the largest number it panics in a build with overflow checks; in a build without
  them it starts again at 0.
\<close>

theorem nextval_exact:
  assumes "\<And>n. \<exists>v. sd_to_vec J n = Ok v \<and> v \<noteq> [] \<and> sd_from_slice J v = Ok n"
    and "currval memory_storage J seq s = Ok n"
  shows "if checks \<and> n = - 1 then nextval checks memory_storage J seq s = None
    else \<exists>s'. nextval checks memory_storage J seq s = Some (Ok (n + 1), s') \<and>
      currval memory_storage J seq s' = Ok (n + 1) \<and>
      (\<forall>k. k \<noteq> seq \<longrightarrow> MemoryStorage_get s' k = MemoryStorage_get s k)"
proof -
  obtain v where v: "sd_to_vec J (n + 1) = Ok v" "v \<noteq> []" "sd_from_slice J v = Ok (n + 1)"
    using assms(1) by blast
  obtain s' where s': "sto_set memory_storage seq v s = Some s'" using mem.set_total [OF v(2)] by blast
  have "currval memory_storage J seq s' = Ok (n + 1)"
    using mem.load_after_save(2) [OF v(3) s'] by (simp add: currval_def)
  moreover have "MemoryStorage_get s' k = MemoryStorage_get s k" if "k \<noteq> seq" for k
    using mem.set_contents [OF s'] that by simp
  moreover have "Singleton_save memory_storage J seq (n + 1) s = Some (Ok (), s')"
    using v s' by (simp add: Singleton_save_def std_to_vec_def)
  moreover have "n = - 1 \<longleftrightarrow> unat n = 2 ^ 64 - 1"
    by (simp add: word_unat_eq_iff unsigned_minus_1_eq_mask mask_eq_exp_minus_1)
  then have "chk_add n 1 = (if n = - 1 then None else Some (n + 1))"
    using unsigned_less [of n, where 'a = nat] by (auto simp: chk_add_def)
  ultimately show ?thesis
    using assms(2) by (auto simp: nextval_def prim_add_def)
qed

definition sample_u64 :: "u64 serde" where
  "sample_u64 = \<lparr>sd_to_vec = (\<lambda>n. Ok (be_bytes 8 (unat n))), sd_from_slice = (\<lambda>v. Ok (of_nat (be_val v))),
     sd_type_name = ''u64''\<rparr>"

theorem nextval_exact_witness:
  "\<exists>s. nextval True memory_storage sample_u64 [7] [] = Some (Ok 1, s) \<and> currval memory_storage sample_u64 [7] s = Ok 1"
proof -
  have "\<exists>v. sd_to_vec sample_u64 n = Ok v \<and> v \<noteq> [] \<and> sd_from_slice sample_u64 v = Ok n" for n
    using unsigned_less [of n, where 'a = nat]
    by (auto simp: sample_u64_def be_val_be_bytes simp flip: length_greater_0_conv)
  moreover have "currval memory_storage sample_u64 [7] [] = Ok 0"
    by (simp add: currval_def Singleton_may_load_def may_deserialize_def memory_storage_def MemoryStorage_get_def
        bt_get_def)
  ultimately show ?thesis using nextval_exact [of sample_u64 "[7]" "[]" 0 True] by auto
qed

text \<open>
  Without length prefixes the range of a namespace that ends in 255 can hold a key shorter than
  the namespace, on which the iterator panics; and the empty list of namespaces has an empty
  range although its keys can be read.
\<close>

theorem range_panics_on_short_key:
  "sto_range (PrefixedStorage memory_storage [0, 1, 255]) [([0, 2], [5])] None None Ascending = [None]"
  by (simp add: PrefixedStorage_def range_with_prefix_def memory_storage_def MemoryStorage_range_def bt_range_def
      in_range_def namespace_upper_bound_def trim_def)

theorem empty_namespace_range:
  "sto_range (PrefixedStorage memory_storage []) [([1], [5])] None None Ascending = [] \<and>
   sto_get (PrefixedStorage memory_storage []) [([1], [5])] [1] = Some [5]"
  by (simp add: PrefixedStorage_def range_with_prefix_def get_with_prefix_def memory_storage_def
      MemoryStorage_range_def MemoryStorage_get_def bt_get_def bt_range_def in_range_def)

end
