(* ===== verification/WideInts.thy ===== *)
theory WideInts
  imports StdErrors
begin

text \<open>
  The integer types of \<^verbatim>\<open>cosmwasm_std::math\<close> around \<^verbatim>\<open>Uint128\<close>: \<^verbatim>\<open>Uint64\<close>, the remaining
  operations of \<^verbatim>\<open>Uint128\<close>, and \<^verbatim>\<open>Uint256\<close> and \<^verbatim>\<open>Uint512\<close>, which wrap the little endian limb
  arrays of the \<^verbatim>\<open>uint\<close> crate.  A wrapped value is a word of its width; \<open>limb\<close> and \<open>of_limbs\<close>
  are the view of it as an array of 64 bit limbs that the byte conversions of the source take
  apart and put together.  The crate's parser \<^verbatim>\<open>from_dec_str\<close>, with the texts of its errors, is
  a parameter.  Operators return \<open>None\<close> where they panic.
\<close>

section \<open>Primitive powers, limbs and texts\<close>

definition prim_pow :: "bool \<Rightarrow> 'a :: len word \<Rightarrow> nat \<Rightarrow> 'a word option" where
  "prim_pow checks a n = (if checks then chk_pow a n else Some (a ^ n))"

definition u64_from_le_bytes :: "bytes \<Rightarrow> u64" where
  "u64_from_le_bytes bs = of_nat (be_val (rev bs))"

definition u64_to_be_bytes :: "u64 \<Rightarrow> bytes" where
  "u64_to_be_bytes w = be_bytes 8 (unat w)"

definition u64_to_le_bytes :: "u64 \<Rightarrow> bytes" where
  "u64_to_le_bytes w = rev (be_bytes 8 (unat w))"

definition limb :: "'a :: len word \<Rightarrow> nat \<Rightarrow> u64" where
  "limb w i = ucast (drop_bit (64 * i) w)"

fun of_limbs :: "u64 list \<Rightarrow> 'a :: len word" where
  "of_limbs [] = 0"
| "of_limbs (l # ls) = ucast l + push_bit 64 (of_limbs ls)"

definition fold_add :: "('a \<Rightarrow> 'a \<Rightarrow> 'a option) \<Rightarrow> 'a \<Rightarrow> 'a list \<Rightarrow> 'a option" where
  "fold_add add_op z xs = foldl (\<lambda>acc x. case acc of None \<Rightarrow> None | Some a \<Rightarrow> add_op a x) (Some z) xs"

definition quoted :: "string \<Rightarrow> string" where
  "quoted s = [CHR 0x27] @ s @ [CHR 0x27]"

section \<open>\<^verbatim>\<open>Uint64\<close>\<close>

type_synonym Uint64 = u64

definition Uint64_to_string :: "Uint64 \<Rightarrow> string" where
  "Uint64_to_string self = nat_str (unat self)"

definition Uint64_MAX :: "Uint64" where
  "Uint64_MAX = - 1"

definition Uint64_MIN :: "Uint64" where
  "Uint64_MIN = 0"

definition Uint64_new :: "u64 \<Rightarrow> Uint64" where
  "Uint64_new v = v"

definition Uint64_zero :: "Uint64" where
  "Uint64_zero = 0"

definition Uint64_one :: "Uint64" where
  "Uint64_one = 1"

definition Uint64_u64 :: "Uint64 \<Rightarrow> u64" where
  "Uint64_u64 self = self"

definition Uint64_to_be_bytes :: "Uint64 \<Rightarrow> bytes" where
  "Uint64_to_be_bytes self = be_bytes 8 (unat self)"

definition Uint64_to_le_bytes :: "Uint64 \<Rightarrow> bytes" where
  "Uint64_to_le_bytes self = rev (be_bytes 8 (unat self))"

definition Uint64_is_zero :: "Uint64 \<Rightarrow> bool" where
  "Uint64_is_zero self = (self = 0)"

definition Uint64_pow :: "bool \<Rightarrow> Uint64 \<Rightarrow> u32 \<Rightarrow> Uint64 option" where
  "Uint64_pow checks self e = prim_pow checks self (unat e)"

definition Uint64_From_u32 :: "u32 \<Rightarrow> Uint64" where
  "Uint64_From_u32 val = ucast val"

definition Uint64_From_u16 :: "16 word \<Rightarrow> Uint64" where
  "Uint64_From_u16 val = ucast val"

definition Uint64_From_u8 :: "byte \<Rightarrow> Uint64" where
  "Uint64_From_u8 val = ucast val"

definition Uint64_checked_add :: "Uint64 \<Rightarrow> Uint64 \<Rightarrow> (OverflowError, Uint64) result" where
  "Uint64_checked_add self other =
     ok_or (chk_add self other) (OverflowError_new OpAdd (Uint64_to_string self) (Uint64_to_string other))"

definition Uint64_checked_sub :: "Uint64 \<Rightarrow> Uint64 \<Rightarrow> (OverflowError, Uint64) result" where
  "Uint64_checked_sub self other =
     ok_or (chk_sub self other) (OverflowError_new OpSub (Uint64_to_string self) (Uint64_to_string other))"

definition Uint64_checked_mul :: "Uint64 \<Rightarrow> Uint64 \<Rightarrow> (OverflowError, Uint64) result" where
  "Uint64_checked_mul self other =
     ok_or (chk_mul self other) (OverflowError_new OpMul (Uint64_to_string self) (Uint64_to_string other))"

definition Uint64_checked_pow :: "Uint64 \<Rightarrow> u32 \<Rightarrow> (OverflowError, Uint64) result" where
  "Uint64_checked_pow self e =
     ok_or (chk_pow self (unat e)) (OverflowError_new OpPow (Uint64_to_string self) (nat_str (unat e)))"

definition Uint64_checked_div :: "Uint64 \<Rightarrow> Uint64 \<Rightarrow> (DivideByZeroError, Uint64) result" where
  "Uint64_checked_div self other = ok_or (chk_div self other) (DivideByZeroError_new (Uint64_to_string self))"

definition Uint64_checked_div_euclid :: "Uint64 \<Rightarrow> Uint64 \<Rightarrow> (DivideByZeroError, Uint64) result" where
  "Uint64_checked_div_euclid self other = ok_or (chk_div self other) (DivideByZeroError_new (Uint64_to_string self))"

definition Uint64_checked_rem :: "Uint64 \<Rightarrow> Uint64 \<Rightarrow> (DivideByZeroError, Uint64) result" where
  "Uint64_checked_rem self other = ok_or (chk_rem self other) (DivideByZeroError_new (Uint64_to_string self))"

definition Uint64_wrapping_add :: "Uint64 \<Rightarrow> Uint64 \<Rightarrow> Uint64" where
  "Uint64_wrapping_add self other = self + other"

definition Uint64_wrapping_sub :: "Uint64 \<Rightarrow> Uint64 \<Rightarrow> Uint64" where
  "Uint64_wrapping_sub self other = self - other"

definition Uint64_wrapping_mul :: "Uint64 \<Rightarrow> Uint64 \<Rightarrow> Uint64" where
  "Uint64_wrapping_mul self other = self * other"

definition Uint64_wrapping_pow :: "Uint64 \<Rightarrow> u32 \<Rightarrow> Uint64" where
  "Uint64_wrapping_pow self other = self ^ unat other"

definition Uint64_saturating_add :: "Uint64 \<Rightarrow> Uint64 \<Rightarrow> Uint64" where
  "Uint64_saturating_add self other = sat_of (chk_add self other)"

definition Uint64_saturating_sub :: "Uint64 \<Rightarrow> Uint64 \<Rightarrow> Uint64" where
  "Uint64_saturating_sub self other = sat_sub self other"

definition Uint64_saturating_mul :: "Uint64 \<Rightarrow> Uint64 \<Rightarrow> Uint64" where
  "Uint64_saturating_mul self other = sat_of (chk_mul self other)"

definition Uint64_saturating_pow :: "Uint64 \<Rightarrow> u32 \<Rightarrow> Uint64" where
  "Uint64_saturating_pow self e = sat_of (chk_pow self (unat e))"

definition Uint64_abs_diff :: "Uint64 \<Rightarrow> Uint64 \<Rightarrow> Uint64" where
  "Uint64_abs_diff self other = (if self < other then other - self else self - other)"

definition Uint64_try_from_str :: "string \<Rightarrow> Uint64 StdResult" where
  "Uint64_try_from_str val =
     (case parse_uint 64 val of
        Ok u \<Rightarrow> Ok (of_nat u)
      | Err e \<Rightarrow> Err (StdError_generic_err (''Parsing u64: '' @ e)))"

text \<open>The operators; \<open>None\<close> is their panic.\<close>

definition Uint64_add :: "Uint64 \<Rightarrow> Uint64 \<Rightarrow> Uint64 option" where
  "Uint64_add self rhs = chk_add self rhs"

definition Uint64_sub :: "Uint64 \<Rightarrow> Uint64 \<Rightarrow> Uint64 option" where
  "Uint64_sub self rhs = chk_sub self rhs"

definition Uint64_mul :: "Uint64 \<Rightarrow> Uint64 \<Rightarrow> Uint64 option" where
  "Uint64_mul self rhs = chk_mul self rhs"

definition Uint64_div :: "Uint64 \<Rightarrow> Uint64 \<Rightarrow> Uint64 option" where
  "Uint64_div self rhs = chk_div self rhs"

definition Uint64_rem :: "Uint64 \<Rightarrow> Uint64 \<Rightarrow> Uint64 option" where
  "Uint64_rem self rhs = chk_rem self rhs"

definition Uint64_shr :: "Uint64 \<Rightarrow> u32 \<Rightarrow> Uint64 option" where
  "Uint64_shr self rhs = chk_shr self rhs"

definition Uint64_add_assign :: "Uint64 \<Rightarrow> Uint64 \<Rightarrow> Uint64 option" where
  "Uint64_add_assign self rhs = chk_add self rhs"

definition Uint64_sub_assign :: "Uint64 \<Rightarrow> Uint64 \<Rightarrow> Uint64 option" where
  "Uint64_sub_assign self rhs = Uint64_sub self rhs"

definition Uint64_mul_assign :: "Uint64 \<Rightarrow> Uint64 \<Rightarrow> Uint64 option" where
  "Uint64_mul_assign self rhs = Uint64_mul self rhs"

definition Uint64_div_assign :: "Uint64 \<Rightarrow> Uint64 \<Rightarrow> Uint64 option" where
  "Uint64_div_assign self rhs = chk_div self rhs"

definition Uint64_rem_assign :: "Uint64 \<Rightarrow> Uint64 \<Rightarrow> Uint64 option" where
  "Uint64_rem_assign self rhs = Uint64_rem self rhs"

definition Uint64_shr_assign :: "Uint64 \<Rightarrow> u32 \<Rightarrow> Uint64 option" where
  "Uint64_shr_assign self rhs = chk_shr self rhs"

definition Uint64_sum :: "Uint64 list \<Rightarrow> Uint64 option" where
  "Uint64_sum iter = fold_add Uint64_add Uint64_zero iter"

definition Uint64_serialize :: "Uint64 \<Rightarrow> string" where
  "Uint64_serialize self = Uint64_to_string self"

definition Uint64_visit_str :: "string \<Rightarrow> (string, Uint64) result" where
  "Uint64_visit_str v =
     (case parse_uint 64 v of
        Ok u \<Rightarrow> Ok (of_nat u)
      | Err e \<Rightarrow> Err (''invalid Uint64 '' @ quoted v @ '' - '' @ e))"

section \<open>The remaining operations of \<^verbatim>\<open>Uint128\<close>\<close>

definition Uint128_MAX :: "Uint128" where
  "Uint128_MAX = - 1"

definition Uint128_MIN :: "Uint128" where
  "Uint128_MIN = 0"

definition Uint128_new :: "u128 \<Rightarrow> Uint128" where
  "Uint128_new v = v"

definition Uint128_zero :: "Uint128" where
  "Uint128_zero = 0"

definition Uint128_one :: "Uint128" where
  "Uint128_one = 1"

definition Uint128_u128 :: "Uint128 \<Rightarrow> u128" where
  "Uint128_u128 self = self"

definition Uint128_to_be_bytes :: "Uint128 \<Rightarrow> bytes" where
  "Uint128_to_be_bytes self = be_bytes 16 (unat self)"

definition Uint128_to_le_bytes :: "Uint128 \<Rightarrow> bytes" where
  "Uint128_to_le_bytes self = rev (be_bytes 16 (unat self))"

definition Uint128_is_zero :: "Uint128 \<Rightarrow> bool" where
  "Uint128_is_zero self = (self = 0)"

definition Uint128_pow :: "bool \<Rightarrow> Uint128 \<Rightarrow> u32 \<Rightarrow> Uint128 option" where
  "Uint128_pow checks self e = prim_pow checks self (unat e)"

definition Uint128_checked_div_euclid :: "Uint128 \<Rightarrow> Uint128 \<Rightarrow> (DivideByZeroError, Uint128) result" where
  "Uint128_checked_div_euclid self other = ok_or (chk_div self other) (DivideByZeroError_new (Uint128_to_string self))"

definition Uint128_From_u64 :: "u64 \<Rightarrow> Uint128" where
  "Uint128_From_u64 val = ucast val"

definition Uint128_From_u32 :: "u32 \<Rightarrow> Uint128" where
  "Uint128_From_u32 val = ucast val"

definition Uint128_From_u16 :: "16 word \<Rightarrow> Uint128" where
  "Uint128_From_u16 val = ucast val"

definition Uint128_From_u8 :: "byte \<Rightarrow> Uint128" where
  "Uint128_From_u8 val = ucast val"

definition Uint128_From_Uint64 :: "Uint64 \<Rightarrow> Uint128" where
  "Uint128_From_Uint64 val = Uint128_From_u64 (Uint64_u64 val)"

definition Uint64_try_from_Uint128 :: "Uint128 \<Rightarrow> (ConversionOverflowError, Uint64) result" where
  "Uint64_try_from_Uint128 v =
     (if unat v < 2 ^ 64 then Ok (Uint64_new (ucast v))
      else Err (ConversionOverflowError_new ''Uint128'' ''Uint64'' (Uint128_to_string v)))"

definition Uint128_from_str :: "string \<Rightarrow> Uint128 StdResult" where
  "Uint128_from_str s =
     (case parse_uint 128 s of
        Ok u \<Rightarrow> Ok (of_nat u)
      | Err e \<Rightarrow> Err (StdError_generic_err (''Parsing u128: '' @ e)))"

definition Uint128_try_from_str :: "string \<Rightarrow> Uint128 StdResult" where
  "Uint128_try_from_str val = Uint128_from_str val"

definition Uint128_add_assign :: "Uint128 \<Rightarrow> Uint128 \<Rightarrow> Uint128 option" where
  "Uint128_add_assign self rhs = Uint128_add self rhs"

definition Uint128_sub_assign :: "Uint128 \<Rightarrow> Uint128 \<Rightarrow> Uint128 option" where
  "Uint128_sub_assign self rhs = Uint128_sub self rhs"

definition Uint128_mul_assign :: "Uint128 \<Rightarrow> Uint128 \<Rightarrow> Uint128 option" where
  "Uint128_mul_assign self rhs = Uint128_mul self rhs"

definition Uint128_div_assign :: "Uint128 \<Rightarrow> Uint128 \<Rightarrow> Uint128 option" where
  "Uint128_div_assign self rhs = Uint128_div self rhs"

definition Uint128_rem_assign :: "Uint128 \<Rightarrow> Uint128 \<Rightarrow> Uint128 option" where
  "Uint128_rem_assign self rhs = Uint128_rem self rhs"

definition Uint128_shr_assign :: "Uint128 \<Rightarrow> u32 \<Rightarrow> Uint128 option" where
  "Uint128_shr_assign self rhs = Uint128_shr self rhs"

definition Uint128_sum :: "Uint128 list \<Rightarrow> Uint128 option" where
  "Uint128_sum iter = fold_add Uint128_add Uint128_zero iter"

definition Uint128_serialize :: "Uint128 \<Rightarrow> string" where
  "Uint128_serialize self = Uint128_to_string self"

definition Uint128_visit_str :: "string \<Rightarrow> (string, Uint128) result" where
  "Uint128_visit_str v =
     (case parse_uint 128 v of
        Ok u \<Rightarrow> Ok (of_nat u)
      | Err e \<Rightarrow> Err (''invalid Uint128 '' @ quoted v @ '' - '' @ e))"

section \<open>\<^verbatim>\<open>Uint256\<close>\<close>

type_synonym Uint256 = "256 word"

definition Uint256_to_string :: "Uint256 \<Rightarrow> string" where
  "Uint256_to_string self = nat_str (unat self)"

definition Uint256_MAX :: "Uint256" where
  "Uint256_MAX = - 1"

definition Uint256_MIN :: "Uint256" where
  "Uint256_MIN = 0"

definition Uint256_from_be_bytes :: "bytes \<Rightarrow> Uint256" where
  "Uint256_from_be_bytes data = of_limbs
       [u64_from_le_bytes (map ((!) data) [31, 30, 29, 28, 27, 26, 25, 24]),
        u64_from_le_bytes (map ((!) data) [23, 22, 21, 20, 19, 18, 17, 16]),
        u64_from_le_bytes (map ((!) data) [15, 14, 13, 12, 11, 10, 9, 8]),
        u64_from_le_bytes (map ((!) data) [7, 6, 5, 4, 3, 2, 1, 0])]"

definition Uint256_from_le_bytes :: "bytes \<Rightarrow> Uint256" where
  "Uint256_from_le_bytes data = of_limbs
       [u64_from_le_bytes (map ((!) data) [0, 1, 2, 3, 4, 5, 6, 7]),
        u64_from_le_bytes (map ((!) data) [8, 9, 10, 11, 12, 13, 14, 15]),
        u64_from_le_bytes (map ((!) data) [16, 17, 18, 19, 20, 21, 22, 23]),
        u64_from_le_bytes (map ((!) data) [24, 25, 26, 27, 28, 29, 30, 31])]"

definition Uint256_new :: "bytes \<Rightarrow> Uint256" where
  "Uint256_new v = Uint256_from_be_bytes v"

definition Uint256_zero :: "Uint256" where
  "Uint256_zero = 0"

definition Uint256_one :: "Uint256" where
  "Uint256_one = Uint256_from_be_bytes (replicate 31 0 @ [1])"

definition Uint256_from_u128 :: "u128 \<Rightarrow> Uint256" where
  "Uint256_from_u128 num = Uint256_from_le_bytes (Uint128_to_le_bytes num @ replicate 16 0)"

definition Uint256_from_uint128 :: "Uint128 \<Rightarrow> Uint256" where
  "Uint256_from_uint128 num = Uint256_from_u128 (Uint128_u128 num)"

definition Uint256_to_be_bytes :: "Uint256 \<Rightarrow> bytes" where
  "Uint256_to_be_bytes self = concat (map (\<lambda>i. u64_to_be_bytes (limb self i)) [3, 2, 1, 0])"

definition Uint256_to_le_bytes :: "Uint256 \<Rightarrow> bytes" where
  "Uint256_to_le_bytes self = concat (map (\<lambda>i. u64_to_le_bytes (limb self i)) [0, 1, 2, 3])"

definition Uint256_is_zero :: "Uint256 \<Rightarrow> bool" where
  "Uint256_is_zero self =
     (limb self 0 = 0 \<and> limb self 1 = 0 \<and> limb self 2 = 0 \<and> limb self 3 = 0)"

definition Uint256_pow :: "Uint256 \<Rightarrow> u32 \<Rightarrow> Uint256 option" where
  "Uint256_pow self e = chk_pow self (unat e)"

definition Uint256_checked_add :: "Uint256 \<Rightarrow> Uint256 \<Rightarrow> (OverflowError, Uint256) result" where
  "Uint256_checked_add self other =
     ok_or (chk_add self other) (OverflowError_new OpAdd (Uint256_to_string self) (Uint256_to_string other))"

definition Uint256_checked_sub :: "Uint256 \<Rightarrow> Uint256 \<Rightarrow> (OverflowError, Uint256) result" where
  "Uint256_checked_sub self other =
     ok_or (chk_sub self other) (OverflowError_new OpSub (Uint256_to_string self) (Uint256_to_string other))"

definition Uint256_checked_mul :: "Uint256 \<Rightarrow> Uint256 \<Rightarrow> (OverflowError, Uint256) result" where
  "Uint256_checked_mul self other =
     ok_or (chk_mul self other) (OverflowError_new OpMul (Uint256_to_string self) (Uint256_to_string other))"

definition Uint256_checked_pow :: "Uint256 \<Rightarrow> u32 \<Rightarrow> (OverflowError, Uint256) result" where
  "Uint256_checked_pow self e =
     ok_or (chk_pow self (unat e)) (OverflowError_new OpPow (Uint256_to_string self) (nat_str (unat e)))"

definition Uint256_checked_div :: "Uint256 \<Rightarrow> Uint256 \<Rightarrow> (DivideByZeroError, Uint256) result" where
  "Uint256_checked_div self other = ok_or (chk_div self other) (DivideByZeroError_new (Uint256_to_string self))"

definition Uint256_checked_div_euclid :: "Uint256 \<Rightarrow> Uint256 \<Rightarrow> (DivideByZeroError, Uint256) result" where
  "Uint256_checked_div_euclid self other = Uint256_checked_div self other"

definition Uint256_checked_rem :: "Uint256 \<Rightarrow> Uint256 \<Rightarrow> (DivideByZeroError, Uint256) result" where
  "Uint256_checked_rem self other = ok_or (chk_rem self other) (DivideByZeroError_new (Uint256_to_string self))"

definition Uint256_checked_shr :: "Uint256 \<Rightarrow> u32 \<Rightarrow> (OverflowError, Uint256) result" where
  "Uint256_checked_shr self other =
     (if other \<ge> 256 then Err (OverflowError_new OpShr (Uint256_to_string self) (nat_str (unat other)))
      else Ok (drop_bit (unat other) self))"

definition Uint256_checked_shl :: "Uint256 \<Rightarrow> u32 \<Rightarrow> (OverflowError, Uint256) result" where
  "Uint256_checked_shl self other =
     (if other \<ge> 256 then Err (OverflowError_new OpShl (Uint256_to_string self) (nat_str (unat other)))
      else Ok (push_bit (unat other) self))"

definition Uint256_wrapping_add :: "Uint256 \<Rightarrow> Uint256 \<Rightarrow> Uint256" where
  "Uint256_wrapping_add self other = self + other"

definition Uint256_wrapping_sub :: "Uint256 \<Rightarrow> Uint256 \<Rightarrow> Uint256" where
  "Uint256_wrapping_sub self other = self - other"

definition Uint256_wrapping_mul :: "Uint256 \<Rightarrow> Uint256 \<Rightarrow> Uint256" where
  "Uint256_wrapping_mul self other = self * other"

definition Uint256_wrapping_pow :: "Uint256 \<Rightarrow> u32 \<Rightarrow> Uint256" where
  "Uint256_wrapping_pow self other = self ^ unat other"

definition Uint256_saturating_add :: "Uint256 \<Rightarrow> Uint256 \<Rightarrow> Uint256" where
  "Uint256_saturating_add self other = sat_of (chk_add self other)"

definition Uint256_saturating_sub :: "Uint256 \<Rightarrow> Uint256 \<Rightarrow> Uint256" where
  "Uint256_saturating_sub self other = sat_sub self other"

definition Uint256_saturating_mul :: "Uint256 \<Rightarrow> Uint256 \<Rightarrow> Uint256" where
  "Uint256_saturating_mul self other = sat_of (chk_mul self other)"

definition Uint256_saturating_pow :: "Uint256 \<Rightarrow> u32 \<Rightarrow> Uint256" where
  "Uint256_saturating_pow self e =
     (case Uint256_checked_pow self e of Ok v \<Rightarrow> v | Err _ \<Rightarrow> Uint256_MAX)"

definition Uint256_From_u128 :: "u128 \<Rightarrow> Uint256" where
  "Uint256_From_u128 val = ucast val"

definition Uint256_From_u64 :: "u64 \<Rightarrow> Uint256" where
  "Uint256_From_u64 val = ucast val"

definition Uint256_From_u32 :: "u32 \<Rightarrow> Uint256" where
  "Uint256_From_u32 val = ucast val"

definition Uint256_From_u16 :: "16 word \<Rightarrow> Uint256" where
  "Uint256_From_u16 val = ucast val"

definition Uint256_From_u8 :: "byte \<Rightarrow> Uint256" where
  "Uint256_From_u8 val = ucast val"

definition Uint256_From_Uint128 :: "Uint128 \<Rightarrow> Uint256" where
  "Uint256_From_Uint128 val = Uint256_From_u128 (Uint128_u128 val)"

definition Uint256_From_Uint64 :: "Uint64 \<Rightarrow> Uint256" where
  "Uint256_From_Uint64 val = Uint256_From_u64 (Uint64_u64 val)"

definition Uint128_try_from_Uint256 :: "Uint256 \<Rightarrow> (ConversionOverflowError, Uint128) result" where
  "Uint128_try_from_Uint256 v =
     (if unat v < 2 ^ 128 then Ok (Uint128_new (ucast v))
      else Err (ConversionOverflowError_new ''Uint256'' ''Uint128'' (Uint256_to_string v)))"

definition Uint256_from_str :: "(string \<Rightarrow> (string, Uint256) result) \<Rightarrow> string \<Rightarrow> Uint256 StdResult" where
  "Uint256_from_str from_dec_str s =
     (if s = [] then Err (StdError_generic_err ''Parsing u256: received empty string'')
      else map_errR (\<lambda>e. StdError_generic_err (''Parsing u256: '' @ e)) (from_dec_str s))"

definition Uint256_try_from_str :: "(string \<Rightarrow> (string, Uint256) result) \<Rightarrow> string \<Rightarrow> Uint256 StdResult" where
  "Uint256_try_from_str from_dec_str val = Uint256_from_str from_dec_str val"

text \<open>The operators; \<open>None\<close> is their panic.\<close>

definition Uint256_add :: "Uint256 \<Rightarrow> Uint256 \<Rightarrow> Uint256 option" where
  "Uint256_add self rhs = chk_add self rhs"

definition Uint256_sub :: "Uint256 \<Rightarrow> Uint256 \<Rightarrow> Uint256 option" where
  "Uint256_sub self rhs = chk_sub self rhs"

definition Uint256_mul :: "Uint256 \<Rightarrow> Uint256 \<Rightarrow> Uint256 option" where
  "Uint256_mul self rhs = chk_mul self rhs"

definition Uint256_div :: "Uint256 \<Rightarrow> Uint256 \<Rightarrow> Uint256 option" where
  "Uint256_div self rhs = chk_div self rhs"

definition Uint256_rem :: "Uint256 \<Rightarrow> Uint256 \<Rightarrow> Uint256 option" where
  "Uint256_rem self rhs = chk_rem self rhs"

definition Uint256_shr :: "Uint256 \<Rightarrow> u32 \<Rightarrow> Uint256 option" where
  "Uint256_shr self rhs = (case Uint256_checked_shr self rhs of Ok v \<Rightarrow> Some v | Err _ \<Rightarrow> None)"

definition Uint256_shl :: "Uint256 \<Rightarrow> u32 \<Rightarrow> Uint256 option" where
  "Uint256_shl self rhs = (case Uint256_checked_shl self rhs of Ok v \<Rightarrow> Some v | Err _ \<Rightarrow> None)"

definition Uint256_add_assign :: "Uint256 \<Rightarrow> Uint256 \<Rightarrow> Uint256 option" where
  "Uint256_add_assign self rhs = Uint256_add self rhs"

definition Uint256_sub_assign :: "Uint256 \<Rightarrow> Uint256 \<Rightarrow> Uint256 option" where
  "Uint256_sub_assign self rhs = Uint256_sub self rhs"

definition Uint256_mul_assign :: "Uint256 \<Rightarrow> Uint256 \<Rightarrow> Uint256 option" where
  "Uint256_mul_assign self rhs = Uint256_mul self rhs"

definition Uint256_div_assign :: "Uint256 \<Rightarrow> Uint256 \<Rightarrow> Uint256 option" where
  "Uint256_div_assign self rhs = Uint256_div self rhs"

definition Uint256_rem_assign :: "Uint256 \<Rightarrow> Uint256 \<Rightarrow> Uint256 option" where
  "Uint256_rem_assign self rhs = Uint256_rem self rhs"

definition Uint256_shr_assign :: "Uint256 \<Rightarrow> u32 \<Rightarrow> Uint256 option" where
  "Uint256_shr_assign self rhs = Uint256_shr self rhs"

definition Uint256_abs_diff :: "Uint256 \<Rightarrow> Uint256 \<Rightarrow> Uint256 option" where
  "Uint256_abs_diff self other = (if self < other then Uint256_sub other self else Uint256_sub self other)"

definition Uint256_sum :: "Uint256 list \<Rightarrow> Uint256 option" where
  "Uint256_sum iter = fold_add Uint256_add Uint256_zero iter"

definition Uint256_serialize :: "Uint256 \<Rightarrow> string" where
  "Uint256_serialize self = Uint256_to_string self"

definition Uint256_visit_str :: "(string \<Rightarrow> (string, Uint256) result) \<Rightarrow> string \<Rightarrow> (string, Uint256) result" where
  "Uint256_visit_str from_dec_str v =
     map_errR (\<lambda>e. ''invalid Uint256 '' @ quoted v @ '' - '' @ StdError_to_string e) (Uint256_try_from_str from_dec_str v)"

section \<open>\<^verbatim>\<open>Uint512\<close>\<close>

type_synonym Uint512 = "512 word"

definition Uint512_to_string :: "Uint512 \<Rightarrow> string" where
  "Uint512_to_string self = nat_str (unat self)"

definition Uint512_MAX :: "Uint512" where
  "Uint512_MAX = - 1"

definition Uint512_MIN :: "Uint512" where
  "Uint512_MIN = 0"

definition Uint512_from_be_bytes :: "bytes \<Rightarrow> Uint512" where
  "Uint512_from_be_bytes data = of_limbs
       [u64_from_le_bytes (map ((!) data) [63, 62, 61, 60, 59, 58, 57, 56]),
        u64_from_le_bytes (map ((!) data) [55, 54, 53, 52, 51, 50, 49, 48]),
        u64_from_le_bytes (map ((!) data) [47, 46, 45, 44, 43, 42, 41, 40]),
        u64_from_le_bytes (map ((!) data) [39, 38, 37, 36, 35, 34, 33, 32]),
        u64_from_le_bytes (map ((!) data) [31, 30, 29, 28, 27, 26, 25, 24]),
        u64_from_le_bytes (map ((!) data) [23, 22, 21, 20, 19, 18, 17, 16]),
        u64_from_le_bytes (map ((!) data) [15, 14, 13, 12, 11, 10, 9, 8]),
        u64_from_le_bytes (map ((!) data) [7, 6, 5, 4, 3, 2, 1, 0])]"

definition Uint512_from_le_bytes :: "bytes \<Rightarrow> Uint512" where
  "Uint512_from_le_bytes data = of_limbs
       [u64_from_le_bytes (map ((!) data) [0, 1, 2, 3, 4, 5, 6, 7]),
        u64_from_le_bytes (map ((!) data) [8, 9, 10, 11, 12, 13, 14, 15]),
        u64_from_le_bytes (map ((!) data) [16, 17, 18, 19, 20, 21, 22, 23]),
        u64_from_le_bytes (map ((!) data) [24, 25, 26, 27, 28, 29, 30, 31]),
        u64_from_le_bytes (map ((!) data) [32, 33, 34, 35, 36, 37, 38, 39]),
        u64_from_le_bytes (map ((!) data) [40, 41, 42, 43, 44, 45, 46, 47]),
        u64_from_le_bytes (map ((!) data) [48, 49, 50, 51, 52, 53, 54, 55]),
        u64_from_le_bytes (map ((!) data) [56, 57, 58, 59, 60, 61, 62, 63])]"

definition Uint512_new :: "bytes \<Rightarrow> Uint512" where
  "Uint512_new v = Uint512_from_be_bytes v"

definition Uint512_zero :: "Uint512" where
  "Uint512_zero = 0"

definition Uint512_one :: "Uint512" where
  "Uint512_one = Uint512_from_be_bytes (replicate 63 0 @ [1])"

definition Uint512_from_uint256 :: "Uint256 \<Rightarrow> Uint512" where
  "Uint512_from_uint256 num = Uint512_from_le_bytes (Uint256_to_le_bytes num @ replicate 32 0)"

definition Uint512_to_be_bytes :: "Uint512 \<Rightarrow> bytes" where
  "Uint512_to_be_bytes self = concat (map (\<lambda>i. u64_to_be_bytes (limb self i)) [7, 6, 5, 4, 3, 2, 1, 0])"

definition Uint512_to_le_bytes :: "Uint512 \<Rightarrow> bytes" where
  "Uint512_to_le_bytes self = concat (map (\<lambda>i. u64_to_le_bytes (limb self i)) [0, 1, 2, 3, 4, 5, 6, 7])"

definition Uint512_is_zero :: "Uint512 \<Rightarrow> bool" where
  "Uint512_is_zero self =
     (limb self 0 = 0 \<and> limb self 1 = 0 \<and> limb self 2 = 0 \<and> limb self 3 = 0 \<and> limb self 4 = 0 \<and> limb self 5 = 0 \<and> limb self 6 = 0 \<and> limb self 7 = 0)"

definition Uint512_pow :: "Uint512 \<Rightarrow> u32 \<Rightarrow> Uint512 option" where
  "Uint512_pow self e = chk_pow self (unat e)"

definition Uint512_checked_add :: "Uint512 \<Rightarrow> Uint512 \<Rightarrow> (OverflowError, Uint512) result" where
  "Uint512_checked_add self other =
     ok_or (chk_add self other) (OverflowError_new OpAdd (Uint512_to_string self) (Uint512_to_string other))"

definition Uint512_checked_sub :: "Uint512 \<Rightarrow> Uint512 \<Rightarrow> (OverflowError, Uint512) result" where
  "Uint512_checked_sub self other =
     ok_or (chk_sub self other) (OverflowError_new OpSub (Uint512_to_string self) (Uint512_to_string other))"

definition Uint512_checked_mul :: "Uint512 \<Rightarrow> Uint512 \<Rightarrow> (OverflowError, Uint512) result" where
  "Uint512_checked_mul self other =
     ok_or (chk_mul self other) (OverflowError_new OpMul (Uint512_to_string self) (Uint512_to_string other))"

definition Uint512_checked_pow :: "Uint512 \<Rightarrow> u32 \<Rightarrow> (OverflowError, Uint512) result" where
  "Uint512_checked_pow self e =
     ok_or (chk_pow self (unat e)) (OverflowError_new OpPow (Uint512_to_string self) (nat_str (unat e)))"

definition Uint512_checked_div :: "Uint512 \<Rightarrow> Uint512 \<Rightarrow> (DivideByZeroError, Uint512) result" where
  "Uint512_checked_div self other = ok_or (chk_div self other) (DivideByZeroError_new (Uint512_to_string self))"

definition Uint512_checked_div_euclid :: "Uint512 \<Rightarrow> Uint512 \<Rightarrow> (DivideByZeroError, Uint512) result" where
  "Uint512_checked_div_euclid self other = Uint512_checked_div self other"

definition Uint512_checked_rem :: "Uint512 \<Rightarrow> Uint512 \<Rightarrow> (DivideByZeroError, Uint512) result" where
  "Uint512_checked_rem self other = ok_or (chk_rem self other) (DivideByZeroError_new (Uint512_to_string self))"

definition Uint512_checked_shr :: "Uint512 \<Rightarrow> u32 \<Rightarrow> (OverflowError, Uint512) result" where
  "Uint512_checked_shr self other =
     (if other \<ge> 512 then Err (OverflowError_new OpShr (Uint512_to_string self) (nat_str (unat other)))
      else Ok (drop_bit (unat other) self))"

definition Uint512_wrapping_add :: "Uint512 \<Rightarrow> Uint512 \<Rightarrow> Uint512" where
  "Uint512_wrapping_add self other = self + other"

definition Uint512_wrapping_sub :: "Uint512 \<Rightarrow> Uint512 \<Rightarrow> Uint512" where
  "Uint512_wrapping_sub self other = self - other"

definition Uint512_wrapping_mul :: "Uint512 \<Rightarrow> Uint512 \<Rightarrow> Uint512" where
  "Uint512_wrapping_mul self other = self * other"

definition Uint512_wrapping_pow :: "Uint512 \<Rightarrow> u32 \<Rightarrow> Uint512" where
  "Uint512_wrapping_pow self other = self ^ unat other"

definition Uint512_saturating_add :: "Uint512 \<Rightarrow> Uint512 \<Rightarrow> Uint512" where
  "Uint512_saturating_add self other = sat_of (chk_add self other)"

definition Uint512_saturating_sub :: "Uint512 \<Rightarrow> Uint512 \<Rightarrow> Uint512" where
  "Uint512_saturating_sub self other = sat_sub self other"

definition Uint512_saturating_mul :: "Uint512 \<Rightarrow> Uint512 \<Rightarrow> Uint512" where
  "Uint512_saturating_mul self other = sat_of (chk_mul self other)"

definition Uint512_saturating_pow :: "Uint512 \<Rightarrow> u32 \<Rightarrow> Uint512" where
  "Uint512_saturating_pow self e =
     (case Uint512_checked_pow self e of Ok v \<Rightarrow> v | Err _ \<Rightarrow> Uint512_MAX)"

definition Uint512_From_u128 :: "u128 \<Rightarrow> Uint512" where
  "Uint512_From_u128 val = ucast val"

definition Uint512_From_u64 :: "u64 \<Rightarrow> Uint512" where
  "Uint512_From_u64 val = ucast val"

definition Uint512_From_u32 :: "u32 \<Rightarrow> Uint512" where
  "Uint512_From_u32 val = ucast val"

definition Uint512_From_u16 :: "16 word \<Rightarrow> Uint512" where
  "Uint512_From_u16 val = ucast val"

definition Uint512_From_u8 :: "byte \<Rightarrow> Uint512" where
  "Uint512_From_u8 val = ucast val"

definition Uint512_From_Uint128 :: "Uint128 \<Rightarrow> Uint512" where
  "Uint512_From_Uint128 val = Uint512_From_u128 (Uint128_u128 val)"

definition Uint512_From_Uint64 :: "Uint64 \<Rightarrow> Uint512" where
  "Uint512_From_Uint64 val = Uint512_From_u64 (Uint64_u64 val)"

definition Uint512_From_Uint256 :: "Uint256 \<Rightarrow> Uint512" where
  "Uint512_From_Uint256 val = Uint512_from_be_bytes (replicate 32 0 @ Uint256_to_be_bytes val)"

definition Uint128_try_from_Uint512 :: "Uint512 \<Rightarrow> (ConversionOverflowError, Uint128) result" where
  "Uint128_try_from_Uint512 v =
     (if unat v < 2 ^ 128 then Ok (Uint128_new (ucast v))
      else Err (ConversionOverflowError_new ''Uint512'' ''Uint128'' (Uint512_to_string v)))"

definition Uint256_try_from_Uint512 :: "Uint512 \<Rightarrow> (ConversionOverflowError, Uint256) result" where
  "Uint256_try_from_Uint512 v =
     (let bs = Uint512_to_be_bytes v; first_bytes = take 32 bs; last_bytes = drop 32 bs in
      if first_bytes \<noteq> replicate 32 0 then Err (ConversionOverflowError_new ''Uint512'' ''Uint256'' (Uint512_to_string v))
      else Ok (Uint256_from_be_bytes last_bytes))"

definition Uint512_from_str :: "(string \<Rightarrow> (string, Uint512) result) \<Rightarrow> string \<Rightarrow> Uint512 StdResult" where
  "Uint512_from_str from_dec_str s =
     (map_errR (\<lambda>e. StdError_generic_err (''Parsing u512: '' @ e)) (from_dec_str s))"

definition Uint512_try_from_str :: "(string \<Rightarrow> (string, Uint512) result) \<Rightarrow> string \<Rightarrow> Uint512 StdResult" where
  "Uint512_try_from_str from_dec_str val = Uint512_from_str from_dec_str val"

text \<open>The operators; \<open>None\<close> is their panic.\<close>

definition Uint512_add :: "Uint512 \<Rightarrow> Uint512 \<Rightarrow> Uint512 option" where
  "Uint512_add self rhs = chk_add self rhs"

definition Uint512_sub :: "Uint512 \<Rightarrow> Uint512 \<Rightarrow> Uint512 option" where
  "Uint512_sub self rhs = chk_sub self rhs"

definition Uint512_mul :: "Uint512 \<Rightarrow> Uint512 \<Rightarrow> Uint512 option" where
  "Uint512_mul self rhs = chk_mul self rhs"

definition Uint512_div :: "Uint512 \<Rightarrow> Uint512 \<Rightarrow> Uint512 option" where
  "Uint512_div self rhs = chk_div self rhs"

definition Uint512_rem :: "Uint512 \<Rightarrow> Uint512 \<Rightarrow> Uint512 option" where
  "Uint512_rem self rhs = chk_rem self rhs"

definition Uint512_shr :: "Uint512 \<Rightarrow> u32 \<Rightarrow> Uint512 option" where
  "Uint512_shr self rhs = (case Uint512_checked_shr self rhs of Ok v \<Rightarrow> Some v | Err _ \<Rightarrow> None)"

definition Uint512_add_assign :: "Uint512 \<Rightarrow> Uint512 \<Rightarrow> Uint512 option" where
  "Uint512_add_assign self rhs = chk_add self rhs"

definition Uint512_sub_assign :: "Uint512 \<Rightarrow> Uint512 \<Rightarrow> Uint512 option" where
  "Uint512_sub_assign self rhs = chk_sub self rhs"

definition Uint512_mul_assign :: "Uint512 \<Rightarrow> Uint512 \<Rightarrow> Uint512 option" where
  "Uint512_mul_assign self rhs = chk_mul self rhs"

definition Uint512_div_assign :: "Uint512 \<Rightarrow> Uint512 \<Rightarrow> Uint512 option" where
  "Uint512_div_assign self rhs = chk_div self rhs"

definition Uint512_rem_assign :: "Uint512 \<Rightarrow> Uint512 \<Rightarrow> Uint512 option" where
  "Uint512_rem_assign self rhs = Uint512_rem self rhs"

definition Uint512_shr_assign :: "Uint512 \<Rightarrow> u32 \<Rightarrow> Uint512 option" where
  "Uint512_shr_assign self rhs = Uint512_shr self rhs"

definition Uint512_abs_diff :: "Uint512 \<Rightarrow> Uint512 \<Rightarrow> Uint512 option" where
  "Uint512_abs_diff self other = (if self < other then Uint512_sub other self else Uint512_sub self other)"

definition Uint512_sum :: "Uint512 list \<Rightarrow> Uint512 option" where
  "Uint512_sum iter = fold_add Uint512_add Uint512_zero iter"

definition Uint512_serialize :: "Uint512 \<Rightarrow> string" where
  "Uint512_serialize self = Uint512_to_string self"

definition Uint512_visit_str :: "(string \<Rightarrow> (string, Uint512) result) \<Rightarrow> string \<Rightarrow> (string, Uint512) result" where
  "Uint512_visit_str from_dec_str v =
     map_errR (\<lambda>e. ''invalid Uint512 '' @ quoted v @ '' - '' @ StdError_to_string e) (Uint512_try_from_str from_dec_str v)"

section \<open>Operations between the widths\<close>

definition Uint64_full_mul :: "Uint64 \<Rightarrow> u64 \<Rightarrow> Uint128 option" where
  "Uint64_full_mul self rhs =
     (case Uint128_checked_mul (Uint128_From_u64 (Uint64_u64 self)) (Uint128_From_u64 rhs) of
        Ok v \<Rightarrow> Some v
      | Err _ \<Rightarrow> None)"

definition Uint64_checked_multiply_ratio ::
  "Uint64 \<Rightarrow> u64 \<Rightarrow> u64 \<Rightarrow> (CheckedMultiplyRatioError, Uint64) result option" where
  "Uint64_checked_multiply_ratio self numerator denominator =
     (if denominator = 0 then Some (Err CMR_DivideByZero)
      else case Uint64_full_mul self numerator of
             None \<Rightarrow> None
           | Some p \<Rightarrow>
               map_option (\<lambda>q. map_errR (\<lambda>_. CMR_Overflow) (Uint64_try_from_Uint128 q))
                 (Uint128_div p (Uint128_From_u64 denominator)))"

definition Uint64_multiply_ratio :: "Uint64 \<Rightarrow> u64 \<Rightarrow> u64 \<Rightarrow> Uint64 option" where
  "Uint64_multiply_ratio self numerator denominator =
     (case Uint64_checked_multiply_ratio self numerator denominator of
        Some (Ok v) \<Rightarrow> Some v
      | Some (Err CMR_DivideByZero) \<Rightarrow> None
      | Some (Err CMR_Overflow) \<Rightarrow> None
      | None \<Rightarrow> None)"

definition Uint256_full_mul :: "Uint256 \<Rightarrow> Uint256 \<Rightarrow> Uint512 option" where
  "Uint256_full_mul self rhs =
     (case Uint512_checked_mul (Uint512_From_Uint256 self) (Uint512_From_Uint256 rhs) of
        Ok v \<Rightarrow> Some v
      | Err _ \<Rightarrow> None)"

definition Uint256_checked_multiply_ratio ::
  "Uint256 \<Rightarrow> Uint256 \<Rightarrow> Uint256 \<Rightarrow> (CheckedMultiplyRatioError, Uint256) result option" where
  "Uint256_checked_multiply_ratio self numerator denominator =
     (if Uint256_is_zero denominator then Some (Err CMR_DivideByZero)
      else case Uint256_full_mul self numerator of
             None \<Rightarrow> None
           | Some p \<Rightarrow>
               map_option (\<lambda>q. map_errR (\<lambda>_. CMR_Overflow) (Uint256_try_from_Uint512 q))
                 (Uint512_div p (Uint512_From_Uint256 denominator)))"

definition Uint256_multiply_ratio :: "Uint256 \<Rightarrow> Uint256 \<Rightarrow> Uint256 \<Rightarrow> Uint256 option" where
  "Uint256_multiply_ratio self numerator denominator =
     (case Uint256_checked_multiply_ratio self numerator denominator of
        Some (Ok v) \<Rightarrow> Some v
      | Some (Err CMR_DivideByZero) \<Rightarrow> None
      | Some (Err CMR_Overflow) \<Rightarrow> None
      | None \<Rightarrow> None)"

section \<open>Bytes and limbs\<close>

lemma be_val_append: "be_val (xs @ ys) = be_val xs * 256 ^ length ys + be_val ys"
proof -
  have "foldl (\<lambda>a b. 256 * a + unat b) c ys = c * 256 ^ length ys + foldl (\<lambda>a b. 256 * a + unat b) 0 ys"
    for c :: nat and ys :: bytes
  proof (induction ys rule: rev_induct)
    case (snoc y ys)
    then show ?case by (simp add: algebra_simps)
  qed simp
  from this [of "be_val xs" ys] show ?thesis by (simp add: be_val_def)
qed

lemma be_val_less: "be_val bs < 256 ^ length bs"
proof (induction bs rule: rev_induct)
  case (snoc b bs)
  have "unat b < 256" using unsigned_less [of b, where 'a = nat] by simp
  then have "be_val bs * 256 + unat b < (be_val bs + 1) * 256" by simp
  also have "\<dots> \<le> 256 ^ length bs * 256" using snoc by (intro mult_right_mono) simp_all
  finally show ?case by (simp add: be_val_append) (simp add: be_val_def)
qed (simp add: be_val_def)

lemma be_bytes_be_val: "be_bytes (length bs) (be_val bs) = bs"
proof (induction bs rule: rev_induct)
  case (snoc b bs)
  have b: "unat b < 256" using unsigned_less [of b, where 'a = nat] by simp
  have "be_val (bs @ [b]) = 256 * be_val bs + unat b" by (simp add: be_val_def)
  then show ?case using snoc b by simp
qed simp

lemma be_bytes_add: "be_bytes (j + k) n = be_bytes j (n div 256 ^ k) @ be_bytes k n"
  by (induction k arbitrary: n) (simp_all add: div_mult2_eq)

lemma be_bytes_mod: "be_bytes k (n mod 256 ^ k) = be_bytes k n"
proof (induction k arbitrary: n)
  case (Suc k)
  have "n mod (256 * 256 ^ k) = 256 * (n div 256 mod 256 ^ k) + n mod 256"
    by (simp add: mod_mult2_eq)
  then show ?case using Suc [of "n div 256"] by (simp add: div_mult_self1 mod_mult_self1)
qed simp

lemma unat_limb: "unat (limb w i) = unat w div 2 ^ (64 * i) mod 2 ^ 64"
proof -
  have "unat (limb w i) = take_bit 64 (drop_bit (64 * i) (unat w))"
    unfolding limb_def unsigned_ucast_eq unat_drop_bit_eq by simp
  then show ?thesis by (simp add: drop_bit_eq_div take_bit_eq_mod)
qed

lemma limb_be_bytes: "u64_to_be_bytes (limb w i) = be_bytes 8 (unat w div 256 ^ (8 * i))"
proof -
  have "(2 :: nat) ^ (64 * i) = 256 ^ (8 * i)" by (simp add: power_mult)
  then show ?thesis
    using be_bytes_mod [of 8 "unat w div 256 ^ (8 * i)"] by (simp add: u64_to_be_bytes_def unat_limb)
qed

lemma of_limbs_bytes:
  "(\<And>c. c \<in> set cs \<Longrightarrow> length c = 8) \<Longrightarrow>
    of_limbs (map u64_from_le_bytes cs) = (of_nat (be_val (rev (concat cs))) :: 'a :: len word)"
proof (induction cs)
  case (Cons c cs)
  have c: "length c = 8" using Cons.prems by simp
  have lt: "be_val (rev c) < 2 ^ 64" using be_val_less [of "rev c"] c by simp
  have "(ucast (u64_from_le_bytes c) :: 'a word) = of_nat (be_val (rev c))"
    unfolding u64_from_le_bytes_def ucast_of_nat_unat unsigned_of_nat using lt by (simp add: take_bit_nat_eq_self)
  moreover have "of_limbs (map u64_from_le_bytes cs) = (of_nat (be_val (rev (concat cs))) :: 'a word)"
    using Cons by simp
  ultimately show ?case
    using c by (simp add: be_val_append push_bit_eq_mult)
qed (simp add: be_val_def)

lemma chunk8:
  assumes "m + 8 \<le> length xs"
  shows "[xs ! m, xs ! (m + 1), xs ! (m + 2), xs ! (m + 3), xs ! (m + 4), xs ! (m + 5), xs ! (m + 6), xs ! (m + 7)] =
    take 8 (drop m xs)"
proof -
  have "map (\<lambda>i. xs ! (m + i)) [0..<8] = take 8 (drop m xs)"
    using assms by (intro nth_equalityI) auto
  moreover have "[0..<8] = [0, 1, 2, 3, 4, 5, 6, 7 :: nat]" by (simp add: upt_rec)
  ultimately show ?thesis by simp
qed

lemma concat_chunks: "concat (map (\<lambda>i. take k (drop (k * i) xs)) [0..<n]) = take (k * n) xs"
proof (induction n)
  case (Suc n)
  then show ?case using take_add [of "k * n" k xs] by (simp add: add.commute)
qed simp

lemma Uint256_from_le_bytes_value:
  assumes "length data = 32"
  shows "Uint256_from_le_bytes data = of_nat (be_val (rev data))"
proof -
  have "Uint256_from_le_bytes data =
      of_limbs (map u64_from_le_bytes (map (\<lambda>i. take 8 (drop (8 * i) data)) [0..<4]))"
    using assms chunk8 [of 0 data] chunk8 [of 8 data] chunk8 [of 16 data]
      chunk8 [of 24 data]
    by (simp add: Uint256_from_le_bytes_def upt_rec del: add_2_eq_Suc add_2_eq_Suc')
  also have "\<dots> = of_nat (be_val (rev (concat (map (\<lambda>i. take 8 (drop (8 * i) data)) [0..<4]))))"
    using assms by (intro of_limbs_bytes) auto
  also have "concat (map (\<lambda>i. take 8 (drop (8 * i) data)) [0..<4]) = data"
    using assms by (subst concat_chunks) simp
  finally show ?thesis .
qed

lemma Uint512_from_le_bytes_value:
  assumes "length data = 64"
  shows "Uint512_from_le_bytes data = of_nat (be_val (rev data))"
proof -
  have "Uint512_from_le_bytes data =
      of_limbs (map u64_from_le_bytes (map (\<lambda>i. take 8 (drop (8 * i) data)) [0..<8]))"
    using assms chunk8 [of 0 data] chunk8 [of 8 data] chunk8 [of 16 data]
      chunk8 [of 24 data] chunk8 [of 32 data] chunk8 [of 40 data]
      chunk8 [of 48 data] chunk8 [of 56 data]
    by (simp add: Uint512_from_le_bytes_def upt_rec del: add_2_eq_Suc add_2_eq_Suc')
  also have "\<dots> = of_nat (be_val (rev (concat (map (\<lambda>i. take 8 (drop (8 * i) data)) [0..<8]))))"
    using assms by (intro of_limbs_bytes) auto
  also have "concat (map (\<lambda>i. take 8 (drop (8 * i) data)) [0..<8]) = data"
    using assms by (subst concat_chunks) simp
  finally show ?thesis .
qed

lemma Uint256_from_be_bytes_rev: "length data = 32 \<Longrightarrow> Uint256_from_be_bytes data = Uint256_from_le_bytes (rev data)"
  by (simp add: Uint256_from_be_bytes_def Uint256_from_le_bytes_def rev_nth)

lemma Uint512_from_be_bytes_rev: "length data = 64 \<Longrightarrow> Uint512_from_be_bytes data = Uint512_from_le_bytes (rev data)"
  by (simp add: Uint512_from_be_bytes_def Uint512_from_le_bytes_def rev_nth)

lemma Uint256_from_be_bytes_value:
  "length data = 32 \<Longrightarrow> Uint256_from_be_bytes data = of_nat (be_val data)"
  by (simp add: Uint256_from_be_bytes_rev Uint256_from_le_bytes_value)

lemma Uint512_from_be_bytes_value:
  "length data = 64 \<Longrightarrow> Uint512_from_be_bytes data = of_nat (be_val data)"
  by (simp add: Uint512_from_be_bytes_rev Uint512_from_le_bytes_value)

lemma Uint256_to_be_bytes_value: "Uint256_to_be_bytes a = be_bytes 32 (unat a)"
  using be_bytes_add [of 24 8 "unat a"] be_bytes_add [of 16 8 "unat a div 256 ^ 8"]
    be_bytes_add [of 8 8 "unat a div 256 ^ 8 div 256 ^ 8"]
  by (simp add: Uint256_to_be_bytes_def limb_be_bytes div_mult2_eq [symmetric])

lemma Uint512_to_be_bytes_value: "Uint512_to_be_bytes a = be_bytes 64 (unat a)"
  using be_bytes_add [of 56 8 "unat a"] be_bytes_add [of 48 8 "unat a div 256 ^ 8"]
    be_bytes_add [of 40 8 "unat a div 256 ^ 16"] be_bytes_add [of 32 8 "unat a div 256 ^ 24"]
    be_bytes_add [of 24 8 "unat a div 256 ^ 32"] be_bytes_add [of 16 8 "unat a div 256 ^ 40"]
    be_bytes_add [of 8 8 "unat a div 256 ^ 48"]
  by (simp add: Uint512_to_be_bytes_def limb_be_bytes div_mult2_eq [symmetric])

lemma to_le_bytes_rev:
  "Uint256_to_le_bytes a = rev (Uint256_to_be_bytes a)" "Uint512_to_le_bytes b = rev (Uint512_to_be_bytes b)"
  by (simp_all add: Uint256_to_le_bytes_def Uint256_to_be_bytes_def Uint512_to_le_bytes_def Uint512_to_be_bytes_def
      u64_to_le_bytes_def u64_to_be_bytes_def)

section \<open>Values of the operations\<close>

lemma length_bytes [simp]:
  "length (Uint256_to_be_bytes a) = 32" "length (Uint256_to_le_bytes a) = 32"
  "length (Uint512_to_be_bytes b) = 64" "length (Uint512_to_le_bytes b) = 64"
  "length (Uint128_to_le_bytes c) = 16" "length (Uint128_to_be_bytes c) = 16"
  by (simp_all add: to_le_bytes_rev Uint256_to_be_bytes_value Uint512_to_be_bytes_value Uint128_to_le_bytes_def
      Uint128_to_be_bytes_def)

lemma be_val_zeros: "be_val (replicate n 0 @ bs) = be_val bs"
proof -
  have "be_val (replicate n 0) = 0" by (induction n) (simp_all add: be_val_def)
  then show ?thesis by (simp add: be_val_append)
qed

lemma unat_less_256: "unat (a :: Uint128) < 256 ^ 16" "unat (b :: Uint256) < 256 ^ 32" "unat (c :: Uint512) < 256 ^ 64"
  using unsigned_less [of a, where 'a = nat] unsigned_less [of b, where 'a = nat] unsigned_less [of c, where 'a = nat]
  by simp_all

lemma Uint256_bytes_roundtrip:
  "Uint256_from_be_bytes (Uint256_to_be_bytes a) = a" "Uint256_from_le_bytes (Uint256_to_le_bytes a) = a"
  using unat_less_256(2) [of a]
  by (simp_all add: Uint256_from_be_bytes_value Uint256_from_le_bytes_value to_le_bytes_rev Uint256_to_be_bytes_value
      be_val_be_bytes)

lemma Uint512_bytes_roundtrip:
  "Uint512_from_be_bytes (Uint512_to_be_bytes a) = a" "Uint512_from_le_bytes (Uint512_to_le_bytes a) = a"
  using unat_less_256(3) [of a]
  by (simp_all add: Uint512_from_be_bytes_value Uint512_from_le_bytes_value to_le_bytes_rev Uint512_to_be_bytes_value
      be_val_be_bytes)

lemma Uint256_from_u128_value: "Uint256_from_u128 a = ucast a"
  unfolding ucast_of_nat_unat using unat_less_256(1) [of a]
  by (simp add: Uint256_from_u128_def Uint256_from_le_bytes_value Uint128_to_le_bytes_def be_val_zeros be_val_be_bytes)

lemma Uint512_from_uint256_value: "Uint512_from_uint256 a = ucast a"
  unfolding ucast_of_nat_unat using unat_less_256(2) [of a]
  by (simp add: Uint512_from_uint256_def Uint512_from_le_bytes_value to_le_bytes_rev Uint256_to_be_bytes_value
      be_val_zeros be_val_be_bytes)

lemma Uint512_From_Uint256_value: "Uint512_From_Uint256 a = ucast a"
  unfolding ucast_of_nat_unat using unat_less_256(2) [of a]
  by (simp add: Uint512_From_Uint256_def Uint512_from_be_bytes_value Uint256_to_be_bytes_value
      be_val_zeros be_val_be_bytes)

lemma limb_zero [simp]: "limb 0 i = 0"
  by (simp add: limb_def)

lemma Uint256_is_zero_iff: "Uint256_is_zero a \<longleftrightarrow> a = 0"
proof
  assume "Uint256_is_zero a"
  then have "Uint256_to_be_bytes a = Uint256_to_be_bytes 0"
    by (simp add: Uint256_is_zero_def Uint256_to_be_bytes_def)
  then show "a = 0" by (metis Uint256_bytes_roundtrip(1))
qed (simp add: Uint256_is_zero_def)

lemma Uint512_is_zero_iff: "Uint512_is_zero a \<longleftrightarrow> a = 0"
proof
  assume "Uint512_is_zero a"
  then have "Uint512_to_be_bytes a = Uint512_to_be_bytes 0"
    by (simp add: Uint512_is_zero_def Uint512_to_be_bytes_def)
  then show "a = 0" by (metis Uint512_bytes_roundtrip(1))
qed (simp add: Uint512_is_zero_def)

lemma Uint256_one_value: "Uint256_one = 1" and Uint512_one_value: "Uint512_one = 1"
proof -
  have "be_val [1] = 1" by (simp add: be_val_def)
  then show "Uint256_one = 1" and "Uint512_one = 1"
    by (simp_all add: Uint256_one_def Uint512_one_def Uint256_from_be_bytes_value Uint512_from_be_bytes_value
        be_val_zeros)
qed

lemma be_bytes_zero: "be_bytes k n = replicate k 0 \<longleftrightarrow> n mod 256 ^ k = 0"
proof -
  have z: "be_bytes k 0 = replicate k 0" by (induction k) (simp_all add: replicate_append_same)
  have "be_bytes k n = be_bytes k 0 \<longleftrightarrow> n mod 256 ^ k = 0"
    using be_bytes_inj [of "n mod 256 ^ k" k 0] by (simp add: be_bytes_mod)
  then show ?thesis by (simp add: z)
qed

lemma Uint256_try_from_Uint512_value:
  "Uint256_try_from_Uint512 v =
     (if unat v < 2 ^ 256 then Ok (ucast v)
      else Err (ConversionOverflowError_new ''Uint512'' ''Uint256'' (Uint512_to_string v)))"
proof -
  define n where "n = unat v"
  have bs: "Uint512_to_be_bytes v = be_bytes 32 (n div 256 ^ 32) @ be_bytes 32 n"
    using be_bytes_add [of 32 32 n] by (simp add: Uint512_to_be_bytes_value n_def)
  have "n div 256 ^ 32 < 256 ^ 32"
    using unat_less_256(3) [of v] by (simp add: n_def less_mult_imp_div_less)
  then have "be_bytes 32 (n div 256 ^ 32) = replicate 32 0 \<longleftrightarrow> n div 256 ^ 32 = 0"
    by (simp add: be_bytes_zero)
  also have "\<dots> \<longleftrightarrow> n < 2 ^ 256" by (simp add: div_eq_0_iff)
  finally have zero: "be_bytes 32 (n div 256 ^ 32) = replicate 32 0 \<longleftrightarrow> n < 2 ^ 256" .
  show ?thesis
  proof (cases "n < 2 ^ 256")
    case True
    then have "Uint256_from_be_bytes (be_bytes 32 n) = ucast v"
      unfolding ucast_of_nat_unat by (simp add: Uint256_from_be_bytes_value be_val_be_bytes n_def)
    then show ?thesis
      using True zero by (simp add: Uint256_try_from_Uint512_def Let_def bs flip: n_def)
  next
    case False
    then show ?thesis
      using zero by (simp add: Uint256_try_from_Uint512_def Let_def bs flip: n_def)
  qed
qed

lemma full_product_less: "unat (a :: 'a :: len word) * unat (b :: 'a word) < 2 ^ (2 * LENGTH('a))"
proof -
  have "unat a * unat b < 2 ^ LENGTH('a) * 2 ^ LENGTH('a)"
    by (intro mult_strict_mono') (simp_all add: unsigned_less)
  then show ?thesis by (simp add: mult_2 power_add)
qed

lemma Uint64_full_mul_value:
  obtains p where "Uint64_full_mul a b = Some p" and "unat p = unat a * unat b"
proof -
  have "unat a * unat b < 2 ^ 128" using full_product_less [of a b] by simp
  then have "chk_mul (ucast a :: u128) (ucast b) = Some (ucast a * ucast b)"
    by (simp add: chk_mul_def unat_ucast_up)
  then have "Uint64_full_mul a b = Some (ucast a * ucast b) \<and> unat (ucast a * ucast b :: u128) = unat a * unat b"
    using unat_chk_mul [of "ucast a :: u128" "ucast b"]
    by (simp add: Uint64_full_mul_def Uint128_checked_mul_def Uint128_From_u64_def Uint64_u64_def ok_or_def unat_ucast_up)
  with that show thesis by blast
qed

lemma Uint256_full_mul_value:
  obtains p where "Uint256_full_mul a b = Some p" and "unat p = unat a * unat b"
proof -
  have "unat a * unat b < 2 ^ 512" using full_product_less [of a b] by simp
  then have "chk_mul (ucast a :: Uint512) (ucast b) = Some (ucast a * ucast b)"
    by (simp add: chk_mul_def unat_ucast_up)
  then have "Uint256_full_mul a b = Some (ucast a * ucast b) \<and> unat (ucast a * ucast b :: Uint512) = unat a * unat b"
    using unat_chk_mul [of "ucast a :: Uint512" "ucast b"]
    by (simp add: Uint256_full_mul_def Uint512_checked_mul_def Uint512_From_Uint256_value ok_or_def unat_ucast_up)
  with that show thesis by blast
qed

lemma Uint64_checked_multiply_ratio_value:
  "Uint64_checked_multiply_ratio a n d = Some
     (if d = 0 then Err CMR_DivideByZero
      else if unat a * unat n div unat d < 2 ^ 64
           then Ok (of_nat (unat a * unat n div unat d)) else Err CMR_Overflow)"
proof (cases "d = 0")
  case False
  obtain p where p: "Uint64_full_mul a n = Some p" "unat p = unat a * unat n" by (rule Uint64_full_mul_value)
  have q: "unat (p div ucast d) = unat a * unat n div unat d" by (simp add: unat_div unat_ucast_up p(2))
  have "(ucast d :: u128) \<noteq> 0" using False by (simp add: word_unat_eq_iff unat_ucast_up)
  moreover have "(ucast (p div ucast d) :: u64) = of_nat (unat a * unat n div unat d)"
    unfolding q [symmetric] by (rule ucast_of_nat_unat)
  ultimately show ?thesis
    using False p(1) q
    by (simp add: Uint64_checked_multiply_ratio_def Uint128_div_def chk_div_def Uint128_From_u64_def
        Uint64_try_from_Uint128_def Uint64_new_def)
qed (simp add: Uint64_checked_multiply_ratio_def)

lemma Uint256_checked_multiply_ratio_value:
  "Uint256_checked_multiply_ratio a n d = Some
     (if d = 0 then Err CMR_DivideByZero
      else if unat a * unat n div unat d < 2 ^ 256
           then Ok (of_nat (unat a * unat n div unat d)) else Err CMR_Overflow)"
proof (cases "d = 0")
  case False
  obtain p where p: "Uint256_full_mul a n = Some p" "unat p = unat a * unat n" by (rule Uint256_full_mul_value)
  have q: "unat (p div ucast d) = unat a * unat n div unat d" by (simp add: unat_div unat_ucast_up p(2))
  have "(ucast d :: Uint512) \<noteq> 0" using False by (simp add: word_unat_eq_iff unat_ucast_up)
  moreover have "(ucast (p div ucast d) :: Uint256) = of_nat (unat a * unat n div unat d)"
    unfolding q [symmetric] by (rule ucast_of_nat_unat)
  ultimately show ?thesis
    using False p(1) q
    by (simp add: Uint256_checked_multiply_ratio_def Uint256_is_zero_iff Uint512_div_def chk_div_def
        Uint512_From_Uint256_value Uint256_try_from_Uint512_value)
qed (simp add: Uint256_checked_multiply_ratio_def Uint256_is_zero_iff)

lemma abs_diff_total:
  "Uint256_abs_diff a b = Some (if a < b then b - a else a - b)"
  "Uint512_abs_diff c d = Some (if c < d then d - c else c - d)"
  by (auto simp: Uint256_abs_diff_def Uint512_abs_diff_def Uint256_sub_def Uint512_sub_def chk_sub_def)

lemma Uint128_from_str_to_string: "Uint128_from_str (Uint128_to_string a) = Ok a"
  using unsigned_less [of a, where 'a = nat] by (simp add: Uint128_from_str_def Uint128_to_string_def parse_nat_str)

lemma Uint64_try_from_str_to_string: "Uint64_try_from_str (Uint64_to_string a) = Ok a"
  using unsigned_less [of a, where 'a = nat] by (simp add: Uint64_try_from_str_def Uint64_to_string_def parse_nat_str)

text \<open>A sum panics exactly when the exact sum does not fit.\<close>

lemma fold_add_value:
  fixes z :: "'a :: len word"
  shows "fold_add chk_add z xs =
    (if unat z + sum_list (map unat xs) < 2 ^ LENGTH('a) then Some (z + sum_list xs) else None)"
proof -
  have none: "foldl (\<lambda>acc x. case acc of None \<Rightarrow> None | Some a \<Rightarrow> chk_add a x) None ys = None" for ys :: "'a word list"
    by (induction ys) simp_all
  show ?thesis
  proof (induction xs arbitrary: z)
    case (Cons x xs)
    show ?case
    proof (cases "chk_add z x")
      case None
      then have "fold_add chk_add z (x # xs) = None" by (simp add: fold_add_def none)
      moreover have "\<not> unat z + unat x < 2 ^ LENGTH('a)" using None by (auto simp: chk_add_def split: if_splits)
      ultimately show ?thesis by simp
    next
      case (Some y)
      then have "fold_add chk_add z (x # xs) = fold_add chk_add y xs" by (simp add: fold_add_def)
      moreover have "y = z + x" using Some by (auto simp: chk_add_def split: if_splits)
      ultimately show ?thesis using Cons [of y] unat_chk_add [OF Some] by (simp add: add.assoc)
    qed
  qed (simp add: fold_add_def unsigned_less)
qed

section \<open>Properties\<close>

text \<open>
  C39: \<^verbatim>\<open>checked_multiply_ratio\<close> of \<^verbatim>\<open>Uint64\<close>, \<^verbatim>\<open>Uint128\<close> and \<^verbatim>\<open>Uint256\<close> computes
  \<open>self * numerator / denominator\<close> rounded down with no intermediate overflow: it reports a division
  by zero exactly for a zero denominator, an overflow exactly when the quotient does not fit the
  type, and never panics.
\<close>

theorem checked_multiply_ratio_exact:
  "Uint64_checked_multiply_ratio a1 n1 d1 = Some
     (if d1 = 0 then Err CMR_DivideByZero
      else if unat a1 * unat n1 div unat d1 < 2 ^ 64
           then Ok (of_nat (unat a1 * unat n1 div unat d1)) else Err CMR_Overflow) \<and>
   Uint128_checked_multiply_ratio a2 n2 d2 = Some
     (if d2 = 0 then Err CMR_DivideByZero
      else if unat a2 * unat n2 div unat d2 < 2 ^ 128
           then Ok (of_nat (unat a2 * unat n2 div unat d2)) else Err CMR_Overflow) \<and>
   Uint256_checked_multiply_ratio a3 n3 d3 = Some
     (if d3 = 0 then Err CMR_DivideByZero
      else if unat a3 * unat n3 div unat d3 < 2 ^ 256
           then Ok (of_nat (unat a3 * unat n3 div unat d3)) else Err CMR_Overflow)"
proof (intro conjI)
  show "Uint128_checked_multiply_ratio a2 n2 d2 = Some
     (if d2 = 0 then Err CMR_DivideByZero
      else if unat a2 * unat n2 div unat d2 < 2 ^ 128
           then Ok (of_nat (unat a2 * unat n2 div unat d2)) else Err CMR_Overflow)"
    using Uint128_checked_multiply_ratio_value [of d2 a2 n2] by (simp add: Uint128_checked_multiply_ratio_def)
qed (rule Uint64_checked_multiply_ratio_value Uint256_checked_multiply_ratio_value)+

end
