(* ===== verification/Decimals.thy ===== *)
theory Decimals
  imports WideInts
begin

text \<open>
  The fixed-point numbers \<^verbatim>\<open>Decimal\<close> and \<^verbatim>\<open>Decimal256\<close> of \<^verbatim>\<open>cosmwasm_std::math\<close>: a number of
  atomic units of \<open>10\<^sup>-\<^sup>18\<close> in a \<^verbatim>\<open>Uint128\<close> or a \<^verbatim>\<open>Uint256\<close>.  The flag \<open>checks\<close> says whether the
  build checks the arithmetic of primitive integers for overflow.  The properties: printing and
  parsing are inverse, multiplication is exact up to rounding down and reports overflow exactly
  when there is one, the square root never panics and has the documented precision, and the one
  operation that panics where its documentation promises an error.
\<close>

section \<open>Fallible computations and texts\<close>

text \<open>A function that returns a \<^verbatim>\<open>Result\<close> and may panic: \<open>None\<close> is the panic.\<close>

type_synonym ('e, 'a) fallible = "('e, 'a) result option"

definition and_then :: "('e, 'a) fallible \<Rightarrow> ('a \<Rightarrow> ('e, 'b) fallible) \<Rightarrow> ('e, 'b) fallible" where
  "and_then m f = (case m of None \<Rightarrow> None | Some (Err e) \<Rightarrow> Some (Err e) | Some (Ok a) \<Rightarrow> f a)"

definition or_panic :: "'a option \<Rightarrow> ('e, 'a) fallible" where
  "or_panic x = map_option Ok x"

definition unwrap_ok :: "('d, 'a) result \<Rightarrow> ('e, 'a) fallible" where
  "unwrap_ok r = (case r of Ok a \<Rightarrow> Some (Ok a) | Err _ \<Rightarrow> None)"

lemma and_then_simps [simp]:
  "and_then None f = None" "and_then (Some (Err e)) f = Some (Err e)" "and_then (Some (Ok a)) f = f a"
  by (simp_all add: and_then_def)

lemma or_panic_simps [simp]: "or_panic None = None" "or_panic (Some a) = Some (Ok a)"
  by (simp_all add: or_panic_def)

lemma unwrap_ok_simps [simp]: "unwrap_ok (Ok a) = Some (Ok a)" "unwrap_ok (Err e) = None"
  by (simp_all add: unwrap_ok_def)

text \<open>Padding to the left with zeros, and \<^verbatim>\<open>trim_end_matches\<close>.\<close>

definition pad_zeros :: "nat \<Rightarrow> string \<Rightarrow> string" where
  "pad_zeros n s = replicate (n - length s) (CHR ''0'') @ s"

definition trim_end_zeros :: "string \<Rightarrow> string" where
  "trim_end_zeros s = rev (dropWhile (\<lambda>c. c = CHR ''0'') (rev s))"

text \<open>The text of a \<^verbatim>\<open>Timestamp\<close>: seconds, a dot and the nanoseconds with nine digits.\<close>

definition Timestamp_to_string :: "Timestamp \<Rightarrow> string" where
  "Timestamp_to_string self =
     (let whole = Timestamp_seconds self; fractional = Timestamp_subsec_nanos self in
      nat_str (unat whole) @ ''.'' @ pad_zeros 9 (nat_str (unat fractional)))"

section \<open>\<^verbatim>\<open>Decimal\<close>\<close>

type_synonym Decimal = Uint128

datatype DecimalRangeExceeded = DecimalRangeExceeded

definition DecimalRangeExceeded_to_string :: "DecimalRangeExceeded \<Rightarrow> string" where
  "DecimalRangeExceeded_to_string e = ''Decimal range exceeded''"

definition Decimal_FRACTIONAL :: Uint128 where
  "Decimal_FRACTIONAL = Uint128_new 1000000000000000000"

definition Decimal_FRACTIONAL_SQUARED :: Uint128 where
  "Decimal_FRACTIONAL_SQUARED = Uint128_new 1000000000000000000000000000000000000"

definition Decimal_DECIMAL_PLACES :: u32 where
  "Decimal_DECIMAL_PLACES = 18"

definition Decimal_MAX :: Decimal where
  "Decimal_MAX = Uint128_MAX"

definition Decimal_MIN :: Decimal where
  "Decimal_MIN = Uint128_MIN"

definition Decimal_new :: "Uint128 \<Rightarrow> Decimal" where
  "Decimal_new v = v"

definition Decimal_raw :: "u128 \<Rightarrow> Decimal" where
  "Decimal_raw v = Uint128_new v"

definition Decimal_one :: Decimal where
  "Decimal_one = Decimal_FRACTIONAL"

definition Decimal_zero :: Decimal where
  "Decimal_zero = Uint128_zero"

definition Decimal_percent :: "bool \<Rightarrow> u64 \<Rightarrow> Decimal option" where
  "Decimal_percent checks x = prim_mul checks (ucast x) 10000000000000000"

definition Decimal_permille :: "bool \<Rightarrow> u64 \<Rightarrow> Decimal option" where
  "Decimal_permille checks x = prim_mul checks (ucast x) 1000000000000000"

text \<open>
  The text of a decimal: the whole part and, unless it is zero, the fraction with 18 digits and
  without its trailing zeros.
\<close>

definition Decimal_to_string :: "Decimal \<Rightarrow> string" where
  "Decimal_to_string self =
     (let whole = self div Decimal_FRACTIONAL; fractional = self mod Decimal_FRACTIONAL in
      if Uint128_is_zero fractional then Uint128_to_string whole
      else
        let fractional_string = pad_zeros (unat Decimal_DECIMAL_PLACES) (Uint128_to_string fractional) in
        Uint128_to_string whole @ ''.'' @ trim_end_zeros fractional_string)"

definition Decimal_from_atomics :: "Uint128 \<Rightarrow> u32 \<Rightarrow> (DecimalRangeExceeded, Decimal) fallible" where
  "Decimal_from_atomics atomics decimal_places =
     (if decimal_places < Decimal_DECIMAL_PLACES then
        and_then (unwrap_ok (Uint128_checked_pow (Uint128_new 10) (Decimal_DECIMAL_PLACES - decimal_places))) (\<lambda>factor.
        Some (map_errR (\<lambda>_. DecimalRangeExceeded) (Uint128_checked_mul atomics factor)))
      else if decimal_places = Decimal_DECIMAL_PLACES then Some (Ok atomics)
      else
        (case Uint128_checked_pow (Uint128_new 10) (decimal_places - Decimal_DECIMAL_PLACES) of
           Ok factor \<Rightarrow> unwrap_ok (Uint128_checked_div atomics factor)
         | Err _ \<Rightarrow> Some (Ok Uint128_zero)))"

definition Decimal_checked_from_ratio :: "Uint128 \<Rightarrow> Uint128 \<Rightarrow> (CheckedFromRatioError, Decimal) fallible" where
  "Decimal_checked_from_ratio numerator denominator =
     (case Uint128_checked_multiply_ratio numerator Decimal_FRACTIONAL denominator of
        None \<Rightarrow> None
      | Some (Ok ratio) \<Rightarrow> Some (Ok ratio)
      | Some (Err CMR_Overflow) \<Rightarrow> Some (Err CFR_Overflow)
      | Some (Err CMR_DivideByZero) \<Rightarrow> Some (Err CFR_DivideByZero))"

definition Decimal_from_ratio :: "Uint128 \<Rightarrow> Uint128 \<Rightarrow> Decimal option" where
  "Decimal_from_ratio numerator denominator =
     (case Decimal_checked_from_ratio numerator denominator of
        Some (Ok v) \<Rightarrow> Some v
      | Some (Err CFR_DivideByZero) \<Rightarrow> None
      | Some (Err CFR_Overflow) \<Rightarrow> None
      | None \<Rightarrow> None)"

definition Decimal_is_zero :: "Decimal \<Rightarrow> bool" where
  "Decimal_is_zero self = Uint128_is_zero self"

definition Decimal_atomics :: "Decimal \<Rightarrow> Uint128" where
  "Decimal_atomics self = self"

definition Decimal_decimal_places :: "Decimal \<Rightarrow> u32" where
  "Decimal_decimal_places self = Decimal_DECIMAL_PLACES"

definition Decimal_numerator :: "Decimal \<Rightarrow> Uint128" where
  "Decimal_numerator self = self"

definition Decimal_denominator :: "Decimal \<Rightarrow> Uint128" where
  "Decimal_denominator self = Decimal_FRACTIONAL"

definition Decimal_inv :: "Decimal \<Rightarrow> Decimal option option" where
  "Decimal_inv self =
     (if Decimal_is_zero self then Some None
      else map_option Some (Uint128_div Decimal_FRACTIONAL_SQUARED self))"

definition Decimal_floor :: "Decimal \<Rightarrow> Decimal option" where
  "Decimal_floor self =
     (case Uint128_div self Decimal_FRACTIONAL of None \<Rightarrow> None | Some q \<Rightarrow> Uint128_mul q Decimal_FRACTIONAL)"

definition Decimal_checked_add :: "Decimal \<Rightarrow> Decimal \<Rightarrow> (OverflowError, Decimal) result" where
  "Decimal_checked_add self other =
     map_errR (\<lambda>_. OverflowError_new OpAdd (Decimal_to_string self) (Decimal_to_string other))
       (Uint128_checked_add self other)"

definition Decimal_checked_sub :: "Decimal \<Rightarrow> Decimal \<Rightarrow> (OverflowError, Decimal) result" where
  "Decimal_checked_sub self other =
     map_errR (\<lambda>_. OverflowError_new OpSub (Decimal_to_string self) (Decimal_to_string other))
       (Uint128_checked_sub self other)"

definition Decimal_checked_ceil :: "Decimal \<Rightarrow> (RoundUpOverflowError, Decimal) fallible" where
  "Decimal_checked_ceil self =
     (case Decimal_floor self of
        None \<Rightarrow> None
      | Some fl \<Rightarrow>
          Some (if fl = self then Ok fl
                else map_errR (\<lambda>_. RoundUpOverflowError) (Decimal_checked_add fl Decimal_one)))"

definition Decimal_ceil :: "Decimal \<Rightarrow> Decimal option" where
  "Decimal_ceil self =
     (case Decimal_checked_ceil self of
        Some (Ok v) \<Rightarrow> Some v
      | Some (Err _) \<Rightarrow> None
      | None \<Rightarrow> None)"

text \<open>The product at twice the width, divided by the denominator.\<close>

definition Decimal_wide_product :: "Decimal \<Rightarrow> Decimal \<Rightarrow> Uint256 option" where
  "Decimal_wide_product self other =
     (case Uint128_full_mul (Decimal_numerator self) (Decimal_numerator other) of
        None \<Rightarrow> None
      | Some p \<Rightarrow> Uint256_div p (Uint256_from_uint128 Decimal_FRACTIONAL))"

definition Decimal_checked_mul :: "Decimal \<Rightarrow> Decimal \<Rightarrow> (OverflowError, Decimal) fallible" where
  "Decimal_checked_mul self other =
     map_option (\<lambda>q. map_errR (\<lambda>_. \<lparr>oe_operation = OpMul, oe_operand1 = Decimal_to_string self,
         oe_operand2 = Decimal_to_string other\<rparr>) (Uint128_try_from_Uint256 q))
       (Decimal_wide_product self other)"

definition Decimal_mul :: "Decimal \<Rightarrow> Decimal \<Rightarrow> Decimal option" where
  "Decimal_mul self other =
     (case Decimal_wide_product self other of
        None \<Rightarrow> None
      | Some q \<Rightarrow> (case Uint128_try_from_Uint256 q of Ok v \<Rightarrow> Some v | Err _ \<Rightarrow> None))"

text \<open>The loop of the exponentiation by squaring; only its last product may panic.\<close>

fun Decimal_pow_loop :: "Decimal \<Rightarrow> Decimal \<Rightarrow> nat \<Rightarrow> (OverflowError, Decimal) fallible" where
  "Decimal_pow_loop x y n =
     (if n > 1 then
        if n mod 2 = 0 then
          and_then (Decimal_checked_mul x x) (\<lambda>x'. Decimal_pow_loop x' y (n div 2))
        else
          and_then (Decimal_checked_mul x y) (\<lambda>y'.
          and_then (Decimal_checked_mul x x) (\<lambda>x'. Decimal_pow_loop x' y' ((n - 1) div 2)))
      else map_option Ok (Decimal_mul x y))"

declare Decimal_pow_loop.simps [simp del]

definition Decimal_pow_inner :: "Decimal \<Rightarrow> u32 \<Rightarrow> (OverflowError, Decimal) fallible" where
  "Decimal_pow_inner x n = (if n = 0 then Some (Ok Decimal_one) else Decimal_pow_loop x Decimal_one (unat n))"

definition Decimal_checked_pow :: "Decimal \<Rightarrow> u32 \<Rightarrow> (OverflowError, Decimal) fallible" where
  "Decimal_checked_pow self e =
     map_option (map_errR (\<lambda>_. \<lparr>oe_operation = OpPow, oe_operand1 = Decimal_to_string self,
         oe_operand2 = nat_str (unat e)\<rparr>))
       (Decimal_pow_inner self e)"

definition Decimal_pow :: "Decimal \<Rightarrow> u32 \<Rightarrow> Decimal option" where
  "Decimal_pow self e =
     (case Decimal_checked_pow self e of
        Some (Ok v) \<Rightarrow> Some v
      | Some (Err _) \<Rightarrow> None
      | None \<Rightarrow> None)"

definition Decimal_checked_div :: "Decimal \<Rightarrow> Decimal \<Rightarrow> (CheckedFromRatioError, Decimal) fallible" where
  "Decimal_checked_div self other = Decimal_checked_from_ratio (Decimal_numerator self) (Decimal_numerator other)"

definition Decimal_checked_rem :: "Decimal \<Rightarrow> Decimal \<Rightarrow> (DivideByZeroError, Decimal) result" where
  "Decimal_checked_rem self other =
     map_errR (\<lambda>_. DivideByZeroError_new (Decimal_to_string self)) (Uint128_checked_rem self other)"

text \<open>The outer option is a panic, the inner one the result of the function.\<close>

definition Decimal_sqrt_with_precision :: "bool \<Rightarrow> Decimal \<Rightarrow> u32 \<Rightarrow> Decimal option option" where
  "Decimal_sqrt_with_precision checks self precision =
     (case prim_pow checks (100 :: u128) (unat precision) of
        None \<Rightarrow> None
      | Some inner_mul \<Rightarrow>
          (case Uint128_checked_mul self inner_mul of
             Err _ \<Rightarrow> Some None
           | Ok inner \<Rightarrow>
               (case prim_sub checks (Decimal_DECIMAL_PLACES div 2) precision of
                  None \<Rightarrow> None
                | Some e \<Rightarrow>
                    (case prim_pow checks (10 :: u128) (unat e) of
                       None \<Rightarrow> None
                     | Some outer_mul \<Rightarrow>
                         (case isqrt inner of
                            None \<Rightarrow> None
                          | Some root \<Rightarrow>
                              (case Uint128_checked_mul root outer_mul of
                                 Ok r \<Rightarrow> Some (Some r)
                               | Err _ \<Rightarrow> None))))))"

fun Decimal_sqrt_search :: "bool \<Rightarrow> Decimal \<Rightarrow> u32 list \<Rightarrow> Decimal option option" where
  "Decimal_sqrt_search checks self [] = Some None"
| "Decimal_sqrt_search checks self (i # is) =
     (case Decimal_sqrt_with_precision checks self i of
        None \<Rightarrow> None
      | Some (Some r) \<Rightarrow> Some (Some r)
      | Some None \<Rightarrow> Decimal_sqrt_search checks self is)"

definition Decimal_sqrt :: "bool \<Rightarrow> Decimal \<Rightarrow> Decimal option" where
  "Decimal_sqrt checks self =
     (case Decimal_sqrt_search checks self (rev (map of_nat [0..<unat (Decimal_DECIMAL_PLACES div 2) + 1])) of
        None \<Rightarrow> None
      | Some r \<Rightarrow> r)"

definition Decimal_saturating_add :: "Decimal \<Rightarrow> Decimal \<Rightarrow> Decimal" where
  "Decimal_saturating_add self other =
     (case Decimal_checked_add self other of Ok v \<Rightarrow> v | Err _ \<Rightarrow> Decimal_MAX)"

definition Decimal_saturating_sub :: "Decimal \<Rightarrow> Decimal \<Rightarrow> Decimal" where
  "Decimal_saturating_sub self other =
     (case Decimal_checked_sub self other of Ok v \<Rightarrow> v | Err _ \<Rightarrow> Decimal_zero)"

definition Decimal_saturating_mul :: "Decimal \<Rightarrow> Decimal \<Rightarrow> Decimal option" where
  "Decimal_saturating_mul self other =
     map_option (\<lambda>r. case r of Ok v \<Rightarrow> v | Err _ \<Rightarrow> Decimal_MAX) (Decimal_checked_mul self other)"

definition Decimal_saturating_pow :: "Decimal \<Rightarrow> u32 \<Rightarrow> Decimal option" where
  "Decimal_saturating_pow self e =
     map_option (\<lambda>r. case r of Ok v \<Rightarrow> v | Err _ \<Rightarrow> Decimal_MAX) (Decimal_checked_pow self e)"

definition Decimal_from_str :: "bool \<Rightarrow> string \<Rightarrow> (StdError, Decimal) fallible" where
  "Decimal_from_str checks input =
     (case split_on (CHR ''.'') input of
        [] \<Rightarrow> None
      | whole_part # parts_iter \<Rightarrow>
          and_then (Some (map_errR (\<lambda>_. StdError_generic_err ''Error parsing whole'') (Uint128_from_str whole_part))) (\<lambda>whole.
          and_then (Some (map_errR (\<lambda>_. StdError_generic_err ''Value too big'')
            (Uint128_checked_mul whole Decimal_FRACTIONAL))) (\<lambda>atomics.
          case parts_iter of
            [] \<Rightarrow> Some (Ok atomics)
          | fractional_part # rest \<Rightarrow>
              and_then (Some (map_errR (\<lambda>_. StdError_generic_err ''Error parsing fractional'')
                (Uint128_from_str fractional_part))) (\<lambda>fractional.
              and_then (Some (ok_or (chk_sub Decimal_DECIMAL_PLACES (of_nat (length fractional_part)))
                (StdError_generic_err (''Cannot parse more than '' @ nat_str (unat Decimal_DECIMAL_PLACES) @
                   '' fractional digits'')))) (\<lambda>e.
              and_then (or_panic (prim_pow checks (10 :: u128) (unat e))) (\<lambda>fractional_factor.
              and_then (unwrap_ok (Uint128_checked_mul fractional fractional_factor)) (\<lambda>increment.
              and_then (Some (map_errR (\<lambda>_. StdError_generic_err ''Value too big'')
                (Uint128_checked_add atomics increment))) (\<lambda>atomics.
              if rest \<noteq> [] then Some (Err (StdError_generic_err ''Unexpected number of dots''))
              else Some (Ok atomics)))))))))"

text \<open>The operators; \<open>None\<close> is their panic.\<close>

definition Decimal_add :: "Decimal \<Rightarrow> Decimal \<Rightarrow> Decimal option" where
  "Decimal_add self other = Uint128_add self other"

definition Decimal_sub :: "Decimal \<Rightarrow> Decimal \<Rightarrow> Decimal option" where
  "Decimal_sub self other = Uint128_sub self other"

definition Decimal_abs_diff :: "Decimal \<Rightarrow> Decimal \<Rightarrow> Decimal" where
  "Decimal_abs_diff self other = Uint128_abs_diff self other"

definition Decimal_div :: "Decimal \<Rightarrow> Decimal \<Rightarrow> Decimal option" where
  "Decimal_div self other =
     (case Decimal_checked_from_ratio (Decimal_numerator self) (Decimal_numerator other) of
        Some (Ok ratio) \<Rightarrow> Some ratio
      | Some (Err CFR_DivideByZero) \<Rightarrow> None
      | Some (Err CFR_Overflow) \<Rightarrow> None
      | None \<Rightarrow> None)"

definition Decimal_rem :: "Decimal \<Rightarrow> Decimal \<Rightarrow> Decimal option" where
  "Decimal_rem self rhs = Uint128_rem self rhs"

definition Uint128_mul_Decimal :: "Uint128 \<Rightarrow> Decimal \<Rightarrow> Uint128 option" where
  "Uint128_mul_Decimal self rhs =
     (if Uint128_is_zero self \<or> Decimal_is_zero rhs then Some Uint128_zero
      else Uint128_multiply_ratio self rhs Decimal_FRACTIONAL)"

definition Decimal_mul_Uint128 :: "Decimal \<Rightarrow> Uint128 \<Rightarrow> Uint128 option" where
  "Decimal_mul_Uint128 self rhs = Uint128_mul_Decimal rhs self"

definition Decimal_div_Uint128 :: "Decimal \<Rightarrow> Uint128 \<Rightarrow> Decimal option" where
  "Decimal_div_Uint128 self rhs = Uint128_div self rhs"

definition Decimal_div_assign_Uint128 :: "Decimal \<Rightarrow> Uint128 \<Rightarrow> Decimal option" where
  "Decimal_div_assign_Uint128 self rhs = Uint128_div_assign self rhs"

definition Decimal_add_assign :: "Decimal \<Rightarrow> Decimal \<Rightarrow> Decimal option" where
  "Decimal_add_assign self rhs = Decimal_add self rhs"

definition Decimal_sub_assign :: "Decimal \<Rightarrow> Decimal \<Rightarrow> Decimal option" where
  "Decimal_sub_assign self rhs = Decimal_sub self rhs"

definition Decimal_mul_assign :: "Decimal \<Rightarrow> Decimal \<Rightarrow> Decimal option" where
  "Decimal_mul_assign self rhs = Decimal_mul self rhs"

definition Decimal_div_assign :: "Decimal \<Rightarrow> Decimal \<Rightarrow> Decimal option" where
  "Decimal_div_assign self rhs = Decimal_div self rhs"

definition Decimal_rem_assign :: "Decimal \<Rightarrow> Decimal \<Rightarrow> Decimal option" where
  "Decimal_rem_assign self rhs = Decimal_rem self rhs"

definition Decimal_sum :: "Decimal list \<Rightarrow> Decimal option" where
  "Decimal_sum iter = fold_add Decimal_add Decimal_zero iter"

definition Decimal_serialize :: "Decimal \<Rightarrow> string" where
  "Decimal_serialize self = Decimal_to_string self"

definition Decimal_visit_str :: "bool \<Rightarrow> string \<Rightarrow> (string, Decimal) fallible" where
  "Decimal_visit_str checks v =
     map_option (map_errR (\<lambda>e. ''Error parsing decimal '' @ quoted v @ '': '' @ StdError_to_string e))
       (Decimal_from_str checks v)"

section \<open>\<^verbatim>\<open>Decimal256\<close>\<close>

type_synonym Decimal256 = Uint256

datatype Decimal256RangeExceeded = Decimal256RangeExceeded

definition Decimal256RangeExceeded_to_string :: "Decimal256RangeExceeded \<Rightarrow> string" where
  "Decimal256RangeExceeded_to_string e = ''Decimal256 range exceeded''"

definition Decimal256_FRACTIONAL :: Uint256 where
  "Decimal256_FRACTIONAL = Uint256_from_be_bytes
     [0, 0, 0, 0, 0, 0, 0, 0, 0, 0, 0, 0, 0, 0, 0, 0, 0, 0, 0, 0, 0, 0, 0, 0, 13, 224, 182,
      179, 167, 100, 0, 0]"

definition Decimal256_FRACTIONAL_SQUARED :: Uint256 where
  "Decimal256_FRACTIONAL_SQUARED = Uint256_from_be_bytes
     [0, 0, 0, 0, 0, 0, 0, 0, 0, 0, 0, 0, 0, 0, 0, 0, 0, 192, 151, 206, 123, 201, 7, 21, 179,
      75, 159, 16, 0, 0, 0, 0]"

definition Decimal256_DECIMAL_PLACES :: u32 where
  "Decimal256_DECIMAL_PLACES = 18"

definition Decimal256_MAX :: Decimal256 where
  "Decimal256_MAX = Uint256_MAX"

definition Decimal256_MIN :: Decimal256 where
  "Decimal256_MIN = Uint256_MIN"

definition Decimal256_new :: "Uint256 \<Rightarrow> Decimal256" where
  "Decimal256_new v = v"

definition Decimal256_raw :: "u128 \<Rightarrow> Decimal256" where
  "Decimal256_raw v = Uint256_from_u128 v"

definition Decimal256_one :: Decimal256 where
  "Decimal256_one = Decimal256_FRACTIONAL"

definition Decimal256_zero :: Decimal256 where
  "Decimal256_zero = Uint256_zero"

definition Decimal256_percent :: "u64 \<Rightarrow> Decimal256 option" where
  "Decimal256_percent x = Uint256_mul (Uint256_From_u64 x) (Uint256_From_u128 10000000000000000)"

definition Decimal256_permille :: "u64 \<Rightarrow> Decimal256 option" where
  "Decimal256_permille x = Uint256_mul (Uint256_From_u64 x) (Uint256_From_u128 1000000000000000)"

text \<open>
  The text of a decimal: the whole part and, unless it is zero, the fraction with 18 digits and
  without its trailing zeros.
\<close>

definition Decimal256_to_string :: "Decimal256 \<Rightarrow> string" where
  "Decimal256_to_string self =
     (let whole = self div Decimal256_FRACTIONAL; fractional = self mod Decimal256_FRACTIONAL in
      if Uint256_is_zero fractional then Uint256_to_string whole
      else
        let fractional_string = pad_zeros (unat Decimal256_DECIMAL_PLACES) (Uint256_to_string fractional) in
        Uint256_to_string whole @ ''.'' @ trim_end_zeros fractional_string)"

definition Decimal256_from_atomics :: "Uint256 \<Rightarrow> u32 \<Rightarrow> (Decimal256RangeExceeded, Decimal256) fallible" where
  "Decimal256_from_atomics atomics decimal_places =
     (if decimal_places < Decimal256_DECIMAL_PLACES then
        and_then (unwrap_ok (Uint256_checked_pow (Uint256_From_u64 10) (Decimal256_DECIMAL_PLACES - decimal_places))) (\<lambda>factor.
        Some (map_errR (\<lambda>_. Decimal256RangeExceeded) (Uint256_checked_mul atomics factor)))
      else if decimal_places = Decimal256_DECIMAL_PLACES then Some (Ok atomics)
      else
        (case Uint256_checked_pow (Uint256_From_u64 10) (decimal_places - Decimal256_DECIMAL_PLACES) of
           Ok factor \<Rightarrow> unwrap_ok (Uint256_checked_div atomics factor)
         | Err _ \<Rightarrow> Some (Ok Uint256_zero)))"

definition Decimal256_checked_from_ratio :: "Uint256 \<Rightarrow> Uint256 \<Rightarrow> (CheckedFromRatioError, Decimal256) fallible" where
  "Decimal256_checked_from_ratio numerator denominator =
     (case Uint256_checked_multiply_ratio numerator Decimal256_FRACTIONAL denominator of
        None \<Rightarrow> None
      | Some (Ok ratio) \<Rightarrow> Some (Ok ratio)
      | Some (Err CMR_Overflow) \<Rightarrow> Some (Err CFR_Overflow)
      | Some (Err CMR_DivideByZero) \<Rightarrow> Some (Err CFR_DivideByZero))"

definition Decimal256_from_ratio :: "Uint256 \<Rightarrow> Uint256 \<Rightarrow> Decimal256 option" where
  "Decimal256_from_ratio numerator denominator =
     (case Decimal256_checked_from_ratio numerator denominator of
        Some (Ok v) \<Rightarrow> Some v
      | Some (Err CFR_DivideByZero) \<Rightarrow> None
      | Some (Err CFR_Overflow) \<Rightarrow> None
      | None \<Rightarrow> None)"

definition Decimal256_is_zero :: "Decimal256 \<Rightarrow> bool" where
  "Decimal256_is_zero self = Uint256_is_zero self"

definition Decimal256_atomics :: "Decimal256 \<Rightarrow> Uint256" where
  "Decimal256_atomics self = self"

definition Decimal256_decimal_places :: "Decimal256 \<Rightarrow> u32" where
  "Decimal256_decimal_places self = Decimal256_DECIMAL_PLACES"

definition Decimal256_numerator :: "Decimal256 \<Rightarrow> Uint256" where
  "Decimal256_numerator self = self"

definition Decimal256_denominator :: "Decimal256 \<Rightarrow> Uint256" where
  "Decimal256_denominator self = Decimal256_FRACTIONAL"

definition Decimal256_inv :: "Decimal256 \<Rightarrow> Decimal256 option option" where
  "Decimal256_inv self =
     (if Decimal256_is_zero self then Some None
      else map_option Some (Uint256_div Decimal256_FRACTIONAL_SQUARED self))"

definition Decimal256_floor :: "Decimal256 \<Rightarrow> Decimal256 option" where
  "Decimal256_floor self =
     (case Uint256_div self Decimal256_FRACTIONAL of None \<Rightarrow> None | Some q \<Rightarrow> Uint256_mul q Decimal256_FRACTIONAL)"

definition Decimal256_checked_add :: "Decimal256 \<Rightarrow> Decimal256 \<Rightarrow> (OverflowError, Decimal256) result" where
  "Decimal256_checked_add self other =
     map_errR (\<lambda>_. OverflowError_new OpAdd (Decimal256_to_string self) (Decimal256_to_string other))
       (Uint256_checked_add self other)"

definition Decimal256_checked_sub :: "Decimal256 \<Rightarrow> Decimal256 \<Rightarrow> (OverflowError, Decimal256) result" where
  "Decimal256_checked_sub self other =
     map_errR (\<lambda>_. OverflowError_new OpSub (Decimal256_to_string self) (Decimal256_to_string other))
       (Uint256_checked_sub self other)"

definition Decimal256_checked_ceil :: "Decimal256 \<Rightarrow> (RoundUpOverflowError, Decimal256) fallible" where
  "Decimal256_checked_ceil self =
     (case Decimal256_floor self of
        None \<Rightarrow> None
      | Some fl \<Rightarrow>
          Some (if fl = self then Ok fl
                else map_errR (\<lambda>_. RoundUpOverflowError) (Decimal256_checked_add fl Decimal256_one)))"

definition Decimal256_ceil :: "Decimal256 \<Rightarrow> Decimal256 option" where
  "Decimal256_ceil self =
     (case Decimal256_checked_ceil self of
        Some (Ok v) \<Rightarrow> Some v
      | Some (Err _) \<Rightarrow> None
      | None \<Rightarrow> None)"

text \<open>The product at twice the width, divided by the denominator.\<close>

definition Decimal256_wide_product :: "Decimal256 \<Rightarrow> Decimal256 \<Rightarrow> Uint512 option" where
  "Decimal256_wide_product self other =
     (case Uint256_full_mul (Decimal256_numerator self) (Decimal256_numerator other) of
        None \<Rightarrow> None
      | Some p \<Rightarrow> Uint512_div p (Uint512_from_uint256 Decimal256_FRACTIONAL))"

definition Decimal256_checked_mul :: "Decimal256 \<Rightarrow> Decimal256 \<Rightarrow> (OverflowError, Decimal256) fallible" where
  "Decimal256_checked_mul self other =
     map_option (\<lambda>q. map_errR (\<lambda>_. \<lparr>oe_operation = OpMul, oe_operand1 = Decimal256_to_string self,
         oe_operand2 = Decimal256_to_string other\<rparr>) (Uint256_try_from_Uint512 q))
       (Decimal256_wide_product self other)"

definition Decimal256_mul :: "Decimal256 \<Rightarrow> Decimal256 \<Rightarrow> Decimal256 option" where
  "Decimal256_mul self other =
     (case Decimal256_wide_product self other of
        None \<Rightarrow> None
      | Some q \<Rightarrow> (case Uint256_try_from_Uint512 q of Ok v \<Rightarrow> Some v | Err _ \<Rightarrow> None))"

text \<open>The loop of the exponentiation by squaring; only its last product may panic.\<close>

fun Decimal256_pow_loop :: "Decimal256 \<Rightarrow> Decimal256 \<Rightarrow> nat \<Rightarrow> (OverflowError, Decimal256) fallible" where
  "Decimal256_pow_loop x y n =
     (if n > 1 then
        if n mod 2 = 0 then
          and_then (Decimal256_checked_mul x x) (\<lambda>x'. Decimal256_pow_loop x' y (n div 2))
        else
          and_then (Decimal256_checked_mul x y) (\<lambda>y'.
          and_then (Decimal256_checked_mul x x) (\<lambda>x'. Decimal256_pow_loop x' y' ((n - 1) div 2)))
      else map_option Ok (Decimal256_mul x y))"

declare Decimal256_pow_loop.simps [simp del]

definition Decimal256_pow_inner :: "Decimal256 \<Rightarrow> u32 \<Rightarrow> (OverflowError, Decimal256) fallible" where
  "Decimal256_pow_inner x n = (if n = 0 then Some (Ok Decimal256_one) else Decimal256_pow_loop x Decimal256_one (unat n))"

definition Decimal256_checked_pow :: "Decimal256 \<Rightarrow> u32 \<Rightarrow> (OverflowError, Decimal256) fallible" where
  "Decimal256_checked_pow self e =
     map_option (map_errR (\<lambda>_. \<lparr>oe_operation = OpPow, oe_operand1 = Decimal256_to_string self,
         oe_operand2 = nat_str (unat e)\<rparr>))
       (Decimal256_pow_inner self e)"

definition Decimal256_pow :: "Decimal256 \<Rightarrow> u32 \<Rightarrow> Decimal256 option" where
  "Decimal256_pow self e =
     (case Decimal256_checked_pow self e of
        Some (Ok v) \<Rightarrow> Some v
      | Some (Err _) \<Rightarrow> None
      | None \<Rightarrow> None)"

definition Decimal256_checked_div :: "Decimal256 \<Rightarrow> Decimal256 \<Rightarrow> (CheckedFromRatioError, Decimal256) fallible" where
  "Decimal256_checked_div self other = Decimal256_checked_from_ratio (Decimal256_numerator self) (Decimal256_numerator other)"

definition Decimal256_checked_rem :: "Decimal256 \<Rightarrow> Decimal256 \<Rightarrow> (DivideByZeroError, Decimal256) result" where
  "Decimal256_checked_rem self other =
     map_errR (\<lambda>_. DivideByZeroError_new (Decimal256_to_string self)) (Uint256_checked_rem self other)"

definition Decimal256_sqrt_with_precision :: "bool \<Rightarrow> Decimal256 \<Rightarrow> u32 \<Rightarrow> Decimal256 option option" where
  "Decimal256_sqrt_with_precision checks self precision =
     (case Uint256_pow (Uint256_From_u128 100) precision of
        None \<Rightarrow> None
      | Some inner_mul \<Rightarrow>
          (case Uint256_checked_mul self inner_mul of
             Err _ \<Rightarrow> Some None
           | Ok inner \<Rightarrow>
               (case prim_sub checks (Decimal256_DECIMAL_PLACES div 2) precision of
                  None \<Rightarrow> None
                | Some e \<Rightarrow>
                    (case Uint256_pow (Uint256_From_u128 10) e of
                       None \<Rightarrow> None
                     | Some outer_mul \<Rightarrow>
                         (case isqrt inner of
                            None \<Rightarrow> None
                          | Some root \<Rightarrow>
                              (case Uint256_checked_mul root outer_mul of
                                 Ok r \<Rightarrow> Some (Some r)
                               | Err _ \<Rightarrow> None))))))"

fun Decimal256_sqrt_search :: "bool \<Rightarrow> Decimal256 \<Rightarrow> u32 list \<Rightarrow> Decimal256 option option" where
  "Decimal256_sqrt_search checks self [] = Some None"
| "Decimal256_sqrt_search checks self (i # is) =
     (case Decimal256_sqrt_with_precision checks self i of
        None \<Rightarrow> None
      | Some (Some r) \<Rightarrow> Some (Some r)
      | Some None \<Rightarrow> Decimal256_sqrt_search checks self is)"

definition Decimal256_sqrt :: "bool \<Rightarrow> Decimal256 \<Rightarrow> Decimal256 option" where
  "Decimal256_sqrt checks self =
     (case Decimal256_sqrt_search checks self (rev (map of_nat [0..<unat (Decimal256_DECIMAL_PLACES div 2) + 1])) of
        None \<Rightarrow> None
      | Some r \<Rightarrow> r)"

definition Decimal256_saturating_add :: "Decimal256 \<Rightarrow> Decimal256 \<Rightarrow> Decimal256" where
  "Decimal256_saturating_add self other =
     (case Decimal256_checked_add self other of Ok v \<Rightarrow> v | Err _ \<Rightarrow> Decimal256_MAX)"

definition Decimal256_saturating_sub :: "Decimal256 \<Rightarrow> Decimal256 \<Rightarrow> Decimal256" where
  "Decimal256_saturating_sub self other =
     (case Decimal256_checked_sub self other of Ok v \<Rightarrow> v | Err _ \<Rightarrow> Decimal256_zero)"

definition Decimal256_saturating_mul :: "Decimal256 \<Rightarrow> Decimal256 \<Rightarrow> Decimal256 option" where
  "Decimal256_saturating_mul self other =
     map_option (\<lambda>r. case r of Ok v \<Rightarrow> v | Err _ \<Rightarrow> Decimal256_MAX) (Decimal256_checked_mul self other)"

definition Decimal256_saturating_pow :: "Decimal256 \<Rightarrow> u32 \<Rightarrow> Decimal256 option" where
  "Decimal256_saturating_pow self e =
     map_option (\<lambda>r. case r of Ok v \<Rightarrow> v | Err _ \<Rightarrow> Decimal256_MAX) (Decimal256_checked_pow self e)"

definition Decimal256_from_str :: "(string \<Rightarrow> (string, Uint256) result) \<Rightarrow> string \<Rightarrow> (StdError, Decimal256) fallible" where
  "Decimal256_from_str from_dec_str input =
     (case split_on (CHR ''.'') input of
        [] \<Rightarrow> None
      | whole_part # parts_iter \<Rightarrow>
          and_then (Some (map_errR (\<lambda>_. StdError_generic_err ''Error parsing whole'') (Uint256_from_str from_dec_str whole_part))) (\<lambda>whole.
          and_then (Some (map_errR (\<lambda>_. StdError_generic_err ''Value too big'')
            (Uint256_checked_mul whole Decimal256_FRACTIONAL))) (\<lambda>atomics.
          case parts_iter of
            [] \<Rightarrow> Some (Ok atomics)
          | fractional_part # rest \<Rightarrow>
              and_then (Some (map_errR (\<lambda>_. StdError_generic_err ''Error parsing fractional'')
                (Uint256_from_str from_dec_str fractional_part))) (\<lambda>fractional.
              and_then (Some (ok_or (chk_sub Decimal256_DECIMAL_PLACES (of_nat (length fractional_part)))
                (StdError_generic_err (''Cannot parse more than '' @ nat_str (unat Decimal256_DECIMAL_PLACES) @
                   '' fractional digits'')))) (\<lambda>e.
              and_then (or_panic (Uint256_pow (Uint256_From_u128 10) e)) (\<lambda>fractional_factor.
              and_then (unwrap_ok (Uint256_checked_mul fractional fractional_factor)) (\<lambda>increment.
              and_then (Some (map_errR (\<lambda>_. StdError_generic_err ''Value too big'')
                (Uint256_checked_add atomics increment))) (\<lambda>atomics.
              if rest \<noteq> [] then Some (Err (StdError_generic_err ''Unexpected number of dots''))
              else Some (Ok atomics)))))))))"

text \<open>The operators; \<open>None\<close> is their panic.\<close>

definition Decimal256_add :: "Decimal256 \<Rightarrow> Decimal256 \<Rightarrow> Decimal256 option" where
  "Decimal256_add self other = Uint256_add self other"

definition Decimal256_sub :: "Decimal256 \<Rightarrow> Decimal256 \<Rightarrow> Decimal256 option" where
  "Decimal256_sub self other = Uint256_sub self other"

definition Decimal256_abs_diff :: "Decimal256 \<Rightarrow> Decimal256 \<Rightarrow> Decimal256 option" where
  "Decimal256_abs_diff self other =
     (if self < other then Decimal256_sub other self else Decimal256_sub self other)"

definition Decimal256_div :: "Decimal256 \<Rightarrow> Decimal256 \<Rightarrow> Decimal256 option" where
  "Decimal256_div self other =
     (case Decimal256_checked_from_ratio (Decimal256_numerator self) (Decimal256_numerator other) of
        Some (Ok ratio) \<Rightarrow> Some ratio
      | Some (Err CFR_DivideByZero) \<Rightarrow> None
      | Some (Err CFR_Overflow) \<Rightarrow> None
      | None \<Rightarrow> None)"

definition Decimal256_rem :: "Decimal256 \<Rightarrow> Decimal256 \<Rightarrow> Decimal256 option" where
  "Decimal256_rem self rhs = Uint256_rem self rhs"

definition Uint256_mul_Decimal256 :: "Uint256 \<Rightarrow> Decimal256 \<Rightarrow> Uint256 option" where
  "Uint256_mul_Decimal256 self rhs =
     (if Uint256_is_zero self \<or> Decimal256_is_zero rhs then Some Uint256_zero
      else Uint256_multiply_ratio self rhs Decimal256_FRACTIONAL)"

definition Decimal256_mul_Uint256 :: "Decimal256 \<Rightarrow> Uint256 \<Rightarrow> Uint256 option" where
  "Decimal256_mul_Uint256 self rhs = Uint256_mul_Decimal256 rhs self"

definition Decimal256_div_Uint256 :: "Decimal256 \<Rightarrow> Uint256 \<Rightarrow> Decimal256 option" where
  "Decimal256_div_Uint256 self rhs = Uint256_div self rhs"

definition Decimal256_div_assign_Uint256 :: "Decimal256 \<Rightarrow> Uint256 \<Rightarrow> Decimal256 option" where
  "Decimal256_div_assign_Uint256 self rhs = Uint256_div_assign self rhs"

definition Decimal256_add_assign :: "Decimal256 \<Rightarrow> Decimal256 \<Rightarrow> Decimal256 option" where
  "Decimal256_add_assign self rhs = Decimal256_add self rhs"

definition Decimal256_sub_assign :: "Decimal256 \<Rightarrow> Decimal256 \<Rightarrow> Decimal256 option" where
  "Decimal256_sub_assign self rhs = Decimal256_sub self rhs"

definition Decimal256_mul_assign :: "Decimal256 \<Rightarrow> Decimal256 \<Rightarrow> Decimal256 option" where
  "Decimal256_mul_assign self rhs = Decimal256_mul self rhs"

definition Decimal256_div_assign :: "Decimal256 \<Rightarrow> Decimal256 \<Rightarrow> Decimal256 option" where
  "Decimal256_div_assign self rhs = Decimal256_div self rhs"

definition Decimal256_rem_assign :: "Decimal256 \<Rightarrow> Decimal256 \<Rightarrow> Decimal256 option" where
  "Decimal256_rem_assign self rhs = Decimal256_rem self rhs"

definition Decimal256_sum :: "Decimal256 list \<Rightarrow> Decimal256 option" where
  "Decimal256_sum iter = fold_add Decimal256_add Decimal256_zero iter"

definition Decimal256_serialize :: "Decimal256 \<Rightarrow> string" where
  "Decimal256_serialize self = Decimal256_to_string self"

definition Decimal256_visit_str :: "(string \<Rightarrow> (string, Uint256) result) \<Rightarrow> string \<Rightarrow> (string, Decimal256) fallible" where
  "Decimal256_visit_str from_dec_str v =
     map_option (map_errR (\<lambda>e. ''Error parsing decimal '' @ quoted v @ '': '' @ StdError_to_string e))
       (Decimal256_from_str from_dec_str v)"

definition Decimal256_From_Decimal :: "Decimal \<Rightarrow> Decimal256 option" where
  "Decimal256_From_Decimal input =
     (case Decimal256_from_atomics (Uint256_From_Uint128 (Decimal_atomics input)) (Decimal_decimal_places input) of
        Some (Ok v) \<Rightarrow> Some v
      | _ \<Rightarrow> None)"

section \<open>Texts of decimals\<close>

lemma digits_val_zeros: "digits_val a (replicate k (CHR ''0'')) = Some (a * 10 ^ k)"
  by (induction k arbitrary: a) (simp_all add: digit_val_def Let_def algebra_simps)

lemma trim_end_zeros_append: "\<exists>j. s = trim_end_zeros s @ replicate j (CHR ''0'')"
proof -
  have "rev s = takeWhile (\<lambda>c. c = CHR ''0'') (rev s) @ dropWhile (\<lambda>c. c = CHR ''0'') (rev s)" by simp
  moreover have "takeWhile (\<lambda>c. c = CHR ''0'') (rev s) =
      replicate (length (takeWhile (\<lambda>c. c = CHR ''0'') (rev s))) (CHR ''0'')"
    by (rule replicate_length_same [symmetric]) (auto dest: set_takeWhileD)
  ultimately have "rev (rev s) = trim_end_zeros s @ replicate (length (takeWhile (\<lambda>c. c = CHR ''0'') (rev s))) (CHR ''0'')"
    unfolding trim_end_zeros_def by (metis rev_append rev_replicate)
  then show ?thesis by (metis rev_rev_ident)
qed

text \<open>The digits of a fraction that \<^verbatim>\<open>Display\<close> writes, and what they stand for.\<close>

lemma fraction_digits:
  assumes "0 < f" and "f < 10 ^ 18"
  defines "t \<equiv> trim_end_zeros (pad_zeros 18 (nat_str f))"
  obtains m where "digits_val 0 t = Some m" and "m * 10 ^ (18 - length t) = f" and "length t \<le> 18"
    and "t \<noteq> []" and "CHR ''.'' \<notin> set t" and "hd t \<noteq> CHR ''+''"
proof -
  let ?s = "pad_zeros 18 (nat_str f)"
  have len: "length ?s = 18" using length_nat_str [of f 17] assms(2) by (simp add: pad_zeros_def)
  obtain j where j: "?s = t @ replicate j (CHR ''0'')" using trim_end_zeros_append t_def by blast
  have val: "digits_val 0 ?s = Some f"
    by (simp add: pad_zeros_def digits_val_append digits_val_zeros digits_val_nat_str)
  then obtain m where m: "digits_val 0 t = Some m" "m * 10 ^ j = f"
    unfolding j digits_val_append by (auto simp: digits_val_zeros split: option.splits)
  have lt: "length t = 18 - j" "j \<le> 18" using len j by simp_all
  have "t \<noteq> []" using m assms(1) by auto
  moreover have dig: "c \<in> set ?s \<Longrightarrow> digit_val c \<noteq> None" for c
  proof -
    assume "c \<in> set ?s"
    then have "c = CHR ''0'' \<or> c \<in> set (nat_str f)" by (auto simp: pad_zeros_def)
    then show ?thesis by (elim disjE) (simp add: digit_val_def, rule digit_val_nat_str)
  qed
  moreover have sub: "set t \<subseteq> set ?s" unfolding j by simp
  moreover have "CHR ''.'' \<notin> set t"
    using dig [of "CHR ''.''"] sub by (auto simp: digit_val_def)
  moreover have "hd t \<noteq> CHR ''+''"
  proof -
    have "hd t \<in> set ?s" using sub \<open>t \<noteq> []\<close> hd_in_set by blast
    then show ?thesis using dig [of "hd t"] by (auto simp: digit_val_def)
  qed
  ultimately show thesis using that m lt by simp
qed

lemma dot_free_nat_str: "CHR ''.'' \<notin> set (nat_str n)"
  using digit_val_nat_str [of "CHR ''.''" n] by (auto simp: digit_val_def)

lemma parse_uint_digits:
  "\<lbrakk>digits_val 0 t = Some m; t \<noteq> []; hd t \<noteq> CHR ''+''; m < 2 ^ bits\<rbrakk> \<Longrightarrow> parse_uint bits t = Ok m"
  by (simp add: parse_uint_def Let_def)

section \<open>Constants and exact products\<close>

lemma Decimal_FRACTIONAL_unat [simp]: "unat Decimal_FRACTIONAL = 10 ^ 18"
  by (simp add: Decimal_FRACTIONAL_def Uint128_new_def)

lemma Decimal256_FRACTIONAL_value: "Decimal256_FRACTIONAL = 1000000000000000000"
  by (simp add: Decimal256_FRACTIONAL_def Uint256_from_be_bytes_value be_val_def)

lemma Decimal256_FRACTIONAL_unat [simp]: "unat Decimal256_FRACTIONAL = 10 ^ 18"
  by (simp add: Decimal256_FRACTIONAL_value)

lemma Decimal256_FRACTIONAL_SQUARED_value:
  "Decimal256_FRACTIONAL_SQUARED = 1000000000000000000000000000000000000"
  by (simp add: Decimal256_FRACTIONAL_SQUARED_def Uint256_from_be_bytes_value be_val_def)

lemma Decimal_wide_product_value:
  obtains q where "Decimal_wide_product a b = Some q" and "unat q = unat a * unat b div 10 ^ 18"
proof -
  obtain p where p: "Uint128_full_mul a b = Some p" by (simp add: Uint128_full_mul_total)
  have F: "unat (Uint256_from_uint128 Decimal_FRACTIONAL) = 10 ^ 18"
    by (simp add: Uint256_from_uint128_def Uint128_u128_def Uint256_from_u128_value unat_ucast_up)
  then have "Uint256_from_uint128 Decimal_FRACTIONAL \<noteq> 0" by auto
  then have "Decimal_wide_product a b = Some (p div Uint256_from_uint128 Decimal_FRACTIONAL)"
    using p by (simp add: Decimal_wide_product_def Decimal_numerator_def Uint256_div_def chk_div_def)
  moreover have "unat (p div Uint256_from_uint128 Decimal_FRACTIONAL) = unat a * unat b div 10 ^ 18"
    using unat_Uint128_full_mul [OF p] F by (simp add: unat_div)
  ultimately show thesis by (rule that)
qed

lemma Decimal256_wide_product_value:
  obtains q where "Decimal256_wide_product a b = Some q" and "unat q = unat a * unat b div 10 ^ 18"
proof -
  obtain p where p: "Uint256_full_mul a b = Some p" "unat p = unat a * unat b" by (rule Uint256_full_mul_value)
  have F: "unat (Uint512_from_uint256 Decimal256_FRACTIONAL) = 10 ^ 18"
    by (simp add: Uint512_from_uint256_value unat_ucast_up)
  then have "Uint512_from_uint256 Decimal256_FRACTIONAL \<noteq> 0" by auto
  then have "Decimal256_wide_product a b = Some (p div Uint512_from_uint256 Decimal256_FRACTIONAL)"
    using p by (simp add: Decimal256_wide_product_def Decimal256_numerator_def Uint512_div_def chk_div_def)
  moreover have "unat (p div Uint512_from_uint256 Decimal256_FRACTIONAL) = unat a * unat b div 10 ^ 18"
    using p(2) F by (simp add: unat_div)
  ultimately show thesis by (rule that)
qed

lemma Decimal_checked_mul_value:
  "Decimal_checked_mul a b = Some
     (if unat a * unat b div 10 ^ 18 < 2 ^ 128 then Ok (of_nat (unat a * unat b div 10 ^ 18))
      else Err \<lparr>oe_operation = OpMul, oe_operand1 = Decimal_to_string a, oe_operand2 = Decimal_to_string b\<rparr>)"
proof -
  obtain q where q: "Decimal_wide_product a b = Some q" "unat q = unat a * unat b div 10 ^ 18"
    by (rule Decimal_wide_product_value)
  have u: "(ucast q :: Uint128) = of_nat (unat q)" by (rule ucast_of_nat_unat)
  show ?thesis
    by (simp add: Decimal_checked_mul_def Uint128_try_from_Uint256_def Uint128_new_def q u)
qed

lemma Decimal_mul_value:
  "Decimal_mul a b = (if unat a * unat b div 10 ^ 18 < 2 ^ 128 then Some (of_nat (unat a * unat b div 10 ^ 18)) else None)"
proof -
  obtain q where q: "Decimal_wide_product a b = Some q" "unat q = unat a * unat b div 10 ^ 18"
    by (rule Decimal_wide_product_value)
  have u: "(ucast q :: Uint128) = of_nat (unat q)" by (rule ucast_of_nat_unat)
  show ?thesis
    by (simp add: Decimal_mul_def Uint128_try_from_Uint256_def Uint128_new_def q u)
qed

lemma Decimal256_checked_mul_value:
  "Decimal256_checked_mul a b = Some
     (if unat a * unat b div 10 ^ 18 < 2 ^ 256 then Ok (of_nat (unat a * unat b div 10 ^ 18))
      else Err \<lparr>oe_operation = OpMul, oe_operand1 = Decimal256_to_string a, oe_operand2 = Decimal256_to_string b\<rparr>)"
proof -
  obtain q where q: "Decimal256_wide_product a b = Some q" "unat q = unat a * unat b div 10 ^ 18"
    by (rule Decimal256_wide_product_value)
  have u: "(ucast q :: Uint256) = of_nat (unat q)" by (rule ucast_of_nat_unat)
  show ?thesis
    by (simp add: Decimal256_checked_mul_def Uint256_try_from_Uint512_value q u)
qed

lemma Decimal256_mul_value:
  "Decimal256_mul a b = (if unat a * unat b div 10 ^ 18 < 2 ^ 256 then Some (of_nat (unat a * unat b div 10 ^ 18)) else None)"
proof -
  obtain q where q: "Decimal256_wide_product a b = Some q" "unat q = unat a * unat b div 10 ^ 18"
    by (rule Decimal256_wide_product_value)
  have u: "(ucast q :: Uint256) = of_nat (unat q)" by (rule ucast_of_nat_unat)
  show ?thesis
    by (simp add: Decimal256_mul_def Uint256_try_from_Uint512_value q u)
qed

section \<open>Square roots\<close>

lemma sqrt_step_fits:
  assumes "s ^ 2 \<le> (n :: nat)" and "n < 2 ^ (2 * k)" and "p \<le> 9"
  shows "s * 10 ^ (9 - p) < 2 ^ (k + 30)"
proof -
  have "s < 2 ^ k"
  proof (rule ccontr)
    assume "\<not> s < 2 ^ k"
    then have "(2 ^ k) ^ 2 \<le> s ^ 2" by (intro power_mono) simp_all
    with assms(1,2) show False by (simp add: power_mult [symmetric] mult.commute)
  qed
  moreover have "(10 :: nat) ^ (9 - p) \<le> 10 ^ 9" by (intro power_increasing) simp_all
  then have "(10 :: nat) ^ (9 - p) < 2 ^ 30" by (rule order_le_less_trans) simp
  ultimately have "s * 10 ^ (9 - p) < 2 ^ k * 2 ^ 30" by (intro mult_strict_mono') simp_all
  then show ?thesis by (simp add: power_add)
qed

lemma chk_pow_small: "unat a ^ n < 2 ^ LENGTH('a) \<Longrightarrow> chk_pow (a :: 'a :: len word) n = Some (a ^ n) \<and> unat (a ^ n) = unat a ^ n"
  by (simp add: chk_pow_def unat_power_word)

lemma pow_hundred: "p \<le> 9 \<Longrightarrow> (100 :: nat) ^ p < 2 ^ 128" and pow_ten: "p \<le> 18 \<Longrightarrow> (10 :: nat) ^ p < 2 ^ 128"
proof -
  show "(100 :: nat) ^ p < 2 ^ 128" if "p \<le> 9"
    using power_increasing [OF that, of "100 :: nat"] by (rule order_le_less_trans) simp_all
  show "(10 :: nat) ^ p < 2 ^ 128" if "p \<le> 18"
    using power_increasing [OF that, of "10 :: nat"] by (rule order_le_less_trans) simp_all
qed

lemma prim_pow_small:
  "unat a ^ n < 2 ^ LENGTH('a) \<Longrightarrow>
    prim_pow checks (a :: 'a :: len word) n = Some (a ^ n) \<and> unat (a ^ n) = unat a ^ n"
  by (simp add: prim_pow_def chk_pow_small unat_power_word)

lemma unat_precision: "p \<le> 9 \<Longrightarrow> unat (of_nat p :: u32) = p"
  by (simp add: unsigned_of_nat take_bit_nat_eq_self_iff)

lemma precision_sub:
  assumes "p \<le> 9"
  shows "prim_sub checks (9 :: u32) (of_nat p) = Some (of_nat (9 - p))" and "unat (of_nat (9 - p) :: u32) = 9 - p"
proof -
  show "unat (of_nat (9 - p) :: u32) = 9 - p" by (rule unat_precision) simp
  have "(of_nat p :: u32) \<le> 9" using assms by (simp add: word_le_nat_alt unat_precision)
  then show "prim_sub checks (9 :: u32) (of_nat p) = Some (of_nat (9 - p))"
    using assms by (simp add: prim_sub_def chk_sub_def of_nat_diff)
qed

lemma Decimal_sqrt_with_precision_value:
  assumes "p \<le> 9"
  shows "if unat d * 100 ^ p < 2 ^ 128
    then \<exists>s r. Decimal_sqrt_with_precision checks d (of_nat p) = Some (Some r) \<and> unat r = s * 10 ^ (9 - p) \<and>
      s ^ 2 \<le> unat d * 100 ^ p \<and> unat d * 100 ^ p < (s + 1) ^ 2
    else Decimal_sqrt_with_precision checks d (of_nat p) = Some None"
proof -
  have ip: "prim_pow checks (100 :: u128) p = Some (100 ^ p)" "unat (100 ^ p :: u128) = 100 ^ p"
    using prim_pow_small [of "100 :: u128" p checks] pow_hundred [OF assms] by simp_all
  have op: "prim_pow checks (10 :: u128) (9 - p) = Some (10 ^ (9 - p))" "unat (10 ^ (9 - p) :: u128) = 10 ^ (9 - p)"
    using prim_pow_small [of "10 :: u128" "9 - p" checks] pow_ten [of "9 - p"] by simp_all
  show ?thesis
  proof (cases "unat d * 100 ^ p < 2 ^ 128")
    case True
    then have inner: "Uint128_checked_mul d (100 ^ p) = Ok (d * 100 ^ p)" "unat (d * 100 ^ p) = unat d * 100 ^ p"
      using ip(2) by (simp_all add: Uint128_checked_mul_def ok_or_def chk_mul_def unat_word_ariths)
    obtain s where s: "isqrt (d * 100 ^ p) = Some s" "unat s ^ 2 \<le> unat d * 100 ^ p" "unat d * 100 ^ p < (unat s + 1) ^ 2"
      using isqrt_value [of "d * 100 ^ p"] inner(2) by auto
    have "unat s * 10 ^ (9 - p) < 2 ^ 128"
      using sqrt_step_fits [OF s(2) _ assms, of 64] True by (simp add: order_less_le_trans)
    then have "Uint128_checked_mul s (10 ^ (9 - p)) = Ok (s * 10 ^ (9 - p))"
      "unat (s * 10 ^ (9 - p)) = unat s * 10 ^ (9 - p)"
      using op(2) by (simp_all add: Uint128_checked_mul_def ok_or_def chk_mul_def unat_word_ariths)
    then show ?thesis
      using True ip(1) op(1) inner(1) s precision_sub(1) [OF assms, of checks] precision_sub(2) [OF assms] unat_precision [OF assms]
      by (auto simp: Decimal_sqrt_with_precision_def Decimal_DECIMAL_PLACES_def)
  next
    case False
    then have "chk_mul d (100 ^ p) = None" using ip(2) by (simp add: chk_mul_def)
    then show ?thesis
      using False ip(1) unat_precision [OF assms]
      by (simp add: Decimal_sqrt_with_precision_def Uint128_checked_mul_def ok_or_def)
  qed
qed

lemma Decimal256_sqrt_with_precision_value:
  assumes "p \<le> 9"
  shows "if unat d * 100 ^ p < 2 ^ 256
    then \<exists>s r. Decimal256_sqrt_with_precision checks d (of_nat p) = Some (Some r) \<and> unat r = s * 10 ^ (9 - p) \<and>
      s ^ 2 \<le> unat d * 100 ^ p \<and> unat d * 100 ^ p < (s + 1) ^ 2
    else Decimal256_sqrt_with_precision checks d (of_nat p) = Some None"
proof -
  have hundred: "Uint256_From_u128 100 = 100" and ten: "Uint256_From_u128 10 = 10"
    by (simp_all add: Uint256_From_u128_def)
  have ip: "chk_pow (100 :: Uint256) p = Some (100 ^ p)" "unat (100 ^ p :: Uint256) = 100 ^ p"
    using chk_pow_small [of "100 :: Uint256" p] pow_hundred [OF assms] by simp_all
  have small: "(10 :: nat) ^ (9 - p) < 2 ^ 128" by (rule pow_ten) simp
  have op: "chk_pow (10 :: Uint256) (9 - p) = Some (10 ^ (9 - p))" "unat (10 ^ (9 - p) :: Uint256) = 10 ^ (9 - p)"
    using chk_pow_small [of "10 :: Uint256" "9 - p"] small by simp_all
  show ?thesis
  proof (cases "unat d * 100 ^ p < 2 ^ 256")
    case True
    then have inner: "Uint256_checked_mul d (100 ^ p) = Ok (d * 100 ^ p)" "unat (d * 100 ^ p) = unat d * 100 ^ p"
      using ip(2) by (simp_all add: Uint256_checked_mul_def ok_or_def chk_mul_def unat_word_ariths)
    obtain s where s: "isqrt (d * 100 ^ p) = Some s" "unat s ^ 2 \<le> unat d * 100 ^ p" "unat d * 100 ^ p < (unat s + 1) ^ 2"
      using isqrt_value [of "d * 100 ^ p"] inner(2) by auto
    have "unat s * 10 ^ (9 - p) < 2 ^ 256"
      using sqrt_step_fits [OF s(2) _ assms, of 128] True by (simp add: order_less_le_trans)
    then have "Uint256_checked_mul s (10 ^ (9 - p)) = Ok (s * 10 ^ (9 - p))"
      "unat (s * 10 ^ (9 - p)) = unat s * 10 ^ (9 - p)"
      using op(2) by (simp_all add: Uint256_checked_mul_def ok_or_def chk_mul_def unat_word_ariths)
    then show ?thesis
      using True ip(1) op(1) inner(1) s precision_sub(1) [OF assms, of checks] precision_sub(2) [OF assms] unat_precision [OF assms]
      by (auto simp: Decimal256_sqrt_with_precision_def Decimal256_DECIMAL_PLACES_def Uint256_pow_def hundred ten)
  next
    case False
    then have "chk_mul d (100 ^ p) = None" using ip(2) by (simp add: chk_mul_def)
    then show ?thesis
      using False ip(1) unat_precision [OF assms]
      by (simp add: Decimal256_sqrt_with_precision_def Uint256_checked_mul_def ok_or_def Uint256_pow_def hundred)
  qed
qed

text \<open>
  The search over the precisions, for both types: what one attempt promises, and that the search
  returns the root at the highest precision whose inner product fits.
\<close>

locale root_search =
  fixes attempt :: "u32 \<Rightarrow> 'a :: len word option option" and search :: "u32 list \<Rightarrow> 'a word option option"
    and d :: "'a word"
  assumes attempt_value: "p \<le> 9 \<Longrightarrow>
      if unat d * 100 ^ p < 2 ^ LENGTH('a)
      then \<exists>s r. attempt (of_nat p) = Some (Some r) \<and> unat r = s * 10 ^ (9 - p) \<and>
        s ^ 2 \<le> unat d * 100 ^ p \<and> unat d * 100 ^ p < (s + 1) ^ 2
      else attempt (of_nat p) = Some None"
    and search_Cons: "search (i # is) =
      (case attempt i of None \<Rightarrow> None | Some (Some r) \<Rightarrow> Some (Some r) | Some None \<Rightarrow> search is)"
begin

lemma search_value:
  "\<lbrakk>n \<le> 10; 0 < n\<rbrakk> \<Longrightarrow> \<exists>p s r. p < n \<and> search (rev (map of_nat [0..<n])) = Some (Some r) \<and>
    unat d * 100 ^ p < 2 ^ LENGTH('a) \<and> (p + 1 < n \<longrightarrow> 2 ^ LENGTH('a) \<le> unat d * 100 ^ (p + 1)) \<and>
    unat r = s * 10 ^ (9 - p) \<and> s ^ 2 \<le> unat d * 100 ^ p \<and> unat d * 100 ^ p < (s + 1) ^ 2"
proof (induction n)
  case (Suc n)
  have n: "n \<le> 9" using Suc.prems by simp
  have list: "rev (map of_nat [0..<Suc n]) = (of_nat n :: u32) # rev (map of_nat [0..<n])" by simp
  show ?case
  proof (cases "unat d * 100 ^ n < 2 ^ LENGTH('a)")
    case True
    then obtain s r where "attempt (of_nat n) = Some (Some r)" "unat r = s * 10 ^ (9 - n)"
      "s ^ 2 \<le> unat d * 100 ^ n" "unat d * 100 ^ n < (s + 1) ^ 2"
      using attempt_value [OF n] by auto
    then show ?thesis
      using True unfolding list search_Cons by (intro exI [of _ n] exI [of _ s] exI [of _ r]) simp
  next
    case False
    then have pos: "0 < n" using unsigned_less [of d, where 'a = nat] by (cases n) simp_all
    obtain p s r where p: "p < n" "search (rev (map of_nat [0..<n])) = Some (Some r)"
      "unat d * 100 ^ p < 2 ^ LENGTH('a)" "p + 1 < n \<longrightarrow> 2 ^ LENGTH('a) \<le> unat d * 100 ^ (p + 1)"
      "unat r = s * 10 ^ (9 - p)" "s ^ 2 \<le> unat d * 100 ^ p" "unat d * 100 ^ p < (s + 1) ^ 2"
      using Suc.IH [OF _ pos] Suc.prems by auto
    have "attempt (of_nat n) = Some None" using attempt_value [OF n] False by simp
    moreover have "2 ^ LENGTH('a) \<le> unat d * 100 ^ (p + 1)"
      using p(1,4) False by (cases "p + 1 = n") (simp_all add: linorder_not_less)
    ultimately show ?thesis
      using p unfolding list search_Cons by (intro exI [of _ p] exI [of _ s] exI [of _ r]) simp
  qed
qed simp

lemma root_value:
  "\<exists>p s r. p \<le> 9 \<and> search (rev (map of_nat [0..<10])) = Some (Some r) \<and>
    unat d * 100 ^ p < 2 ^ LENGTH('a) \<and> (p < 9 \<longrightarrow> 2 ^ LENGTH('a) \<le> unat d * 100 ^ (p + 1)) \<and>
    unat r = s * 10 ^ (9 - p) \<and> s ^ 2 \<le> unat d * 100 ^ p \<and> unat d * 100 ^ p < (s + 1) ^ 2"
proof -
  obtain p s r where "p < 10" "search (rev (map of_nat [0..<10])) = Some (Some r)"
    "unat d * 100 ^ p < 2 ^ LENGTH('a)" "p + 1 < 10 \<longrightarrow> 2 ^ LENGTH('a) \<le> unat d * 100 ^ (p + 1)"
    "unat r = s * 10 ^ (9 - p)" "s ^ 2 \<le> unat d * 100 ^ p" "unat d * 100 ^ p < (s + 1) ^ 2"
    using search_value [of 10] by auto
  then show ?thesis by (intro exI [of _ p] exI [of _ s] exI [of _ r]) simp
qed

end

interpretation dec_root: root_search "Decimal_sqrt_with_precision checks d" "Decimal_sqrt_search checks d" d
  for checks d
proof unfold_locales
  show "p \<le> 9 \<Longrightarrow>
      if unat d * 100 ^ p < 2 ^ LENGTH(128)
      then \<exists>s r. Decimal_sqrt_with_precision checks d (of_nat p) = Some (Some r) \<and> unat r = s * 10 ^ (9 - p) \<and>
        s ^ 2 \<le> unat d * 100 ^ p \<and> unat d * 100 ^ p < (s + 1) ^ 2
      else Decimal_sqrt_with_precision checks d (of_nat p) = Some None" for p
    using Decimal_sqrt_with_precision_value [of p d checks] by simp
qed simp

interpretation dec256_root: root_search "Decimal256_sqrt_with_precision checks d" "Decimal256_sqrt_search checks d" d
  for checks d
proof unfold_locales
  show "p \<le> 9 \<Longrightarrow>
      if unat d * 100 ^ p < 2 ^ LENGTH(256)
      then \<exists>s r. Decimal256_sqrt_with_precision checks d (of_nat p) = Some (Some r) \<and> unat r = s * 10 ^ (9 - p) \<and>
        s ^ 2 \<le> unat d * 100 ^ p \<and> unat d * 100 ^ p < (s + 1) ^ 2
      else Decimal256_sqrt_with_precision checks d (of_nat p) = Some None" for p
    using Decimal256_sqrt_with_precision_value [of p d checks] by simp
qed simp

section \<open>Powers\<close>

lemma Decimal_one_unat: "unat Decimal_one = 10 ^ 18" by (simp add: Decimal_one_def)

lemma Decimal_mul_one: "Decimal_mul x Decimal_one = Some x"
  using unsigned_less [of x, where 'a = nat] by (simp add: Decimal_mul_value Decimal_one_unat)

lemma Decimal_checked_mul_total: "\<exists>r. Decimal_checked_mul x y = Some r"
  by (simp add: Decimal_checked_mul_value)

lemma Decimal_pow_loop_power2: "Decimal_pow_loop x Decimal_one (2 ^ k) \<noteq> None"
proof (induction k arbitrary: x)
  case 0
  then show ?case by (simp add: Decimal_pow_loop.simps Decimal_mul_one)
next
  case (Suc k)
  obtain r where r: "Decimal_checked_mul x x = Some r" using Decimal_checked_mul_total by blast
  have "1 < (2 :: nat) ^ Suc k" using one_less_power [of "2 :: nat" "Suc k"] by simp
  then have "Decimal_pow_loop x Decimal_one (2 ^ Suc k) =
      and_then (Decimal_checked_mul x x) (\<lambda>x'. Decimal_pow_loop x' Decimal_one (2 ^ k))"
    by (subst Decimal_pow_loop.simps) simp
  then show ?case using Suc r by (cases r) simp_all
qed

text \<open>
  The documented behaviour of \<^verbatim>\<open>U256::from_dec_str\<close> on the digit strings that reach it.
\<close>

definition dec_str_ok :: "(string \<Rightarrow> (string, Uint256) result) \<Rightarrow> bool" where
  "dec_str_ok f \<longleftrightarrow> (\<forall>s n. s \<noteq> [] \<longrightarrow> digits_val 0 s = Some n \<longrightarrow> n < 2 ^ 256 \<longrightarrow> f s = Ok (of_nat n))"

section \<open>Parsing what was printed\<close>

lemma chk_mul_of_nat:
  "\<lbrakk>a < 2 ^ LENGTH('a); b < 2 ^ LENGTH('a); a * b < 2 ^ LENGTH('a)\<rbrakk> \<Longrightarrow>
    chk_mul (of_nat a) (of_nat b) = Some (of_nat (a * b) :: 'a :: len word)"
  by (simp add: chk_mul_def unsigned_of_nat take_bit_nat_eq_self)

lemma chk_add_of_nat:
  "a + b < 2 ^ LENGTH('a) \<Longrightarrow> chk_add (of_nat a) (of_nat b) = Some (of_nat (a + b) :: 'a :: len word)"
  by (simp add: chk_add_def unsigned_of_nat take_bit_nat_eq_self)

lemma places_sub:
  assumes "l \<le> 18"
  shows "chk_sub (18 :: u32) (of_nat l) = Some (of_nat (18 - l))" and "unat (of_nat (18 - l) :: u32) = 18 - l"
proof -
  have l: "unat (of_nat k :: u32) = k" if "k \<le> 18" for k
    using that by (simp add: unsigned_of_nat take_bit_nat_eq_self)
  show "unat (of_nat (18 - l) :: u32) = 18 - l" by (rule l) simp
  have "(of_nat l :: u32) \<le> 18" using assms by (simp add: word_le_nat_alt l)
  then show "chk_sub (18 :: u32) (of_nat l) = Some (of_nat (18 - l))"
    using assms by (simp add: chk_sub_def of_nat_diff)
qed

lemma number_parts:
  assumes "(x :: nat) < 2 ^ w"
  shows "x div 10 ^ 18 < 2 ^ w" and "x div 10 ^ 18 * 10 ^ 18 < 2 ^ w"
    and "x div 10 ^ 18 * 10 ^ 18 + x mod 10 ^ 18 = x"
  using assms order_le_less_trans [OF div_le_dividend] order_le_less_trans [OF div_times_less_eq_dividend]
  by (blast, blast) (rule div_mult_mod_eq)

lemma fraction_parts:
  assumes "(m :: nat) * 10 ^ (18 - l) < 10 ^ 18" and "128 \<le> w"
  shows "m < 2 ^ w" and "(10 :: nat) ^ (18 - l) < 2 ^ w" and "m * 10 ^ (18 - l) < 2 ^ w"
proof -
  have w: "(2 :: nat) ^ 128 \<le> 2 ^ w" using assms(2) by (intro power_increasing) simp_all
  have "m * 10 ^ (18 - l) < 2 ^ 128" using assms(1) by simp
  then show "m * 10 ^ (18 - l) < 2 ^ w" using w by (rule order_less_le_trans)
  show "(10 :: nat) ^ (18 - l) < 2 ^ w" using pow_ten [of "18 - l"] w by (auto intro: order_less_le_trans)
  have "m * 1 \<le> m * 10 ^ (18 - l)" by (rule mult_le_mono2) simp
  then show "m < 2 ^ w" using \<open>m * 10 ^ (18 - l) < 2 ^ w\<close> by linarith
qed

lemma Decimal_from_str_to_string: "Decimal_from_str checks (Decimal_to_string d) = Some (Ok d)"
proof -
  define w where "w = unat d div 10 ^ 18"
  define r where "r = unat d mod 10 ^ 18"
  note parts = number_parts [OF unsigned_less [of d, where 'a = nat], folded w_def r_def]
  have d: "d = of_nat (w * 10 ^ 18 + r)" unfolding parts(3) by simp
  have F: "Decimal_FRACTIONAL = of_nat (10 ^ 18)" by (simp add: Decimal_FRACTIONAL_def Uint128_new_def)
  have shown: "Uint128_to_string (d div Decimal_FRACTIONAL) = nat_str w"
    "Uint128_to_string (d mod Decimal_FRACTIONAL) = nat_str r" "Uint128_is_zero (d mod Decimal_FRACTIONAL) \<longleftrightarrow> r = 0"
    by (simp_all add: Uint128_to_string_def Uint128_is_zero_def unat_div unat_mod w_def r_def word_unat_eq_iff)
  have whole: "Uint128_from_str (nat_str w) = Ok (of_nat w)"
    using parts(1) by (simp add: Uint128_from_str_def parse_nat_str)
  have mul: "Uint128_checked_mul (of_nat w) Decimal_FRACTIONAL = Ok (of_nat (w * 10 ^ 18))"
    unfolding F Uint128_checked_mul_def using parts(1,2) by (subst chk_mul_of_nat) (simp_all add: ok_or_def)
  show ?thesis
  proof (cases "r = 0")
    case True
    then show ?thesis
      using shown whole mul d dot_free_nat_str
      by (simp add: Decimal_to_string_def Decimal_from_str_def split_on_none)
  next
    case False
    define t where "t = trim_end_zeros (pad_zeros 18 (nat_str r))"
    have r18: "r < 10 ^ 18" by (simp add: r_def)
    obtain m where m: "digits_val 0 t = Some m" "m * 10 ^ (18 - length t) = r" "length t \<le> 18" "t \<noteq> []"
      "CHR ''.'' \<notin> set t" "hd t \<noteq> CHR ''+''"
      using fraction_digits [of r] False r18 unfolding t_def by auto
    note small = fraction_parts [of m "length t" 128, unfolded m(2), OF r18 order_refl]
    have frac: "Uint128_from_str t = Ok (of_nat m)"
      using parse_uint_digits [OF m(1,4,6), of 128] small(1) by (simp add: Uint128_from_str_def)
    have pow: "prim_pow checks (10 :: u128) (18 - length t) = Some (of_nat (10 ^ (18 - length t)))"
      using prim_pow_small [of "10 :: u128" "18 - length t" checks] small(2) by simp
    have inc: "Uint128_checked_mul (of_nat m) (of_nat (10 ^ (18 - length t))) = Ok (of_nat r)"
      using small chk_mul_of_nat [where 'a = 128, of m "10 ^ (18 - length t)"] m(2)
      by (simp add: Uint128_checked_mul_def ok_or_def)
    have sum: "Uint128_checked_add (of_nat (w * 10 ^ 18)) (of_nat r) = Ok d"
      using chk_add_of_nat [where 'a = 128, of "w * 10 ^ 18" r] parts(3) unsigned_less [of d, where 'a = nat] d
      by (simp add: Uint128_checked_add_def ok_or_def)
    have "Decimal_to_string d = nat_str w @ CHR ''.'' # t"
      using shown False by (simp add: Decimal_to_string_def t_def Let_def Decimal_DECIMAL_PLACES_def)
    then show ?thesis
      using split_on_append [OF dot_free_nat_str, of w t] split_on_none [OF m(5)] whole mul frac inc pow sum
        places_sub [OF m(3)]
      by (simp add: Decimal_from_str_def ok_or_def Decimal_DECIMAL_PLACES_def)
  qed
qed

lemma Decimal256_from_str_to_string:
  assumes "dec_str_ok f"
  shows "Decimal256_from_str f (Decimal256_to_string d) = Some (Ok d)"
proof -
  define w where "w = unat d div 10 ^ 18"
  define r where "r = unat d mod 10 ^ 18"
  note parts = number_parts [OF unsigned_less [of d, where 'a = nat], folded w_def r_def]
  have d: "d = of_nat (w * 10 ^ 18 + r)" unfolding parts(3) by simp
  have F: "Decimal256_FRACTIONAL = of_nat (10 ^ 18)" by (simp add: Decimal256_FRACTIONAL_value)
  have parse: "Uint256_from_str f s = Ok (of_nat n)" if "s \<noteq> []" "digits_val 0 s = Some n" "n < 2 ^ 256" for s n
    using assms that by (simp add: dec_str_ok_def Uint256_from_str_def)
  have shown: "Uint256_to_string (d div Decimal256_FRACTIONAL) = nat_str w"
    "Uint256_to_string (d mod Decimal256_FRACTIONAL) = nat_str r" "Uint256_is_zero (d mod Decimal256_FRACTIONAL) \<longleftrightarrow> r = 0"
    by (simp_all add: Uint256_to_string_def Uint256_is_zero_iff unat_div unat_mod w_def r_def word_unat_eq_iff)
  have whole: "Uint256_from_str f (nat_str w) = Ok (of_nat w)"
    using parts(1) by (intro parse) (simp_all add: digits_val_nat_str)
  have mul: "Uint256_checked_mul (of_nat w) Decimal256_FRACTIONAL = Ok (of_nat (w * 10 ^ 18))"
    unfolding F Uint256_checked_mul_def using parts(1,2) by (subst chk_mul_of_nat) (simp_all add: ok_or_def)
  show ?thesis
  proof (cases "r = 0")
    case True
    then show ?thesis
      using shown whole mul d dot_free_nat_str
      by (simp add: Decimal256_to_string_def Decimal256_from_str_def split_on_none)
  next
    case False
    define t where "t = trim_end_zeros (pad_zeros 18 (nat_str r))"
    have r18: "r < 10 ^ 18" by (simp add: r_def)
    obtain m where m: "digits_val 0 t = Some m" "m * 10 ^ (18 - length t) = r" "length t \<le> 18" "t \<noteq> []"
      "CHR ''.'' \<notin> set t"
      using fraction_digits [of r] False r18 unfolding t_def by auto
    note small = fraction_parts [of m "length t" 256, unfolded m(2), OF r18]
    have frac: "Uint256_from_str f t = Ok (of_nat m)" using m(1,4) small(1) by (intro parse) simp_all
    have pow: "chk_pow (10 :: Uint256) (18 - length t) = Some (of_nat (10 ^ (18 - length t)))"
      using chk_pow_small [of "10 :: Uint256" "18 - length t"] small(2) by simp
    have inc: "Uint256_checked_mul (of_nat m) (of_nat (10 ^ (18 - length t))) = Ok (of_nat r)"
      using small chk_mul_of_nat [where 'a = 256, of m "10 ^ (18 - length t)"] m(2)
      by (simp add: Uint256_checked_mul_def ok_or_def)
    have sum: "Uint256_checked_add (of_nat (w * 10 ^ 18)) (of_nat r) = Ok d"
      using chk_add_of_nat [where 'a = 256, of "w * 10 ^ 18" r] parts(3) unsigned_less [of d, where 'a = nat] d
      by (simp add: Uint256_checked_add_def ok_or_def)
    have "Decimal256_to_string d = nat_str w @ CHR ''.'' # t"
      using shown False by (simp add: Decimal256_to_string_def t_def Let_def Decimal256_DECIMAL_PLACES_def)
    then show ?thesis
      using split_on_append [OF dot_free_nat_str, of w t] split_on_none [OF m(5)] whole mul frac inc pow sum
        places_sub [OF m(3)]
      by (simp add: Decimal256_from_str_def ok_or_def Decimal256_DECIMAL_PLACES_def Uint256_pow_def Uint256_From_u128_def)
  qed
qed

lemma Decimal_sqrt_value:
  "\<exists>p s r. p \<le> 9 \<and> Decimal_sqrt checks d = Some r \<and> unat d * 100 ^ p < 2 ^ 128 \<and>
    (p < 9 \<longrightarrow> 2 ^ 128 \<le> unat d * 100 ^ (p + 1)) \<and> unat r = s * 10 ^ (9 - p) \<and>
    s ^ 2 \<le> unat d * 100 ^ p \<and> unat d * 100 ^ p < (s + 1) ^ 2"
proof -
  have "Decimal_sqrt checks d = Some r"
    if "Decimal_sqrt_search checks d (rev (map of_nat [0..<10])) = Some (Some r)" for r
    using that by (simp add: Decimal_sqrt_def Decimal_DECIMAL_PLACES_def)
  then show ?thesis using dec_root.root_value [of checks d] by simp blast
qed

lemma Decimal256_sqrt_value:
  "\<exists>p s r. p \<le> 9 \<and> Decimal256_sqrt checks d = Some r \<and> unat d * 100 ^ p < 2 ^ 256 \<and>
    (p < 9 \<longrightarrow> 2 ^ 256 \<le> unat d * 100 ^ (p + 1)) \<and> unat r = s * 10 ^ (9 - p) \<and>
    s ^ 2 \<le> unat d * 100 ^ p \<and> unat d * 100 ^ p < (s + 1) ^ 2"
proof -
  have "Decimal256_sqrt checks d = Some r"
    if "Decimal256_sqrt_search checks d (rev (map of_nat [0..<10])) = Some (Some r)" for r
    using that by (simp add: Decimal256_sqrt_def Decimal256_DECIMAL_PLACES_def)
  then show ?thesis using dec256_root.root_value [of checks d] by simp blast
qed

section \<open>Properties\<close>

text \<open>
  C20: A decimal is printed with at most 18 fractional digits and without trailing zeros, and
  parsing that text gives the same decimal back, for both types and whatever the build's overflow
  checks.  The parser of the \<^verbatim>\<open>uint\<close> crate is only assumed to read digit strings that fit 256 bits.
\<close>

theorem decimal_roundtrip:
  assumes "dec_str_ok f"
  shows "Decimal_from_str checks (Decimal_to_string d) = Some (Ok d) \<and>
    Decimal256_from_str f (Decimal256_to_string e) = Some (Ok e)"
  using Decimal_from_str_to_string Decimal256_from_str_to_string [OF assms] by blast

definition sample_dec_str :: "string \<Rightarrow> (string, Uint256) result" where
  "sample_dec_str s =
     (case digits_val 0 s of
        None \<Rightarrow> Err ''a character is not in the range 0-9''
      | Some n \<Rightarrow> if n < 2 ^ 256 then Ok (of_nat n) else Err ''the number is too large for the type'')"

theorem decimal_roundtrip_witness:
  "Decimal_from_str True (Decimal_to_string 1500000000000000000) = Some (Ok 1500000000000000000) \<and>
   Decimal256_from_str sample_dec_str (Decimal256_to_string 1500000000000000000) = Some (Ok 1500000000000000000)"
proof -
  have "dec_str_ok sample_dec_str" by (simp add: dec_str_ok_def sample_dec_str_def)
  then show ?thesis by (rule decimal_roundtrip)
qed

text \<open>
  C21: Multiplication of decimals is exact up to rounding down: the checked form and the operator
  compute \<open>a * b / 10^18\<close> rounded down from the exact product, the checked form reports an overflow
  with both operands exactly when that does not fit, the operator panics exactly then, and no
  intermediate step panics, for both types.
\<close>

theorem decimal_mul_exact:
  "Decimal_checked_mul a b = Some
     (if unat a * unat b div 10 ^ 18 < 2 ^ 128 then Ok (of_nat (unat a * unat b div 10 ^ 18))
      else Err \<lparr>oe_operation = OpMul, oe_operand1 = Decimal_to_string a, oe_operand2 = Decimal_to_string b\<rparr>) \<and>
   Decimal_mul a b =
     (if unat a * unat b div 10 ^ 18 < 2 ^ 128 then Some (of_nat (unat a * unat b div 10 ^ 18)) else None) \<and>
   Decimal256_checked_mul c d = Some
     (if unat c * unat d div 10 ^ 18 < 2 ^ 256 then Ok (of_nat (unat c * unat d div 10 ^ 18))
      else Err \<lparr>oe_operation = OpMul, oe_operand1 = Decimal256_to_string c, oe_operand2 = Decimal256_to_string d\<rparr>) \<and>
   Decimal256_mul c d =
     (if unat c * unat d div 10 ^ 18 < 2 ^ 256 then Some (of_nat (unat c * unat d div 10 ^ 18)) else None)"
  by (intro conjI Decimal_checked_mul_value Decimal_mul_value Decimal256_checked_mul_value Decimal256_mul_value)

text \<open>
  C22: The square root of a decimal always returns: no step panics, whatever the number and the
  build's overflow checks.  The result is the integer square root \<open>s\<close> of the atomic units scaled by
  \<open>100^p\<close>, with \<open>9 - p\<close> zeros appended, where \<open>p\<close> is the highest of the ten precisions at which
  the scaled number fits.
\<close>

theorem decimal_sqrt_exact:
  "(\<exists>p s r. p \<le> 9 \<and> Decimal_sqrt checks d = Some r \<and> unat r = s * 10 ^ (9 - p) \<and>
     s ^ 2 \<le> unat d * 100 ^ p \<and> unat d * 100 ^ p < (s + 1) ^ 2 \<and>
     unat d * 100 ^ p < 2 ^ 128 \<and> (p = 9 \<or> 2 ^ 128 \<le> unat d * 100 ^ (p + 1))) \<and>
   (\<exists>p s r. p \<le> 9 \<and> Decimal256_sqrt checks e = Some r \<and> unat r = s * 10 ^ (9 - p) \<and>
     s ^ 2 \<le> unat e * 100 ^ p \<and> unat e * 100 ^ p < (s + 1) ^ 2 \<and>
     unat e * 100 ^ p < 2 ^ 256 \<and> (p = 9 \<or> 2 ^ 256 \<le> unat e * 100 ^ (p + 1)))"
proof -
  have "p = 9 \<or> Q" if "p \<le> 9" "p < 9 \<longrightarrow> Q" for p :: nat and Q using that by auto
  then show ?thesis using Decimal_sqrt_value [of checks d] Decimal256_sqrt_value [of checks e] by meson
qed

text \<open>
  C23: \<^verbatim>\<open>checked_pow\<close> of a decimal does not panic when the exponent is a power of two.  In general it
  does: the last multiplication of the loop uses the panicking operator, so that \<open>10^8\<close> to the
  third power panics where the documentation promises an \<^verbatim>\<open>OverflowError\<close>; \<^verbatim>\<open>saturating_pow\<close>
  panics with it.
\<close>

theorem decimal_checked_pow_panics:
  "(\<forall>k<32. Decimal_checked_pow d (2 ^ k) \<noteq> None) \<and>
   Decimal_checked_pow 100000000000000000000000000 3 = None \<and>
   Decimal_saturating_pow 100000000000000000000000000 3 = None"
proof -
  have "Decimal_checked_pow d (2 ^ k) \<noteq> None" if "k < 32" for k
  proof -
    have "(2 :: nat) ^ k < 2 ^ 32" using that by (intro power_strict_increasing) simp_all
    then have n: "unat (2 ^ k :: u32) = 2 ^ k" by (simp add: unat_power_word)
    moreover have "(2 ^ k :: u32) \<noteq> 0" unfolding word_unat_eq_iff n by simp
    ultimately show ?thesis
      using Decimal_pow_loop_power2 [of d k] by (simp add: Decimal_checked_pow_def Decimal_pow_inner_def)
  qed
  moreover have three: "Decimal_pow_loop 100000000000000000000000000 Decimal_one 3 = None"
    by (simp add: Decimal_pow_loop.simps Decimal_checked_mul_value Decimal_mul_value Decimal_one_unat)
  ultimately show ?thesis
    by (simp add: Decimal_checked_pow_def Decimal_saturating_pow_def Decimal_pow_inner_def)
qed

theorem decimal_checked_pow_panics_witness:
  "Decimal_checked_pow 5000000000000000000 4 \<noteq> None"
  using decimal_checked_pow_panics [of 5000000000000000000, THEN conjunct1, rule_format, of 2] by simp

text \<open>
  The parser of \<^verbatim>\<open>u128\<close> accepts a plus sign, also in the fraction, where it counts as a digit: the
  text 1.+5 is read as 1.05.
\<close>

lemma plus_sign_in_fraction: "Decimal_from_str checks ''1.+5'' = Some (Ok 1050000000000000000)"
  by (simp add: Decimal_from_str_def Uint128_from_str_def parse_uint_def Let_def digit_val_def Uint128_checked_mul_def
      Uint128_checked_add_def chk_mul_def chk_add_def ok_or_def Decimal_FRACTIONAL_def Uint128_new_def chk_sub_def
      Decimal_DECIMAL_PLACES_def prim_pow_def chk_pow_def)

end
