(* ===== verification/StaticChecks.thy ===== *)
theory StaticChecks
  imports Imports "HOL-Library.Char_ord"
begin

text \<open>
  The checks a Wasm file has to pass before it is stored
  (\<^verbatim>\<open>packages/vm/src/{compatibility,static_analysis,capabilities,limited}.rs\<close>).  The decoder of
  \<^verbatim>\<open>parity_wasm\<close> is a parameter; \<open>WasmModule\<close> is what the checks look at in its result.  A
  \<^verbatim>\<open>HashSet\<close> of names is a list without repetitions: no result depends on its order.
\<close>

section \<open>Modules and their exports\<close>

datatype Internal = Internal_Function u32 | Internal_Table u32 | Internal_Memory u32 | Internal_Global u32

datatype External = External_Function u32 | External_Table | External_Memory | External_Global

record ImportEntry =
  ie_module :: string
  ie_field :: string
  ie_external :: External

record WasmModule =
  wm_memory_section :: "(u32 \<times> u32 option) list option"
  wm_export_section :: "(string \<times> Internal) list option"
  wm_import_section :: "ImportEntry list option"

definition exported_function_names :: "WasmModule \<Rightarrow> string option \<Rightarrow> string list" where
  "exported_function_names self prefix =
     (case wm_export_section self of
        None \<Rightarrow> []
      | Some entries \<Rightarrow>
          remdups (filter (\<lambda>name. case prefix of Some required_prefix \<Rightarrow> starts_with name required_prefix | None \<Rightarrow> True)
            (List.map_filter
               (\<lambda>(field, internal). case internal of Internal_Function _ \<Rightarrow> Some field | _ \<Rightarrow> None) entries)))"

definition REQUIRED_IBC_EXPORTS :: "string list" where
  "REQUIRED_IBC_EXPORTS =
     [''ibc_channel_open'', ''ibc_channel_connect'', ''ibc_channel_close'', ''ibc_packet_receive'',
      ''ibc_packet_ack'', ''ibc_packet_timeout'']"

definition has_ibc_entry_points :: "WasmModule \<Rightarrow> bool" where
  "has_ibc_entry_points module =
     (let available_exports = exported_function_names module None in
      list_all (\<lambda>required. required \<in> set available_exports) REQUIRED_IBC_EXPORTS)"

definition deserialize_wasm :: "(bytes \<Rightarrow> (string, WasmModule) result) \<Rightarrow> bytes \<Rightarrow> (VmError, WasmModule) result" where
  "deserialize_wasm deserialize_buffer wasm_code =
     map_errR (\<lambda>err. StaticValidationErr
         (''Wasm bytecode could not be deserialized. Deserialization error: '' @ [CHR 0x22] @ err @ [CHR 0x22]))
       (deserialize_buffer wasm_code)"

section \<open>Capabilities\<close>

definition REQUIRES_PREFIX :: string where
  "REQUIRES_PREFIX = ''requires_''"

definition required_capabilities_from_module :: "WasmModule \<Rightarrow> string list" where
  "required_capabilities_from_module module =
     remdups (List.map_filter
       (\<lambda>name. if length name > length REQUIRES_PREFIX then Some (drop (length REQUIRES_PREFIX) name) else None)
       (exported_function_names module (Some REQUIRES_PREFIX)))"

text \<open>
  \<^verbatim>\<open>str::trim\<close>: \<open>space_len\<close> is the length of the white space character that a text starts with, 0 if
  there is none; the trailing ones are found on the reversed text.
\<close>

definition space_chars :: "string list" where
  "space_chars =
     [[CHR 0x09], [CHR 0x0A], [CHR 0x0B], [CHR 0x0C], [CHR 0x0D], [CHR 0x20], [CHR 0xC2, CHR 0x85], [CHR 0xC2, CHR 0xA0],
      [CHR 0xE1, CHR 0x9A, CHR 0x80], [CHR 0xE2, CHR 0x80, CHR 0x80], [CHR 0xE2, CHR 0x80, CHR 0x81],
      [CHR 0xE2, CHR 0x80, CHR 0x82], [CHR 0xE2, CHR 0x80, CHR 0x83], [CHR 0xE2, CHR 0x80, CHR 0x84],
      [CHR 0xE2, CHR 0x80, CHR 0x85], [CHR 0xE2, CHR 0x80, CHR 0x86], [CHR 0xE2, CHR 0x80, CHR 0x87],
      [CHR 0xE2, CHR 0x80, CHR 0x88], [CHR 0xE2, CHR 0x80, CHR 0x89], [CHR 0xE2, CHR 0x80, CHR 0x8A],
      [CHR 0xE2, CHR 0x80, CHR 0xA8], [CHR 0xE2, CHR 0x80, CHR 0xA9], [CHR 0xE2, CHR 0x80, CHR 0xAF],
      [CHR 0xE2, CHR 0x81, CHR 0x9F], [CHR 0xE3, CHR 0x80, CHR 0x80]]"

definition space_len :: "string list \<Rightarrow> string \<Rightarrow> nat" where
  "space_len spaces s = (case find (starts_with s) spaces of Some c \<Rightarrow> length c | None \<Rightarrow> 0)"

function drop_spaces :: "string list \<Rightarrow> string \<Rightarrow> string" where
  "drop_spaces spaces s =
     (if s = [] \<or> space_len spaces s = 0 then s else drop_spaces spaces (drop (space_len spaces s) s))"
  by pat_completeness auto
termination
  by (relation "measure (\<lambda>(_, s). length s)") auto

declare drop_spaces.simps [simp del]

definition str_trim :: "string \<Rightarrow> string" where
  "str_trim s = rev (drop_spaces (map rev space_chars) (rev (drop_spaces space_chars s)))"

definition capabilities_from_csv :: "string \<Rightarrow> string list" where
  "capabilities_from_csv csv = remdups (filter (\<lambda>f. f \<noteq> []) (map str_trim (split_on (CHR '','') csv)))"

section \<open>Texts of limited length\<close>

text \<open>
  The loop over the elements stops as soon as the text is too long; the stack holds the length of
  the text before each element, the last one first.
\<close>

fun push_elements :: "nat \<Rightarrow> string list \<Rightarrow> bool \<Rightarrow> string \<Rightarrow> nat list \<Rightarrow> string \<times> nat list" where
  "push_elements max_length [] first out lengths_stack = (out, lengths_stack)"
| "push_elements max_length (element # iter) first out lengths_stack =
     (let lengths_stack' = length out # lengths_stack;
          out' = out @ (if first then [CHR 0x22] else '', '' @ [CHR 0x22]) @ element @ [CHR 0x22] in
      if length out' > max_length then (out', lengths_stack')
      else push_elements max_length iter False out' lengths_stack')"

text \<open>Elements are hidden from the end until the text fits; \<open>None\<close> is the panic when none are left.\<close>

fun hide_elements :: "nat \<Rightarrow> nat \<Rightarrow> string \<Rightarrow> string \<Rightarrow> nat list \<Rightarrow> string option" where
  "hide_elements elements_count max_length closing out [] = None"
| "hide_elements elements_count max_length closing out (previous_length # lengths_stack) =
     (let skipped = elements_count - length lengths_stack;
          remaining = elements_count - skipped;
          skipped_text = (if remaining = 0 then ''... '' @ nat_str skipped @ '' elements''
                          else '', ... '' @ nat_str skipped @ '' more'') in
      if previous_length + length skipped_text + length closing \<le> max_length
      then Some (take previous_length out @ skipped_text @ closing)
      else hide_elements elements_count max_length closing out lengths_stack)"

definition collection_to_string_limited :: "string list \<Rightarrow> nat \<Rightarrow> string \<Rightarrow> string \<Rightarrow> string option" where
  "collection_to_string_limited iter max_length opening closing =
     (let elements_count = length iter;
          (out, lengths_stack) = push_elements max_length iter True opening [] in
      if length out + length closing \<le> max_length then Some (out @ closing)
      else hide_elements elements_count max_length closing out lengths_stack)"

definition BTreeSet_to_string_limited :: "string list \<Rightarrow> nat \<Rightarrow> string option" where
  "BTreeSet_to_string_limited self max_length =
     collection_to_string_limited (sort (remdups self)) max_length ''{'' ''}''"

definition HashSet_to_string_limited :: "string list \<Rightarrow> nat \<Rightarrow> string option" where
  "HashSet_to_string_limited self max_length = BTreeSet_to_string_limited self max_length"

definition Vec_to_string_limited :: "string list \<Rightarrow> nat \<Rightarrow> string option" where
  "Vec_to_string_limited self max_length = collection_to_string_limited self max_length ''['' '']''"

section \<open>Compatibility\<close>

text \<open>
  The two cargo features that change the lists: \<open>iterator\<close> and \<open>allow_interface_version_7\<close>.
\<close>

definition SUPPORTED_IMPORTS :: "bool \<Rightarrow> string list" where
  "SUPPORTED_IMPORTS iterator =
     [''env.abort'', ''env.db_read'', ''env.db_write'', ''env.db_remove'', ''env.addr_validate'',
      ''env.addr_canonicalize'', ''env.addr_humanize'', ''env.secp256k1_verify'',
      ''env.secp256k1_recover_pubkey'', ''env.ed25519_verify'', ''env.ed25519_batch_verify'', ''env.debug'',
      ''env.query_chain''] @ (if iterator then [''env.db_scan'', ''env.db_next''] else [])"

definition REQUIRED_EXPORTS :: "string list" where
  "REQUIRED_EXPORTS = [''allocate'', ''deallocate'', ''instantiate'']"

definition INTERFACE_VERSION_PREFIX :: string where
  "INTERFACE_VERSION_PREFIX = ''interface_version_''"

definition SUPPORTED_INTERFACE_VERSIONS :: "bool \<Rightarrow> string list" where
  "SUPPORTED_INTERFACE_VERSIONS allow_7 =
     [''interface_version_8''] @ (if allow_7 then [''interface_version_7''] else [])"

definition MEMORY_LIMIT :: u32 where
  "MEMORY_LIMIT = 512"

definition debug_strs :: "string list \<Rightarrow> string" where
  "debug_strs xs = ''['' @ join_with '', '' (map (\<lambda>x. [CHR 0x22] @ x @ [CHR 0x22]) xs) @ '']''"

definition check_wasm_memories :: "WasmModule \<Rightarrow> (VmError, unit) result" where
  "check_wasm_memories module =
     (case wm_memory_section module of
        None \<Rightarrow> Err (StaticValidationErr ''Wasm contract doesn't have a memory section'')
      | Some memories \<Rightarrow>
          (if length memories \<noteq> 1 then
             Err (StaticValidationErr ''Wasm contract must contain exactly one memory'')
           else
             let (initial, maximum) = memories ! 0 in
             if initial > MEMORY_LIMIT then
               Err (StaticValidationErr (''Wasm contract memory's minimum must not exceed '' @
                 nat_str (unat MEMORY_LIMIT) @ '' pages.''))
             else if maximum \<noteq> None then
               Err (StaticValidationErr
                 ''Wasm contract memory's maximum must be unset. The host will set it for you.'')
             else Ok ()))"

definition check_interface_version :: "bool \<Rightarrow> WasmModule \<Rightarrow> (VmError, unit) result" where
  "check_interface_version allow_7 module =
     (case exported_function_names module (Some INTERFACE_VERSION_PREFIX) of
        [] \<Rightarrow>
          Err (StaticValidationErr ''Wasm contract missing a required marker export: interface_version_*'')
      | first_interface_version_export # rest \<Rightarrow>
          (if rest \<noteq> [] then
             Err (StaticValidationErr
               ''Wasm contract contains more than one marker export: interface_version_*'')
           else if first_interface_version_export \<in> set (SUPPORTED_INTERFACE_VERSIONS allow_7) then Ok ()
           else
             Err (StaticValidationErr
               (''Wasm contract has unknown interface_version_* marker export (see '' @
                ''https://github.com/CosmWasm/cosmwasm/blob/main/packages/vm/README.md)''))))"

fun check_required_exports :: "string list \<Rightarrow> string list \<Rightarrow> (VmError, unit) result" where
  "check_required_exports available_exports [] = Ok ()"
| "check_required_exports available_exports (required_export # required_exports) =
     (if required_export \<notin> set available_exports then
        Err (StaticValidationErr (''Wasm contract doesn't have required export: '' @ [CHR 0x22] @ required_export @
          [CHR 0x22] @ ''. Exports required by VM: '' @ debug_strs REQUIRED_EXPORTS @ ''.''))
      else check_required_exports available_exports required_exports)"

definition check_wasm_exports :: "WasmModule \<Rightarrow> (VmError, unit) result" where
  "check_wasm_exports module =
     check_required_exports (exported_function_names module None) REQUIRED_EXPORTS"

definition full_import_name :: "ImportEntry \<Rightarrow> string" where
  "full_import_name ie = ie_module ie @ ''.'' @ ie_field ie"

text \<open>The outer option is the panic of the text of limited length.\<close>

fun check_imports_loop ::
  "string list \<Rightarrow> string list \<Rightarrow> ImportEntry list \<Rightarrow> (VmError, unit) result option" where
  "check_imports_loop supported_imports required_import_names [] = Some (Ok ())"
| "check_imports_loop supported_imports required_import_names (required_import # required_imports) =
     (let full_name = full_import_name required_import in
      if full_name \<notin> set supported_imports then
        map_option (\<lambda>names. Err (StaticValidationErr (''Wasm contract requires unsupported import: '' @ [CHR 0x22] @
            full_name @ [CHR 0x22] @ ''. Required imports: '' @ names @ ''. Available imports: '' @
            debug_strs supported_imports @ ''.'')))
          (BTreeSet_to_string_limited required_import_names 200)
      else
        (case ie_external required_import of
           External_Function _ \<Rightarrow> check_imports_loop supported_imports required_import_names required_imports
         | _ \<Rightarrow> Some (Err (StaticValidationErr (''Wasm contract requires non-function import: '' @ [CHR 0x22] @
             full_name @ [CHR 0x22] @ ''. Right now, all supported imports are functions.'')))))"

definition check_wasm_imports :: "WasmModule \<Rightarrow> string list \<Rightarrow> (VmError, unit) result option" where
  "check_wasm_imports module supported_imports =
     (let required_imports = (case wm_import_section module of None \<Rightarrow> [] | Some entries \<Rightarrow> entries);
          required_import_names = map full_import_name required_imports in
      check_imports_loop supported_imports required_import_names required_imports)"

definition check_wasm_capabilities :: "WasmModule \<Rightarrow> string list \<Rightarrow> (VmError, unit) result option" where
  "check_wasm_capabilities module available_capabilities =
     (let required_capabilities = required_capabilities_from_module module in
      if \<not> set required_capabilities \<subseteq> set available_capabilities then
        let unavailable = filter (\<lambda>c. c \<notin> set available_capabilities) required_capabilities in
        map_option (\<lambda>names. Err (StaticValidationErr (''Wasm contract requires unavailable capabilities: '' @ names)))
          (BTreeSet_to_string_limited unavailable 200)
      else Some (Ok ()))"

record check_features =
  cf_iterator :: bool
  cf_allow_interface_version_7 :: bool

definition check_wasm ::
  "check_features \<Rightarrow> (bytes \<Rightarrow> (string, WasmModule) result) \<Rightarrow> bytes \<Rightarrow> string list
     \<Rightarrow> (VmError, unit) result option" where
  "check_wasm F deserialize_buffer wasm_code available_capabilities =
     (case deserialize_wasm deserialize_buffer wasm_code of
        Err e \<Rightarrow> Some (Err e)
      | Ok module \<Rightarrow>
          (case check_wasm_memories module of
             Err e \<Rightarrow> Some (Err e)
           | Ok _ \<Rightarrow>
               (case check_interface_version (cf_allow_interface_version_7 F) module of
                  Err e \<Rightarrow> Some (Err e)
                | Ok _ \<Rightarrow>
                    (case check_wasm_exports module of
                       Err e \<Rightarrow> Some (Err e)
                     | Ok _ \<Rightarrow>
                         (case check_wasm_imports module (SUPPORTED_IMPORTS (cf_iterator F)) of
                            None \<Rightarrow> None
                          | Some (Err e) \<Rightarrow> Some (Err e)
                          | Some (Ok _) \<Rightarrow> check_wasm_capabilities module available_capabilities)))))"

section \<open>Texts of limited length fit\<close>

lemma hide_elements_fits:
  "hide_elements n m closing out st = Some s \<Longrightarrow> length s \<le> m"
  by (induction n m closing out st rule: hide_elements.induct)
    (auto simp: Let_def min_def split: if_splits)

lemma collection_to_string_limited_fits:
  "collection_to_string_limited xs m opening closing = Some s \<Longrightarrow> length s \<le> m"
  by (auto simp: collection_to_string_limited_def Let_def split: if_splits prod.splits dest: hide_elements_fits)

text \<open>The bottom of the stack is the length of the opening text; hiding everything is tried last.\<close>

lemma push_elements_stack:
  "push_elements m xs first out st = (out', st') \<Longrightarrow> xs \<noteq> [] \<Longrightarrow>
    \<exists>us. st' = us @ length out # st \<and> length us < length xs"
proof (induction m xs first out st rule: push_elements.induct)
  case (2 m x xs first out st)
  show ?case
  proof (cases "length (out @ (if first then [CHR 0x22] else '', '' @ [CHR 0x22]) @ x @ [CHR 0x22]) > m \<or> xs = []")
    case True
    with 2(2) have "st' = length out # st" by (cases xs) (auto simp: Let_def split: if_splits)
    then show ?thesis by auto
  next
    case False
    then show ?thesis using 2(1) [OF refl refl] 2(2) by (fastforce simp: Let_def split: if_splits)
  qed
qed simp

lemma hide_elements_total:
  assumes "l + length (nat_str n) + 13 + length closing \<le> m" and "length us < n"
  shows "hide_elements n m closing out (us @ [l]) \<noteq> None"
  using assms(2)
proof (induction us)
  case Nil
  then show ?case using assms(1) by simp
next
  case (Cons u us)
  then show ?case by (simp add: Let_def)
qed

lemma limited_total:
  assumes "length xs < 10 ^ 100" and "length opening + length closing + 113 \<le> m"
  shows "collection_to_string_limited xs m opening closing \<noteq> None"
proof (cases xs)
  case Nil
  then show ?thesis using assms(2) by (simp add: collection_to_string_limited_def)
next
  case (Cons x ys)
  obtain out st where p: "push_elements m xs True opening [] = (out, st)" by fastforce
  then obtain us where us: "st = us @ [length opening]" "length us < length xs"
    using push_elements_stack [OF p] Cons by auto
  have "length (nat_str (length xs)) \<le> 100" using length_nat_str [of "length xs" 99] assms(1) by simp
  then have "length opening + length (nat_str (length xs)) + 13 + length closing \<le> m" using assms(2) by simp
  then show ?thesis
    using hide_elements_total [OF _ us(2)] p us(1) by (simp add: collection_to_string_limited_def)
qed

lemma BTreeSet_to_string_limited_total:
  assumes "length xs < 10 ^ 100"
  shows "BTreeSet_to_string_limited xs 200 \<noteq> None"
  unfolding BTreeSet_to_string_limited_def
  using order_le_less_trans [OF length_remdups_leq assms] by (intro limited_total) simp_all

section \<open>What the checks accept\<close>

lemma check_required_exports_iff:
  "check_required_exports av rs = Ok () \<longleftrightarrow> set rs \<subseteq> set av"
  by (induction rs) auto

lemma check_imports_loop_iff:
  assumes "BTreeSet_to_string_limited names 200 \<noteq> None"
  shows "check_imports_loop imps names is = Some (Ok ()) \<longleftrightarrow>
    (\<forall>ie\<in>set is. full_import_name ie \<in> set imps \<and> (\<exists>t. ie_external ie = External_Function t))"
  using assms by (induction "is") (auto simp: Let_def split: External.splits)

lemma check_imports_loop_total:
  "BTreeSet_to_string_limited names 200 \<noteq> None \<Longrightarrow> check_imports_loop imps names is \<noteq> None"
  by (induction "is") (auto simp: Let_def split: External.splits)

lemma check_wasm_memories_iff:
  "check_wasm_memories m = Ok () \<longleftrightarrow> (\<exists>initial. wm_memory_section m = Some [(initial, None)] \<and> initial \<le> MEMORY_LIMIT)"
  by (auto simp: check_wasm_memories_def Let_def length_Suc_conv not_less split: option.splits prod.splits if_splits)

lemma check_interface_version_iff:
  "check_interface_version a m = Ok () \<longleftrightarrow>
    (\<exists>v\<in>set (SUPPORTED_INTERFACE_VERSIONS a). exported_function_names m (Some INTERFACE_VERSION_PREFIX) = [v])"
  by (auto simp: check_interface_version_def split: list.splits if_splits)

text \<open>
  The name under which \<^verbatim>\<open>Instance::from_module\<close> registers each import function, and whether it does
  so in every build.
\<close>

definition import_name :: "import_call \<Rightarrow> string" where
  "import_name c = ''env.'' @
     (case c of
        DbRead _ \<Rightarrow> ''db_read''
      | DbWrite _ _ \<Rightarrow> ''db_write''
      | DbRemove _ \<Rightarrow> ''db_remove''
      | AddrValidate _ \<Rightarrow> ''addr_validate''
      | AddrCanonicalize _ _ \<Rightarrow> ''addr_canonicalize''
      | AddrHumanize _ _ \<Rightarrow> ''addr_humanize''
      | Secp256k1Verify _ _ _ \<Rightarrow> ''secp256k1_verify''
      | Secp256k1RecoverPubkey _ _ _ \<Rightarrow> ''secp256k1_recover_pubkey''
      | Ed25519Verify _ _ _ \<Rightarrow> ''ed25519_verify''
      | Ed25519BatchVerify _ _ _ \<Rightarrow> ''ed25519_batch_verify''
      | Debug _ \<Rightarrow> ''debug''
      | Abort _ \<Rightarrow> ''abort''
      | QueryChain _ \<Rightarrow> ''query_chain''
      | DbScan _ _ _ \<Rightarrow> ''db_scan''
      | DbNext _ \<Rightarrow> ''db_next'')"

definition import_available :: "bool \<Rightarrow> import_call \<Rightarrow> bool" where
  "import_available iterator c =
     (case c of DbScan _ _ _ \<Rightarrow> iterator | DbNext _ \<Rightarrow> iterator | _ \<Rightarrow> True)"

lemma supported_imports_provided:
  "n \<in> set (SUPPORTED_IMPORTS it) \<longleftrightarrow> (\<exists>c. import_name c = n \<and> import_available it c)"
proof
  let ?cs = "[Abort 0, DbRead 0, DbWrite 0 0, DbRemove 0, AddrValidate 0, AddrCanonicalize 0 0, AddrHumanize 0 0,
     Secp256k1Verify 0 0 0, Secp256k1RecoverPubkey 0 0 0, Ed25519Verify 0 0 0, Ed25519BatchVerify 0 0 0, Debug 0,
     QueryChain 0] @ (if it then [DbScan 0 0 0, DbNext 0] else [])"
  have "SUPPORTED_IMPORTS it = map import_name ?cs" by (simp add: SUPPORTED_IMPORTS_def import_name_def)
  moreover have "list_all (import_available it) ?cs" by (simp add: import_available_def)
  moreover assume "n \<in> set (SUPPORTED_IMPORTS it)"
  ultimately show "\<exists>c. import_name c = n \<and> import_available it c" by (auto simp: list_all_iff)
next
  assume "\<exists>c. import_name c = n \<and> import_available it c"
  then obtain c where "n = import_name c" "import_available it c" by blast
  then show "n \<in> set (SUPPORTED_IMPORTS it)"
    by (cases c) (simp_all add: import_name_def import_available_def SUPPORTED_IMPORTS_def)
qed

section \<open>Properties\<close>

text \<open>
  C24: The static check accepts exactly the modules the VM can host.  It always returns (the texts of
  its errors fit their limit), and it accepts a file if and only if the file decodes to a module
  with a single memory of at most 512 pages and no maximum of its own, with exactly one interface
  version marker, a supported one, with the exports the VM calls, whose imports are all functions
  that an instance provides in this build, and whose required capabilities are available.
\<close>

theorem check_wasm_exact:
  assumes "\<And>m is. deserialize_buffer code = Ok m \<Longrightarrow> wm_import_section m = Some is \<Longrightarrow> length is < 10 ^ 100"
    and "\<And>m. deserialize_buffer code = Ok m \<Longrightarrow> length (required_capabilities_from_module m) < 10 ^ 100"
  shows "check_wasm F deserialize_buffer code caps \<noteq> None \<and>
    (check_wasm F deserialize_buffer code caps = Some (Ok ()) \<longleftrightarrow>
      (\<exists>m initial v. deserialize_buffer code = Ok m \<and>
         wm_memory_section m = Some [(initial, None)] \<and> initial \<le> 512 \<and>
         exported_function_names m (Some ''interface_version_'') = [v] \<and>
         v \<in> set (SUPPORTED_INTERFACE_VERSIONS (cf_allow_interface_version_7 F)) \<and>
         {''allocate'', ''deallocate'', ''instantiate''} \<subseteq> set (exported_function_names m None) \<and>
         (\<forall>is. wm_import_section m = Some is \<longrightarrow> (\<forall>ie\<in>set is.
            (\<exists>c. import_name c = full_import_name ie \<and> import_available (cf_iterator F) c) \<and>
            (\<exists>t. ie_external ie = External_Function t))) \<and>
         set (required_capabilities_from_module m) \<subseteq> set caps))"
proof (cases "deserialize_buffer code")
  case (Err e)
  then show ?thesis by (simp add: check_wasm_def deserialize_wasm_def)
next
  case (Ok m)
  let ?is = "case wm_import_section m of None \<Rightarrow> [] | Some entries \<Rightarrow> entries"
  have names: "BTreeSet_to_string_limited (map full_import_name ?is) 200 \<noteq> None"
    using assms(1) [OF Ok] by (intro BTreeSet_to_string_limited_total) (simp split: option.split)
  have imps: "check_wasm_imports m (SUPPORTED_IMPORTS (cf_iterator F)) = Some (Ok ()) \<longleftrightarrow>
      (\<forall>is. wm_import_section m = Some is \<longrightarrow> (\<forall>ie\<in>set is.
        (\<exists>c. import_name c = full_import_name ie \<and> import_available (cf_iterator F) c) \<and>
        (\<exists>t. ie_external ie = External_Function t)))"
    unfolding check_wasm_imports_def Let_def check_imports_loop_iff [OF names] supported_imports_provided
    by (cases "wm_import_section m") auto
  have itotal: "check_wasm_imports m (SUPPORTED_IMPORTS (cf_iterator F)) \<noteq> None"
    unfolding check_wasm_imports_def Let_def by (rule check_imports_loop_total [OF names])
  have "BTreeSet_to_string_limited (filter (\<lambda>c. c \<notin> set caps) (required_capabilities_from_module m)) 200 \<noteq> None"
    by (rule BTreeSet_to_string_limited_total, rule order_le_less_trans [OF length_filter_le], rule assms(2) [OF Ok])
  then have caps: "check_wasm_capabilities m caps = Some (Ok ()) \<longleftrightarrow> set (required_capabilities_from_module m) \<subseteq> set caps"
    and ctotal: "check_wasm_capabilities m caps \<noteq> None"
    by (auto simp: check_wasm_capabilities_def Let_def)
  have exports: "check_wasm_exports m = Ok () \<longleftrightarrow>
      {''allocate'', ''deallocate'', ''instantiate''} \<subseteq> set (exported_function_names m None)"
    by (auto simp: check_wasm_exports_def check_required_exports_iff REQUIRED_EXPORTS_def)
  note parts = check_wasm_memories_iff [of m] check_interface_version_iff [of "cf_allow_interface_version_7 F" m]
    exports imps caps
  have "check_wasm F deserialize_buffer code caps = Some (Ok ()) \<longleftrightarrow>
      check_wasm_memories m = Ok () \<and> check_interface_version (cf_allow_interface_version_7 F) m = Ok () \<and>
      check_wasm_exports m = Ok () \<and> check_wasm_imports m (SUPPORTED_IMPORTS (cf_iterator F)) = Some (Ok ()) \<and>
      check_wasm_capabilities m caps = Some (Ok ())"
    using Ok by (auto simp: check_wasm_def deserialize_wasm_def split: result.splits option.splits)
  moreover have "check_wasm F deserialize_buffer code caps \<noteq> None"
    using Ok itotal ctotal by (auto simp: check_wasm_def deserialize_wasm_def split: result.splits option.splits)
  ultimately show ?thesis
    unfolding parts using Ok by (auto simp: MEMORY_LIMIT_def INTERFACE_VERSION_PREFIX_def)
qed

definition sample_module :: WasmModule where
  "sample_module =
     \<lparr>wm_memory_section = Some [(17, None)],
      wm_export_section = Some [(''memory'', Internal_Memory 0), (''interface_version_8'', Internal_Function 1),
        (''allocate'', Internal_Function 2), (''deallocate'', Internal_Function 3),
        (''instantiate'', Internal_Function 4), (''requires_staking'', Internal_Function 5)],
      wm_import_section = Some [\<lparr>ie_module = ''env'', ie_field = ''db_read'', ie_external = External_Function 0\<rparr>]\<rparr>"

theorem check_wasm_exact_witness:
  "check_wasm \<lparr>cf_iterator = True, cf_allow_interface_version_7 = False\<rparr> (\<lambda>_. Ok sample_module) [] [''staking''] =
     Some (Ok ())"
proof -
  let ?F = "\<lparr>cf_iterator = True, cf_allow_interface_version_7 = False\<rparr>"
  have names: "exported_function_names sample_module None =
      [''interface_version_8'', ''allocate'', ''deallocate'', ''instantiate'', ''requires_staking'']"
    "exported_function_names sample_module (Some ''interface_version_'') = [''interface_version_8'']"
    "required_capabilities_from_module sample_module = [''staking'']"
    by (simp_all add: exported_function_names_def sample_module_def required_capabilities_from_module_def
        REQUIRES_PREFIX_def starts_with_def List.map_filter_def)
  have "check_wasm ?F (\<lambda>_. Ok sample_module) [] [''staking''] = Some (Ok ()) \<longleftrightarrow>
      (\<exists>m initial v. Ok sample_module = (Ok m :: (string, WasmModule) result) \<and>
         wm_memory_section m = Some [(initial, None)] \<and> initial \<le> 512 \<and>
         exported_function_names m (Some ''interface_version_'') = [v] \<and>
         v \<in> set (SUPPORTED_INTERFACE_VERSIONS (cf_allow_interface_version_7 ?F)) \<and>
         {''allocate'', ''deallocate'', ''instantiate''} \<subseteq> set (exported_function_names m None) \<and>
         (\<forall>is. wm_import_section m = Some is \<longrightarrow> (\<forall>ie\<in>set is.
            (\<exists>c. import_name c = full_import_name ie \<and> import_available (cf_iterator ?F) c) \<and>
            (\<exists>t. ie_external ie = External_Function t))) \<and>
         set (required_capabilities_from_module m) \<subseteq> set [''staking''])"
    by (rule check_wasm_exact [THEN conjunct2]) (auto simp: names, simp add: sample_module_def)
  moreover have "\<exists>c. import_name c = ''env.db_read'' \<and> import_available True c"
    by (rule exI [of _ "DbRead 0"]) (simp add: import_name_def import_available_def)
  ultimately show ?thesis
    using names by (simp add: SUPPORTED_INTERFACE_VERSIONS_def) (simp add: sample_module_def full_import_name_def)
qed

end
