(* ===== verification/WasmBackend.thy ===== *)
theory WasmBackend
  imports CwMath Encoding Errors
begin

text \<open>
  The VM's configuration of the Wasm engine (\<^verbatim>\<open>packages/vm/src/wasm_backend\<close> and \<^verbatim>\<open>size.rs\<close>): the
  gatekeeper that looks at every operator of a contract's code, the limit on its memory, and
  the store that puts both in front of the compiler.  Wasmer itself (the parser, the compiler,
  the base tunables, metering) is a parameter.
\<close>

section \<open>Sizes\<close>

text \<open>\<^verbatim>\<open>size.rs\<close>; \<^verbatim>\<open>usize\<close> has 64 bits.  \<open>None\<close> is an overflow in a build with checks.\<close>

type_synonym Size = u64

definition Size_kilo :: "bool \<Rightarrow> u64 \<Rightarrow> Size option" where
  "Size_kilo checks n = prim_mul checks n 1000"

definition Size_kibi :: "bool \<Rightarrow> u64 \<Rightarrow> Size option" where
  "Size_kibi checks n = prim_mul checks n 1024"

definition Size_mega :: "bool \<Rightarrow> u64 \<Rightarrow> Size option" where
  "Size_mega checks n = Option.bind (prim_mul checks n 1000) (\<lambda>m. prim_mul checks m 1000)"

definition Size_mebi :: "bool \<Rightarrow> u64 \<Rightarrow> Size option" where
  "Size_mebi checks n = Option.bind (prim_mul checks n 1024) (\<lambda>m. prim_mul checks m 1024)"

definition Size_giga :: "bool \<Rightarrow> u64 \<Rightarrow> Size option" where
  "Size_giga checks n = Option.bind (Size_mega checks n) (\<lambda>m. prim_mul checks m 1000)"

definition Size_gibi :: "bool \<Rightarrow> u64 \<Rightarrow> Size option" where
  "Size_gibi checks n = Option.bind (Size_mebi checks n) (\<lambda>m. prim_mul checks m 1024)"

section \<open>The gatekeeper\<close>

text \<open>
  \<^verbatim>\<open>gatekeeper.rs\<close>.  An operator of the Wasm parser is the name of its variant and the text its
  \<^verbatim>\<open>Debug\<close> prints; the code looks at nothing else of it.  The seven lists are the groups of the
  \<^verbatim>\<open>match\<close>, in its order.
\<close>

record Operator =
  op_name :: string
  op_debug :: string

record GatekeeperConfig =
  allow_floats :: bool
  allow_feature_bulk_memory_operations :: bool
  allow_feature_reference_types :: bool
  allow_feature_simd :: bool
  allow_feature_exception_handling :: bool
  allow_feature_threads :: bool

record Gatekeeper =
  gk_config :: GatekeeperConfig

definition Gatekeeper_new :: "GatekeeperConfig \<Rightarrow> Gatekeeper" where
  "Gatekeeper_new config = \<lparr>gk_config = config\<rparr>"

definition Gatekeeper_default :: Gatekeeper where
  "Gatekeeper_default = Gatekeeper_new
     \<lparr>allow_floats = False,
      allow_feature_bulk_memory_operations = False,
      allow_feature_reference_types = False,
      allow_feature_simd = False,
      allow_feature_exception_handling = False,
      allow_feature_threads = False\<rparr>"

record FunctionGatekeeper =
  fg_config :: GatekeeperConfig

definition FunctionGatekeeper_new :: "GatekeeperConfig \<Rightarrow> FunctionGatekeeper" where
  "FunctionGatekeeper_new config = \<lparr>fg_config = config\<rparr>"

definition generate_function_middleware :: "Gatekeeper \<Rightarrow> FunctionGatekeeper" where
  "generate_function_middleware gk = FunctionGatekeeper_new (gk_config gk)"

definition MIDDLEWARE_NAME :: string where
  "MIDDLEWARE_NAME = ''Gatekeeper''"

definition core_operators :: "string list" where
  "core_operators =
     [''Unreachable'', ''Nop'', ''Block'', ''Loop'', ''If'', ''Else'', ''End'', ''Br'', ''BrIf'',
      ''BrTable'', ''Return'', ''Call'', ''CallIndirect'', ''Drop'', ''Select'', ''LocalGet'',
      ''LocalSet'', ''LocalTee'', ''GlobalGet'', ''GlobalSet'', ''I32Load'', ''I64Load'',
      ''I32Load8S'', ''I32Load8U'', ''I32Load16S'', ''I32Load16U'', ''I64Load8S'', ''I64Load8U'',
      ''I64Load16S'', ''I64Load16U'', ''I64Load32S'', ''I64Load32U'', ''I32Store'', ''I64Store'',
      ''I32Store8'', ''I32Store16'', ''I64Store8'', ''I64Store16'', ''I64Store32'', ''MemorySize'',
      ''MemoryGrow'', ''I32Const'', ''I64Const'', ''I32Eqz'', ''I32Eq'', ''I32Ne'', ''I32LtS'',
      ''I32LtU'', ''I32GtS'', ''I32GtU'', ''I32LeS'', ''I32LeU'', ''I32GeS'', ''I32GeU'',
      ''I64Eqz'', ''I64Eq'', ''I64Ne'', ''I64LtS'', ''I64LtU'', ''I64GtS'', ''I64GtU'', ''I64LeS'',
      ''I64LeU'', ''I64GeS'', ''I64GeU'', ''I32Clz'', ''I32Ctz'', ''I32Popcnt'', ''I32Add'',
      ''I32Sub'', ''I32Mul'', ''I32DivS'', ''I32DivU'', ''I32RemS'', ''I32RemU'', ''I32And'',
      ''I32Or'', ''I32Xor'', ''I32Shl'', ''I32ShrS'', ''I32ShrU'', ''I32Rotl'', ''I32Rotr'',
      ''I64Clz'', ''I64Ctz'', ''I64Popcnt'', ''I64Add'', ''I64Sub'', ''I64Mul'', ''I64DivS'',
      ''I64DivU'', ''I64RemS'', ''I64RemU'', ''I64And'', ''I64Or'', ''I64Xor'', ''I64Shl'',
      ''I64ShrS'', ''I64ShrU'', ''I64Rotl'', ''I64Rotr'', ''I32WrapI64'', ''I32Extend8S'',
      ''I32Extend16S'', ''I64Extend8S'', ''I64Extend16S'', ''I64ExtendI32S'', ''I64Extend32S'',
      ''I64ExtendI32U'']"

definition reference_type_operators :: "string list" where
  "reference_type_operators =
     [''RefNull'', ''RefIsNull'', ''RefFunc'', ''ReturnCall'', ''ReturnCallIndirect'',
      ''TypedSelect'', ''TableGet'', ''TableSet'', ''TableGrow'', ''TableSize'']"

definition threads_operators :: "string list" where
  "threads_operators =
     [''MemoryAtomicNotify'', ''MemoryAtomicWait32'', ''MemoryAtomicWait64'', ''AtomicFence'',
      ''I32AtomicLoad'', ''I64AtomicLoad'', ''I32AtomicLoad8U'', ''I32AtomicLoad16U'',
      ''I64AtomicLoad8U'', ''I64AtomicLoad16U'', ''I64AtomicLoad32U'', ''I32AtomicStore'',
      ''I64AtomicStore'', ''I32AtomicStore8'', ''I32AtomicStore16'', ''I64AtomicStore8'',
      ''I64AtomicStore16'', ''I64AtomicStore32'', ''I32AtomicRmwAdd'', ''I64AtomicRmwAdd'',
      ''I32AtomicRmw8AddU'', ''I32AtomicRmw16AddU'', ''I64AtomicRmw8AddU'', ''I64AtomicRmw16AddU'',
      ''I64AtomicRmw32AddU'', ''I32AtomicRmwSub'', ''I64AtomicRmwSub'', ''I32AtomicRmw8SubU'',
      ''I32AtomicRmw16SubU'', ''I64AtomicRmw8SubU'', ''I64AtomicRmw16SubU'', ''I64AtomicRmw32SubU'',
      ''I32AtomicRmwAnd'', ''I64AtomicRmwAnd'', ''I32AtomicRmw8AndU'', ''I32AtomicRmw16AndU'',
      ''I64AtomicRmw8AndU'', ''I64AtomicRmw16AndU'', ''I64AtomicRmw32AndU'', ''I32AtomicRmwOr'',
      ''I64AtomicRmwOr'', ''I32AtomicRmw8OrU'', ''I32AtomicRmw16OrU'', ''I64AtomicRmw8OrU'',
      ''I64AtomicRmw16OrU'', ''I64AtomicRmw32OrU'', ''I32AtomicRmwXor'', ''I64AtomicRmwXor'',
      ''I32AtomicRmw8XorU'', ''I32AtomicRmw16XorU'', ''I64AtomicRmw8XorU'', ''I64AtomicRmw16XorU'',
      ''I64AtomicRmw32XorU'', ''I32AtomicRmwXchg'', ''I64AtomicRmwXchg'', ''I32AtomicRmw8XchgU'',
      ''I32AtomicRmw16XchgU'', ''I64AtomicRmw8XchgU'', ''I64AtomicRmw16XchgU'',
      ''I64AtomicRmw32XchgU'', ''I32AtomicRmwCmpxchg'', ''I64AtomicRmwCmpxchg'',
      ''I32AtomicRmw8CmpxchgU'', ''I32AtomicRmw16CmpxchgU'', ''I64AtomicRmw8CmpxchgU'',
      ''I64AtomicRmw16CmpxchgU'', ''I64AtomicRmw32CmpxchgU'']"

definition simd_operators :: "string list" where
  "simd_operators =
     [''V128Load'', ''V128Store'', ''V128Const'', ''I8x16Splat'', ''I8x16ExtractLaneS'',
      ''I8x16ExtractLaneU'', ''I8x16ReplaceLane'', ''I16x8Splat'', ''I16x8ExtractLaneS'',
      ''I16x8ExtractLaneU'', ''I16x8ReplaceLane'', ''I32x4Splat'', ''I32x4ExtractLane'',
      ''I32x4ReplaceLane'', ''I64x2Splat'', ''I64x2ExtractLane'', ''I64x2ReplaceLane'', ''I8x16Eq'',
      ''I8x16Ne'', ''I8x16LtS'', ''I8x16LtU'', ''I8x16GtS'', ''I8x16GtU'', ''I8x16LeS'',
      ''I8x16LeU'', ''I8x16GeS'', ''I8x16GeU'', ''I16x8Eq'', ''I16x8Ne'', ''I16x8LtS'',
      ''I16x8LtU'', ''I16x8GtS'', ''I16x8GtU'', ''I16x8LeS'', ''I16x8LeU'', ''I16x8GeS'',
      ''I16x8GeU'', ''I32x4Eq'', ''I32x4Ne'', ''I32x4LtS'', ''I32x4LtU'', ''I32x4GtS'',
      ''I32x4GtU'', ''I32x4LeS'', ''I32x4LeU'', ''I32x4GeS'', ''I32x4GeU'', ''V128Not'',
      ''V128And'', ''V128AndNot'', ''V128Or'', ''V128Xor'', ''V128Bitselect'', ''I8x16Abs'',
      ''I8x16Neg'', ''V128AnyTrue'', ''I8x16AllTrue'', ''I8x16Bitmask'', ''I8x16Shl'',
      ''I8x16ShrS'', ''I8x16ShrU'', ''I8x16Add'', ''I8x16AddSatS'', ''I8x16AddSatU'', ''I8x16Sub'',
      ''I8x16SubSatS'', ''I8x16SubSatU'', ''I8x16MinS'', ''I8x16MinU'', ''I8x16MaxS'',
      ''I8x16MaxU'', ''I16x8Abs'', ''I16x8Neg'', ''I16x8AllTrue'', ''I16x8Bitmask'', ''I16x8Shl'',
      ''I16x8ShrS'', ''I16x8ShrU'', ''I16x8Add'', ''I16x8AddSatS'', ''I16x8AddSatU'', ''I16x8Sub'',
      ''I16x8SubSatS'', ''I16x8SubSatU'', ''I16x8Mul'', ''I16x8MinS'', ''I16x8MinU'', ''I16x8MaxS'',
      ''I16x8MaxU'', ''I32x4Abs'', ''I32x4Neg'', ''I32x4AllTrue'', ''I32x4Bitmask'', ''I32x4Shl'',
      ''I32x4ShrS'', ''I32x4ShrU'', ''I32x4Add'', ''I32x4Sub'', ''I32x4Mul'', ''I32x4MinS'',
      ''I32x4MinU'', ''I32x4MaxS'', ''I32x4MaxU'', ''I32x4DotI16x8S'', ''I64x2Neg'', ''I64x2Shl'',
      ''I64x2ShrS'', ''I64x2ShrU'', ''I64x2Add'', ''I64x2Sub'', ''I64x2Mul'', ''I8x16Swizzle'',
      ''I8x16Shuffle'', ''V128Load8Splat'', ''V128Load16Splat'', ''V128Load32Splat'',
      ''V128Load32Zero'', ''V128Load64Splat'', ''V128Load64Zero'', ''I8x16NarrowI16x8S'',
      ''I8x16NarrowI16x8U'', ''I16x8NarrowI32x4S'', ''I16x8NarrowI32x4U'', ''I16x8ExtendLowI8x16S'',
      ''I16x8ExtendHighI8x16S'', ''I16x8ExtendLowI8x16U'', ''I16x8ExtendHighI8x16U'',
      ''I32x4ExtendLowI16x8S'', ''I32x4ExtendHighI16x8S'', ''I32x4ExtendLowI16x8U'',
      ''I32x4ExtendHighI16x8U'', ''V128Load8x8S'', ''V128Load8x8U'', ''V128Load16x4S'',
      ''V128Load16x4U'', ''V128Load32x2S'', ''V128Load32x2U'', ''I8x16RoundingAverageU'',
      ''I16x8RoundingAverageU'', ''V128Load8Lane'', ''V128Load16Lane'', ''V128Load32Lane'',
      ''V128Load64Lane'', ''V128Store8Lane'', ''V128Store16Lane'', ''V128Store32Lane'',
      ''V128Store64Lane'', ''I64x2Eq'', ''I64x2Ne'', ''I64x2LtS'', ''I64x2GtS'', ''I64x2LeS'',
      ''I64x2GeS'', ''I8x16Popcnt'', ''I16x8ExtAddPairwiseI8x16S'', ''I16x8ExtAddPairwiseI8x16U'',
      ''I16x8Q15MulrSatS'', ''I16x8ExtMulLowI8x16S'', ''I16x8ExtMulHighI8x16S'',
      ''I16x8ExtMulLowI8x16U'', ''I16x8ExtMulHighI8x16U'', ''I32x4ExtAddPairwiseI16x8S'',
      ''I32x4ExtAddPairwiseI16x8U'', ''I32x4ExtMulLowI16x8S'', ''I32x4ExtMulHighI16x8S'',
      ''I32x4ExtMulLowI16x8U'', ''I32x4ExtMulHighI16x8U'', ''I64x2Abs'', ''I64x2AllTrue'',
      ''I64x2Bitmask'', ''I64x2ExtendLowI32x4S'', ''I64x2ExtendHighI32x4S'',
      ''I64x2ExtendLowI32x4U'', ''I64x2ExtendHighI32x4U'', ''I64x2ExtMulLowI32x4S'',
      ''I64x2ExtMulHighI32x4S'', ''I64x2ExtMulLowI32x4U'', ''I64x2ExtMulHighI32x4U'',
      ''I32x4TruncSatF64x2SZero'', ''I32x4TruncSatF64x2UZero'', ''F64x2ConvertLowI32x4S'',
      ''F64x2ConvertLowI32x4U'', ''F32x4DemoteF64x2Zero'', ''F64x2PromoteLowF32x4'',
      ''I8x16RelaxedSwizzle'', ''I32x4RelaxedTruncSatF32x4S'', ''I32x4RelaxedTruncSatF32x4U'',
      ''I32x4RelaxedTruncSatF64x2SZero'', ''I32x4RelaxedTruncSatF64x2UZero'', ''I8x16LaneSelect'',
      ''I16x8LaneSelect'', ''I32x4LaneSelect'', ''I64x2LaneSelect'']"

definition float_operators :: "string list" where
  "float_operators =
     [''F32Load'', ''F64Load'', ''F32Store'', ''F64Store'', ''F32Const'', ''F64Const'', ''F32Eq'',
      ''F32Ne'', ''F32Lt'', ''F32Gt'', ''F32Le'', ''F32Ge'', ''F64Eq'', ''F64Ne'', ''F64Lt'',
      ''F64Gt'', ''F64Le'', ''F64Ge'', ''F32Abs'', ''F32Neg'', ''F32Ceil'', ''F32Floor'',
      ''F32Trunc'', ''F32Nearest'', ''F32Sqrt'', ''F32Add'', ''F32Sub'', ''F32Mul'', ''F32Div'',
      ''F32Min'', ''F32Max'', ''F32Copysign'', ''F64Abs'', ''F64Neg'', ''F64Ceil'', ''F64Floor'',
      ''F64Trunc'', ''F64Nearest'', ''F64Sqrt'', ''F64Add'', ''F64Sub'', ''F64Mul'', ''F64Div'',
      ''F64Min'', ''F64Max'', ''F64Copysign'', ''I32TruncF32S'', ''I32TruncF32U'', ''I32TruncF64S'',
      ''I32TruncF64U'', ''I64TruncF32S'', ''I64TruncF32U'', ''I64TruncF64S'', ''I64TruncF64U'',
      ''F32ConvertI32S'', ''F32ConvertI32U'', ''F32ConvertI64S'', ''F32ConvertI64U'',
      ''F32DemoteF64'', ''F64ConvertI32S'', ''F64ConvertI32U'', ''F64ConvertI64S'',
      ''F64ConvertI64U'', ''F64PromoteF32'', ''I32ReinterpretF32'', ''I64ReinterpretF64'',
      ''F32ReinterpretI32'', ''F64ReinterpretI64'', ''I32TruncSatF32S'', ''I32TruncSatF32U'',
      ''I32TruncSatF64S'', ''I32TruncSatF64U'', ''I64TruncSatF32S'', ''I64TruncSatF32U'',
      ''I64TruncSatF64S'', ''I64TruncSatF64U'', ''F32x4Splat'', ''F32x4ExtractLane'',
      ''F32x4ReplaceLane'', ''F64x2Splat'', ''F64x2ExtractLane'', ''F64x2ReplaceLane'', ''F32x4Eq'',
      ''F32x4Ne'', ''F32x4Lt'', ''F32x4Gt'', ''F32x4Le'', ''F32x4Ge'', ''F64x2Eq'', ''F64x2Ne'',
      ''F64x2Lt'', ''F64x2Gt'', ''F64x2Le'', ''F64x2Ge'', ''F32x4Ceil'', ''F32x4Floor'',
      ''F32x4Trunc'', ''F32x4Nearest'', ''F64x2Ceil'', ''F64x2Floor'', ''F64x2Trunc'',
      ''F64x2Nearest'', ''F32x4Abs'', ''F32x4Neg'', ''F32x4Sqrt'', ''F32x4Add'', ''F32x4Sub'',
      ''F32x4Mul'', ''F32x4Div'', ''F32x4Min'', ''F32x4Max'', ''F32x4PMin'', ''F32x4PMax'',
      ''F64x2Abs'', ''F64x2Neg'', ''F64x2Sqrt'', ''F64x2Add'', ''F64x2Sub'', ''F64x2Mul'',
      ''F64x2Div'', ''F64x2Min'', ''F64x2Max'', ''F64x2PMin'', ''F64x2PMax'',
      ''I32x4TruncSatF32x4S'', ''I32x4TruncSatF32x4U'', ''F32x4ConvertI32x4S'',
      ''F32x4ConvertI32x4U'', ''F32x4RelaxedMin'', ''F32x4RelaxedMax'', ''F64x2RelaxedMin'',
      ''F64x2RelaxedMax'', ''F32x4Fma'', ''F32x4Fms'', ''F64x2Fma'', ''F64x2Fms'']"

definition bulk_memory_operators :: "string list" where
  "bulk_memory_operators =
     [''MemoryInit'', ''DataDrop'', ''MemoryCopy'', ''MemoryFill'', ''TableInit'', ''ElemDrop'',
      ''TableCopy'', ''TableFill'']"

definition exception_operators :: "string list" where
  "exception_operators =
     [''Try'', ''Catch'', ''Throw'', ''Rethrow'', ''Delegate'', ''CatchAll'']"

text \<open>
  \<open>feed\<close> works on the operators passed on so far, the state of the engine's reader; an error is
  the name of the middleware and a message.  The \<^verbatim>\<open>match\<close> covers every operator of the parser, so
  the last branch is never taken.
\<close>

type_synonym MiddlewareError = "string \<times> string"

definition push_operator :: "Operator \<Rightarrow> (Operator list, MiddlewareError, unit) M" where
  "push_operator op = modifyM (\<lambda>pushed. pushed @ [op])"

definition refuse :: "string \<Rightarrow> string \<Rightarrow> string \<Rightarrow> (Operator list, MiddlewareError, unit) M" where
  "refuse before debug after = failM (MIDDLEWARE_NAME, before @ debug @ after)"

definition feed :: "FunctionGatekeeper \<Rightarrow> Operator \<Rightarrow> (Operator list, MiddlewareError, unit) M" where
  "feed self op =
     (let config = fg_config self; name = op_name op; debug = op_debug op
      in if name \<in> set core_operators then push_operator op
         else if name \<in> set reference_type_operators then
           if allow_feature_reference_types config then push_operator op
           else refuse ''Reference type operation detected: '' debug ''. Reference types are not supported.''
         else if name \<in> set threads_operators then
           if allow_feature_threads config then push_operator op
           else refuse ''Threads operator detected: '' debug ''. The Wasm Threads extension is not supported.''
         else if name \<in> set simd_operators then
           if allow_feature_simd config then push_operator op
           else refuse ''SIMD operator detected: '' debug ''. The Wasm SIMD extension is not supported.''
         else if name \<in> set float_operators then
           if allow_floats config then push_operator op
           else refuse ''Float operator detected: '' debug ''. The use of floats is not supported.''
         else if name \<in> set bulk_memory_operators then
           if allow_feature_bulk_memory_operations config then push_operator op
           else refuse ''Bulk memory operation detected: '' debug ''. Bulk memory operations are not supported.''
         else if name \<in> set exception_operators then
           if allow_feature_exception_handling config then push_operator op
           else refuse ''Exception handling operation detected: '' debug ''. Exception handling is not supported.''
         else panicM)"

text \<open>The engine feeds the operators of a function's body in their order and stops at the first error.\<close>

fun feed_body :: "FunctionGatekeeper \<Rightarrow> Operator list \<Rightarrow> (Operator list, MiddlewareError, unit) M" where
  "feed_body self [] = returnM ()"
| "feed_body self (op # ops) = thenM (feed self op) (feed_body self ops)"

section \<open>The limit on a contract's memory\<close>

text \<open>
  \<^verbatim>\<open>limiting_tunables.rs\<close>.  \<open>Tunables\<close> is Wasmer's trait: how memories and tables are laid out and
  made.  \<open>generic\<close> is the constructor \<^verbatim>\<open>MemoryError::Generic\<close>.
\<close>

record MemoryType =
  minimum :: u32
  maximum :: "u32 option"
  shared :: bool

record ('mstyle, 'ttype, 'tstyle, 'loc, 'mem, 'tab, 'e) Tunables =
  memory_style :: "MemoryType \<Rightarrow> 'mstyle"
  table_style :: "'ttype \<Rightarrow> 'tstyle"
  create_host_memory :: "MemoryType \<Rightarrow> 'mstyle \<Rightarrow> ('e, 'mem) result"
  create_vm_memory :: "MemoryType \<Rightarrow> 'mstyle \<Rightarrow> 'loc \<Rightarrow> ('e, 'mem) result"
  create_host_table :: "'ttype \<Rightarrow> 'tstyle \<Rightarrow> (string, 'tab) result"
  create_vm_table :: "'ttype \<Rightarrow> 'tstyle \<Rightarrow> 'loc \<Rightarrow> (string, 'tab) result"

definition adjust_memory :: "u32 \<Rightarrow> MemoryType \<Rightarrow> MemoryType" where
  "adjust_memory limit requested =
     (if maximum requested = None then requested\<lparr>maximum := Some limit\<rparr> else requested)"

definition validate_memory :: "(string \<Rightarrow> 'e) \<Rightarrow> u32 \<Rightarrow> MemoryType \<Rightarrow> ('e, unit) result" where
  "validate_memory generic limit ty =
     (if minimum ty > limit then Err (generic ''Minimum exceeds the allowed memory limit'')
      else case maximum ty of
        Some most \<Rightarrow>
          if most > limit then Err (generic ''Maximum exceeds the allowed memory limit'') else Ok ()
      | None \<Rightarrow> Err (generic ''Maximum unset''))"

text \<open>\<^verbatim>\<open>LimitingTunables::new(base, limit)\<close> as an implementation of the trait.\<close>

definition LimitingTunables ::
  "(string \<Rightarrow> 'e) \<Rightarrow> ('mstyle, 'ttype, 'tstyle, 'loc, 'mem, 'tab, 'e) Tunables \<Rightarrow> u32 \<Rightarrow>
     ('mstyle, 'ttype, 'tstyle, 'loc, 'mem, 'tab, 'e) Tunables" where
  "LimitingTunables generic base limit =
     \<lparr>memory_style = (\<lambda>memory. memory_style base (adjust_memory limit memory)),
      table_style = table_style base,
      create_host_memory = (\<lambda>ty style.
        let adjusted = adjust_memory limit ty
        in case validate_memory generic limit adjusted of
             Err e \<Rightarrow> Err e
           | Ok _ \<Rightarrow> create_host_memory base adjusted style),
      create_vm_memory = (\<lambda>ty style location.
        let adjusted = adjust_memory limit ty
        in case validate_memory generic limit adjusted of
             Err e \<Rightarrow> Err e
           | Ok _ \<Rightarrow> create_vm_memory base adjusted style location),
      create_host_table = create_host_table base,
      create_vm_table = create_vm_table base\<rparr>"

section \<open>The store\<close>

text \<open>
  \<^verbatim>\<open>store.rs\<close> and \<^verbatim>\<open>compile.rs\<close>.  \<open>wasmer\<close> collects what they use of Wasmer: the metering middleware,
  the engine of a compiler with its list of middlewares (\<open>True\<close> for Cranelift, \<open>False\<close> for
  Singlepass), the engine without a compiler, stores with and without tunables, and the
  compilation of a module in a store.
\<close>

definition WASM_PAGE_SIZE :: u64 where
  "WASM_PAGE_SIZE = 65536"

definition MAX_WASM_PAGES :: u32 where
  "MAX_WASM_PAGES = 65536"

record ('mw, 'engine, 'tun, 'store, 'm) wasmer =
  wz_gatekeeper :: "Gatekeeper \<Rightarrow> 'mw"
  wz_metering :: "u64 \<Rightarrow> (Operator \<Rightarrow> u64) \<Rightarrow> 'mw"
  wz_engine :: "bool \<Rightarrow> 'mw list \<Rightarrow> 'engine"
  wz_headless :: 'engine
  wz_base_tunables :: 'tun
  wz_store_new :: "'engine \<Rightarrow> 'store"
  wz_store_new_with_tunables :: "'engine \<Rightarrow> 'tun \<Rightarrow> 'store"
  wz_module_new :: "'store \<Rightarrow> bytes \<Rightarrow> (string, 'm) result"

definition cost :: "Operator \<Rightarrow> u64" where
  "cost operator = 150000"

definition limit_to_pages :: "Size \<Rightarrow> u32" where
  "limit_to_pages limit =
     (let limit_in_pages = limit div WASM_PAGE_SIZE
      in if unat limit_in_pages < 2 ^ 32 then min (ucast limit_in_pages) MAX_WASM_PAGES
         else MAX_WASM_PAGES)"

type_synonym ('mstyle, 'ttype, 'tstyle, 'loc, 'mem, 'tab, 'e, 'mw, 'engine, 'store, 'm) wasmer_engine =
  "('mw, 'engine, ('mstyle, 'ttype, 'tstyle, 'loc, 'mem, 'tab, 'e) Tunables, 'store, 'm) wasmer"

definition make_store_with_engine ::
  "('mstyle, 'ttype, 'tstyle, 'loc, 'mem, 'tab, 'e, 'mw, 'engine, 'store, 'm) wasmer_engine \<Rightarrow>
     (string \<Rightarrow> 'e) \<Rightarrow> 'engine \<Rightarrow> Size option \<Rightarrow> 'store" where
  "make_store_with_engine W generic engine memory_limit =
     (case memory_limit of
        Some limit \<Rightarrow>
          wz_store_new_with_tunables W engine
            (LimitingTunables generic (wz_base_tunables W) (limit_to_pages limit))
      | None \<Rightarrow> wz_store_new W engine)"

definition make_compile_time_store ::
  "('mstyle, 'ttype, 'tstyle, 'loc, 'mem, 'tab, 'e, 'mw, 'engine, 'store, 'm) wasmer_engine \<Rightarrow>
     (string \<Rightarrow> 'e) \<Rightarrow> bool \<Rightarrow> Size option \<Rightarrow> 'mw list \<Rightarrow> 'store" where
  "make_compile_time_store W generic cranelift memory_limit middlewares =
     (let gas_limit = 0;
          deterministic = wz_gatekeeper W Gatekeeper_default;
          metering = wz_metering W gas_limit cost;
          engine = wz_engine W cranelift (middlewares @ [deterministic, metering])
      in make_store_with_engine W generic engine memory_limit)"

definition make_runtime_store ::
  "('mstyle, 'ttype, 'tstyle, 'loc, 'mem, 'tab, 'e, 'mw, 'engine, 'store, 'm) wasmer_engine \<Rightarrow>
     (string \<Rightarrow> 'e) \<Rightarrow> Size option \<Rightarrow> 'store" where
  "make_runtime_store W generic memory_limit =
     make_store_with_engine W generic (wz_headless W) memory_limit"

definition compile_code ::
  "('mstyle, 'ttype, 'tstyle, 'loc, 'mem, 'tab, 'e, 'mw, 'engine, 'store, 'm) wasmer_engine \<Rightarrow>
     (string \<Rightarrow> 'e) \<Rightarrow> bool \<Rightarrow> bytes \<Rightarrow> Size option \<Rightarrow> 'mw list \<Rightarrow> (VmError, 'm) result" where
  "compile_code W generic cranelift code memory_limit middlewares =
     (let store = make_compile_time_store W generic cranelift memory_limit middlewares
      in map_errR (\<lambda>e. CompileErr (''Could not compile: '' @ e)) (wz_module_new W store code))"

section \<open>Lemmas\<close>

text \<open>
  What the name of an operator tells: it is about floating point numbers, about vectors, or it
  works on shared memory.
\<close>

fun occurs :: "string \<Rightarrow> string \<Rightarrow> bool" where
  "occurs p [] = (p = [])"
| "occurs p (c # s) = (starts_with (c # s) p \<or> occurs p s)"

definition marked :: "string \<Rightarrow> bool" where
  "marked name \<longleftrightarrow> list_ex (\<lambda>p. occurs p name) [''F32'', ''F64'', ''V128'', ''x16'', ''x8'', ''x4'', ''x2'', ''Atomic'']"

lemma core_unmarked: "list_all (\<lambda>name. \<not> marked name) core_operators"
  by code_simp

lemma floats_marked: "list_all marked float_operators" "list_all marked simd_operators" "list_all marked threads_operators"
  by code_simp+

lemma refuse_fails: "\<exists>before' after'. refuse before debug after pushed = (Fail (''Gatekeeper'', before' @ debug @ after'), pushed)"
  by (auto simp: refuse_def m_simps MIDDLEWARE_NAME_def)

lemma refuse_state: "refuse before debug after pushed = (fst (refuse before debug after []), pushed)"
  by (simp add: refuse_def m_simps)

lemma feed_default:
  "feed (generate_function_middleware Gatekeeper_default) op pushed =
     (if op_name op \<in> set core_operators then (Ret (), pushed @ [op])
      else (fst (feed (generate_function_middleware Gatekeeper_default) op []), pushed))"
  using refuse_state [of _ _ _ pushed]
  by (simp add: feed_def Let_def push_operator_def m_simps Gatekeeper_default_def Gatekeeper_new_def
      generate_function_middleware_def FunctionGatekeeper_new_def)

definition known_operators :: "string list" where
  "known_operators =
     core_operators @ reference_type_operators @ threads_operators @ simd_operators @ float_operators @
     bulk_memory_operators @ exception_operators"

lemma feed_rejects:
  assumes "op_name op \<in> set known_operators" "op_name op \<notin> set core_operators"
  shows "\<exists>before after. feed (generate_function_middleware Gatekeeper_default) op pushed =
    (Fail (''Gatekeeper'', before @ op_debug op @ after), pushed)"
  using assms refuse_fails
  by (auto simp: known_operators_def feed_def Let_def Gatekeeper_default_def Gatekeeper_new_def
      generate_function_middleware_def FunctionGatekeeper_new_def)

lemma feed_body_default:
  assumes "\<forall>op\<in>set ops. op_name op \<in> set known_operators"
  shows "\<exists>r. feed_body (generate_function_middleware Gatekeeper_default) ops pushed =
      (r, pushed @ takeWhile (\<lambda>op. op_name op \<in> set core_operators) ops) \<and>
    ((\<forall>op\<in>set ops. op_name op \<in> set core_operators) \<and> r = Ret () \<or>
     (\<exists>accepted op rest before after.
        ops = accepted @ op # rest \<and> op_name op \<notin> set core_operators \<and>
        (\<forall>a\<in>set accepted. op_name a \<in> set core_operators) \<and>
        r = Fail (''Gatekeeper'', before @ op_debug op @ after)))"
  using assms
proof (induction ops arbitrary: pushed)
  case Nil
  then show ?case by (simp add: m_simps)
next
  case (Cons op ops)
  show ?case
  proof (cases "op_name op \<in> set core_operators")
    case True
    obtain r where "feed_body (generate_function_middleware Gatekeeper_default) ops (pushed @ [op]) =
          (r, (pushed @ [op]) @ takeWhile (\<lambda>op. op_name op \<in> set core_operators) ops)"
      and r: "(\<forall>op\<in>set ops. op_name op \<in> set core_operators) \<and> r = Ret () \<or>
        (\<exists>accepted op rest before after.
          ops = accepted @ op # rest \<and> op_name op \<notin> set core_operators \<and>
          (\<forall>a\<in>set accepted. op_name a \<in> set core_operators) \<and>
          r = Fail (''Gatekeeper'', before @ op_debug op @ after))"
      using Cons by (metis list.set_intros(2))
    then have "feed_body (generate_function_middleware Gatekeeper_default) (op # ops) pushed =
        (r, pushed @ takeWhile (\<lambda>op. op_name op \<in> set core_operators) (op # ops))"
      using True by (simp add: m_simps feed_default [of op])
    with r True show ?thesis by (metis append_Cons list.set_intros(1) set_ConsD)
  next
    case False
    moreover obtain before after where
      "feed (generate_function_middleware Gatekeeper_default) op pushed = (Fail (''Gatekeeper'', before @ op_debug op @ after), pushed)"
      using feed_rejects [OF _ False] Cons.prems by (metis list.set_intros(1))
    ultimately show ?thesis by (simp add: m_simps) (metis append_Nil empty_iff list.set(1))
  qed
qed

lemma limit_to_pages_value: "unat (limit_to_pages limit) = min (unat limit div 65536) 65536"
proof -
  have pages: "unat (limit div WASM_PAGE_SIZE) = unat limit div 65536"
    by (simp add: WASM_PAGE_SIZE_def unat_div)
  show ?thesis
  proof (cases "unat limit div 65536 < 2 ^ 32")
    case True
    then have "unat (ucast (limit div WASM_PAGE_SIZE) :: u32) = unat limit div 65536"
      by (simp add: unsigned_ucast_eq pages take_bit_nat_eq_self)
    then show ?thesis
      using True pages
      by (simp add: limit_to_pages_def Let_def MAX_WASM_PAGES_def min_def word_le_nat_alt)
  next
    case False
    then show ?thesis
      by (simp add: limit_to_pages_def Let_def MAX_WASM_PAGES_def pages)
  qed
qed

lemma pages_within:
  assumes "p \<le> limit_to_pages limit"
  shows "unat p * 65536 \<le> unat limit"
proof -
  have "unat p \<le> unat limit div 65536"
    using assms unfolding word_le_nat_alt limit_to_pages_value by (rule order_trans) (rule min.cobounded1)
  then have "unat p * 65536 \<le> unat limit div 65536 * 65536" by (rule mult_le_mono1)
  then show ?thesis using div_times_less_eq_dividend by (rule order_trans)
qed

lemma validate_memory_Ok:
  "validate_memory generic limit ty = Ok () \<longleftrightarrow>
     minimum ty \<le> limit \<and> (\<exists>most. maximum ty = Some most \<and> most \<le> limit)"
  by (auto simp: validate_memory_def not_less split: option.split)

lemma adjusted_Ok:
  "validate_memory generic limit (adjust_memory limit ty) = Ok () \<longleftrightarrow>
     minimum ty \<le> limit \<and> (\<forall>most. maximum ty = Some most \<longrightarrow> most \<le> limit)"
  by (auto simp: validate_memory_Ok adjust_memory_def)

lemma case_unit_result: "(case r of Err e \<Rightarrow> Err e | Ok (u :: unit) \<Rightarrow> x) = Ok y \<longleftrightarrow> r = Ok () \<and> x = Ok y"
  by (cases r) auto

section \<open>Properties\<close>

text \<open>
  C28: The gatekeeper lets only deterministic code pass.  The default gatekeeper passes the operators
  of a function on unchanged up to the first one outside the core set, where it fails with an
  error that shows that operator.  No code that it accepts has an operator on floats, vectors or
  shared memory: an operator whose name says so is always rejected, and the names of all operators
  of the float, SIMD and threads groups say so.
\<close>

theorem gatekeeper_exact:
  assumes "\<forall>op\<in>set ops. op_name op \<in> set known_operators"
  shows "\<exists>r. feed_body (generate_function_middleware Gatekeeper_default) ops [] =
      (r, takeWhile (\<lambda>op. op_name op \<in> set core_operators) ops) \<and>
    (r = Ret () \<longleftrightarrow> (\<forall>op\<in>set ops. op_name op \<in> set core_operators)) \<and>
    (r = Ret () \<longrightarrow> (\<forall>op\<in>set ops. \<not> marked (op_name op))) \<and>
    (r \<noteq> Ret () \<longrightarrow> (\<exists>accepted op rest before after.
        ops = accepted @ op # rest \<and> (\<forall>a\<in>set accepted. op_name a \<in> set core_operators) \<and>
        r = Fail (''Gatekeeper'', before @ op_debug op @ after))) \<and>
    list_all marked (float_operators @ simd_operators @ threads_operators)"
proof -
  obtain r where r: "feed_body (generate_function_middleware Gatekeeper_default) ops [] =
      (r, takeWhile (\<lambda>op. op_name op \<in> set core_operators) ops)"
    and cases: "(\<forall>op\<in>set ops. op_name op \<in> set core_operators) \<and> r = Ret () \<or>
     (\<exists>accepted op rest before after.
        ops = accepted @ op # rest \<and> op_name op \<notin> set core_operators \<and>
        (\<forall>a\<in>set accepted. op_name a \<in> set core_operators) \<and>
        r = Fail (''Gatekeeper'', before @ op_debug op @ after))"
    using feed_body_default [OF assms, of "[]"] by (metis append_Nil)
  from cases have "r = Ret () \<longleftrightarrow> (\<forall>op\<in>set ops. op_name op \<in> set core_operators)" by auto
  moreover have "\<not> marked name" if "name \<in> set core_operators" for name
    using core_unmarked that by (simp add: list_all_iff)
  ultimately show ?thesis
    using r cases floats_marked by (intro exI [of _ r]) (simp only: list_all_append, blast)
qed

definition sample_body :: "Operator list" where
  "sample_body = [\<lparr>op_name = ''I32Add'', op_debug = ''I32Add''\<rparr>, \<lparr>op_name = ''F32Add'', op_debug = ''F32Add''\<rparr>,
     \<lparr>op_name = ''End'', op_debug = ''End''\<rparr>]"

theorem gatekeeper_exact_witness:
  "\<exists>r. feed_body (generate_function_middleware Gatekeeper_default) sample_body [] = (r, take 1 sample_body) \<and> r \<noteq> Ret ()"
proof -
  have known: "\<forall>op\<in>set sample_body. op_name op \<in> set known_operators"
    by (simp add: sample_body_def known_operators_def core_operators_def float_operators_def)
  have "op_name (sample_body ! 1) \<notin> set core_operators" "sample_body ! 1 \<in> set sample_body"
    by (simp_all add: sample_body_def core_operators_def)
  moreover have "takeWhile (\<lambda>op. op_name op \<in> set core_operators) sample_body = take 1 sample_body"
    by (simp add: sample_body_def core_operators_def)
  ultimately show ?thesis using gatekeeper_exact [OF known] by metis
qed

text \<open>
  C29: The memory of a contract stays within the configured limit.  The limit in bytes is rounded down
  to whole pages and capped at the 65536 pages Wasm can address.  A memory is only made, by the
  base implementation, with a minimum and a maximum whose sizes in bytes are within the limit,
  and every memory that fits is passed on, with the limit as its maximum if it has none.
\<close>

theorem memory_within_limit:
  "let pages = limit_to_pages limit; T = LimitingTunables generic base pages in
    unat pages = min (unat limit div 65536) 65536 \<and> unat pages * 65536 \<le> unat limit \<and>
    (create_vm_memory T ty style location = Ok m \<longrightarrow>
      (\<exists>ty' most. create_vm_memory base ty' style location = Ok m \<and> minimum ty' = minimum ty \<and>
         maximum ty' = Some most \<and> unat most * 65536 \<le> unat limit \<and> unat (minimum ty) * 65536 \<le> unat limit)) \<and>
    (create_host_memory T ty style = Ok m \<longrightarrow>
      (\<exists>ty' most. create_host_memory base ty' style = Ok m \<and> minimum ty' = minimum ty \<and>
         maximum ty' = Some most \<and> unat most * 65536 \<le> unat limit \<and> unat (minimum ty) * 65536 \<le> unat limit)) \<and>
    (minimum ty \<le> pages \<and> maximum ty = None \<longrightarrow>
      create_vm_memory T ty style location = create_vm_memory base (ty\<lparr>maximum := Some pages\<rparr>) style location) \<and>
    (minimum ty \<le> pages \<and> (\<exists>most. maximum ty = Some most \<and> most \<le> pages) \<longrightarrow>
      create_vm_memory T ty style location = create_vm_memory base ty style location)"
proof -
  define pages where "pages = limit_to_pages limit"
  define T where "T = LimitingTunables generic base pages"
  have within: "unat p * 65536 \<le> unat limit" if "p \<le> pages" for p
    using pages_within that by (simp add: pages_def)
  have made: "\<exists>most. maximum (adjust_memory pages ty) = Some most \<and> most \<le> pages \<and>
      minimum (adjust_memory pages ty) = minimum ty \<and> minimum ty \<le> pages"
    if "validate_memory generic pages (adjust_memory pages ty) = Ok ()"
    using that unfolding adjusted_Ok by (auto simp: adjust_memory_def)
  have vm: "create_vm_memory T ty style location = Ok m \<longleftrightarrow>
      validate_memory generic pages (adjust_memory pages ty) = Ok () \<and>
      create_vm_memory base (adjust_memory pages ty) style location = Ok m"
    and host: "create_host_memory T ty style = Ok m \<longleftrightarrow>
      validate_memory generic pages (adjust_memory pages ty) = Ok () \<and>
      create_host_memory base (adjust_memory pages ty) style = Ok m"
    by (simp_all add: T_def LimitingTunables_def Let_def case_unit_result)
  have fits: "create_vm_memory T ty style location = create_vm_memory base (adjust_memory pages ty) style location"
    if "minimum ty \<le> pages" "\<forall>most. maximum ty = Some most \<longrightarrow> most \<le> pages"
    using adjusted_Ok [of generic pages ty] that by (simp add: T_def LimitingTunables_def Let_def)
  show ?thesis
    unfolding Let_def T_def [symmetric] pages_def [symmetric]
    using limit_to_pages_value [of limit, folded pages_def] within made
    by (intro conjI impI; (simp add: vm host)?) (metis fits adjust_memory_def option.inject option.distinct(1))+
qed

definition sample_tunables :: "(unit, unit, unit, unit, MemoryType, unit, string) Tunables" where
  "sample_tunables =
     \<lparr>memory_style = (\<lambda>_. ()), table_style = (\<lambda>_. ()), create_host_memory = (\<lambda>ty _. Ok ty),
      create_vm_memory = (\<lambda>ty _ _. Ok ty), create_host_table = (\<lambda>_ _. Ok ()),
      create_vm_table = (\<lambda>_ _ _. Ok ())\<rparr>"

theorem memory_within_limit_witness:
  "create_vm_memory (LimitingTunables id sample_tunables (limit_to_pages 1000000))
     \<lparr>minimum = 3, maximum = None, shared = False\<rparr> () () =
   Ok \<lparr>minimum = 3, maximum = Some 15, shared = False\<rparr>"
proof -
  have "limit_to_pages 1000000 = 15"
    by (simp add: limit_to_pages_def WASM_PAGE_SIZE_def MAX_WASM_PAGES_def Let_def)
  moreover have "minimum \<lparr>minimum = 3, maximum = None, shared = False\<rparr> \<le> 15" by simp
  ultimately show ?thesis
    using memory_within_limit [of 1000000 id sample_tunables "\<lparr>minimum = 3, maximum = None, shared = False\<rparr>" "()" "()"]
    by (simp add: Let_def) (simp add: sample_tunables_def)
qed

end
