(* ===== verification/ModuleCache.thy ===== *)
theory ModuleCache
  imports StaticChecks WasmBackend
begin

text \<open>
  The VM's cache of compiled contracts (\<^verbatim>\<open>packages/vm/src/cache.rs\<close>, \<^verbatim>\<open>checksum.rs\<close> and \<^verbatim>\<open>modules/\<close>): Wasm
  files stored under their hash, and three layers of compiled modules (pinned, in memory, on
  disk) in front of the compiler.  The hash, the module format of Wasmer and the LRU cache of the
  \<^verbatim>\<open>clru\<close> crate are parameters.  The \<^verbatim>\<open>Mutex\<close> around the state is taken for the whole of every
  operation, so operations are steps on the state and the files.
\<close>

section \<open>Files\<close>

text \<open>Opening for reading, \<^verbatim>\<open>write_all\<close> and \<^verbatim>\<open>std::fs::write\<close> of the standard library.\<close>

datatype io_error = Io_NotFound | Io_Other string

fun io_error_to_string :: "io_error \<Rightarrow> string" where
  "io_error_to_string Io_NotFound = ''No such file or directory (os error 2)''"
| "io_error_to_string (Io_Other e) = e"

definition fs_open :: "os_ext \<Rightarrow> string \<Rightarrow> (World, io_error, string) M" where
  "fs_open O' path w =
     (case os_fault O' (w_now w) of
        Some e \<Rightarrow> (Fail (Io_Other e), tick w)
      | None \<Rightarrow> ((if w_files w path = None then Fail Io_NotFound else Ret path), tick w))"

definition fs_write_at :: "os_ext \<Rightarrow> string \<Rightarrow> nat \<Rightarrow> bytes \<Rightarrow> (World, string, nat) M" where
  "fs_write_at O' file pos data =
     io_op O' (\<lambda>w.
       let n = min (os_write_len O' (w_now w) (length data)) (length data);
           old = fs_contents w file
       in (n, w\<lparr>w_files := (w_files w)(file \<mapsto> take pos old @ take n data @ drop (pos + n) old)\<rparr>))"

function fs_write_all :: "os_ext \<Rightarrow> string \<Rightarrow> nat \<Rightarrow> bytes \<Rightarrow> (World, string, unit) M" where
  "fs_write_all O' file pos data w =
     (if data = [] then (Ret (), w)
      else case fs_write_at O' file pos data w of
        (Ret n, w') \<Rightarrow>
          if n = 0 then (Fail ''failed to write whole buffer'', w')
          else fs_write_all O' file (pos + n) (drop n data) w'
      | (Fail e, w') \<Rightarrow> (Fail e, w')
      | (Panic, w') \<Rightarrow> (Panic, w')
      | (Diverge, w') \<Rightarrow> (Diverge, w'))"
  by pat_completeness auto
termination by (relation "measure (\<lambda>(_, _, _, data, _). length data)") auto

definition fs_write :: "os_ext \<Rightarrow> string \<Rightarrow> bytes \<Rightarrow> (World, string, unit) M" where
  "fs_write O' path contents =
     thenM (io_op O' (\<lambda>w. ((), w\<lparr>w_files := (w_files w)(path \<mapsto> [])\<rparr>))) (fs_write_all O' path 0 contents)"

definition path_ancestors :: "string \<Rightarrow> string list" where
  "path_ancestors path = map (\<lambda>i. take i path) (filter (\<lambda>i. path ! i = CHR ''/'') [1..<length path]) @ [path]"

definition fs_create_dir_all :: "os_ext \<Rightarrow> string \<Rightarrow> (World, string, unit) M" where
  "fs_create_dir_all O' path = io_op O' (\<lambda>w. ((), w\<lparr>w_dirs := path_ancestors path @ w_dirs w\<rparr>))"

text \<open>\<^verbatim>\<open>Path::join\<close> with a relative path.\<close>

definition path_join :: "string \<Rightarrow> string \<Rightarrow> string" where
  "path_join path name =
     (if path = [] \<or> List.last path = CHR ''/'' then path @ name else path @ ''/'' @ name)"

section \<open>Checksums\<close>

type_synonym Checksum = bytes

definition hex_digit :: "nat \<Rightarrow> char" where
  "hex_digit n = ''0123456789abcdef'' ! n"

definition Checksum_to_hex :: "Checksum \<Rightarrow> string" where
  "Checksum_to_hex self = concat (map (\<lambda>byte. [hex_digit (unat byte div 16), hex_digit (unat byte mod 16)]) self)"

definition Checksum_try_from :: "bytes \<Rightarrow> (VmError, Checksum) result" where
  "Checksum_try_from value =
     (if length value \<noteq> 32 then Err (CacheErr ''Checksum not of length 32'') else Ok value)"

section \<open>What the cache is built on\<close>

record 'm SizedModule =
  sm_module :: 'm
  sm_size :: u64

text \<open>
  \<open>clru\<close>: a cache with a capacity, whose entries have weights; \<^verbatim>\<open>put_with_weight\<close> can refuse an entry
  (the error is the text of its \<^verbatim>\<open>Debug\<close>), \<^verbatim>\<open>get\<close> moves the entry to the front.

  \<open>module_ext\<close>: the operating system and whether a directory is read-only; the hash; the decoder
  and features of the static check; the compiler and the store of the runtime (see
  \<open>module_engine\<close>); the serialized form of a module, whose \<^verbatim>\<open>serialize_to_file\<close> and
  \<^verbatim>\<open>deserialize_from_file\<close> go through a file's contents; the measured size of a module.
\<close>

record ('c, 'm) clru =
  cl_new :: "u64 \<Rightarrow> u64 \<Rightarrow> 'c"
  cl_put_with_weight :: "Checksum \<Rightarrow> 'm SizedModule \<Rightarrow> 'c \<Rightarrow> (string, unit) result \<times> 'c"
  cl_get :: "Checksum \<Rightarrow> 'c \<Rightarrow> 'm SizedModule option \<times> 'c"
  cl_len :: "'c \<Rightarrow> u64"
  cl_weight :: "'c \<Rightarrow> u64"

record ('store, 'm) module_engine =
  me_compile :: "bytes \<Rightarrow> Size option \<Rightarrow> (VmError, 'm) result"
  me_runtime_store :: "Size option \<Rightarrow> 'store"

definition wasmer_module_engine ::
  "('mstyle, 'ttype, 'tstyle, 'loc, 'mem, 'tab, 'e, 'mw, 'engine, 'store, 'm) wasmer_engine \<Rightarrow>
     (string \<Rightarrow> 'e) \<Rightarrow> bool \<Rightarrow> ('store, 'm) module_engine" where
  "wasmer_module_engine W generic cranelift =
     \<lparr>me_compile = (\<lambda>code memory_limit. compile_code W generic cranelift code memory_limit []),
      me_runtime_store = make_runtime_store W generic\<rparr>"

record ('c, 'store, 'm) module_ext =
  mx_os :: os_ext
  mx_readonly :: "string \<Rightarrow> World \<Rightarrow> bool"
  mx_checks :: bool
  mx_sha256 :: "bytes \<Rightarrow> bytes"
  mx_deserialize_buffer :: "bytes \<Rightarrow> (string, WasmModule) result"
  mx_features :: check_features
  mx_engine :: "('store, 'm) module_engine"
  mx_serialize :: "'m \<Rightarrow> (string, bytes) result"
  mx_deserialize :: "'store \<Rightarrow> bytes \<Rightarrow> (string, 'm) result"
  mx_size_of_val :: "'m \<Rightarrow> u64"
  mx_lru :: "('c, 'm) clru"

definition Checksum_generate :: "('c, 'store, 'm) module_ext \<Rightarrow> bytes \<Rightarrow> Checksum" where
  "Checksum_generate X wasm = mx_sha256 X wasm"

section \<open>Modules on disk\<close>

text \<open>\<^verbatim>\<open>modules/versioning.rs\<close>: the version in the header of a serialized module; \<open>None\<close> is a panic.\<close>

definition EXPECTED_MODULE_HEADER_PREFIX :: bytes where
  "EXPECTED_MODULE_HEADER_PREFIX = str_bytes ''wasmer-universalWASMER'' @ [0, 0]"

definition current_wasmer_module_header :: "('c, 'store, 'm) module_ext \<Rightarrow> bytes option" where
  "current_wasmer_module_header X =
     (case me_compile (mx_engine X) [0x00, 0x61, 0x73, 0x6d, 0x01, 0x00, 0x00, 0x00] None of
        Err _ \<Rightarrow> None
      | Ok module \<Rightarrow>
          Some (take (16 + 16) (case mx_serialize X module of Ok bytes \<Rightarrow> bytes | Err _ \<Rightarrow> [])))"

definition current_wasmer_module_version :: "('c, 'store, 'm) module_ext \<Rightarrow> u32 option" where
  "current_wasmer_module_version X =
     (case current_wasmer_module_header X of
        None \<Rightarrow> None
      | Some header \<Rightarrow>
          if take (length EXPECTED_MODULE_HEADER_PREFIX) header \<noteq> EXPECTED_MODULE_HEADER_PREFIX then None
          else let metadata = drop (length header - 16) header
               in Some (of_nat (be_val (rev (take 4 (drop 8 metadata))))))"

definition MODULE_SERIALIZATION_VERSION :: string where
  "MODULE_SERIALIZATION_VERSION = ''v4''"

record FileSystemCache =
  fc_base_path :: string
  fc_wasmer_module_version :: u32

definition FileSystemCache_new ::
  "('c, 'store, 'm) module_ext \<Rightarrow> string \<Rightarrow> (World, string, FileSystemCache) M" where
  "FileSystemCache_new X path =
     bindM (unwrapM (current_wasmer_module_version X)) (\<lambda>wasmer_module_version.
     let self = \<lparr>fc_base_path = path, fc_wasmer_module_version = wasmer_module_version\<rparr>
     in bindM (getM (\<lambda>w. fs_is_dir path w \<or> fs_is_file path w)) (\<lambda>exists.
        if exists then
          bindM (io_op (mx_os X) (\<lambda>w. ((fs_is_dir path w, mx_readonly X path w), w))) (\<lambda>(is_dir, readonly).
          if is_dir then
            if \<not> readonly then returnM self
            else failM (''the supplied path is readonly: '' @ path)
          else failM (''the supplied path already points to a file: '' @ path))
        else thenM (fs_create_dir_all (mx_os X) path) (returnM self)))"

definition latest_modules_path :: "FileSystemCache \<Rightarrow> string" where
  "latest_modules_path self =
     (let version = MODULE_SERIALIZATION_VERSION @ ''-wasmer'' @ nat_str (unat (fc_wasmer_module_version self))
      in path_join (fc_base_path self) version)"

definition FileSystemCache_load ::
  "('c, 'store, 'm) module_ext \<Rightarrow> FileSystemCache \<Rightarrow> Checksum \<Rightarrow> 'store \<Rightarrow> (World, VmError, 'm option) M" where
  "FileSystemCache_load X self checksum store =
     (let filename = Checksum_to_hex checksum;
          file_path = path_join (latest_modules_path self) filename
      in bindM (tryM (fs_open (mx_os X) file_path)) (\<lambda>opened.
         case opened of
           Err Io_NotFound \<Rightarrow> returnM None
         | Err (Io_Other err) \<Rightarrow> failM (CacheErr (''Error opening module file: '' @ err))
         | Ok file \<Rightarrow>
             bindM (tryM (fs_read_to_end (mx_os X) file)) (\<lambda>contents.
             case contents of
               Err err \<Rightarrow> failM (CacheErr (''Error opening module file: '' @ err))
             | Ok bytes \<Rightarrow>
                 (case mx_deserialize X store bytes of
                    Ok module \<Rightarrow> returnM (Some module)
                  | Err err \<Rightarrow> failM (CacheErr (''Error deserializing module: '' @ err))))))"

definition FileSystemCache_store ::
  "('c, 'store, 'm) module_ext \<Rightarrow> FileSystemCache \<Rightarrow> Checksum \<Rightarrow> 'm \<Rightarrow> (World, VmError, unit) M" where
  "FileSystemCache_store X self checksum module =
     (let modules_dir = latest_modules_path self
      in thenM (map_errM (\<lambda>e. CacheErr (''Error creating directory: '' @ e)) (fs_create_dir_all (mx_os X) modules_dir))
           (let filename = Checksum_to_hex checksum;
                path = path_join modules_dir filename
            in map_errM (\<lambda>e. CacheErr (''Error writing module to disk: '' @ e))
                 (bindM (liftR (mx_serialize X module)) (\<lambda>bytes. fs_write (mx_os X) path bytes))))"

section \<open>The cache\<close>

record Stats =
  hits_pinned_memory_cache :: u32
  hits_memory_cache :: u32
  hits_fs_cache :: u32
  misses :: u32

record Metrics =
  mt_stats :: Stats
  elements_pinned_memory_cache :: u64
  elements_memory_cache :: u64
  size_pinned_memory_cache :: u64
  size_memory_cache :: u64

record CacheOptions =
  base_dir :: string
  available_capabilities :: "string list"
  memory_cache_size :: Size
  instance_memory_limit :: Size

text \<open>\<^verbatim>\<open>Cache\<close> with the fields of \<^verbatim>\<open>CacheInner\<close>; the pinned modules are a \<^verbatim>\<open>HashMap\<close>.\<close>

record ('c, 'm) Cache =
  ca_available_capabilities :: "string list"
  ca_wasm_path :: string
  ca_instance_memory_limit :: Size
  ca_pinned_memory_cache :: "(Checksum, 'm SizedModule) hmap"
  ca_memory_cache :: "'c option"
  ca_fs_cache :: FileSystemCache
  ca_stats :: Stats

type_synonym ('c, 'm, 'a) cacheM = "(('c, 'm) Cache \<times> World, VmError, 'a) M"

text \<open>\<^verbatim>\<open>modules/in_memory_cache.rs\<close>.\<close>

definition MINIMUM_MODULE_SIZE :: Size where
  "MINIMUM_MODULE_SIZE = 250 * 1024"

definition InMemoryCache_new :: "('c, 'm) clru \<Rightarrow> Size \<Rightarrow> 'c option" where
  "InMemoryCache_new L sz =
     (let preallocated_entries = sz div MINIMUM_MODULE_SIZE
      in if sz > 0 then Some (cl_new L sz preallocated_entries) else None)"

definition InMemoryCache_store ::
  "('c, 'm) clru \<Rightarrow> Checksum \<Rightarrow> 'm \<Rightarrow> u64 \<Rightarrow> ('c option, VmError, unit) M" where
  "InMemoryCache_store L checksum module sz self =
     (case self of
        None \<Rightarrow> (Ret (), None)
      | Some modules \<Rightarrow>
          (case cl_put_with_weight L checksum \<lparr>sm_module = module, sm_size = sz\<rparr> modules of
             (Ok _, modules') \<Rightarrow> (Ret (), Some modules')
           | (Err e, modules') \<Rightarrow> (Fail (CacheErr e), Some modules')))"

definition InMemoryCache_load ::
  "('c, 'm) clru \<Rightarrow> Checksum \<Rightarrow> ('c option, VmError, 'm SizedModule option) M" where
  "InMemoryCache_load L checksum self =
     (case self of
        None \<Rightarrow> (Ret None, None)
      | Some modules \<Rightarrow> (case cl_get L checksum modules of (found, modules') \<Rightarrow> (Ret found, Some modules')))"

definition InMemoryCache_len :: "('c, 'm) clru \<Rightarrow> 'c option \<Rightarrow> u64" where
  "InMemoryCache_len L self = (case self of None \<Rightarrow> 0 | Some modules \<Rightarrow> cl_len L modules)"

definition InMemoryCache_size :: "('c, 'm) clru \<Rightarrow> 'c option \<Rightarrow> u64" where
  "InMemoryCache_size L self = (case self of None \<Rightarrow> 0 | Some modules \<Rightarrow> cl_weight L modules)"

text \<open>\<^verbatim>\<open>modules/pinned_memory_cache.rs\<close>.  \<open>size\<close> sums machine integers; \<open>None\<close> is an overflow.\<close>

definition PinnedMemoryCache_store :: "Checksum \<Rightarrow> 'm \<Rightarrow> u64 \<Rightarrow> ((Checksum, 'm SizedModule) hmap, VmError, unit) M" where
  "PinnedMemoryCache_store checksum module sz =
     modifyM (hm_insert checksum \<lparr>sm_module = module, sm_size = sz\<rparr>)"

definition PinnedMemoryCache_remove :: "Checksum \<Rightarrow> ((Checksum, 'm SizedModule) hmap, VmError, unit) M" where
  "PinnedMemoryCache_remove checksum = modifyM (AList.delete checksum)"

definition PinnedMemoryCache_load :: "Checksum \<Rightarrow> ((Checksum, 'm SizedModule) hmap, VmError, 'm option) M" where
  "PinnedMemoryCache_load checksum =
     getM (\<lambda>modules. case hm_get modules checksum of Some module \<Rightarrow> Some (sm_module module) | None \<Rightarrow> None)"

definition PinnedMemoryCache_has :: "(Checksum, 'm SizedModule) hmap \<Rightarrow> Checksum \<Rightarrow> bool" where
  "PinnedMemoryCache_has modules checksum \<longleftrightarrow> hm_get modules checksum \<noteq> None"

fun PinnedMemoryCache_size :: "bool \<Rightarrow> (Checksum, 'm SizedModule) hmap \<Rightarrow> u64 option" where
  "PinnedMemoryCache_size checks [] = Some 0"
| "PinnedMemoryCache_size checks ((_, module) # modules) =
     Option.bind (PinnedMemoryCache_size checks modules) (\<lambda>total. prim_add checks total (sm_size module))"

text \<open>The fields as the state of a method call, and a counter that goes up by one.\<close>

definition on_pinned :: "((Checksum, 'm SizedModule) hmap, VmError, 'a) M \<Rightarrow> ('c, 'm, 'a) cacheM" where
  "on_pinned m = on_self (zoomM ca_pinned_memory_cache (\<lambda>p c. c\<lparr>ca_pinned_memory_cache := p\<rparr>) m)"

definition on_memory :: "('c option, VmError, 'a) M \<Rightarrow> ('c, 'm, 'a) cacheM" where
  "on_memory m = on_self (zoomM ca_memory_cache (\<lambda>p c. c\<lparr>ca_memory_cache := p\<rparr>) m)"

definition count_one ::
  "bool \<Rightarrow> (Stats \<Rightarrow> u32) \<Rightarrow> ((u32 \<Rightarrow> u32) \<Rightarrow> Stats \<Rightarrow> Stats) \<Rightarrow> ('c, 'm, unit) cacheM" where
  "count_one checks counter change =
     bindM (getM (\<lambda>(c, w). prim_add checks (counter (ca_stats c)) 1)) (\<lambda>next_value.
     bindM (unwrapM next_value) (\<lambda>n.
     on_self (modifyM (\<lambda>c. c\<lparr>ca_stats := change (\<lambda>_. n) (ca_stats c)\<rparr>))))"

definition of_cache :: "(('c, 'm) Cache \<Rightarrow> 'a) \<Rightarrow> ('c, 'm, 'a) cacheM" where
  "of_cache f = getM (\<lambda>(c, w). f c)"

text \<open>\<^verbatim>\<open>cache.rs\<close>.\<close>

definition Cache_new ::
  "('c, 'store, 'm) module_ext \<Rightarrow> CacheOptions \<Rightarrow> (World, VmError, ('c, 'm) Cache) M" where
  "Cache_new X options =
     (let state_path = path_join (base_dir options) ''state'';
          cache_path = path_join (base_dir options) ''cache'';
          wasm_path = path_join state_path ''wasm''
      in thenM (forM (\<lambda>path. map_errM (\<lambda>e. CacheErr (''Error creating directory '' @ path @ '': '' @ e))
                   (fs_create_dir_all (mx_os X) path)) [state_path, cache_path, wasm_path])
         (bindM (map_errM (\<lambda>e. CacheErr (''Error file system cache: '' @ e))
            (FileSystemCache_new X (path_join cache_path ''modules''))) (\<lambda>fs_cache.
          returnM
            \<lparr>ca_available_capabilities = available_capabilities options,
             ca_wasm_path = wasm_path,
             ca_instance_memory_limit = instance_memory_limit options,
             ca_pinned_memory_cache = [],
             ca_memory_cache = InMemoryCache_new (mx_lru X) (memory_cache_size options),
             ca_fs_cache = fs_cache,
             ca_stats = \<lparr>hits_pinned_memory_cache = 0, hits_memory_cache = 0, hits_fs_cache = 0, misses = 0\<rparr>\<rparr>)))"

definition Cache_metrics :: "('c, 'store, 'm) module_ext \<Rightarrow> ('c, 'm, Metrics) cacheM" where
  "Cache_metrics X =
     bindM (of_cache id) (\<lambda>c.
     bindM (unwrapM (PinnedMemoryCache_size (mx_checks X) (ca_pinned_memory_cache c))) (\<lambda>pinned_size.
     returnM
       \<lparr>mt_stats = ca_stats c,
        elements_pinned_memory_cache = of_nat (length (ca_pinned_memory_cache c)),
        elements_memory_cache = InMemoryCache_len (mx_lru X) (ca_memory_cache c),
        size_pinned_memory_cache = pinned_size,
        size_memory_cache = InMemoryCache_size (mx_lru X) (ca_memory_cache c)\<rparr>))"

text \<open>The Wasm file is opened for writing, not truncated, and written from its start.\<close>

definition save_wasm_to_disk ::
  "('c, 'store, 'm) module_ext \<Rightarrow> string \<Rightarrow> bytes \<Rightarrow> (World, VmError, Checksum) M" where
  "save_wasm_to_disk X dir wasm =
     (let checksum = Checksum_generate X wasm;
          filename = Checksum_to_hex checksum;
          filepath = path_join dir filename
      in bindM (map_errM (\<lambda>e. CacheErr (''Error opening Wasm file for writing: '' @ e))
           (fs_open_create (mx_os X) filepath)) (\<lambda>file.
         thenM (map_errM (\<lambda>e. CacheErr (''Error writing Wasm file: '' @ e))
           (fs_write_all (mx_os X) file 0 wasm))
         (returnM checksum)))"

definition load_wasm_from_disk ::
  "('c, 'store, 'm) module_ext \<Rightarrow> string \<Rightarrow> Checksum \<Rightarrow> (World, VmError, bytes) M" where
  "load_wasm_from_disk X dir checksum =
     (let path = path_join dir (Checksum_to_hex checksum)
      in bindM (map_errM (\<lambda>e. CacheErr (''Error opening Wasm file for reading: '' @ io_error_to_string e))
           (fs_open (mx_os X) path)) (\<lambda>file.
         map_errM (\<lambda>e. CacheErr (''Error reading Wasm file: '' @ e)) (fs_read_to_end (mx_os X) file)))"

definition save_wasm :: "('c, 'store, 'm) module_ext \<Rightarrow> bytes \<Rightarrow> ('c, 'm, Checksum) cacheM" where
  "save_wasm X wasm =
     bindM (of_cache (\<lambda>c. check_wasm (mx_features X) (mx_deserialize_buffer X) wasm (ca_available_capabilities c))) (\<lambda>checked.
     bindM (unwrapM checked) (\<lambda>result.
     thenM (liftR result)
     (bindM (liftR (me_compile (mx_engine X) wasm None)) (\<lambda>module.
      bindM (of_cache ca_wasm_path) (\<lambda>wasm_path.
      bindM (on_world (save_wasm_to_disk X wasm_path wasm)) (\<lambda>checksum.
      bindM (of_cache ca_fs_cache) (\<lambda>fs_cache.
      thenM (on_world (FileSystemCache_store X fs_cache checksum module))
      (returnM checksum))))))))"

definition load_wasm_with_path ::
  "('c, 'store, 'm) module_ext \<Rightarrow> string \<Rightarrow> Checksum \<Rightarrow> (World, VmError, bytes) M" where
  "load_wasm_with_path X wasm_path checksum =
     bindM (load_wasm_from_disk X wasm_path checksum) (\<lambda>code.
     if Checksum_generate X code \<noteq> checksum then failM IntegrityErr else returnM code)"

definition load_wasm :: "('c, 'store, 'm) module_ext \<Rightarrow> Checksum \<Rightarrow> ('c, 'm, bytes) cacheM" where
  "load_wasm X checksum =
     bindM (of_cache ca_wasm_path) (\<lambda>wasm_path. on_world (load_wasm_with_path X wasm_path checksum))"

record AnalysisReport =
  ar_has_ibc_entry_points :: bool
  ar_required_capabilities :: "string list"

definition analyze :: "('c, 'store, 'm) module_ext \<Rightarrow> Checksum \<Rightarrow> ('c, 'm, AnalysisReport) cacheM" where
  "analyze X checksum =
     bindM (load_wasm X checksum) (\<lambda>wasm.
     bindM (liftR (deserialize_wasm (mx_deserialize_buffer X) wasm)) (\<lambda>module.
     returnM \<lparr>ar_has_ibc_entry_points = has_ibc_entry_points module,
              ar_required_capabilities = required_capabilities_from_module module\<rparr>))"

definition pin :: "('c, 'store, 'm) module_ext \<Rightarrow> Checksum \<Rightarrow> ('c, 'm, unit) cacheM" where
  "pin X checksum =
     bindM (of_cache (\<lambda>c. PinnedMemoryCache_has (ca_pinned_memory_cache c) checksum)) (\<lambda>has.
     if has then returnM ()
     else
       bindM (on_memory (InMemoryCache_load (mx_lru X) checksum)) (\<lambda>in_memory.
       case in_memory of
         Some module \<Rightarrow>
           thenM (count_one (mx_checks X) hits_memory_cache hits_memory_cache_update)
           (on_pinned (PinnedMemoryCache_store checksum (sm_module module) (sm_size module)))
       | None \<Rightarrow>
           bindM (of_cache id) (\<lambda>c.
           let store = me_runtime_store (mx_engine X) (Some (ca_instance_memory_limit c))
           in bindM (on_world (FileSystemCache_load X (ca_fs_cache c) checksum store)) (\<lambda>on_disk.
              case on_disk of
                Some module \<Rightarrow>
                  thenM (count_one (mx_checks X) hits_fs_cache hits_fs_cache_update)
                  (on_pinned (PinnedMemoryCache_store checksum module (mx_size_of_val X module)))
              | None \<Rightarrow>
                  bindM (on_world (load_wasm_with_path X (ca_wasm_path c) checksum)) (\<lambda>code.
                  bindM (liftR (me_compile (mx_engine X) code (Some (ca_instance_memory_limit c)))) (\<lambda>module.
                  thenM (on_world (FileSystemCache_store X (ca_fs_cache c) checksum module))
                  (on_pinned (PinnedMemoryCache_store checksum module (mx_size_of_val X module)))))))))"

definition unpin :: "('c, 'store, 'm) module_ext \<Rightarrow> Checksum \<Rightarrow> ('c, 'm, unit) cacheM" where
  "unpin X checksum = on_pinned (PinnedMemoryCache_remove checksum)"

definition get_module :: "('c, 'store, 'm) module_ext \<Rightarrow> Checksum \<Rightarrow> ('c, 'm, 'm) cacheM" where
  "get_module X checksum =
     bindM (on_pinned (PinnedMemoryCache_load checksum)) (\<lambda>pinned.
     case pinned of
       Some module \<Rightarrow>
         thenM (count_one (mx_checks X) hits_pinned_memory_cache hits_pinned_memory_cache_update)
         (returnM module)
     | None \<Rightarrow>
         bindM (on_memory (InMemoryCache_load (mx_lru X) checksum)) (\<lambda>in_memory.
         case in_memory of
           Some module \<Rightarrow>
             thenM (count_one (mx_checks X) hits_memory_cache hits_memory_cache_update)
             (returnM (sm_module module))
         | None \<Rightarrow>
             bindM (of_cache id) (\<lambda>c.
             let store = me_runtime_store (mx_engine X) (Some (ca_instance_memory_limit c))
             in bindM (on_world (FileSystemCache_load X (ca_fs_cache c) checksum store)) (\<lambda>on_disk.
                case on_disk of
                  Some module \<Rightarrow>
                    thenM (count_one (mx_checks X) hits_fs_cache hits_fs_cache_update)
                    (thenM (on_memory (InMemoryCache_store (mx_lru X) checksum module (mx_size_of_val X module)))
                    (returnM module))
                | None \<Rightarrow>
                    bindM (on_world (load_wasm_with_path X (ca_wasm_path c) checksum)) (\<lambda>wasm.
                    thenM (count_one (mx_checks X) misses misses_update)
                    (bindM (liftR (me_compile (mx_engine X) wasm (Some (ca_instance_memory_limit c)))) (\<lambda>module.
                     thenM (on_world (FileSystemCache_store X (ca_fs_cache c) checksum module))
                     (thenM (on_memory (InMemoryCache_store (mx_lru X) checksum module (mx_size_of_val X module)))
                     (returnM module)))))))))"

text \<open>\<^verbatim>\<open>get_instance\<close>: the module, instantiated as \<open>from_module\<close> does.\<close>

definition get_instance ::
  "('c, 'store, 'm) module_ext \<Rightarrow> ('m, 'w) externs \<Rightarrow> Checksum \<Rightarrow> RpcMockApi \<Rightarrow> StorageRef \<Rightarrow> u64 \<Rightarrow> bool
     \<Rightarrow> ('c, 'm, 'w Environment) cacheM" where
  "get_instance X E checksum api storage gas_limit print_debug =
     bindM (get_module X checksum) (\<lambda>module. liftR (from_module E module api storage gas_limit print_debug))"

section \<open>Invariants with results\<close>

text \<open>\<open>ensures I m Q\<close>: \<open>m\<close> keeps the invariant \<open>I\<close>, however it ends, and a value it returns satisfies \<open>Q\<close>.\<close>

definition ensures :: "('s \<Rightarrow> bool) \<Rightarrow> ('s, 'e, 'a) M \<Rightarrow> ('a \<Rightarrow> bool) \<Rightarrow> bool" where
  "ensures I m Q \<longleftrightarrow> (\<forall>s r t. I s \<longrightarrow> m s = (r, t) \<longrightarrow> I t \<and> (\<forall>a. r = Ret a \<longrightarrow> Q a))"

lemma ensuresD: "ensures I m Q \<Longrightarrow> I s \<Longrightarrow> m s = (r, t) \<Longrightarrow> I t"
  and ensuresD_value: "ensures I m Q \<Longrightarrow> I s \<Longrightarrow> m s = (Ret a, t) \<Longrightarrow> Q a"
  unfolding ensures_def by blast+

lemma ensures_bind:
  assumes "ensures I m P" "\<And>a. P a \<Longrightarrow> ensures I (f a) Q"
  shows "ensures I (bindM m f) Q"
  unfolding ensures_def
proof (intro allI impI)
  fix s r t
  assume I: "I s" and run: "bindM m f s = (r, t)"
  obtain r1 s1 where m: "m s = (r1, s1)" by fastforce
  then have I1: "I s1" using assms(1) I by (auto dest: ensuresD)
  show "I t \<and> (\<forall>a. r = Ret a \<longrightarrow> Q a)"
  proof (cases r1)
    case (Ret a)
    with m run have "f a s1 = (r, t)" by (simp add: bindM_def)
    moreover have "P a" using assms(1) I m Ret by (auto dest: ensuresD_value)
    ultimately show ?thesis using assms(2) I1 unfolding ensures_def by blast
  qed (use m run I1 in \<open>auto simp: bindM_def\<close>)
qed

lemma ensures_then: "ensures I m (\<lambda>_. True) \<Longrightarrow> ensures I k Q \<Longrightarrow> ensures I (thenM m k) Q"
  unfolding thenM_def by (rule ensures_bind)

lemma ensures_return: "Q a \<Longrightarrow> ensures I (returnM a) Q"
  by (simp add: ensures_def m_simps)

lemma ensures_fail: "ensures I (failM e) Q"
  by (simp add: ensures_def m_simps)

lemma ensures_liftR: "(\<And>a. r = Ok a \<Longrightarrow> Q a) \<Longrightarrow> ensures I (liftR r) Q"
  by (cases r) (simp_all add: liftR_def ensures_return ensures_fail)

lemma ensures_unwrap: "ensures I (unwrapM r) (\<lambda>a. r = Some a)"
  by (cases r) (simp_all add: ensures_def m_simps)

lemma ensures_map_err: "ensures I m Q \<Longrightarrow> ensures I (map_errM f m) Q"
  unfolding ensures_def map_errM_def
  by (auto split: prod.splits outcome.splits)

lemma ensures_weaken: "ensures I m P \<Longrightarrow> (\<And>a. P a \<Longrightarrow> Q a) \<Longrightarrow> ensures I m Q"
  unfolding ensures_def by blast

lemma ensures_keeps: "keeps R m \<Longrightarrow> (\<And>s t. R s t \<Longrightarrow> I s \<Longrightarrow> I t) \<Longrightarrow> ensures I m (\<lambda>_. True)"
  unfolding ensures_def by (metis keepsD)

section \<open>What the file operations change\<close>

definition only_file :: "string \<Rightarrow> World \<Rightarrow> World \<Rightarrow> bool" where
  "only_file path w w' \<longleftrightarrow> (\<forall>p. p \<noteq> path \<longrightarrow> w_files w' p = w_files w p)"

interpretation one_file: kept "only_file path"
  by unfold_locales (simp_all add: only_file_def)

lemma keeps_io_op: "(\<And>w. only_file path w (snd (f w))) \<Longrightarrow> keeps (only_file path) (io_op os f)"
proof (rule keepsI)
  fix w
  assume "\<And>w. only_file path w (snd (f w))"
  then have "only_file path (tick w) (snd (f (tick w)))" .
  then show "only_file path w (snd (io_op os f w))"
    by (simp add: io_op_def only_file_def tick_def split: option.split)
qed

lemma fs_write_all_contents:
  assumes "w_files w path = Some old" "pos \<le> length old" "fs_write_all os path pos data w = (r, w')"
  shows "only_file path w w' \<and> (\<exists>k. w_files w' path = Some (take pos old @ take k data @ drop (pos + k) old) \<and>
    k \<le> length data \<and> (r = Ret () \<longrightarrow> k = length data))"
  using assms
proof (induction os path pos data w arbitrary: old r w' rule: fs_write_all.induct)
  case (1 os path pos data w)
  show ?case
  proof (cases "data = []")
    case True
    with 1 show ?thesis by (auto simp: only_file_def)
  next
    case False
    show ?thesis
    proof (cases "os_fault os (w_now w)")
      case (Some e)
      then have "fs_write_at os path pos data w = (Fail e, tick w)"
        by (simp add: fs_write_at_def io_op_def)
      with False "1.prems" have "r = Fail e" "w' = tick w" by simp_all
      with "1.prems" show ?thesis by (auto simp: only_file_def tick_def intro!: exI [of _ 0])
    next
      case None
      define n where "n = min (os_write_len os (w_now (tick w)) (length data)) (length data)"
      define new where "new = take pos old @ take n data @ drop (pos + n) old"
      define w1 where "w1 = (tick w)\<lparr>w_files := (w_files w)(path \<mapsto> new)\<rparr>"
      have wrote: "fs_write_at os path pos data w = (Ret n, w1)"
        using None "1.prems"(1)
        by (simp add: fs_write_at_def io_op_def n_def w1_def new_def Let_def fs_contents_def tick_def)
      have w1: "only_file path w w1" "w_files w1 path = Some new"
        by (simp_all add: only_file_def w1_def)
      show ?thesis
      proof (cases "n = 0")
        case True
        with False wrote "1.prems" have "r \<noteq> Ret ()" "w' = w1" by auto
        with w1 True show ?thesis by (auto simp: new_def intro!: exI [of _ 0])
      next
        case n0: False
        with False wrote "1.prems"(3) have rest: "fs_write_all os path (pos + n) (drop n data) w1 = (r, w')"
          by simp
        have len: "n \<le> length data" by (simp add: n_def)
        have "only_file path w1 w' \<and>
            (\<exists>k. w_files w' path = Some (take (pos + n) new @ take k (drop n data) @ drop (pos + n + k) new) \<and>
               k \<le> length (drop n data) \<and> (r = Ret () \<longrightarrow> k = length (drop n data)))"
          using "1.IH" [OF False wrote [symmetric] refl n0 w1(2) _ rest] len "1.prems"(2)
          by (simp add: new_def)
        then obtain k where k: "only_file path w1 w'"
          "w_files w' path = Some (take (pos + n) new @ take k (drop n data) @ drop (pos + n + k) new)"
          "k \<le> length data - n" "r = Ret () \<longrightarrow> k = length data - n"
          by auto
        have "take (pos + n) new @ take k (drop n data) @ drop (pos + n + k) new =
            take pos old @ take (n + k) data @ drop (pos + (n + k)) old"
          unfolding take_add [of n k] using "1.prems"(2) len by (simp add: new_def ac_simps)
        with k w1(1) len show ?thesis
          by (intro conjI exI [of _ "n + k"]) (auto simp: only_file_def)
      qed
    qed
  qed
qed

declare fs_write_all.simps [simp del]

lemma fs_write_contents:
  assumes "fs_write os path contents w = (r, w')"
  shows "only_file path w w' \<and>
    (w_files w' path = w_files w path \<or> (\<exists>k. w_files w' path = Some (take k contents))) \<and>
    (r = Ret () \<longrightarrow> w_files w' path = Some contents)"
proof (cases "os_fault os (w_now w)")
  case (Some e)
  with assms show ?thesis by (auto simp: fs_write_def m_simps io_op_def only_file_def tick_def)
next
  case None
  define w1 where "w1 = (tick w)\<lparr>w_files := (w_files w)(path \<mapsto> [])\<rparr>"
  from None assms have "fs_write_all os path 0 contents w1 = (r, w')"
    by (simp add: fs_write_def m_simps io_op_def tick_def w1_def)
  then have "only_file path w1 w' \<and> (\<exists>k. w_files w' path = Some (take k contents)) \<and>
      (r = Ret () \<longrightarrow> w_files w' path = Some contents)"
    using fs_write_all_contents [of w1 path "[]" 0 os contents r w'] by (auto simp: w1_def)
  moreover have "only_file path w w1" by (simp add: only_file_def w1_def)
  ultimately show ?thesis by (auto simp: only_file_def)
qed

lemma hex_digit_inj: "m < 16 \<Longrightarrow> n < 16 \<Longrightarrow> hex_digit m = hex_digit n \<Longrightarrow> m = n"
proof -
  have "list_all (\<lambda>m. list_all (\<lambda>n. hex_digit m = hex_digit n \<longrightarrow> m = n) [0..<16]) [0..<16]" by code_simp
  then show "m < 16 \<Longrightarrow> n < 16 \<Longrightarrow> hex_digit m = hex_digit n \<Longrightarrow> m = n" by (simp add: list_all_iff)
qed

lemma Checksum_to_hex_inj: "Checksum_to_hex a = Checksum_to_hex b \<longleftrightarrow> a = b"
proof
  show "Checksum_to_hex a = Checksum_to_hex b \<Longrightarrow> a = b"
  proof (induction a arbitrary: b)
    case Nil
    then show ?case by (cases b) (simp_all add: Checksum_to_hex_def)
  next
    case (Cons x a)
    then obtain y b' where b: "b = y # b'" by (cases b) (simp_all add: Checksum_to_hex_def)
    with Cons have "unat x div 16 = unat y div 16" "unat x mod 16 = unat y mod 16" "a = b'"
      using unsigned_less [of x, where 'a = nat] unsigned_less [of y, where 'a = nat]
      by (auto simp: Checksum_to_hex_def intro!: hex_digit_inj)
    then have "unat x = unat y" by (metis div_mult_mod_eq)
    then have "x = y" by (simp add: word_unat_eq_iff)
    with b \<open>a = b'\<close> show ?case by simp
  qed
qed simp

section \<open>Modules are what their checksum says\<close>

text \<open>
  What the cache relies on.  \<open>code_of\<close> is the code a module was made from: compiling sets it,
  writing a module out and reading it back keeps it, and a truncated file is not read as a
  module.  \<open>entries\<close> is the contents of an LRU cache: a new one is empty, a lookup returns the
  entry and loses none, and storing an entry may drop others but makes up none.
\<close>

definition engine_ok :: "('c, 'store, 'm) module_ext \<Rightarrow> ('m \<Rightarrow> bytes) \<Rightarrow> bool" where
  "engine_ok X code_of \<longleftrightarrow>
     (\<forall>code limit m. me_compile (mx_engine X) code limit = Ok m \<longrightarrow> code_of m = code) \<and>
     (\<forall>m bs store m'. mx_serialize X m = Ok bs \<longrightarrow> mx_deserialize X store bs = Ok m' \<longrightarrow> code_of m' = code_of m) \<and>
     (\<forall>m bs store k m'. mx_serialize X m = Ok bs \<longrightarrow> k < length bs \<longrightarrow> mx_deserialize X store (take k bs) \<noteq> Ok m')"

definition lru_ok :: "('c, 'm) clru \<Rightarrow> ('c \<Rightarrow> Checksum \<rightharpoonup> 'm SizedModule) \<Rightarrow> bool" where
  "lru_ok L entries \<longleftrightarrow>
     (\<forall>capacity n. entries (cl_new L capacity n) = Map.empty) \<and>
     (\<forall>k c. fst (cl_get L k c) = entries c k \<and> entries (snd (cl_get L k c)) = entries c) \<and>
     (\<forall>k v c k' x. entries (snd (cl_put_with_weight L k v c)) k' = Some x \<longrightarrow>
        k' = k \<and> x = v \<or> entries c k' = Some x)"

definition hashes_to :: "('c, 'store, 'm) module_ext \<Rightarrow> bytes \<Rightarrow> Checksum \<Rightarrow> bool" where
  "hashes_to X code checksum \<longleftrightarrow> Checksum_generate X code = checksum"

definition genuine :: "('c, 'store, 'm) module_ext \<Rightarrow> ('m \<Rightarrow> bytes) \<Rightarrow> Checksum \<Rightarrow> 'm \<Rightarrow> bool" where
  "genuine X code_of checksum m \<longleftrightarrow> Checksum_generate X (code_of m) = checksum"

definition module_path :: "FileSystemCache \<Rightarrow> Checksum \<Rightarrow> string" where
  "module_path fc checksum = path_join (latest_modules_path fc) (Checksum_to_hex checksum)"

definition modules_inv :: "('c, 'store, 'm) module_ext \<Rightarrow> ('m \<Rightarrow> bytes) \<Rightarrow> FileSystemCache \<Rightarrow> World \<Rightarrow> bool" where
  "modules_inv X code_of fc w \<longleftrightarrow>
     (\<forall>k bs store m. w_files w (module_path fc k) = Some bs \<longrightarrow> mx_deserialize X store bs = Ok m \<longrightarrow> genuine X code_of k m)"

definition cache_inv ::
  "('c, 'store, 'm) module_ext \<Rightarrow> ('m \<Rightarrow> bytes) \<Rightarrow> ('c \<Rightarrow> Checksum \<rightharpoonup> 'm SizedModule) \<Rightarrow> string \<Rightarrow> FileSystemCache
     \<Rightarrow> ('c, 'm) Cache \<times> World \<Rightarrow> bool" where
  "cache_inv X code_of entries wasm_path fc = (\<lambda>(c, w).
     ca_wasm_path c = wasm_path \<and> ca_fs_cache c = fc \<and>
     (\<forall>k sm. hm_get (ca_pinned_memory_cache c) k = Some sm \<longrightarrow> genuine X code_of k (sm_module sm)) \<and>
     (\<forall>l k sm. ca_memory_cache c = Some l \<longrightarrow> entries l k = Some sm \<longrightarrow> genuine X code_of k (sm_module sm)) \<and>
     modules_inv X code_of fc w)"

lemma path_join_split: "\<exists>sep. \<forall>name. path_join path name = path @ sep @ name"
  by (simp add: path_join_def) (metis append_Nil)

lemma path_join_inj: "path_join path a = path_join path b \<longleftrightarrow> a = b"
  by (simp add: path_join_def)

lemma module_path_inj: "module_path fc a = module_path fc b \<longleftrightarrow> a = b"
  by (simp add: module_path_def path_join_inj Checksum_to_hex_inj)

lemma paths_apart:
  assumes "fc_base_path fc = path_join (path_join base ''cache'') ''modules''"
  shows "path_join (path_join (path_join base ''state'') ''wasm'') a \<noteq> module_path fc b"
proof -
  obtain s0 where s0: "\<And>name. path_join base name = base @ s0 @ name" using path_join_split by metis
  obtain s1 where s1: "\<And>name. path_join (base @ s0 @ ''state'') name = base @ s0 @ ''state'' @ s1 @ name"
    using path_join_split [of "base @ s0 @ ''state''"] by auto
  obtain s2 where s2: "\<And>name. path_join (base @ s0 @ ''cache'') name = base @ s0 @ ''cache'' @ s2 @ name"
    using path_join_split [of "base @ s0 @ ''cache''"] by auto
  have "\<exists>x. path_join (path_join (path_join base ''state'') ''wasm'') a = base @ s0 @ ''state'' @ x"
    unfolding s0 s1 using path_join_split [of "base @ s0 @ ''state'' @ s1 @ ''wasm''"] by auto
  moreover have "\<exists>y. module_path fc b = base @ s0 @ ''cache'' @ y"
    unfolding module_path_def latest_modules_path_def Let_def assms s0 s2
    using path_join_split [of "base @ s0 @ ''cache'' @ s2 @ ''modules''"] path_join_split [of "base @ s0 @ ''cache'' @ _"]
    by (metis append.assoc)
  ultimately show ?thesis by auto
qed

lemma modules_inv_same: "(\<And>k. w_files w' (module_path fc k) = w_files w (module_path fc k)) \<Longrightarrow>
    modules_inv X code_of fc w \<Longrightarrow> modules_inv X code_of fc w'"
  by (simp add: modules_inv_def)

lemma io_op_same:
  assumes "\<And>w. w_files (snd (f w)) = w_files w"
  shows "ensures (modules_inv X code_of fc) (io_op os f) (\<lambda>_. True)"
  unfolding ensures_def
  by (auto simp: io_op_def tick_def assms modules_inv_def split: option.splits)

lemma FileSystemCache_load_genuine:
  "ensures (modules_inv X code_of fc) (FileSystemCache_load X fc checksum store)
     (\<lambda>found. \<forall>m. found = Some m \<longrightarrow> genuine X code_of checksum m)"
  unfolding ensures_def FileSystemCache_load_def Let_def fs_open_def fs_read_to_end_def io_op_def
  by (auto simp: m_simps modules_inv_def module_path_def tick_def fs_contents_def
      split: option.splits if_splits result.splits)

lemma FileSystemCache_store_genuine:
  assumes "engine_ok X code_of" "genuine X code_of checksum module"
  shows "ensures (modules_inv X code_of fc) (FileSystemCache_store X fc checksum module) (\<lambda>_. True)"
proof -
  let ?path = "module_path fc checksum"
  have stored: "ensures (modules_inv X code_of fc) (fs_write (mx_os X) ?path bytes) (\<lambda>_. True)"
    if ser: "mx_serialize X module = Ok bytes" for bytes
    unfolding ensures_def
  proof (intro allI impI conjI)
    fix w r w'
    assume inv: "modules_inv X code_of fc w" and run: "fs_write (mx_os X) ?path bytes w = (r, w')"
    from fs_write_contents [OF run] have other: "w_files w' p = w_files w p" if "p \<noteq> ?path" for p
      using that by (auto simp: only_file_def)
    from fs_write_contents [OF run] consider "w_files w' ?path = w_files w ?path" |
      k where "w_files w' ?path = Some (take k bytes)" by blast
    then show "modules_inv X code_of fc w'"
    proof cases
      case 1
      then show ?thesis using inv other by (metis modules_inv_same)
    next
      case (2 k)
      have "genuine X code_of checksum m" if "mx_deserialize X store (take k bytes) = Ok m" for store m
        using assms ser that unfolding engine_ok_def genuine_def by (metis linorder_not_less take_all)
      with 2 other inv show ?thesis
        unfolding modules_inv_def by (metis module_path_inj option.inject)
    qed
  qed simp
  show ?thesis
    unfolding FileSystemCache_store_def Let_def fs_create_dir_all_def
    by (intro ensures_then ensures_map_err io_op_same)
      (auto intro!: ensures_bind [OF ensures_liftR [where Q = "\<lambda>bytes. mx_serialize X module = Ok bytes"]]
        stored [unfolded module_path_def])
qed

lemma save_wasm_to_disk_inv:
  assumes "\<And>a b. path_join dir a \<noteq> module_path fc b"
  shows "ensures (modules_inv X code_of fc) (save_wasm_to_disk X dir wasm) (\<lambda>checksum. checksum = Checksum_generate X wasm)"
proof -
  let ?path = "path_join dir (Checksum_to_hex (Checksum_generate X wasm))"
  have files: "modules_inv X code_of fc w'" if "only_file ?path w w'" "modules_inv X code_of fc w" for w w'
    using modules_inv_same [OF _ that(2), of w'] that(1) assms by (metis only_file_def)
  have run: "only_file ?path w w'" if "save_wasm_to_disk X dir wasm w = (r, w')" for w r w'
  proof (cases "os_fault (mx_os X) (w_now w)")
    case (Some e)
    with that have "w' = tick w"
      by (auto simp: save_wasm_to_disk_def Let_def m_simps fs_open_create_def io_op_def)
    then show ?thesis by (simp add: only_file_def tick_def)
  next
    case None
    define w1 where "w1 = snd (fs_open_create (mx_os X) ?path w)"
    have opened: "fs_open_create (mx_os X) ?path w = (Ret ?path, w1)" "only_file ?path w w1"
      and old: "\<exists>old. w_files w1 ?path = Some old"
      using None by (auto simp: w1_def fs_open_create_def io_op_def tick_def only_file_def)
    obtain r1 w2 where stored: "fs_write_all (mx_os X) ?path 0 wasm w1 = (r1, w2)" by fastforce
    then have "only_file ?path w1 w2" using fs_write_all_contents old by blast
    moreover have "w' = w2"
      using that opened(1) stored
      by (simp add: save_wasm_to_disk_def Let_def m_simps split: outcome.splits)
    ultimately show ?thesis using opened(2) by (metis one_file.kept_trans)
  qed
  show ?thesis
    unfolding ensures_def
  proof (intro allI impI conjI)
    fix w r w' a
    assume "modules_inv X code_of fc w" "save_wasm_to_disk X dir wasm w = (r, w')"
    then show "modules_inv X code_of fc w'" using run files by blast
    assume "r = Ret a"
    with \<open>save_wasm_to_disk X dir wasm w = (r, w')\<close> show "a = Checksum_generate X wasm"
      by (auto simp: save_wasm_to_disk_def Let_def bindM_Ret_iff thenM_def returnM_def)
  qed
qed

lemma load_wasm_genuine:
  "ensures (modules_inv X code_of fc) (load_wasm_with_path X dir checksum) (\<lambda>code. hashes_to X code checksum)"
  unfolding load_wasm_with_path_def
proof (rule ensures_bind)
  show "ensures (modules_inv X code_of fc) (load_wasm_from_disk X dir checksum) (\<lambda>_. True)"
    unfolding ensures_def load_wasm_from_disk_def Let_def fs_open_def fs_read_to_end_def io_op_def
    by (auto simp: m_simps modules_inv_def tick_def split: option.splits if_splits)
qed (auto intro: ensures_return ensures_fail simp: hashes_to_def)

section \<open>The operations keep the invariant\<close>

text \<open>How the rules act on the fields of a cache and on its files.\<close>

lemma ensures_world: "ensures (modules_inv X code_of fc) m Q \<Longrightarrow> ensures (cache_inv X code_of entries wp fc) (on_world m) Q"
  unfolding ensures_def cache_inv_def by (auto simp: on_world_simps split: prod.splits)

lemma ensures_of_cache:
  "(\<And>c w. cache_inv X code_of entries wp fc (c, w) \<Longrightarrow> Q (f c)) \<Longrightarrow>
     ensures (cache_inv X code_of entries wp fc) (of_cache f) Q"
  unfolding ensures_def of_cache_def by (auto simp: m_simps)

lemma ensures_paths:
  "ensures (cache_inv X code_of entries wp fc) (of_cache id) (\<lambda>c. ca_wasm_path c = wp \<and> ca_fs_cache c = fc)"
  "ensures (cache_inv X code_of entries wp fc) (of_cache ca_wasm_path) (\<lambda>p. p = wp)"
  "ensures (cache_inv X code_of entries wp fc) (of_cache ca_fs_cache) (\<lambda>f. f = fc)"
  by (rule ensures_of_cache, simp add: cache_inv_def)+

lemma ensures_count: "ensures (cache_inv X code_of entries wp fc) (count_one checks counter change) (\<lambda>_. True)"
  unfolding ensures_def count_one_def
  by (auto simp: m_simps on_self_simps cache_inv_def split: option.splits)

lemma ensures_pinned_store:
  "genuine X code_of checksum module \<Longrightarrow>
     ensures (cache_inv X code_of entries wp fc) (on_pinned (PinnedMemoryCache_store checksum module sz)) (\<lambda>_. True)"
  unfolding ensures_def on_pinned_def PinnedMemoryCache_store_def
  by (auto simp: m_simps on_self_simps cache_inv_def)

lemma ensures_pinned_remove:
  "ensures (cache_inv X code_of entries wp fc) (on_pinned (PinnedMemoryCache_remove checksum)) (\<lambda>_. True)"
  unfolding ensures_def on_pinned_def PinnedMemoryCache_remove_def
  by (auto simp: m_simps on_self_simps cache_inv_def hm_get_def delete_conv)

lemma ensures_pinned_load:
  "ensures (cache_inv X code_of entries wp fc) (on_pinned (PinnedMemoryCache_load checksum))
     (\<lambda>found. \<forall>m. found = Some m \<longrightarrow> genuine X code_of checksum m)"
  unfolding ensures_def on_pinned_def PinnedMemoryCache_load_def
  by (auto simp: m_simps on_self_simps cache_inv_def split: option.splits)

lemma ensures_memory_load:
  assumes "lru_ok (mx_lru X) entries"
  shows "ensures (cache_inv X code_of entries wp fc) (on_memory (InMemoryCache_load (mx_lru X) checksum))
     (\<lambda>found. \<forall>sm. found = Some sm \<longrightarrow> genuine X code_of checksum (sm_module sm))"
proof -
  have "fst (cl_get (mx_lru X) k c) = entries c k" "entries (snd (cl_get (mx_lru X) k c)) = entries c" for k c
    using assms by (simp_all add: lru_ok_def)
  then have "found = entries c k \<and> entries c' = entries c" if "cl_get (mx_lru X) k c = (found, c')" for k c found c'
    using that by (metis fst_conv snd_conv)
  then show ?thesis
    unfolding ensures_def on_memory_def InMemoryCache_load_def
    by (auto simp: m_simps on_self_simps cache_inv_def split: option.splits prod.splits)
qed

lemma ensures_memory_store:
  assumes "lru_ok (mx_lru X) entries" "genuine X code_of checksum module"
  shows "ensures (cache_inv X code_of entries wp fc)
    (on_memory (InMemoryCache_store (mx_lru X) checksum module sz)) (\<lambda>_. True)"
proof -
  have put: "k = checksum \<and> x = \<lparr>sm_module = module, sm_size = sz\<rparr> \<or> entries c k = Some x"
    if "cl_put_with_weight (mx_lru X) checksum \<lparr>sm_module = module, sm_size = sz\<rparr> c = (r, c')" "entries c' k = Some x"
    for c r c' k x
    using assms(1) that unfolding lru_ok_def by (metis snd_conv)
  then have "genuine X code_of k (sm_module x)"
    if "cl_put_with_weight (mx_lru X) checksum \<lparr>sm_module = module, sm_size = sz\<rparr> c = (r, c')" "entries c' k = Some x"
      "\<And>k x. entries c k = Some x \<Longrightarrow> genuine X code_of k (sm_module x)"
    for c r c' k x
    using assms(2) that by (metis SizedModule.select_convs(1))
  then show ?thesis
    unfolding ensures_def on_memory_def InMemoryCache_store_def
    by (auto simp: m_simps on_self_simps cache_inv_def split: option.splits prod.splits result.splits)
qed

lemma compiled_genuine:
  assumes "engine_ok X code_of" "hashes_to X code checksum"
  shows "ensures I (liftR (me_compile (mx_engine X) code limit)) (genuine X code_of checksum)"
  using assms by (intro ensures_liftR) (auto simp: engine_ok_def genuine_def hashes_to_def)

lemmas cache_rules = ensures_return ensures_count ensures_pinned_store ensures_memory_store
  FileSystemCache_store_genuine [THEN ensures_world] ensures_fail

lemma get_module_genuine:
  assumes "engine_ok X code_of" "lru_ok (mx_lru X) entries"
  shows "ensures (cache_inv X code_of entries wp fc) (get_module X checksum) (genuine X code_of checksum)"
  unfolding get_module_def Let_def
  by (rule ensures_bind [OF ensures_pinned_load])
    (auto intro!: ensures_bind [OF ensures_memory_load [OF assms(2)]] ensures_bind [OF ensures_paths(1)]
      ensures_bind [OF FileSystemCache_load_genuine [THEN ensures_world]]
      ensures_bind [OF load_wasm_genuine [THEN ensures_world]]
      ensures_bind [OF compiled_genuine [OF assms(1)]] ensures_then cache_rules assms split: option.split)

lemma pin_genuine:
  assumes "engine_ok X code_of" "lru_ok (mx_lru X) entries"
  shows "ensures (cache_inv X code_of entries wp fc) (pin X checksum) (\<lambda>_. True)"
  unfolding pin_def Let_def
  by (rule ensures_bind [OF ensures_of_cache [where Q = "\<lambda>_. True"]])
    (auto intro!: ensures_bind [OF ensures_memory_load [OF assms(2)]] ensures_bind [OF ensures_paths(1)]
      ensures_bind [OF FileSystemCache_load_genuine [THEN ensures_world]]
      ensures_bind [OF load_wasm_genuine [THEN ensures_world]]
      ensures_bind [OF compiled_genuine [OF assms(1)]] ensures_then cache_rules assms split: option.split)

lemma save_wasm_genuine:
  assumes "engine_ok X code_of" "\<And>a b. path_join wp a \<noteq> module_path fc b"
  shows "ensures (cache_inv X code_of entries wp fc) (save_wasm X wasm) (\<lambda>checksum. checksum = Checksum_generate X wasm)"
proof -
  have stored: "ensures (cache_inv X code_of entries wp fc)
      (on_world (FileSystemCache_store X fc (Checksum_generate X wasm) module)) (\<lambda>_. True)"
    if "genuine X code_of (Checksum_generate X wasm) module" for module
    by (rule ensures_world, rule FileSystemCache_store_genuine [OF assms(1) that])
  have code: "hashes_to X wasm (Checksum_generate X wasm)" by (simp add: hashes_to_def)
  show ?thesis
    unfolding save_wasm_def
    by (rule ensures_bind [OF ensures_of_cache [where Q = "\<lambda>_. True"]], simp, rule ensures_bind [OF ensures_unwrap])
      (auto intro!: ensures_then ensures_liftR ensures_bind [OF compiled_genuine [OF assms(1) code]]
        ensures_bind [OF ensures_paths(2)] ensures_bind [OF ensures_paths(3)] stored ensures_return
        ensures_bind [OF save_wasm_to_disk_inv [OF assms(2), THEN ensures_world]])
qed

lemma load_wasm_keeps: "ensures (cache_inv X code_of entries wp fc) (load_wasm X checksum) (\<lambda>code. hashes_to X code checksum)"
  unfolding load_wasm_def
  by (rule ensures_bind [OF ensures_paths(2)]) (simp add: load_wasm_genuine [THEN ensures_world])

lemma analyze_keeps: "ensures (cache_inv X code_of entries wp fc) (analyze X checksum) (\<lambda>_. True)"
  unfolding analyze_def
  by (rule ensures_bind [OF load_wasm_keeps], rule ensures_bind [OF ensures_liftR [where Q = "\<lambda>_. True"]])
    (simp_all add: ensures_return)

section \<open>Reachable states\<close>

text \<open>
  The public operations that change something, as steps on a cache and the files.  A step may also
  be one that ended in an error or a panic.
\<close>

inductive cache_step :: "('c, 'store, 'm) module_ext \<Rightarrow> ('c, 'm) Cache \<times> World \<Rightarrow> ('c, 'm) Cache \<times> World \<Rightarrow> bool"
  for X where
  step_save: "cache_step X s (snd (save_wasm X wasm s))"
| step_load: "cache_step X s (snd (load_wasm X checksum s))"
| step_analyze: "cache_step X s (snd (analyze X checksum s))"
| step_pin: "cache_step X s (snd (pin X checksum s))"
| step_unpin: "cache_step X s (snd (unpin X checksum s))"
| step_get: "cache_step X s (snd (get_module X checksum s))"

lemma ensures_step: "ensures I m Q \<Longrightarrow> I s \<Longrightarrow> I (snd (m s))"
  by (cases "m s") (auto dest: ensuresD)

lemma cache_step_inv:
  assumes "engine_ok X code_of" "lru_ok (mx_lru X) entries" "\<And>a b. path_join wp a \<noteq> module_path fc b"
    and "cache_step X s t" "cache_inv X code_of entries wp fc s"
  shows "cache_inv X code_of entries wp fc t"
  using assms(4,5)
proof cases
  case (step_unpin checksum)
  then show ?thesis using ensures_step [OF ensures_pinned_remove] assms(5) by (simp add: unpin_def)
qed (use assms(5) ensures_step [OF save_wasm_genuine [OF assms(1,3)]] ensures_step [OF load_wasm_keeps]
  ensures_step [OF analyze_keeps] ensures_step [OF pin_genuine [OF assms(1,2)]]
  ensures_step [OF get_module_genuine [OF assms(1,2)]] in \<open>simp_all\<close>)

lemma io_op_files:
  "(\<And>w. w_files (snd (f w)) = w_files w) \<Longrightarrow> ensures (\<lambda>w. w_files w = F) (io_op os f) (\<lambda>_. True)"
  unfolding ensures_def by (auto simp: io_op_def tick_def split: option.splits)

lemma create_dir_all_files: "ensures (\<lambda>w. w_files w = F) (fs_create_dir_all os p) (\<lambda>_. True)"
  unfolding fs_create_dir_all_def by (rule io_op_files) simp

lemma FileSystemCache_new_files:
  "ensures (\<lambda>w. w_files w = F) (FileSystemCache_new X p) (\<lambda>fc. fc_base_path fc = p)"
proof -
  have get: "ensures I (getM f) (\<lambda>_. True)" for I :: "World \<Rightarrow> bool" and f :: "World \<Rightarrow> bool"
    by (simp add: ensures_def m_simps)
  show ?thesis
    unfolding FileSystemCache_new_def Let_def
    by (intro ensures_bind [OF ensures_unwrap] ensures_bind [OF get])
      (auto intro!: ensures_bind [OF io_op_files] ensures_return ensures_fail ensures_then create_dir_all_files)
qed

lemma Cache_new_files:
  "ensures (\<lambda>w. w_files w = F) (Cache_new X options)
     (\<lambda>c. ca_pinned_memory_cache c = [] \<and> ca_wasm_path c = path_join (path_join (base_dir options) ''state'') ''wasm'' \<and>
        ca_memory_cache c = InMemoryCache_new (mx_lru X) (memory_cache_size options) \<and>
        fc_base_path (ca_fs_cache c) = path_join (path_join (base_dir options) ''cache'') ''modules'')"
  unfolding Cache_new_def Let_def forM.simps
  by (intro ensures_then ensures_map_err create_dir_all_files ensures_return TrueI
      ensures_bind [OF ensures_map_err [OF FileSystemCache_new_files]]) simp

lemma Cache_new_inv:
  assumes "lru_ok (mx_lru X) entries" "Cache_new X options w = (Ret c, w1)"
    and "\<And>p. w_files w (path_join (path_join (base_dir options) ''cache'') ''modules'' @ p) = None"
  shows "cache_inv X code_of entries (path_join (path_join (base_dir options) ''state'') ''wasm'') (ca_fs_cache c) (c, w1) \<and>
    fc_base_path (ca_fs_cache c) = path_join (path_join (base_dir options) ''cache'') ''modules''"
proof -
  note made = ensuresD_value [OF Cache_new_files [of "w_files w"] refl assms(2)]
  have files: "w_files w1 = w_files w" by (rule ensuresD [OF Cache_new_files refl assms(2)])
  have "w_files w1 (module_path (ca_fs_cache c) k) = None" for k
  proof -
    obtain sep where "path_join (fc_base_path (ca_fs_cache c)) v = fc_base_path (ca_fs_cache c) @ sep @ v" for v
      using path_join_split by metis
    moreover obtain sep' where "path_join (latest_modules_path (ca_fs_cache c)) v = latest_modules_path (ca_fs_cache c) @ sep' @ v" for v
      using path_join_split by metis
    ultimately show ?thesis
      using assms(3) made by (simp add: files module_path_def latest_modules_path_def Let_def)
  qed
  then have "modules_inv X code_of (ca_fs_cache c) w1" by (simp add: modules_inv_def)
  then show ?thesis
    using made assms(1) by (auto simp: cache_inv_def InMemoryCache_new_def Let_def lru_ok_def split: if_splits)
qed

section \<open>Saving and loading\<close>

definition cache_at :: "string \<Rightarrow> ('c, 'm) Cache \<Rightarrow> bool" where
  "cache_at base c \<longleftrightarrow>
     ca_wasm_path c = path_join (path_join base ''state'') ''wasm'' \<and>
     fc_base_path (ca_fs_cache c) = path_join (path_join base ''cache'') ''modules''"

lemma map_errM_Ret: "map_errM f m s = (Ret a, t) \<longleftrightarrow> m s = (Ret a, t)"
  by (auto simp: map_errM_def split: prod.splits outcome.splits)

lemma on_world_Ret: "on_world m (c, w) = (Ret a, s) \<longleftrightarrow> (\<exists>w'. m w = (Ret a, w') \<and> s = (c, w'))"
  by (auto simp: on_world_simps split: prod.splits)

lemma save_wasm_to_disk_file:
  assumes "save_wasm_to_disk X dir wasm w = (Ret checksum, w')"
  shows "checksum = Checksum_generate X wasm \<and>
    w_files w' (path_join dir (Checksum_to_hex checksum)) =
      Some (wasm @ drop (length wasm) (fs_contents w (path_join dir (Checksum_to_hex checksum))))"
proof -
  let ?path = "path_join dir (Checksum_to_hex (Checksum_generate X wasm))"
  obtain opened w1 where "fs_open_create (mx_os X) ?path w = (Ret opened, w1)"
    and stored: "fs_write_all (mx_os X) opened 0 wasm w1 = (Ret (), w')" and made: "checksum = Checksum_generate X wasm"
    using assms unfolding save_wasm_to_disk_def Let_def bindM_Ret_iff thenM_def returnM_def map_errM_Ret by auto
  then have "opened = ?path" "w_files w1 ?path = Some (fs_contents w ?path)"
    by (auto simp: fs_open_create_def io_op_def tick_def fs_contents_def split: option.splits if_splits)
  from fs_write_all_contents [OF this(2) _ stored [unfolded this(1)]] show ?thesis
    unfolding made by auto
qed

lemma FileSystemCache_store_file:
  assumes "FileSystemCache_store X fc checksum module w = (Ret (), w')"
  shows "only_file (module_path fc checksum) w w' \<and>
    (\<exists>bytes. mx_serialize X module = Ok bytes \<and> w_files w' (module_path fc checksum) = Some bytes)"
proof -
  obtain w1 bytes where dir: "fs_create_dir_all (mx_os X) (latest_modules_path fc) w = (Ret (), w1)"
    and "mx_serialize X module = Ok bytes" "fs_write (mx_os X) (module_path fc checksum) bytes w1 = (Ret (), w')"
    using assms
    by (auto simp: FileSystemCache_store_def Let_def bindM_Ret_iff thenM_def map_errM_Ret liftR_def module_path_def
        returnM_def failM_def split: result.splits)
  moreover from dir have "w_files w1 = w_files w" by (rule ensuresD [OF create_dir_all_files refl])
  ultimately show ?thesis using fs_write_contents by (auto simp: only_file_def)
qed

lemma save_wasm_cases:
  assumes "save_wasm X wasm (c, w) = (Ret checksum, s)"
  obtains module w1 w' where "s = (c, w')" "me_compile (mx_engine X) wasm None = Ok module"
    "save_wasm_to_disk X (ca_wasm_path c) wasm w = (Ret checksum, w1)"
    "FileSystemCache_store X (ca_fs_cache c) checksum module w1 = (Ret (), w')"
  using assms
  by (auto simp: save_wasm_def bindM_Ret_iff thenM_def of_cache_def getM_def unwrapM_def liftR_def returnM_def
      failM_def panicM_def on_world_Ret split: option.splits result.splits)

lemma load_wasm_run:
  assumes "\<And>n. os_fault (mx_os X) n = None" "w_files w (path_join (ca_wasm_path c) (Checksum_to_hex checksum)) = Some stored"
  shows "fst (load_wasm X checksum (c, w)) = (if Checksum_generate X stored = checksum then Ret stored else Fail IntegrityErr)"
  using assms
  by (simp add: load_wasm_def load_wasm_with_path_def load_wasm_from_disk_def Let_def m_simps of_cache_def on_world_simps
      fs_open_def fs_read_to_end_def io_op_def fs_contents_def tick_def)

lemma cache_reachable_inv:
  assumes "engine_ok X code_of" "lru_ok (mx_lru X) entries" "Cache_new X options w = (Ret c, w1)"
    and "\<And>p. w_files w (path_join (path_join (base_dir options) ''cache'') ''modules'' @ p) = None"
    and "(cache_step X)\<^sup>*\<^sup>* (c, w1) s"
  shows "cache_inv X code_of entries (path_join (path_join (base_dir options) ''state'') ''wasm'') (ca_fs_cache c) s"
  using assms(5)
proof (induction rule: rtranclp_induct)
  case base
  then show ?case using Cache_new_inv [OF assms(2-4)] by blast
next
  case (step s t)
  have "path_join (path_join (path_join (base_dir options) ''state'') ''wasm'') a \<noteq> module_path (ca_fs_cache c) b" for a b
    using Cache_new_inv [OF assms(2-4)] by (intro paths_apart) blast
  then show ?case using cache_step_inv [OF assms(1,2) _ step.hyps(2) step.IH] by blast
qed

text \<open>A counter that is not at its end goes up without a panic.\<close>

lemma count_one_run:
  assumes "unat (counter (ca_stats c)) + 1 < 2 ^ 32"
  shows "\<exists>st. count_one checks counter change (c, w) = (Ret (), (c\<lparr>ca_stats := st\<rparr>, w))"
  using assms by (auto simp: count_one_def m_simps on_self_simps prim_add_def chk_add_def)

lemma FileSystemCache_load_run:
  assumes "\<And>n. os_fault (mx_os X) n = None" "w_files w (module_path fc checksum) = Some bytes"
    "mx_deserialize X store bytes = Ok m"
  shows "\<exists>w'. FileSystemCache_load X fc checksum store w = (Ret (Some m), w')"
  using assms
  by (auto simp: FileSystemCache_load_def Let_def module_path_def m_simps fs_open_def fs_read_to_end_def io_op_def
      fs_contents_def tick_def)

lemma InMemoryCache_load_returns: "\<exists>found l. InMemoryCache_load L checksum self = (Ret found, l)"
  by (simp add: InMemoryCache_load_def split: option.split prod.split)

lemma InMemoryCache_store_returns:
  assumes "\<And>k v l. \<exists>l'. cl_put_with_weight L k v l = (Ok (), l')"
  shows "\<exists>l'. InMemoryCache_store L checksum m sz l = (Ret (), l')"
proof (cases l)
  case (Some modules)
  moreover obtain l' where "cl_put_with_weight L checksum \<lparr>sm_module = m, sm_size = sz\<rparr> modules = (Ok (), l')"
    using assms by blast
  ultimately show ?thesis by (simp add: InMemoryCache_store_def)
qed (simp add: InMemoryCache_store_def)

lemma get_module_run:
  assumes "\<And>n. os_fault (mx_os X) n = None" "w_files w (module_path (ca_fs_cache c) checksum) = Some bytes"
    "mx_deserialize X (me_runtime_store (mx_engine X) (Some (ca_instance_memory_limit c))) bytes = Ok m"
    "\<And>k v l. \<exists>l'. cl_put_with_weight (mx_lru X) k v l = (Ok (), l')"
    "unat (hits_pinned_memory_cache (ca_stats c)) + 1 < 2 ^ 32" "unat (hits_memory_cache (ca_stats c)) + 1 < 2 ^ 32"
    "unat (hits_fs_cache (ca_stats c)) + 1 < 2 ^ 32"
  shows "\<exists>m t. get_module X checksum (c, w) = (Ret m, t)"
proof (cases "hm_get (ca_pinned_memory_cache c) checksum")
  case (Some sm)
  obtain st where "count_one (mx_checks X) hits_pinned_memory_cache hits_pinned_memory_cache_update (c, w) =
      (Ret (), (c\<lparr>ca_stats := st\<rparr>, w))"
    using count_one_run [where w = w and c = c and counter = hits_pinned_memory_cache] assms(5) by auto
  with Some show ?thesis
    by (simp add: get_module_def m_simps on_pinned_def on_self_simps PinnedMemoryCache_load_def)
next
  case pinned: None
  obtain l found where load: "InMemoryCache_load (mx_lru X) checksum (ca_memory_cache c) = (Ret found, l)"
    using InMemoryCache_load_returns by blast
  show ?thesis
  proof (cases found)
    case (Some sm)
    obtain st where "count_one (mx_checks X) hits_memory_cache hits_memory_cache_update (c\<lparr>ca_memory_cache := l\<rparr>, w) =
        (Ret (), (c\<lparr>ca_memory_cache := l\<rparr>\<lparr>ca_stats := st\<rparr>, w))"
      using count_one_run [where w = w and c = "c\<lparr>ca_memory_cache := l\<rparr>" and counter = hits_memory_cache] assms(6) by auto
    with Some pinned load show ?thesis
      by (simp add: get_module_def m_simps on_pinned_def on_memory_def on_self_simps PinnedMemoryCache_load_def)
  next
    case None
    let ?store = "me_runtime_store (mx_engine X) (Some (ca_instance_memory_limit c))"
    obtain w2 where disk: "FileSystemCache_load X (ca_fs_cache c) checksum ?store w = (Ret (Some m), w2)"
      using FileSystemCache_load_run [OF assms(1-3)] by blast
    obtain st where "count_one (mx_checks X) hits_fs_cache hits_fs_cache_update (c\<lparr>ca_memory_cache := l\<rparr>, w2) =
        (Ret (), (c\<lparr>ca_memory_cache := l\<rparr>\<lparr>ca_stats := st\<rparr>, w2))"
      using count_one_run [where w = w2 and c = "c\<lparr>ca_memory_cache := l\<rparr>" and counter = hits_fs_cache] assms(7) by auto
    moreover obtain l' where "InMemoryCache_store (mx_lru X) checksum m (mx_size_of_val X m) l = (Ret (), l')"
      using InMemoryCache_store_returns [OF assms(4)] by blast
    ultimately show ?thesis
      using None pinned load disk
      by (simp add: get_module_def Let_def m_simps on_pinned_def on_memory_def on_self_simps on_world_simps of_cache_def
          PinnedMemoryCache_load_def)
  qed
qed

section \<open>Properties\<close>


text \<open>
  C27: What loading finds after saving.  When a Wasm file was saved and nothing fails, loading its
  checksum gives the code back if the file on disk was missing or not longer than the code.  A
  longer file is overwritten but not truncated: its tail stays, and the load fails with an
  integrity error, although saving reported success, unless the hash happens to agree.
\<close>

theorem save_load_wasm:
  assumes "\<And>n. os_fault (mx_os X) n = None" "cache_at base c"
    and "save_wasm X wasm (c, w) = (Ret checksum, s)"
    and "fs_contents w (path_join (ca_wasm_path c) (Checksum_to_hex (mx_sha256 X wasm))) = old"
  shows "checksum = mx_sha256 X wasm \<and>
    (length old \<le> length wasm \<longrightarrow> fst (load_wasm X checksum s) = Ret wasm) \<and>
    (length wasm < length old \<and> mx_sha256 X (wasm @ drop (length wasm) old) \<noteq> checksum \<longrightarrow>
       fst (load_wasm X checksum s) = Fail IntegrityErr)"
proof -
  obtain module w1 w' where s: "s = (c, w')" and saved: "save_wasm_to_disk X (ca_wasm_path c) wasm w = (Ret checksum, w1)"
    and cached: "FileSystemCache_store X (ca_fs_cache c) checksum module w1 = (Ret (), w')"
    using save_wasm_cases [OF assms(3)] by metis
  let ?path = "path_join (ca_wasm_path c) (Checksum_to_hex checksum)"
  have disk: "checksum = mx_sha256 X wasm" "w_files w1 ?path = Some (wasm @ drop (length wasm) old)"
    using save_wasm_to_disk_file [OF saved] assms(4) by (auto simp: Checksum_generate_def)
  have "?path \<noteq> module_path (ca_fs_cache c) checksum"
    using paths_apart assms(2) unfolding cache_at_def by metis
  then have "w_files w' ?path = Some (wasm @ drop (length wasm) old)"
    using FileSystemCache_store_file [OF cached] disk(2) by (simp add: only_file_def)
  from load_wasm_run [where c = c, OF assms(1) this] disk(1) s show ?thesis
    by (auto simp: Checksum_generate_def)
qed


section \<open>A sample cache\<close>

text \<open>
  An engine that knows one module, the empty one, and an LRU cache that never evicts.  The hash
  is the length of the code, 32 times.
\<close>

definition empty_wasm :: bytes where
  "empty_wasm = [0x00, 0x61, 0x73, 0x6d, 0x01, 0x00, 0x00, 0x00]"

definition sample_artifact :: bytes where
  "sample_artifact = EXPECTED_MODULE_HEADER_PREFIX @ [1, 0, 0, 0, 0, 0, 0, 0]"

definition sample_lru :: "((Checksum \<times> unit SizedModule) list, unit) clru" where
  "sample_lru =
     \<lparr>cl_new = (\<lambda>_ _. []), cl_put_with_weight = (\<lambda>k v l. (Ok (), AList.update k v l)),
      cl_get = (\<lambda>k l. (map_of l k, l)), cl_len = (\<lambda>l. of_nat (length l)), cl_weight = (\<lambda>l. sum_list (map (sm_size \<circ> snd) l))\<rparr>"

definition sample_mx :: "((Checksum \<times> unit SizedModule) list, unit, unit) module_ext" where
  "sample_mx =
     \<lparr>mx_os = sample_os, mx_readonly = (\<lambda>_ _. False), mx_checks = True,
      mx_sha256 = (\<lambda>code. replicate 32 (of_nat (length code))),
      mx_deserialize_buffer = (\<lambda>_. Ok sample_module),
      mx_features = \<lparr>cf_iterator = True, cf_allow_interface_version_7 = False\<rparr>,
      mx_engine = \<lparr>me_compile = (\<lambda>code _. if code = empty_wasm then Ok () else Err (CompileErr ''Could not compile: unknown module'')),
        me_runtime_store = (\<lambda>_. ())\<rparr>,
      mx_serialize = (\<lambda>_. Ok sample_artifact),
      mx_deserialize = (\<lambda>_ bytes. if bytes = sample_artifact then Ok () else Err ''Corrupted binary''),
      mx_size_of_val = (\<lambda>_. 1000),
      mx_lru = sample_lru\<rparr>"

definition sample_options :: CacheOptions where
  "sample_options =
     \<lparr>base_dir = ''/var/lib'', available_capabilities = [''staking''], memory_cache_size = 100000,
      instance_memory_limit = 65536\<rparr>"

definition sample_disk :: World where
  "sample_disk = \<lparr>w_now = 0, w_files = Map.empty, w_dirs = []\<rparr>"

lemma sample_engine_ok: "engine_ok sample_mx (\<lambda>_. empty_wasm)"
proof -
  have "take k sample_artifact \<noteq> sample_artifact" if "k < length sample_artifact" for k
    using that by (metis length_take min.absorb4 nat_neq_iff)
  then show ?thesis by (auto simp: engine_ok_def sample_mx_def split: if_splits)
qed

lemma sample_lru_ok: "lru_ok (mx_lru sample_mx) map_of"
  by (auto simp: lru_ok_def sample_mx_def sample_lru_def update_conv split: if_splits)

lemma sample_check: "check_wasm (mx_features sample_mx) (mx_deserialize_buffer sample_mx) code [''staking''] = Some (Ok ())"
  unfolding sample_mx_def module_ext.simps by code_simp

lemma sample_version: "current_wasmer_module_version sample_mx = Some 1"
  by (simp add: current_wasmer_module_version_def current_wasmer_module_header_def sample_mx_def sample_artifact_def
      empty_wasm_def EXPECTED_MODULE_HEADER_PREFIX_def str_bytes_def be_val_def)

definition sample_cache :: "((Checksum \<times> unit SizedModule) list, unit) Cache" where
  "sample_cache =
     \<lparr>ca_available_capabilities = [''staking''], ca_wasm_path = ''/var/lib/state/wasm'', ca_instance_memory_limit = 65536,
      ca_pinned_memory_cache = [], ca_memory_cache = Some [],
      ca_fs_cache = \<lparr>fc_base_path = ''/var/lib/cache/modules'', fc_wasmer_module_version = 1\<rparr>,
      ca_stats = \<lparr>hits_pinned_memory_cache = 0, hits_memory_cache = 0, hits_fs_cache = 0, misses = 0\<rparr>\<rparr>"

lemma create_dir_all_run:
  "fs_create_dir_all (mx_os sample_mx) path w =
     (Ret (), w\<lparr>w_now := Suc (w_now w), w_dirs := path_ancestors path @ w_dirs w\<rparr>)"
  by (simp add: fs_create_dir_all_def io_op_def tick_def sample_mx_def sample_os_def)

lemma sample_cache_new: "\<exists>w. Cache_new sample_mx sample_options sample_disk = (Ret sample_cache, w) \<and> w_files w = Map.empty"
proof -
  have paths: "path_join ''/var/lib'' ''state'' = ''/var/lib/state''" "path_join ''/var/lib'' ''cache'' = ''/var/lib/cache''"
    "path_join ''/var/lib/state'' ''wasm'' = ''/var/lib/state/wasm''"
    "path_join ''/var/lib/cache'' ''modules'' = ''/var/lib/cache/modules''"
    by (simp_all add: path_join_def)
  have fresh: "''/var/lib/cache/modules'' \<notin> set (path_ancestors ''/var/lib/state'')"
    "''/var/lib/cache/modules'' \<notin> set (path_ancestors ''/var/lib/cache'')"
    "''/var/lib/cache/modules'' \<notin> set (path_ancestors ''/var/lib/state/wasm'')"
    by code_simp+
  have memory: "InMemoryCache_new (mx_lru sample_mx) 100000 = Some []"
    by (simp add: InMemoryCache_new_def Let_def sample_mx_def sample_lru_def)
  show ?thesis
    by (simp add: Cache_new_def Let_def sample_options_def paths FileSystemCache_new_def sample_version m_simps
        create_dir_all_run sample_disk_def fs_is_dir_def fs_is_file_def fresh memory sample_cache_def)
qed

lemma write_all_run:
  assumes "os_fault os (w_now w) = None" "\<And>n k. os_write_len os n k = k" "data \<noteq> []"
  shows "fs_write_all os path pos data w =
    (Ret (), w\<lparr>w_now := Suc (w_now w), w_files := (w_files w)(path \<mapsto>
       take pos (fs_contents w path) @ data @ drop (pos + length data) (fs_contents w path))\<rparr>)"
  using assms
  by (simp add: fs_write_all.simps fs_write_at_def io_op_def tick_def Let_def fs_contents_def)

lemma sample_save:
  "\<exists>w. save_wasm sample_mx empty_wasm (sample_cache, w0) = (Ret (replicate 32 8), (sample_cache, w))"
proof -
  have os: "os_fault (mx_os sample_mx) n = None" "os_write_len (mx_os sample_mx) n k = k" for n k
    by (simp_all add: sample_mx_def sample_os_def)
  have engine: "me_compile (mx_engine sample_mx) empty_wasm None = Ok ()" "mx_serialize sample_mx m = Ok sample_artifact" for m
    by (simp_all add: sample_mx_def)
  have sum: "Checksum_generate sample_mx empty_wasm = replicate 32 8"
    by (simp add: Checksum_generate_def sample_mx_def empty_wasm_def)
  have data: "empty_wasm \<noteq> []" "sample_artifact \<noteq> []"
    by (simp_all add: empty_wasm_def sample_artifact_def)
  have "\<exists>w. save_wasm_to_disk sample_mx dir empty_wasm w0 = (Ret (replicate 32 8), w)" for dir w0
    by (simp add: save_wasm_to_disk_def Let_def sum m_simps fs_open_create_def io_op_def os write_all_run data)
  moreover have "\<exists>w. FileSystemCache_store sample_mx fc checksum () w0 = (Ret (), w)" for fc checksum w0
    by (simp add: FileSystemCache_store_def Let_def m_simps create_dir_all_run engine fs_write_def io_op_def os write_all_run data)
  ultimately obtain w1 w2 where "save_wasm_to_disk sample_mx (ca_wasm_path sample_cache) empty_wasm w0 = (Ret (replicate 32 8), w1)"
    "FileSystemCache_store sample_mx (ca_fs_cache sample_cache) (replicate 32 8) () w1 = (Ret (), w2)"
    by metis
  moreover have "ca_available_capabilities sample_cache = [''staking'']" by (simp add: sample_cache_def)
  ultimately show ?thesis
    by (simp add: save_wasm_def m_simps of_cache_def sample_check engine on_world_simps)
qed

lemma sample_no_modules:
  "w_files sample_disk (path_join (path_join (base_dir sample_options) ''cache'') ''modules'' @ p) = None"
  by (simp add: sample_disk_def)

lemma sample_available:
  assumes "save_wasm sample_mx empty_wasm (sample_cache, w0) = (Ret (replicate 32 8), (sample_cache, w))"
  shows "\<exists>m t. get_module sample_mx (replicate 32 8) (sample_cache, w) = (Ret m, t)"
proof -
  obtain module w1 where "FileSystemCache_store sample_mx (ca_fs_cache sample_cache) (replicate 32 8) module w1 = (Ret (), w)"
    using save_wasm_cases [OF assms] by (metis prod.inject)
  from FileSystemCache_store_file [OF this]
  have "w_files w (module_path (ca_fs_cache sample_cache) (replicate 32 8)) = Some sample_artifact"
    by (auto simp: sample_mx_def)
  then show ?thesis
    by (rule get_module_run [rotated])
      (simp_all add: sample_mx_def sample_os_def sample_lru_def sample_cache_def)
qed


theorem save_load_wasm_witness:
  "\<exists>w s. save_wasm sample_mx empty_wasm (sample_cache, w) = (Ret (replicate 32 8), s) \<and>
     fst (load_wasm sample_mx (replicate 32 8) s) = Fail IntegrityErr"
proof -
  let ?w = "sample_disk\<lparr>w_files := (\<lambda>_. Some (empty_wasm @ [1]))\<rparr>"
  have os: "os_fault (mx_os sample_mx) n = None" for n by (simp add: sample_mx_def sample_os_def)
  have at: "cache_at ''/var/lib'' sample_cache" by (simp add: cache_at_def sample_cache_def path_join_def)
  obtain s where save: "save_wasm sample_mx empty_wasm (sample_cache, ?w) = (Ret (replicate 32 8), s)"
    using sample_save by blast
  have old: "fs_contents ?w path = empty_wasm @ [1]" for path by (simp add: fs_contents_def)
  have "mx_sha256 sample_mx (empty_wasm @ drop (length empty_wasm) (empty_wasm @ [1])) \<noteq> replicate 32 8"
    by (simp add: sample_mx_def empty_wasm_def)
  moreover have "replicate 32 8 = mx_sha256 sample_mx empty_wasm" by (simp add: sample_mx_def empty_wasm_def)
  ultimately have "fst (load_wasm sample_mx (replicate 32 8) s) = Fail IntegrityErr"
    using save_load_wasm [OF os at save old] by auto
  with save show ?thesis by blast
qed


end
