(* ===== verification/QueueContract.thy ===== *)
theory QueueContract
  imports Namespaces WideInts
begin

text \<open>
  The contract \<^verbatim>\<open>cosmwasm/contracts/queue\<close>: a queue of numbers kept in the storage under big endian
  counters.  Its entry points over any storage, and that they implement a first in, first out
  queue on every storage that keeps the contract of the \<^verbatim>\<open>Storage\<close> trait.  A result of \<open>None\<close> is a
  panic; JSON is a parameter.
\<close>

section \<open>Messages and state\<close>

type_synonym i32 = "32 word"

record Item =
  it_value :: i32

datatype QueueExecuteMsg = Enqueue i32 | Dequeue

datatype QueueQueryMsg = Query_Count | Query_Sum | Query_Reducer | Query_List | Query_OpenIterators u32

datatype QueueResponse =
    CountResponse u32
  | SumResponse i32
  | ReducerResponse "(i32 \<times> i32) list"
  | ListResponse "u32 list" "u32 list" "u32 list"
  | EmptyResponse

section \<open>Entry points\<close>

text \<open>\<open>first_item\<close> is the first call of an iterator; a \<open>None\<close> in front is a call that panics.\<close>

fun first_item :: "Record option list \<Rightarrow> Record option option" where
  "first_item [] = Some None"
| "first_item (None # _) = None"
| "first_item (Some kv # _) = Some (Some kv)"

definition FIRST_KEY :: bytes where
  "FIRST_KEY = [0, 0, 0, 0]"

text \<open>\<^verbatim>\<open>u32::from_be_bytes(key.try_into().unwrap())\<close>.\<close>

definition key_number :: "bytes \<Rightarrow> u32 option" where
  "key_number key = (if length key = 4 then Some (of_nat (be_val key)) else None)"

definition enqueue :: "bool \<Rightarrow> 's Storage \<Rightarrow> Item serde \<Rightarrow> i32 \<Rightarrow> 's \<Rightarrow> (unit StdResult \<times> 's) option" where
  "enqueue checks D J value s =
     (case first_item (sto_range D s None None Descending) of
        None \<Rightarrow> None
      | Some last_item \<Rightarrow>
          (case (case last_item of
                   None \<Rightarrow> Some FIRST_KEY
                 | Some (key, _) \<Rightarrow>
                     Option.bind (key_number key) (\<lambda>last_key.
                     map_option (\<lambda>n. be_bytes 4 (unat n)) (prim_add checks last_key 1))) of
             None \<Rightarrow> None
           | Some new_key \<Rightarrow>
               (case std_to_vec J \<lparr>it_value = value\<rparr> of
                  Err e \<Rightarrow> Some (Err e, s)
                | Ok new_value \<Rightarrow> map_option (\<lambda>s'. (Ok (), s')) (sto_set D new_key new_value s))))"

definition handle_enqueue ::
  "bool \<Rightarrow> 's Storage \<Rightarrow> Item serde \<Rightarrow> i32 \<Rightarrow> 's \<Rightarrow> (Response StdResult \<times> 's) option" where
  "handle_enqueue checks D J value s =
     (case enqueue checks D J value s of
        None \<Rightarrow> None
      | Some (Err e, s') \<Rightarrow> Some (Err e, s')
      | Some (Ok _, s') \<Rightarrow> Some (Ok Response_new, s'))"

definition handle_dequeue :: "'s Storage \<Rightarrow> 's \<Rightarrow> (Response StdResult \<times> 's) option" where
  "handle_dequeue D s =
     (case first_item (sto_range D s None None Ascending) of
        None \<Rightarrow> None
      | Some None \<Rightarrow> Some (Ok Response_new, s)
      | Some (Some (key, value)) \<Rightarrow>
          map_option (\<lambda>s'. (Ok (Response_new\<lparr>r_data := Some value\<rparr>), s')) (sto_remove D key s))"

definition queue_instantiate :: "'s \<Rightarrow> (Response StdResult \<times> 's) option" where
  "queue_instantiate s = Some (Ok Response_new, s)"

definition queue_execute ::
  "bool \<Rightarrow> 's Storage \<Rightarrow> Item serde \<Rightarrow> QueueExecuteMsg \<Rightarrow> 's \<Rightarrow> (Response StdResult \<times> 's) option" where
  "queue_execute checks D J msg s =
     (case msg of
        Enqueue value \<Rightarrow> handle_enqueue checks D J value s
      | Dequeue \<Rightarrow> handle_dequeue D s)"

fun remove_keys :: "'s Storage \<Rightarrow> bytes list \<Rightarrow> 's \<Rightarrow> 's option" where
  "remove_keys D [] s = Some s"
| "remove_keys D (key # keys) s = Option.bind (sto_remove D key s) (remove_keys D keys)"

fun enqueue_all :: "bool \<Rightarrow> 's Storage \<Rightarrow> Item serde \<Rightarrow> i32 list \<Rightarrow> 's \<Rightarrow> (unit StdResult \<times> 's) option" where
  "enqueue_all checks D J [] s = Some (Ok (), s)"
| "enqueue_all checks D J (value # values) s =
     (case enqueue checks D J value s of
        None \<Rightarrow> None
      | Some (Err e, s') \<Rightarrow> Some (Err e, s')
      | Some (Ok _, s') \<Rightarrow> enqueue_all checks D J values s')"

definition queue_migrate :: "bool \<Rightarrow> 's Storage \<Rightarrow> Item serde \<Rightarrow> 's \<Rightarrow> (Response StdResult \<times> 's) option" where
  "queue_migrate checks D J s =
     (case those (sto_range D s None None Ascending) of
        None \<Rightarrow> None
      | Some records \<Rightarrow>
          (case remove_keys D (map fst records) s of
             None \<Rightarrow> None
           | Some s1 \<Rightarrow>
               (case enqueue_all checks D J [100, 101, 102] s1 of
                  None \<Rightarrow> None
                | Some (Err e, s') \<Rightarrow> Some (Err e, s')
                | Some (Ok _, s') \<Rightarrow> Some (Ok Response_new, s'))))"

section \<open>Queries\<close>

text \<open>\<^verbatim>\<open>i32\<close> addition, and the loop of \<^verbatim>\<open>fold\<close> and \<^verbatim>\<open>sum\<close>.\<close>

definition prim_sadd :: "bool \<Rightarrow> i32 \<Rightarrow> i32 \<Rightarrow> i32 option" where
  "prim_sadd checks a b =
     (if checks \<and> \<not> (- (2 ^ 31) \<le> sint a + sint b \<and> sint a + sint b < 2 ^ 31) then None else Some (a + b))"

fun add_all :: "bool \<Rightarrow> i32 \<Rightarrow> i32 list \<Rightarrow> i32 option" where
  "add_all checks acc [] = Some acc"
| "add_all checks acc (v # vs) = Option.bind (prim_sadd checks acc v) (\<lambda>t. add_all checks t vs)"

definition query_count :: "'s Storage \<Rightarrow> 's \<Rightarrow> QueueResponse option" where
  "query_count D s =
     map_option (\<lambda>records. CountResponse (of_nat (length records))) (those (sto_range D s None None Ascending))"

text \<open>Collecting results stops at the first error, before later calls of the iterator.\<close>

fun collect_items :: "Item serde \<Rightarrow> Record option list \<Rightarrow> Item list StdResult option" where
  "collect_items J [] = Some (Ok [])"
| "collect_items J (None # _) = None"
| "collect_items J (Some (_, v) # rest) =
     (case std_from_slice J v of
        Err e \<Rightarrow> Some (Err e)
      | Ok item \<Rightarrow>
          (case collect_items J rest of
             None \<Rightarrow> None
           | Some (Err e) \<Rightarrow> Some (Err e)
           | Some (Ok items) \<Rightarrow> Some (Ok (item # items))))"

definition query_sum :: "bool \<Rightarrow> 's Storage \<Rightarrow> Item serde \<Rightarrow> 's \<Rightarrow> QueueResponse StdResult option" where
  "query_sum checks D J s =
     (case collect_items J (sto_range D s None None Ascending) of
        None \<Rightarrow> None
      | Some (Err e) \<Rightarrow> Some (Err e)
      | Some (Ok values) \<Rightarrow> map_option (\<lambda>sum. Ok (SumResponse sum)) (add_all checks 0 (map it_value values)))"

text \<open>The inner iterator: an item that does not parse is a panic (\<^verbatim>\<open>expect\<close>).\<close>

fun sum_above :: "bool \<Rightarrow> Item serde \<Rightarrow> i32 \<Rightarrow> i32 \<Rightarrow> Record option list \<Rightarrow> i32 option" where
  "sum_above checks J my_val acc [] = Some acc"
| "sum_above checks J my_val acc (None # _) = None"
| "sum_above checks J my_val acc (Some (_, v) # rest) =
     (case std_from_slice J v of
        Err _ \<Rightarrow> None
      | Ok item \<Rightarrow>
          if sint (it_value item) > sint my_val
          then Option.bind (prim_sadd checks acc (it_value item)) (\<lambda>t. sum_above checks J my_val t rest)
          else sum_above checks J my_val acc rest)"

fun reducer_loop ::
  "bool \<Rightarrow> Item serde \<Rightarrow> Record option list \<Rightarrow> Record option list \<Rightarrow> (i32 \<times> i32) list \<Rightarrow> (i32 \<times> i32) list StdResult option" where
  "reducer_loop checks J all_items [] out = Some (Ok out)"
| "reducer_loop checks J all_items (None # _) out = None"
| "reducer_loop checks J all_items (Some (_, v) # rest) out =
     (case std_from_slice J v of
        Err e \<Rightarrow> Some (Err e)
      | Ok item \<Rightarrow>
          let my_val = it_value item in
          Option.bind (sum_above checks J my_val 0 all_items) (\<lambda>sum.
          reducer_loop checks J all_items rest (out @ [(my_val, sum)])))"

definition query_reducer :: "bool \<Rightarrow> 's Storage \<Rightarrow> Item serde \<Rightarrow> 's \<Rightarrow> QueueResponse StdResult option" where
  "query_reducer checks D J s =
     (let items = sto_range D s None None Ascending in
      case reducer_loop checks J items items [] of
        None \<Rightarrow> None
      | Some (Err e) \<Rightarrow> Some (Err e)
      | Some (Ok counters) \<Rightarrow> Some (Ok (ReducerResponse counters)))"

definition key_numbers :: "Record option list \<Rightarrow> u32 list option" where
  "key_numbers items = those (map (\<lambda>item. Option.bind item (\<lambda>(k, _). key_number k)) items)"

definition query_list :: "'s Storage \<Rightarrow> 's \<Rightarrow> QueueResponse option" where
  "query_list D s =
     (let threshold = Some [0x00, 0x00, 0x00, 0x20] in
      Option.bind (key_numbers (sto_range D s threshold threshold Ascending)) (\<lambda>empty.
      Option.bind (key_numbers (sto_range D s None threshold Ascending)) (\<lambda>early.
      Option.bind (key_numbers (sto_range D s threshold None Ascending)) (\<lambda>late.
      Some (ListResponse empty early late)))))"

text \<open>\<^verbatim>\<open>query\<close>: the response as a value, then as JSON; iterators that are only opened do nothing.\<close>

definition queue_query ::
  "bool \<Rightarrow> 's Storage \<Rightarrow> Item serde \<Rightarrow> QueueResponse serde \<Rightarrow> QueueQueryMsg \<Rightarrow> 's \<Rightarrow> bytes StdResult option" where
  "queue_query checks D J R msg s =
     (let answer = (case msg of
            Query_Count \<Rightarrow> map_option Ok (query_count D s)
          | Query_Sum \<Rightarrow> query_sum checks D J s
          | Query_Reducer \<Rightarrow> query_reducer checks D J s
          | Query_List \<Rightarrow> map_option Ok (query_list D s)
          | Query_OpenIterators count \<Rightarrow> Some (Ok EmptyResponse))
      in case answer of
           None \<Rightarrow> None
         | Some (Err e) \<Rightarrow> Some (Err e)
         | Some (Ok response) \<Rightarrow> Some (std_to_vec R response))"

section \<open>Records in order\<close>

lemma be_val_Cons: "be_val (x # xs) = unat x * 256 ^ length xs + be_val xs"
  using be_val_append [of "[x]" xs] by (simp add: be_val_def)

text \<open>Big endian numbers of the same length are ordered as their bytes are.\<close>

lemma be_val_less_iff: "length a = length b \<Longrightarrow> be_val a < be_val b \<longleftrightarrow> a < b"
proof (induction a arbitrary: b)
  case (Cons x a)
  then obtain y b' where b: "b = y # b'" "length a = length b'" by (cases b) auto
  have bounds: "be_val a < 256 ^ length b'" "be_val b' < 256 ^ length b'"
    using be_val_less [of a] be_val_less [of b'] b(2) by simp_all
  show ?case
  proof (cases "x = y")
    case True
    then show ?thesis using Cons.IH [OF b(2)] b by (simp add: be_val_Cons)
  next
    case False
    then consider "x < y" | "y < x" by fastforce
    then show ?thesis
    proof cases
      case 1
      then have "unat x + 1 \<le> unat y" by (simp add: word_less_nat_alt)
      then have "(unat x + 1) * 256 ^ length b' \<le> unat y * 256 ^ length b'" by (rule mult_le_mono1)
      with 1 bounds b show ?thesis by (simp add: be_val_Cons)
    next
      case 2
      then have "unat y + 1 \<le> unat x" by (simp add: word_less_nat_alt)
      then have "(unat y + 1) * 256 ^ length b' \<le> unat x * 256 ^ length b'" by (rule mult_le_mono1)
      with 2 bounds b show ?thesis by (auto simp: be_val_Cons)
    qed
  qed
qed (simp add: be_val_def)

lemma records_unique:
  assumes "sorted_wrt (<) (map fst xs)" "sorted_wrt (<) (map fst ys)" "set xs = set (ys :: ('k :: linorder \<times> 'v) list)"
  shows "xs = ys"
proof -
  have distinct: "distinct (map fst xs)" "distinct (map fst ys)"
    using assms(1,2) by (simp_all add: strict_sorted_iff)
  have keys: "map fst xs = map fst ys"
    using assms by (intro strict_sorted_equal) (auto simp: image_def)
  show ?thesis
  proof (rule nth_equalityI)
    show len: "length xs = length ys" using keys by (metis length_map)
    fix i
    assume i: "i < length xs"
    then have "fst (xs ! i) = fst (ys ! i)" using keys len by (metis nth_map)
    moreover have "xs ! i \<in> set ys" "ys ! i \<in> set ys" using i len assms(3) by (metis nth_mem)+
    ultimately show "xs ! i = ys ! i"
      using distinct(2) by (metis eq_key_imp_eq_value prod.collapse)
  qed
qed

lemma those_map_Some: "those (map Some xs) = Some xs"
  by (induction xs) simp_all

lemma first_item_records: "first_item (map Some rs) = Some (if rs = [] then None else Some (hd rs))"
  by (cases rs) simp_all

definition queue_records :: "'s Storage \<Rightarrow> 's \<Rightarrow> Record list" where
  "queue_records D s = (case those (sto_range D s None None Ascending) of Some rs \<Rightarrow> rs | None \<Rightarrow> [])"

definition queue_ok :: "'s Storage \<Rightarrow> 's \<Rightarrow> bool" where
  "queue_ok D s \<longleftrightarrow> list_all (\<lambda>(k, _). length k = 4) (queue_records D s)"

text \<open>\<open>n\<close> more values have keys of their own.\<close>

definition queue_room :: "'s Storage \<Rightarrow> nat \<Rightarrow> 's \<Rightarrow> bool" where
  "queue_room D n s \<longleftrightarrow>
     (if queue_records D s = [] then n \<le> 2 ^ 32 else be_val (fst (List.last (queue_records D s))) + n < 2 ^ 32)"

definition encodes :: "Item serde \<Rightarrow> i32 \<Rightarrow> bytes \<Rightarrow> bool" where
  "encodes J value bytes \<longleftrightarrow> sd_to_vec J \<lparr>it_value = value\<rparr> = Ok bytes \<and> bytes \<noteq> []"

context contract_storage
begin

lemma queue_range:
  assumes "sto_inv s"
  shows "sto_range D s None None ord = map Some (order_records ord (queue_records D s))"
    and "set (queue_records D s) = {(k, v). contents s k = Some v}"
    and "sorted_wrt (<) (map fst (queue_records D s))"
proof -
  obtain rs where rs: "sto_range D s None None Ascending = map Some rs"
    "set rs = {(k, v). contents s k = Some v}" "sorted_wrt (<) (map fst rs)"
    using range_records [OF assms, of None None Ascending] by (auto simp: in_range_def order_records_def)
  then have records: "queue_records D s = rs" by (simp add: queue_records_def those_map_Some)
  obtain rs' where rs': "sto_range D s None None ord = map Some (order_records ord rs')"
    "set rs' = {(k, v). contents s k = Some v}" "sorted_wrt (<) (map fst rs')"
    using range_records [OF assms, of None None ord] by (auto simp: in_range_def)
  have "rs' = rs" using rs rs' by (intro records_unique) auto
  with rs' records show "sto_range D s None None ord = map Some (order_records ord (queue_records D s))" by simp
  from rs records show "set (queue_records D s) = {(k, v). contents s k = Some v}"
    "sorted_wrt (<) (map fst (queue_records D s))" by simp_all
qed

lemma queue_records_eq:
  assumes "sto_inv s" "sorted_wrt (<) (map fst rs)" "set rs = {(k, v). contents s k = Some v}"
  shows "queue_records D s = rs"
  using queue_range [OF assms(1)] assms(2,3) by (intro records_unique) auto

text \<open>A value stored under a key behind all others is appended.\<close>

lemma set_appends:
  assumes "sto_inv s" "sto_set D key v s = Some s'" "\<And>k w. (k, w) \<in> set (queue_records D s) \<Longrightarrow> k < key"
  shows "sto_inv s' \<and> queue_records D s' = queue_records D s @ [(key, v)]"
proof -
  have inv: "sto_inv s'" by (rule set_inv [OF assms(1,2)])
  have "contents s key = None" using assms(3) queue_range(2) [OF assms(1)] by fastforce
  then have "set (queue_records D s @ [(key, v)]) = {(k, w). contents s' k = Some w}"
    using set_contents [OF assms(2)] queue_range(2) [OF assms(1)] by (auto split: if_splits)
  moreover have "sorted_wrt (<) (map fst (queue_records D s @ [(key, v)]))"
    using queue_range(3) [OF assms(1)] assms(3) by (auto simp: sorted_wrt_append)
  ultimately show ?thesis using queue_records_eq [OF inv] inv by blast
qed

lemma enqueue_appends:
  assumes "sto_inv s" "queue_ok D s" "queue_room D (Suc n) s" "encodes J value v"
  shows "\<exists>s'. enqueue checks D J value s = Some (Ok (), s') \<and> sto_inv s' \<and> queue_ok D s' \<and> queue_room D n s' \<and>
    map snd (queue_records D s') = map snd (queue_records D s) @ [v]"
proof -
  let ?rs = "queue_records D s"
  obtain key where key: "length key = 4" "be_val key + n < 2 ^ 32" "\<And>k w. (k, w) \<in> set ?rs \<Longrightarrow> k < key"
    and run: "enqueue checks D J value s = map_option (\<lambda>s'. (Ok (), s')) (sto_set D key v s)"
  proof (cases "?rs = []")
    case True
    show ?thesis
    proof (rule that [of FIRST_KEY])
      show "enqueue checks D J value s = map_option (\<lambda>s'. (Ok (), s')) (sto_set D FIRST_KEY v s)"
        using assms(4) True queue_range(1) [OF assms(1), of Descending]
        by (simp add: enqueue_def order_records_def std_to_vec_def encodes_def)
    qed (use True assms(3) in \<open>auto simp: FIRST_KEY_def queue_room_def be_val_def\<close>)
  next
    case False
    let ?k = "fst (List.last ?rs)"
    have last_in: "List.last ?rs \<in> set ?rs" using False by simp
    then have len: "length ?k = 4" using assms(2) by (force simp: queue_ok_def list_all_iff)
    have room: "be_val ?k + 1 + n < 2 ^ 32" using assms(3) False by (simp add: queue_room_def)
    then have number: "unat (of_nat (be_val ?k) :: u32) = be_val ?k" by (simp add: unat_of_nat)
    then have sum: "prim_add checks (of_nat (be_val ?k) :: u32) 1 = Some (of_nat (be_val ?k) + 1)"
      using room by (simp add: prim_add_def chk_add_def)
    have "unat (of_nat (be_val ?k) + 1 :: u32) = be_val ?k + 1"
      using room number by (simp add: unat_word_ariths)
    then have run: "enqueue checks D J value s = map_option (\<lambda>s'. (Ok (), s')) (sto_set D (be_bytes 4 (be_val ?k + 1)) v s)"
      using assms(4) False queue_range(1) [OF assms(1), of Descending] len sum
      by (simp add: enqueue_def order_records_def std_to_vec_def encodes_def first_item_records hd_rev key_number_def
          case_prod_beta)
    have val: "be_val (be_bytes 4 (be_val ?k + 1)) = be_val ?k + 1" using room by (simp add: be_val_be_bytes)
    have "sorted_wrt (<) (map fst (butlast ?rs @ [List.last ?rs]))" using queue_range(3) [OF assms(1)] False by simp
    then have behind: "k < ?k" if "(k, w) \<in> set (butlast ?rs)" for k w
      using that by (force simp: sorted_wrt_append)
    have "k < be_bytes 4 (be_val ?k + 1)" if "(k, w) \<in> set ?rs" for k w
    proof -
      have "k \<le> ?k"
      proof -
        have "(k, w) \<in> set (butlast ?rs @ [List.last ?rs])" using that False by simp
        then consider "(k, w) \<in> set (butlast ?rs)" | "(k, w) = List.last ?rs" by auto
        then show ?thesis
        proof cases
          case 1
          then show ?thesis using behind by (simp add: less_imp_le)
        next
          case 2
          then show ?thesis by (metis fst_conv order.refl)
        qed
      qed
      moreover have "length k = 4" using assms(2) that by (auto simp: queue_ok_def list_all_iff)
      ultimately have "be_val k \<le> be_val ?k"
        using be_val_less_iff [of ?k k] len by (metis leD leI)
      then show ?thesis using be_val_less_iff [of k "be_bytes 4 (be_val ?k + 1)"] \<open>length k = 4\<close> val by simp
    qed
    then show ?thesis by (intro that [OF _ _ _ run]) (use val room in simp_all)
  qed
  obtain s' where s': "sto_set D key v s = Some s'" using set_total assms(4) unfolding encodes_def by blast
  have "sto_inv s'" and rs': "queue_records D s' = ?rs @ [(key, v)]"
    using set_appends [OF assms(1) s'] key(3) by blast+
  then show ?thesis
    using run s' key(1,2) assms(2) by (auto simp: queue_ok_def queue_room_def)
qed

lemma dequeue_takes:
  assumes "sto_inv s" "queue_ok D s"
  shows "\<exists>s'. handle_dequeue D s =
      Some (Ok (Response_new\<lparr>r_data := (case map snd (queue_records D s) of [] \<Rightarrow> None | v # _ \<Rightarrow> Some v)\<rparr>), s') \<and>
    sto_inv s' \<and> queue_ok D s' \<and> map snd (queue_records D s') = tl (map snd (queue_records D s))"
proof (cases "queue_records D s")
  case Nil
  then show ?thesis
    using assms queue_range(1) [OF assms(1), of Ascending]
    by (simp add: handle_dequeue_def order_records_def Response_new_def)
next
  case (Cons r rs)
  obtain key v where r: "r = (key, v)" by (cases r)
  obtain s' where s': "sto_remove D key s = Some s'" "contents s' = (contents s)(key := None)"
    using remove_contents by blast
  have inv: "sto_inv s'" by (rule remove_inv [OF assms(1) s'(1)])
  have sorted: "sorted_wrt (<) (map fst ((key, v) # rs))" using queue_range(3) [OF assms(1)] Cons r by simp
  have "set rs = {(k, w). contents s' k = Some w}"
    using queue_range(2) [OF assms(1)] Cons r s'(2) sorted by (auto split: if_splits) fastforce+
  then have "queue_records D s' = rs" using sorted by (intro queue_records_eq [OF inv]) auto
  then show ?thesis
    using assms(2) inv Cons r s'(1) queue_range(1) [OF assms(1), of Ascending]
    by (auto simp: handle_dequeue_def order_records_def queue_ok_def)
qed

lemma remove_keys_contents:
  "sto_inv s \<Longrightarrow> \<exists>s'. remove_keys D ks s = Some s' \<and> sto_inv s' \<and> contents s' = (contents s) |` (- set ks)"
proof (induction ks arbitrary: s)
  case (Cons k ks)
  obtain s1 where s1: "sto_remove D k s = Some s1" "contents s1 = (contents s)(k := None)"
    using remove_contents by blast
  then obtain s' where "remove_keys D ks s1 = Some s'" "sto_inv s'" "contents s' = (contents s1) |` (- set ks)"
    using Cons.IH [of s1] remove_inv [OF Cons.prems] by blast
  then show ?case using s1 by (auto simp: restrict_map_def fun_eq_iff)
qed (auto simp: restrict_map_def)

lemma enqueue_all_appends:
  assumes "\<And>value. encodes J value (code value)"
  shows "sto_inv s \<Longrightarrow> queue_ok D s \<Longrightarrow> queue_room D (length vs) s \<Longrightarrow>
    \<exists>s'. enqueue_all checks D J vs s = Some (Ok (), s') \<and> sto_inv s' \<and> queue_ok D s' \<and>
      map snd (queue_records D s') = map snd (queue_records D s) @ map code vs"
proof (induction vs arbitrary: s)
  case (Cons v vs)
  then obtain s1 where s1: "enqueue checks D J v s = Some (Ok (), s1)" "sto_inv s1" "queue_ok D s1"
    "queue_room D (length vs) s1" "map snd (queue_records D s1) = map snd (queue_records D s) @ [code v]"
    using enqueue_appends [OF _ _ _ assms, of s "length vs" checks v] by auto
  with Cons.IH [OF s1(2-4)] show ?case by auto
qed simp

lemma migrate_resets:
  assumes "sto_inv s" "\<And>value. encodes J value (code value)"
  shows "\<exists>s'. queue_migrate checks D J s = Some (Ok Response_new, s') \<and> sto_inv s' \<and> queue_ok D s' \<and>
    map snd (queue_records D s') = map code [100, 101, 102]"
proof -
  have all: "those (sto_range D s None None Ascending) = Some (queue_records D s)"
    by (simp add: queue_range(1) [OF assms(1)] order_records_def those_map_Some)
  obtain s0 where s0: "remove_keys D (map fst (queue_records D s)) s = Some s0" "sto_inv s0"
    "contents s0 = (contents s) |` (- set (map fst (queue_records D s)))"
    using remove_keys_contents [OF assms(1)] by blast
  have "contents s0 k = None" for k
    using queue_range(2) [OF assms(1)] s0(3) by (cases "contents s k") (force simp: restrict_map_def)+
  then have empty: "queue_records D s0 = []" using queue_records_eq [OF s0(2), of "[]"] by simp
  then have "queue_ok D s0" "queue_room D (length [100, 101, 102 :: i32]) s0" by (simp_all add: queue_ok_def queue_room_def)
  then obtain s' where "enqueue_all checks D J [100, 101, 102] s0 = Some (Ok (), s')" "sto_inv s'" "queue_ok D s'"
    "map snd (queue_records D s') = map code [100, 101, 102]"
    using enqueue_all_appends [OF assms(2) s0(2)] empty by fastforce
  then show ?thesis using all s0(1) by (simp add: queue_migrate_def del: enqueue_all.simps)
qed

end

section \<open>First in, first out\<close>

text \<open>
  The interface of a queue: values go in at the back as their encoding and come out in front.
  \<open>room\<close> says how many more values fit, \<open>accepts\<close> which values have an encoding.
\<close>

primrec put_all :: "('v \<Rightarrow> 's \<Rightarrow> 's option) \<Rightarrow> 'v list \<Rightarrow> 's \<Rightarrow> 's option" where
  "put_all put [] s = Some s"
| "put_all put (v # vs) s = Option.bind (put v s) (put_all put vs)"

primrec drain_all :: "('s \<Rightarrow> ('b option \<times> 's) option) \<Rightarrow> nat \<Rightarrow> 's \<Rightarrow> ('b option list \<times> 's) option" where
  "drain_all take_first 0 s = Some ([], s)"
| "drain_all take_first (Suc n) s =
     Option.bind (take_first s) (\<lambda>(b, s'). map_option (\<lambda>(bs, t). (b # bs, t)) (drain_all take_first n s'))"

locale fifo =
  fixes put :: "'v \<Rightarrow> 's \<Rightarrow> 's option" and take_first :: "'s \<Rightarrow> ('b option \<times> 's) option"
    and items :: "'s \<Rightarrow> 'b list" and accepts :: "'v \<Rightarrow> 'b \<Rightarrow> bool" and ok :: "'s \<Rightarrow> bool" and room :: "nat \<Rightarrow> 's \<Rightarrow> bool"
  assumes put_items: "ok s \<Longrightarrow> room (Suc n) s \<Longrightarrow> accepts v b \<Longrightarrow>
      \<exists>s'. put v s = Some s' \<and> ok s' \<and> room n s' \<and> items s' = items s @ [b]"
    and take_items: "ok s \<Longrightarrow>
      \<exists>s'. take_first s = Some (case items s of [] \<Rightarrow> None | b # _ \<Rightarrow> Some b, s') \<and> ok s' \<and> items s' = tl (items s)"
begin

lemma put_all_items:
  "ok s \<Longrightarrow> room (length vs) s \<Longrightarrow> list_all2 accepts vs bs \<Longrightarrow> \<exists>s'. put_all put vs s = Some s' \<and> ok s' \<and> items s' = items s @ bs"
proof (induction vs arbitrary: s bs)
  case (Cons v vs)
  then obtain b bs' where bs: "bs = b # bs'" "accepts v b" "list_all2 accepts vs bs'" by (auto simp: list_all2_Cons1)
  with Cons.prems put_items [of s "length vs" v b] obtain s1 where
    "put v s = Some s1" "ok s1" "room (length vs) s1" "items s1 = items s @ [b]" by auto
  with Cons.IH [of s1 bs'] bs show ?case by auto
qed auto

lemma drain_all_items:
  "ok s \<Longrightarrow> \<exists>t. drain_all take_first (length (items s)) s = Some (map Some (items s), t) \<and> ok t \<and> items t = []"
proof (induction "items s" arbitrary: s)
  case Nil
  then show ?case by auto
next
  case (Cons b bs)
  then obtain s' where s': "take_first s = Some (Some b, s')" "ok s'" "items s' = bs"
    using take_items [of s] by (cases "items s") auto
  then obtain t where "drain_all take_first (length bs) s' = Some (map Some bs, t)" "ok t" "items t = []"
    using Cons.hyps(1) [of s'] by auto
  with s' Cons.hyps(2) show ?case by (metis (no_types, lifting) bind.bind_lunit case_prod_conv drain_all.simps(2) length_Cons list.simps(9) option.simps(9))
qed

lemma in_order:
  assumes "ok s" "room (length vs) s" "list_all2 accepts vs bs"
  shows "\<exists>s' t. put_all put vs s = Some s' \<and>
    drain_all take_first (length (items s) + length vs) s' = Some (map Some (items s @ bs), t) \<and> items t = []"
proof -
  obtain s' where s': "put_all put vs s = Some s'" "ok s'" "items s' = items s @ bs"
    using put_all_items [OF assms] by blast
  moreover have "length (items s) + length vs = length (items s')"
    using s'(3) list_all2_lengthD [OF assms(3)] by simp
  ultimately show ?thesis using drain_all_items [of s'] by auto
qed

end

definition queue_put :: "bool \<Rightarrow> Item serde \<Rightarrow> i32 \<Rightarrow> MemoryStorage \<Rightarrow> MemoryStorage option" where
  "queue_put checks J value s =
     (case queue_execute checks memory_storage J (Enqueue value) s of Some (Ok _, s') \<Rightarrow> Some s' | _ \<Rightarrow> None)"

definition queue_take :: "bool \<Rightarrow> Item serde \<Rightarrow> MemoryStorage \<Rightarrow> (bytes option \<times> MemoryStorage) option" where
  "queue_take checks J s =
     (case queue_execute checks memory_storage J Dequeue s of Some (Ok r, s') \<Rightarrow> Some (r_data r, s') | _ \<Rightarrow> None)"

interpretation queue: fifo "queue_put checks J" "queue_take checks J" "\<lambda>s. map snd (queue_records memory_storage s)"
  "encodes J" "\<lambda>s. bt_inv s \<and> queue_ok memory_storage s" "queue_room memory_storage" for checks J
proof
  fix s n v b
  assume "bt_inv s \<and> queue_ok memory_storage s" "queue_room memory_storage (Suc n) s" "encodes J v b"
  then show "\<exists>s'. queue_put checks J v s = Some s' \<and> (bt_inv s' \<and> queue_ok memory_storage s') \<and>
      queue_room memory_storage n s' \<and> map snd (queue_records memory_storage s') = map snd (queue_records memory_storage s) @ [b]"
    using mem.enqueue_appends [of s n J v b checks] by (auto simp: queue_put_def queue_execute_def handle_enqueue_def)
next
  fix s
  assume "bt_inv s \<and> queue_ok memory_storage s"
  then show "\<exists>s'. queue_take checks J s = Some (case map snd (queue_records memory_storage s) of [] \<Rightarrow> None | b # _ \<Rightarrow> Some b, s') \<and>
      (bt_inv s' \<and> queue_ok memory_storage s') \<and>
      map snd (queue_records memory_storage s') = tl (map snd (queue_records memory_storage s))"
    using mem.dequeue_takes [of s] by (auto simp: queue_take_def queue_execute_def)
qed

lemma memory_records: "bt_inv s \<Longrightarrow> queue_records memory_storage s = s"
  using bt.select_exact [of s "\<lambda>_. True"] bt.select_sorted [of s "\<lambda>_. True"]
  by (intro mem.queue_records_eq) (simp_all add: MemoryStorage_get_def)

section \<open>Properties\<close>

text \<open>
  C30: The queue contract is a first in, first out queue.  On a storage whose keys are the contract's
  and that has keys left, any values that are enqueued come out, by as many calls of dequeue as
  there are values, in the order of the stored values followed by the new ones, and then the
  storage is empty.  A migration leaves exactly the values 100, 101 and 102, whatever was stored.
  At the last key a further enqueue panics where overflow is checked.
\<close>

theorem queue_fifo:
  assumes "bt_inv s" "queue_ok memory_storage s" "queue_room memory_storage (length vs) s" "list_all2 (encodes J) vs bs"
    and "\<And>value. encodes J value (code value)"
  shows "(\<exists>s'. put_all (queue_put checks J) vs s = Some s' \<and>
       drain_all (queue_take checks J) (length s + length vs) s' = Some (map Some (map snd s @ bs), [])) \<and>
    (\<exists>s'. queue_migrate checks memory_storage J s = Some (Ok Response_new, s') \<and> map snd s' = map code [100, 101, 102]) \<and>
    (s \<noteq> [] \<and> be_val (fst (List.last s)) = 2 ^ 32 - 1 \<longrightarrow> queue_execute True memory_storage J (Enqueue v) s = None)"
proof (intro conjI impI)
  note records = memory_records [OF assms(1)]
  obtain s' t where run: "put_all (queue_put checks J) vs s = Some s'"
    "drain_all (queue_take checks J) (length s + length vs) s' = Some (map Some (map snd s @ bs), t)"
    and t: "map snd (queue_records memory_storage t) = []"
    using queue.in_order [of s vs J bs checks] assms(1-4) records by auto
  have "bt_inv s'" "queue_ok memory_storage s'" "map snd (queue_records memory_storage s') = map snd s @ bs"
    using queue.put_all_items [of s vs J bs checks] run(1) assms(1-4) records by auto
  then have "bt_inv t"
    using queue.drain_all_items [of s' checks J] run(2) list_all2_lengthD [OF assms(4)] by auto
  with t have "t = []" using memory_records by force
  with run show "\<exists>s'. put_all (queue_put checks J) vs s = Some s' \<and>
      drain_all (queue_take checks J) (length s + length vs) s' = Some (map Some (map snd s @ bs), [])"
    by blast
  show "\<exists>s'. queue_migrate checks memory_storage J s = Some (Ok Response_new, s') \<and> map snd s' = map code [100, 101, 102]"
    using mem.migrate_resets [OF assms(1,5), of checks] memory_records by metis
  assume full: "s \<noteq> [] \<and> be_val (fst (List.last s)) = 2 ^ 32 - 1"
  then have "first_item (sto_range memory_storage s None None Descending) = Some (Some (List.last s))"
    using mem.queue_range(1) [OF assms(1), of Descending] records
    by (simp add: order_records_def first_item_records hd_rev)
  moreover have "prim_add True (of_nat (2 ^ 32 - 1) :: u32) 1 = None" by (simp add: prim_add_def chk_add_def)
  ultimately show "queue_execute True memory_storage J (Enqueue v) s = None"
    using full by (simp add: queue_execute_def handle_enqueue_def enqueue_def key_number_def case_prod_beta)
qed

definition sample_item_serde :: "Item serde" where
  "sample_item_serde =
     \<lparr>sd_to_vec = (\<lambda>item. Ok (be_bytes 4 (unat (it_value item)))),
      sd_from_slice = (\<lambda>bytes. if length bytes = 4 then Ok \<lparr>it_value = of_nat (be_val bytes)\<rparr> else Err ''EOF''),
      sd_type_name = ''queue::state::Item''\<rparr>"

theorem queue_fifo_witness:
  "\<exists>s'. put_all (queue_put True sample_item_serde) [7, 9] [] = Some s' \<and>
     drain_all (queue_take True sample_item_serde) 2 s' = Some ([Some [0, 0, 0, 7], Some [0, 0, 0, 9]], [])"
proof -
  let ?code = "\<lambda>value. be_bytes 4 (unat value)"
  have enc: "encodes sample_item_serde x (?code x)" for x
    by (simp add: encodes_def sample_item_serde_def) (metis length_be_bytes list.size(3) zero_neq_numeral)
  have "?code (7 :: i32) = [0, 0, 0, 7]" "?code (9 :: i32) = [0, 0, 0, 9]" by code_simp+
  then have encoded: "list_all2 (encodes sample_item_serde) [7, 9] [[0, 0, 0, 7], [0, 0, 0, 9]]"
    using enc [of 7] enc [of 9] by simp
  have "queue_ok memory_storage []" "queue_room memory_storage (length [7, 9 :: i32]) []"
    by (simp_all add: queue_ok_def queue_room_def memory_records)
  from queue_fifo [OF _ this encoded enc, where checks = True and v = 0] show ?thesis
    by (simp add: numeral_2_eq_2 del: drain_all.simps put_all.simps)
qed

end
