(* ===== verification/EntryPoints.thy ===== *)
theory EntryPoints
  imports Isolation CwStorage
begin

text \<open>
  The entry points of \<^verbatim>\<open>packages/vm/src/calls.rs\<close> that the simulator does not use: \<^verbatim>\<open>migrate\<close>,
  \<^verbatim>\<open>sudo\<close> and the six calls of IBC.  A message or response that only these calls carry is a type
  variable with its JSON encoder or decoder, as the code only converts it.  Like the entry points
  of \<open>Imports\<close>, each of them can change nothing but the storage of its own contract.
\<close>

section \<open>Raw calls\<close>

definition call_migrate_raw ::
  "('m, 'w) externs \<Rightarrow> 'w call_op \<Rightarrow> bytes \<Rightarrow> bytes \<Rightarrow> ('w, bytes) vmM" where
  "call_migrate_raw X call env msg =
     thenM (set_storage_readonly False) (call_raw X call ''migrate'' [env, msg] READ_LIMIT)"

definition call_sudo_raw ::
  "('m, 'w) externs \<Rightarrow> 'w call_op \<Rightarrow> bytes \<Rightarrow> bytes \<Rightarrow> ('w, bytes) vmM" where
  "call_sudo_raw X call env msg =
     thenM (set_storage_readonly False) (call_raw X call ''sudo'' [env, msg] READ_LIMIT)"

definition call_ibc_channel_open_raw ::
  "('m, 'w) externs \<Rightarrow> 'w call_op \<Rightarrow> bytes \<Rightarrow> bytes \<Rightarrow> ('w, bytes) vmM" where
  "call_ibc_channel_open_raw X call env msg =
     thenM (set_storage_readonly False) (call_raw X call ''ibc_channel_open'' [env, msg] READ_LIMIT)"

definition call_ibc_channel_connect_raw ::
  "('m, 'w) externs \<Rightarrow> 'w call_op \<Rightarrow> bytes \<Rightarrow> bytes \<Rightarrow> ('w, bytes) vmM" where
  "call_ibc_channel_connect_raw X call env msg =
     thenM (set_storage_readonly False) (call_raw X call ''ibc_channel_connect'' [env, msg] READ_LIMIT)"

definition call_ibc_channel_close_raw ::
  "('m, 'w) externs \<Rightarrow> 'w call_op \<Rightarrow> bytes \<Rightarrow> bytes \<Rightarrow> ('w, bytes) vmM" where
  "call_ibc_channel_close_raw X call env msg =
     thenM (set_storage_readonly False) (call_raw X call ''ibc_channel_close'' [env, msg] READ_LIMIT)"

definition call_ibc_packet_receive_raw ::
  "('m, 'w) externs \<Rightarrow> 'w call_op \<Rightarrow> bytes \<Rightarrow> bytes \<Rightarrow> ('w, bytes) vmM" where
  "call_ibc_packet_receive_raw X call env msg =
     thenM (set_storage_readonly False) (call_raw X call ''ibc_packet_receive'' [env, msg] READ_LIMIT)"

definition call_ibc_packet_ack_raw ::
  "('m, 'w) externs \<Rightarrow> 'w call_op \<Rightarrow> bytes \<Rightarrow> bytes \<Rightarrow> ('w, bytes) vmM" where
  "call_ibc_packet_ack_raw X call env msg =
     thenM (set_storage_readonly False) (call_raw X call ''ibc_packet_ack'' [env, msg] READ_LIMIT)"

definition call_ibc_packet_timeout_raw ::
  "('m, 'w) externs \<Rightarrow> 'w call_op \<Rightarrow> bytes \<Rightarrow> bytes \<Rightarrow> ('w, bytes) vmM" where
  "call_ibc_packet_timeout_raw X call env msg =
     thenM (set_storage_readonly False) (call_raw X call ''ibc_packet_timeout'' [env, msg] READ_LIMIT)"

section \<open>Typed calls\<close>

definition call_migrate ::
  "('m, 'w) externs \<Rightarrow> 'w call_op \<Rightarrow> Env \<Rightarrow> bytes \<Rightarrow> ('w, Response ContractResult) vmM" where
  "call_migrate X call env msg =
     bindM (liftR (json_env X env)) (\<lambda>env.
     bindM (call_migrate_raw X call env msg) (\<lambda>data.
     liftR (parse_response X data)))"

definition call_sudo ::
  "('m, 'w) externs \<Rightarrow> 'w call_op \<Rightarrow> Env \<Rightarrow> bytes \<Rightarrow> ('w, Response ContractResult) vmM" where
  "call_sudo X call env msg =
     bindM (liftR (json_env X env)) (\<lambda>env.
     bindM (call_sudo_raw X call env msg) (\<lambda>data.
     liftR (parse_response X data)))"

definition call_ibc_channel_open ::
  "('m, 'w) externs \<Rightarrow> 'w call_op \<Rightarrow> 'a serde \<Rightarrow> 'r ContractResult serde \<Rightarrow> Env \<Rightarrow> 'a \<Rightarrow>
     ('w, 'r ContractResult) vmM" where
  "call_ibc_channel_open X call J R env msg =
     bindM (liftR (json_env X env)) (\<lambda>env.
     bindM (liftR (to_vec (sd_type_name J) (sd_to_vec J) msg)) (\<lambda>msg.
     bindM (call_ibc_channel_open_raw X call env msg) (\<lambda>data.
     liftR (from_slice (sd_type_name R) (sd_from_slice R) data DESERIALIZATION_LIMIT))))"

definition call_ibc_channel_connect ::
  "('m, 'w) externs \<Rightarrow> 'w call_op \<Rightarrow> 'a serde \<Rightarrow> 'r ContractResult serde \<Rightarrow> Env \<Rightarrow> 'a \<Rightarrow>
     ('w, 'r ContractResult) vmM" where
  "call_ibc_channel_connect X call J R env msg =
     bindM (liftR (json_env X env)) (\<lambda>env.
     bindM (liftR (to_vec (sd_type_name J) (sd_to_vec J) msg)) (\<lambda>msg.
     bindM (call_ibc_channel_connect_raw X call env msg) (\<lambda>data.
     liftR (from_slice (sd_type_name R) (sd_from_slice R) data DESERIALIZATION_LIMIT))))"

definition call_ibc_channel_close ::
  "('m, 'w) externs \<Rightarrow> 'w call_op \<Rightarrow> 'a serde \<Rightarrow> 'r ContractResult serde \<Rightarrow> Env \<Rightarrow> 'a \<Rightarrow>
     ('w, 'r ContractResult) vmM" where
  "call_ibc_channel_close X call J R env msg =
     bindM (liftR (json_env X env)) (\<lambda>env.
     bindM (liftR (to_vec (sd_type_name J) (sd_to_vec J) msg)) (\<lambda>msg.
     bindM (call_ibc_channel_close_raw X call env msg) (\<lambda>data.
     liftR (from_slice (sd_type_name R) (sd_from_slice R) data DESERIALIZATION_LIMIT))))"

definition call_ibc_packet_receive ::
  "('m, 'w) externs \<Rightarrow> 'w call_op \<Rightarrow> 'a serde \<Rightarrow> 'r ContractResult serde \<Rightarrow> Env \<Rightarrow> 'a \<Rightarrow>
     ('w, 'r ContractResult) vmM" where
  "call_ibc_packet_receive X call J R env msg =
     bindM (liftR (json_env X env)) (\<lambda>env.
     bindM (liftR (to_vec (sd_type_name J) (sd_to_vec J) msg)) (\<lambda>msg.
     bindM (call_ibc_packet_receive_raw X call env msg) (\<lambda>data.
     liftR (from_slice (sd_type_name R) (sd_from_slice R) data DESERIALIZATION_LIMIT))))"

definition call_ibc_packet_ack ::
  "('m, 'w) externs \<Rightarrow> 'w call_op \<Rightarrow> 'a serde \<Rightarrow> 'r ContractResult serde \<Rightarrow> Env \<Rightarrow> 'a \<Rightarrow>
     ('w, 'r ContractResult) vmM" where
  "call_ibc_packet_ack X call J R env msg =
     bindM (liftR (json_env X env)) (\<lambda>env.
     bindM (liftR (to_vec (sd_type_name J) (sd_to_vec J) msg)) (\<lambda>msg.
     bindM (call_ibc_packet_ack_raw X call env msg) (\<lambda>data.
     liftR (from_slice (sd_type_name R) (sd_from_slice R) data DESERIALIZATION_LIMIT))))"

definition call_ibc_packet_timeout ::
  "('m, 'w) externs \<Rightarrow> 'w call_op \<Rightarrow> 'a serde \<Rightarrow> 'r ContractResult serde \<Rightarrow> Env \<Rightarrow> 'a \<Rightarrow>
     ('w, 'r ContractResult) vmM" where
  "call_ibc_packet_timeout X call J R env msg =
     bindM (liftR (json_env X env)) (\<lambda>env.
     bindM (liftR (to_vec (sd_type_name J) (sd_to_vec J) msg)) (\<lambda>msg.
     bindM (call_ibc_packet_timeout_raw X call env msg) (\<lambda>data.
     liftR (from_slice (sd_type_name R) (sd_from_slice R) data DESERIALIZATION_LIMIT))))"

section \<open>Isolation\<close>

lemmas raw_entry_defs =
  call_migrate_raw_def
  call_sudo_raw_def
  call_ibc_channel_open_raw_def
  call_ibc_channel_connect_raw_def
  call_ibc_channel_close_raw_def
  call_ibc_packet_receive_raw_def
  call_ibc_packet_ack_raw_def
  call_ibc_packet_timeout_raw_def

lemmas entry_defs =
  call_migrate_def
  call_sudo_def
  call_ibc_channel_open_def
  call_ibc_channel_connect_def
  call_ibc_channel_close_def
  call_ibc_packet_receive_def
  call_ibc_packet_ack_def
  call_ibc_packet_timeout_def

text \<open>Whatever the contract does in such a call, only its own storage can have changed afterwards.\<close>

lemma keeps_entry_points:
  "keeps (home_le K) (call_migrate X (vm_call X n) env msg)"
  "keeps (home_le K) (call_sudo X (vm_call X n) env msg)"
  "keeps (home_le K) (call_ibc_channel_open X (vm_call X n) J R env arg)"
  "keeps (home_le K) (call_ibc_channel_connect X (vm_call X n) J R env arg)"
  "keeps (home_le K) (call_ibc_channel_close X (vm_call X n) J R env arg)"
  "keeps (home_le K) (call_ibc_packet_receive X (vm_call X n) J R env arg)"
  "keeps (home_le K) (call_ibc_packet_ack X (vm_call X n) J R env arg)"
  "keeps (home_le K) (call_ibc_packet_timeout X (vm_call X n) J R env arg)"
  unfolding entry_defs raw_entry_defs
  by (intro hm.bind hm.seq hm.lift_result keeps_home_readonly keeps_home [OF vmc.call_raw_kept])+

end
