(* ===== verification/Mocks.thy ===== *)
theory Mocks
  imports CwStorage Crypto Decimals
begin

text \<open>
  The mocks of \<^verbatim>\<open>packages/std/src/testing/mock.rs\<close> that tests of contracts run against: addresses and
  signatures (\<^verbatim>\<open>MockApi\<close>), environments, and the queriers for balances, delegations and contracts.
  The IBC messages of the file are left out.  \<open>None\<close> is a panic.  Lengths and sums of bytes are
  natural numbers: a slice of bytes is far too short for them to reach the width of \<^verbatim>\<open>usize\<close>.
\<close>

section \<open>Text\<close>

text \<open>
  \<^verbatim>\<open>str::to_lowercase\<close>.  The Unicode tables, which are only used for text with characters beyond
  ASCII, are the parameter \<open>lower\<close>.
\<close>

definition is_ascii :: "string \<Rightarrow> bool" where
  "is_ascii s \<longleftrightarrow> list_all (\<lambda>c. (of_char c :: nat) < 128) s"

definition ascii_lower :: "char \<Rightarrow> char" where
  "ascii_lower c = (let n = of_char c :: nat in if 65 \<le> n \<and> n \<le> 90 then char_of (n + 32) else c)"

definition to_lowercase :: "(string \<Rightarrow> string) \<Rightarrow> string \<Rightarrow> string" where
  "to_lowercase lower s = (if is_ascii s then map ascii_lower s else lower s)"

text \<open>The text of a \<^verbatim>\<open>Utf8Error\<close> for bytes that are not valid, with the index of the first such byte.\<close>

function utf8_error :: "nat \<Rightarrow> bytes \<Rightarrow> string" where
  "utf8_error i bs =
     (if bs = [] then []
      else if snd (utf8_step bs) then utf8_error (i + fst (utf8_step bs)) (drop (fst (utf8_step bs)) bs)
      else if 1 < utf8_len (hd bs) \<and> fst (utf8_step bs) = length bs
      then ''incomplete utf-8 byte sequence from index '' @ nat_str i
      else ''invalid utf-8 sequence of '' @ nat_str (fst (utf8_step bs)) @ '' bytes from index '' @ nat_str i)"
  by pat_completeness auto
termination
  by (relation "measure (length \<circ> snd)") (use utf8_step_pos in auto)

declare utf8_error.simps [simp del]

section \<open>Addresses\<close>

definition CANONICAL_LENGTH :: nat where "CANONICAL_LENGTH = 54"
definition SHUFFLES_ENCODE :: nat where "SHUFFLES_ENCODE = 18"
definition SHUFFLES_DECODE :: nat where "SHUFFLES_DECODE = 2"

record MockApi =
  ma_canonical_length :: nat

definition MockApi_default :: MockApi where
  "MockApi_default = \<lparr>ma_canonical_length = CANONICAL_LENGTH\<rparr>"

text \<open>\<^verbatim>\<open>Vec::resize\<close>, \<^verbatim>\<open>rotate_left\<close> and \<^verbatim>\<open>rotate_right\<close>, which panic beyond the length.\<close>

definition resize :: "nat \<Rightarrow> 'a \<Rightarrow> 'a list \<Rightarrow> 'a list" where
  "resize n x xs = take n xs @ replicate (n - length xs) x"

definition rotate_left :: "nat \<Rightarrow> 'a list \<Rightarrow> 'a list option" where
  "rotate_left k xs = (if k \<le> length xs then Some (drop k xs @ take k xs) else None)"

definition rotate_right :: "nat \<Rightarrow> 'a list \<Rightarrow> 'a list option" where
  "rotate_right k xs =
     (if k \<le> length xs then Some (drop (length xs - k) xs @ take (length xs - k) xs) else None)"

text \<open>The loop of \<open>riffle_shuffle\<close> takes the two halves in turn.\<close>

definition riffle_shuffle :: "'a list \<Rightarrow> 'a list option" where
  "riffle_shuffle input =
     (if length input mod 2 \<noteq> 0 then None
      else
        let mid = length input div 2; left = take mid input; right = drop mid input in
        Some (concat (map (\<lambda>i. [right ! i, left ! i]) [0..<mid])))"

primrec shuffle_rounds :: "nat \<Rightarrow> 'a list \<Rightarrow> 'a list option" where
  "shuffle_rounds 0 out = Some out"
| "shuffle_rounds (Suc n) out = Option.bind (riffle_shuffle out) (shuffle_rounds n)"

definition digit_sum :: "bytes \<Rightarrow> nat" where
  "digit_sum input = foldl (\<lambda>sum val. sum + unat val) 0 input"

text \<open>The remainder, which panics for the divisor zero.\<close>

definition rotation :: "bytes \<Rightarrow> nat \<Rightarrow> nat option" where
  "rotation out n = (if n = 0 then None else Some (digit_sum out mod n))"

definition addr_canonicalize :: "(string \<Rightarrow> string) \<Rightarrow> MockApi \<Rightarrow> string \<Rightarrow> bytes StdResult option" where
  "addr_canonicalize lower self input =
     (if length input < 3 then Some (Err (StdError_generic_err ''Invalid input: human address too short''))
      else if length input > ma_canonical_length self
      then Some (Err (StdError_generic_err ''Invalid input: human address too long''))
      else
        let normalized = to_lowercase lower input;
            out = resize (ma_canonical_length self) 0x00 (str_bytes normalized)
        in Option.bind (rotation out (ma_canonical_length self)) (\<lambda>rotate_by.
           Option.bind (rotate_left rotate_by out) (\<lambda>out.
           Option.bind (shuffle_rounds SHUFFLES_ENCODE out) (\<lambda>out.
           Some (Ok out)))))"

definition addr_humanize :: "MockApi \<Rightarrow> bytes \<Rightarrow> Addr StdResult option" where
  "addr_humanize self canonical =
     (if length canonical \<noteq> ma_canonical_length self
      then Some (Err (StdError_generic_err ''Invalid input: canonical address length not correct''))
      else
        Option.bind (shuffle_rounds SHUFFLES_DECODE canonical) (\<lambda>tmp.
        Option.bind (rotation tmp (ma_canonical_length self)) (\<lambda>rotate_by.
        Option.bind (rotate_right rotate_by tmp) (\<lambda>tmp.
        let trimmed = filter (\<lambda>x. x \<noteq> 0x00) tmp in
        case from_utf8 trimmed of
          None \<Rightarrow> Some (Err (StdError_invalid_utf8 (utf8_error 0 trimmed)))
        | Some human \<Rightarrow> Some (Ok human)))))"

definition addr_validate :: "(string \<Rightarrow> string) \<Rightarrow> MockApi \<Rightarrow> string \<Rightarrow> Addr StdResult option" where
  "addr_validate lower self input =
     (case addr_canonicalize lower self input of
        None \<Rightarrow> None
      | Some (Err e) \<Rightarrow> Some (Err e)
      | Some (Ok canonical) \<Rightarrow>
          (case addr_humanize self canonical of
             None \<Rightarrow> None
           | Some (Err e) \<Rightarrow> Some (Err e)
           | Some (Ok normalized) \<Rightarrow>
               if input \<noteq> normalized
               then Some (Err (StdError_generic_err ''Invalid input: address not normalized''))
               else Some (Ok input)))"

section \<open>Signatures\<close>

definition MockApi_secp256k1_verify ::
  "crypto_ext \<Rightarrow> bytes \<Rightarrow> bytes \<Rightarrow> bytes \<Rightarrow> (VerificationError, bool) result" where
  "MockApi_secp256k1_verify C message_hash signature public_key =
     map_errR VerificationError_from (secp256k1_verify C message_hash signature public_key)"

definition MockApi_secp256k1_recover_pubkey ::
  "crypto_ext \<Rightarrow> bytes \<Rightarrow> bytes \<Rightarrow> byte \<Rightarrow> (RecoverPubkeyError, bytes) result option" where
  "MockApi_secp256k1_recover_pubkey C message_hash signature recovery_param =
     (case secp256k1_recover_pubkey C message_hash signature recovery_param of
        Ok pubkey \<Rightarrow> Some (Ok pubkey)
      | Err e \<Rightarrow> map_option Err (RecoverPubkeyError_from e))"

definition MockApi_ed25519_verify ::
  "crypto_ext \<Rightarrow> bytes \<Rightarrow> bytes \<Rightarrow> bytes \<Rightarrow> (VerificationError, bool) result" where
  "MockApi_ed25519_verify C message signature public_key =
     map_errR VerificationError_from (ed25519_verify C message signature public_key)"

definition MockApi_ed25519_batch_verify ::
  "crypto_ext \<Rightarrow> bytes list \<Rightarrow> bytes list \<Rightarrow> bytes list \<Rightarrow> (VerificationError, bool) result" where
  "MockApi_ed25519_batch_verify C messages signatures public_keys =
     map_errR VerificationError_from (ed25519_batch_verify C messages signatures public_keys)"

section \<open>Environments\<close>

definition MOCK_CONTRACT_ADDR :: string where "MOCK_CONTRACT_ADDR = ''cosmos2contract''"

definition mock_env :: Env where
  "mock_env =
     \<lparr>env_block =
        \<lparr>bi_height = 12345, bi_time = Timestamp_from_nanos 1571797419879305533, bi_chain_id = ''cosmos-testnet-14002''\<rparr>,
      env_transaction = Some \<lparr>ti_index = 3\<rparr>,
      env_contract = \<lparr>ci_address = MOCK_CONTRACT_ADDR\<rparr>\<rparr>"

definition mock_info :: "string \<Rightarrow> Coin list \<Rightarrow> MessageInfo" where
  "mock_info sender funds = \<lparr>mi_sender = sender, mi_funds = funds\<rparr>"

definition mock_wasmd_attr :: "string \<Rightarrow> string \<Rightarrow> Attribute" where
  "mock_wasmd_attr key value = \<lparr>a_key = key, a_value = value\<rparr>"

section \<open>Queries\<close>

type_synonym QuerierResult = "Binary ContractResult SystemResult"

text \<open>\<^verbatim>\<open>to_binary(&res).into()\<close> inside of \<^verbatim>\<open>SystemResult::Ok\<close>.\<close>

definition answer :: "'t serde \<Rightarrow> 't \<Rightarrow> QuerierResult" where
  "answer J res = SystemResult_Ok (ContractResult_from (map_errR StdError_to_string (std_to_vec J res)))"

subsection \<open>Balances\<close>

record BankQuerier =
  bq_supplies :: "(string, Uint128) hmap"
  bq_balances :: "(string, Coin list) hmap"

record bank_json =
  bj_supply :: "Coin serde"
  bj_balance :: "BalanceResponse serde"
  bj_all_balances :: "AllBalanceResponse serde"

fun add_supplies :: "Coin list \<Rightarrow> (string, Uint128) hmap \<Rightarrow> (string, Uint128) hmap option" where
  "add_supplies [] supplies = Some supplies"
| "add_supplies (coin # rest) supplies =
     (let amount = (case hm_get supplies (c_denom coin) of None \<Rightarrow> Uint128_zero | Some a \<Rightarrow> a) in
      Option.bind (Uint128_add_assign amount (c_amount coin)) (\<lambda>amount.
      add_supplies rest (hm_insert (c_denom coin) amount supplies)))"

definition calculate_supplies :: "(string, Coin list) hmap \<Rightarrow> (string, Uint128) hmap option" where
  "calculate_supplies balances = add_supplies (concat (map snd balances)) []"

definition BankQuerier_new :: "(string \<times> Coin list) list \<Rightarrow> BankQuerier option" where
  "BankQuerier_new balances =
     (let balances = hm_collect balances in
      map_option (\<lambda>supplies. \<lparr>bq_supplies = supplies, bq_balances = balances\<rparr>) (calculate_supplies balances))"

definition BankQuerier_update_balance ::
  "BankQuerier \<Rightarrow> string \<Rightarrow> Coin list \<Rightarrow> (Coin list option \<times> BankQuerier) option" where
  "BankQuerier_update_balance self addr balance =
     (let result = hm_get (bq_balances self) addr; balances = hm_insert addr balance (bq_balances self) in
      map_option (\<lambda>supplies. (result, \<lparr>bq_supplies = supplies, bq_balances = balances\<rparr>))
        (calculate_supplies balances))"

text \<open>\<open>BankQuerier_supply\<close> is the case of builds with the feature \<^verbatim>\<open>cosmwasm_1_1\<close>.\<close>

definition BankQuerier_supply :: "bank_json \<Rightarrow> BankQuerier \<Rightarrow> string \<Rightarrow> QuerierResult" where
  "BankQuerier_supply J self denom =
     (let amount = (case hm_get (bq_supplies self) denom of None \<Rightarrow> Uint128_zero | Some a \<Rightarrow> a) in
      answer (bj_supply J) \<lparr>c_denom = denom, c_amount = amount\<rparr>)"

definition BankQuerier_query :: "bank_json \<Rightarrow> BankQuerier \<Rightarrow> BankQuery \<Rightarrow> QuerierResult" where
  "BankQuerier_query J self request =
     (case request of
        BankQuery_Balance address denom \<Rightarrow>
          let amount = (case Option.bind (hm_get (bq_balances self) address)
                               (\<lambda>v. map_option c_amount (List.find (\<lambda>c. c_denom c = denom) v)) of
                          None \<Rightarrow> 0 | Some a \<Rightarrow> a)
          in answer (bj_balance J) \<lparr>br_amount = \<lparr>c_denom = denom, c_amount = amount\<rparr>\<rparr>
      | BankQuery_AllBalances address \<Rightarrow>
          answer (bj_all_balances J)
            \<lparr>abr_amount = (case hm_get (bq_balances self) address of None \<Rightarrow> [] | Some v \<Rightarrow> v)\<rparr>)"

subsection \<open>Delegations\<close>

record ValidatorInfo =
  va_address :: string
  va_commission :: Decimal
  va_max_commission :: Decimal
  va_max_change_rate :: Decimal

record DelegationInfo =
  de_delegator :: Addr
  de_validator :: string
  de_amount :: Coin

record FullDelegation = DelegationInfo +
  fd_can_redelegate :: Coin
  fd_accumulated_rewards :: "Coin list"

text \<open>\<^verbatim>\<open>From<FullDelegation> for Delegation\<close>.\<close>

definition Delegation_from :: "FullDelegation \<Rightarrow> DelegationInfo" where
  "Delegation_from full = \<lparr>de_delegator = de_delegator full, de_validator = de_validator full, de_amount = de_amount full\<rparr>"

record staking_json =
  kj_bonded_denom :: "string serde"
  kj_all_validators :: "ValidatorInfo list serde"
  kj_validator :: "ValidatorInfo option serde"
  kj_all_delegations :: "DelegationInfo list serde"
  kj_delegation :: "FullDelegation option serde"

record StakingQuerier =
  sq_denom :: string
  sq_validators :: "ValidatorInfo list"
  sq_delegations :: "FullDelegation list"

definition StakingQuerier_default :: StakingQuerier where
  "StakingQuerier_default = \<lparr>sq_denom = [], sq_validators = [], sq_delegations = []\<rparr>"

definition StakingQuerier_new :: "string \<Rightarrow> ValidatorInfo list \<Rightarrow> FullDelegation list \<Rightarrow> StakingQuerier" where
  "StakingQuerier_new denom validators delegations =
     \<lparr>sq_denom = denom, sq_validators = validators, sq_delegations = delegations\<rparr>"

definition StakingQuerier_query :: "staking_json \<Rightarrow> StakingQuerier \<Rightarrow> StakingQuery \<Rightarrow> QuerierResult" where
  "StakingQuerier_query J self request =
     (case request of
        BondedDenom \<Rightarrow> answer (kj_bonded_denom J) (sq_denom self)
      | AllValidators \<Rightarrow> answer (kj_all_validators J) (sq_validators self)
      | Validator address \<Rightarrow>
          answer (kj_validator J) (List.find (\<lambda>validator. va_address validator = address) (sq_validators self))
      | AllDelegations delegator \<Rightarrow>
          answer (kj_all_delegations J)
            (map Delegation_from (filter (\<lambda>d. de_delegator d = delegator) (sq_delegations self)))
      | Delegation delegator validator \<Rightarrow>
          answer (kj_delegation J)
            (List.find (\<lambda>d. de_delegator d = delegator \<and> de_validator d = validator) (sq_delegations self)))"

subsection \<open>The querier\<close>

type_synonym WasmQuerier = "WasmQuery \<Rightarrow> QuerierResult"

definition WasmQuerier_default :: WasmQuerier where
  "WasmQuerier_default request =
     (let addr = (case request of
                    WasmQuery_Smart contract_addr _ \<Rightarrow> contract_addr
                  | WasmQuery_Raw contract_addr _ \<Rightarrow> contract_addr
                  | WasmQuery_ContractInfo contract_addr \<Rightarrow> contract_addr)
      in SystemResult_Err (NoSuchContract addr))"

record 'c MockQuerier =
  mq_bank :: BankQuerier
  mq_staking :: StakingQuerier
  mq_wasm :: WasmQuerier
  mq_custom_handler :: "'c \<Rightarrow> QuerierResult"

record 'c query_json =
  qj_bank :: bank_json
  qj_staking :: staking_json
  qj_request :: "'c QueryRequest serde"

definition MockQuerier_new :: "(string \<times> Coin list) list \<Rightarrow> 'c MockQuerier option" where
  "MockQuerier_new balances =
     map_option
       (\<lambda>bank. \<lparr>mq_bank = bank, mq_staking = StakingQuerier_default, mq_wasm = WasmQuerier_default,
                mq_custom_handler = (\<lambda>_. SystemResult_Err (UnsupportedRequest ''custom''))\<rparr>)
       (BankQuerier_new balances)"

definition MockQuerier_update_balance ::
  "'c MockQuerier \<Rightarrow> string \<Rightarrow> Coin list \<Rightarrow> (Coin list option \<times> 'c MockQuerier) option" where
  "MockQuerier_update_balance self addr balance =
     map_option (\<lambda>(old, bank). (old, self\<lparr>mq_bank := bank\<rparr>)) (BankQuerier_update_balance (mq_bank self) addr balance)"

definition update_staking ::
  "'c MockQuerier \<Rightarrow> string \<Rightarrow> ValidatorInfo list \<Rightarrow> FullDelegation list \<Rightarrow> 'c MockQuerier" where
  "update_staking self denom validators delegations =
     self\<lparr>mq_staking := StakingQuerier_new denom validators delegations\<rparr>"

definition update_wasm :: "'c MockQuerier \<Rightarrow> WasmQuerier \<Rightarrow> 'c MockQuerier" where
  "update_wasm self handler = self\<lparr>mq_wasm := handler\<rparr>"

definition with_custom_handler :: "'c MockQuerier \<Rightarrow> ('c \<Rightarrow> QuerierResult) \<Rightarrow> 'c MockQuerier" where
  "with_custom_handler self handler = self\<lparr>mq_custom_handler := handler\<rparr>"

definition MockQuerier_handle_query :: "'c query_json \<Rightarrow> 'c MockQuerier \<Rightarrow> 'c QueryRequest \<Rightarrow> QuerierResult" where
  "MockQuerier_handle_query J self request =
     (case request of
        QueryRequest_Bank bank_query \<Rightarrow> BankQuerier_query (qj_bank J) (mq_bank self) bank_query
      | QueryRequest_Custom custom_query \<Rightarrow> mq_custom_handler self custom_query
      | QueryRequest_Staking staking_query \<Rightarrow> StakingQuerier_query (qj_staking J) (mq_staking self) staking_query
      | QueryRequest_Wasm msg \<Rightarrow> mq_wasm self msg)"

definition MockQuerier_raw_query :: "'c query_json \<Rightarrow> 'c MockQuerier \<Rightarrow> bytes \<Rightarrow> QuerierResult" where
  "MockQuerier_raw_query J self bin_request =
     (case std_from_slice (qj_request J) bin_request of
        Err e \<Rightarrow> SystemResult_Err (InvalidRequest (''Parsing query request: '' @ StdError_to_string e) bin_request)
      | Ok request \<Rightarrow> MockQuerier_handle_query J self request)"

subsection \<open>Dependencies of a contract\<close>

record ('s, 'a, 'q) OwnedDeps =
  od_storage :: 's
  od_api :: 'a
  od_querier :: 'q

definition mock_dependencies_with_balances ::
  "(string \<times> Coin list) list \<Rightarrow> (MemoryStorage, MockApi, Empty MockQuerier) OwnedDeps option" where
  "mock_dependencies_with_balances balances =
     map_option
       (\<lambda>querier. \<lparr>od_storage = MemoryStorage_new, od_api = MockApi_default, od_querier = querier\<rparr>)
       (MockQuerier_new balances)"

definition mock_dependencies_with_balance ::
  "Coin list \<Rightarrow> (MemoryStorage, MockApi, Empty MockQuerier) OwnedDeps option" where
  "mock_dependencies_with_balance contract_balance =
     mock_dependencies_with_balances [(MOCK_CONTRACT_ADDR, contract_balance)]"

definition mock_dependencies :: "(MemoryStorage, MockApi, Empty MockQuerier) OwnedDeps option" where
  "mock_dependencies = mock_dependencies_with_balances []"

section \<open>Shuffling\<close>

lemma riffle_shuffle_map: "riffle_shuffle (map f xs) = map_option (map f) (riffle_shuffle xs)"
proof -
  let ?mid = "length xs div 2"
  have "map (\<lambda>i. [drop ?mid (map f xs) ! i, take ?mid (map f xs) ! i]) [0..<?mid] =
    map (\<lambda>i. [f (drop ?mid xs ! i), f (take ?mid xs ! i)]) [0..<?mid]"
    by (rule map_cong) simp_all
  then show ?thesis
    by (simp only: riffle_shuffle_def Let_def length_map option.map map_concat map_map comp_def list.map
        split: if_split) simp
qed

lemma shuffles_map: "shuffle_rounds n (map f xs) = map_option (map f) (shuffle_rounds n xs)"
proof (induction n arbitrary: xs)
  case (Suc n)
  then show ?case by (cases "riffle_shuffle xs") (simp_all add: riffle_shuffle_map)
qed simp

lemma shuffles_add: "shuffle_rounds (m + n) xs = Option.bind (shuffle_rounds m xs) (shuffle_rounds n)"
proof (induction m arbitrary: xs)
  case (Suc m)
  then show ?case by (cases "riffle_shuffle xs") simp_all
qed simp

text \<open>
  A list of \<open>n\<close> elements comes back after \<open>k\<close> shuffle_rounds if the numbers below \<open>n\<close> do: a shuffle
  moves positions, whatever stands there.
\<close>

lemma shuffles_restore:
  assumes "shuffle_rounds k [0..<n] = Some [0..<n]" "length xs = n"
  shows "shuffle_rounds k xs = Some xs"
  using shuffles_map [of k "(!) xs" "[0..<n]"] assms map_nth [of xs] by simp

lemma twenty_shuffles: "shuffle_rounds (SHUFFLES_ENCODE + SHUFFLES_DECODE) [0..<CANONICAL_LENGTH] = Some [0..<CANONICAL_LENGTH]"
  by code_simp

lemma riffle_shuffle_length: "riffle_shuffle xs = Some ys \<Longrightarrow> length ys = length xs"
  by (auto simp: riffle_shuffle_def Let_def length_concat comp_def sum_list_triv split: if_splits)

lemma shuffles_even:
  assumes "even (length xs)"
  shows "\<exists>ys. shuffle_rounds n xs = Some ys \<and> length ys = length xs"
  using assms
proof (induction n arbitrary: xs)
  case (Suc n)
  then obtain ys where ys: "riffle_shuffle xs = Some ys"
    by (auto simp: riffle_shuffle_def Let_def even_iff_mod_2_eq_zero)
  then have "length ys = length xs" by (rule riffle_shuffle_length)
  with ys Suc.IH [of ys] Suc.prems show ?case by simp
qed simp

section \<open>Rotating\<close>

lemma digit_sum_sum: "digit_sum bs = sum_list (map unat bs)"
proof -
  have "foldl (\<lambda>sum val. sum + unat val) a bs = a + sum_list (map unat bs)" for a
    by (induction bs arbitrary: a) simp_all
  from this [of 0] show ?thesis by (simp add: digit_sum_def)
qed

lemma rotate_left_right:
  assumes "rotate_left k xs = Some ys"
  shows "length ys = length xs" "rotate_right k ys = Some xs"
  using assms by (auto simp: rotate_left_def rotate_right_def split: if_splits)

lemma rotate_left_digit_sum:
  assumes "rotate_left k xs = Some ys"
  shows "digit_sum ys = digit_sum xs"
proof -
  have "ys = drop k xs @ take k xs" using assms by (auto simp: rotate_left_def split: if_splits)
  moreover have "digit_sum (us @ vs) = digit_sum (vs @ us)" for us vs by (simp add: digit_sum_sum)
  ultimately show ?thesis by (metis append_take_drop_id)
qed

section \<open>Null bytes\<close>

lemma utf8_lead:
  fixes a :: byte
  shows "0xC2 \<le> a \<Longrightarrow> \<not> a < 0x80" "0xE0 \<le> a \<Longrightarrow> \<not> a < 0x80" "0xF0 \<le> a \<Longrightarrow> \<not> a < 0x80"
    "0xE0 \<le> a \<Longrightarrow> \<not> a \<le> 0xDF" "0xF0 \<le> a \<Longrightarrow> \<not> a \<le> 0xDF" "0xF0 \<le> a \<Longrightarrow> \<not> a \<le> 0xEF"
  by (simp_all add: word_le_nat_alt word_less_nat_alt)

lemma utf8_valid_lead:
  "a < 0x80 \<Longrightarrow> utf8_valid (a # bs) = utf8_valid bs"
  "0xC2 \<le> a \<Longrightarrow> a \<le> 0xDF \<Longrightarrow> utf8_valid (a # bs) = (case bs of b # cs \<Rightarrow> utf8_cont b \<and> utf8_valid cs | _ \<Rightarrow> False)"
  "0xE0 \<le> a \<Longrightarrow> a \<le> 0xEF \<Longrightarrow> utf8_valid (a # bs) =
     (case bs of
        b # c # ds \<Rightarrow>
          utf8_cont b \<and> (a = 0xE0 \<longrightarrow> 0xA0 \<le> b) \<and> (a = 0xED \<longrightarrow> b \<le> 0x9F) \<and> utf8_cont c \<and> utf8_valid ds
      | _ \<Rightarrow> False)"
  "0xF0 \<le> a \<Longrightarrow> a \<le> 0xF4 \<Longrightarrow> utf8_valid (a # bs) =
     (case bs of
        b # c # d # es \<Rightarrow>
          utf8_cont b \<and> (a = 0xF0 \<longrightarrow> 0x90 \<le> b) \<and> (a = 0xF4 \<longrightarrow> b \<le> 0x8F) \<and>
          utf8_cont c \<and> utf8_cont d \<and> utf8_valid es
      | _ \<Rightarrow> False)"
  by (simp_all only: utf8_valid.simps(2) [of a bs] utf8_lead if_True if_False simp_thms)

text \<open>Removing null bytes from valid text leaves valid text, as no longer sequence contains one.\<close>

lemma utf8_valid_no_null: "utf8_valid bs \<Longrightarrow> utf8_valid (filter (\<lambda>x. x \<noteq> 0) bs)"
proof (induction "length bs" arbitrary: bs rule: less_induct)
  case less
  have cont: "utf8_cont b \<Longrightarrow> b \<noteq> 0" for b by (auto simp: utf8_cont_def)
  show ?case
  proof (cases bs)
    case (Cons a rest)
    note valid = less.prems [unfolded Cons]
    then consider "a < 0x80" | "0xC2 \<le> a" "a \<le> 0xDF" | "0xE0 \<le> a" "a \<le> 0xEF" | "0xF0 \<le> a" "a \<le> 0xF4"
      using utf8_valid.simps(2) [of a rest] by meson
    then show ?thesis
    proof cases
      case 1
      with valid less.hyps [of rest] Cons show ?thesis by (simp add: utf8_valid_lead(1) del: utf8_valid.simps)
    next
      case 2
      with valid obtain b cs where "rest = b # cs" "utf8_cont b" "utf8_valid cs"
        by (simp add: utf8_valid_lead(2) del: utf8_valid.simps split: list.splits)
      with 2 Cons cont less.hyps [of cs] show ?thesis
        by (auto simp: utf8_valid_lead(2) simp del: utf8_valid.simps)
    next
      case 3
      with valid obtain b c ds where "rest = b # c # ds" "utf8_cont b" "a = 0xE0 \<longrightarrow> 0xA0 \<le> b"
        "a = 0xED \<longrightarrow> b \<le> 0x9F" "utf8_cont c" "utf8_valid ds"
        by (auto simp add: utf8_valid_lead(3) simp del: utf8_valid.simps split: list.splits)
      with 3 Cons cont less.hyps [of ds] show ?thesis
        by (auto simp: utf8_valid_lead(3) simp del: utf8_valid.simps)
    next
      case 4
      with valid obtain b c d es where "rest = b # c # d # es" "utf8_cont b" "a = 0xF0 \<longrightarrow> 0x90 \<le> b"
        "a = 0xF4 \<longrightarrow> b \<le> 0x8F" "utf8_cont c" "utf8_cont d" "utf8_valid es"
        by (auto simp add: utf8_valid_lead(4) simp del: utf8_valid.simps split: list.splits)
      with 4 Cons cont less.hyps [of es] show ?thesis
        by (auto simp: utf8_valid_lead(4) simp del: utf8_valid.simps)
    qed
  qed simp
qed

lemma filter_resize:
  "length bs \<le> n \<Longrightarrow> filter (\<lambda>x. x \<noteq> 0) (resize n (0 :: byte) bs) = filter (\<lambda>x. x \<noteq> 0) bs"
  by (simp add: resize_def)

lemma str_bytes_filter:
  "filter (\<lambda>x. x \<noteq> 0) (str_bytes s) = str_bytes (filter (\<lambda>c. c \<noteq> CHR 0x00) s)"
proof -
  have "(of_nat (of_char c) :: byte) = 0 \<longleftrightarrow> c = CHR 0x00" for c :: char
    using bytes_str_str_bytes [of "[c]"] by (auto simp: str_bytes_def bytes_str_def char_of_def)
  then show ?thesis by (simp add: str_bytes_def filter_map comp_def)
qed

section \<open>Canonical addresses\<close>

lemma rotation_default: "rotation bs CANONICAL_LENGTH = Some (digit_sum bs mod CANONICAL_LENGTH)"
  by (simp add: rotation_def CANONICAL_LENGTH_def)

lemma addr_roundtrip_bytes:
  assumes "3 \<le> length s" "length s \<le> CANONICAL_LENGTH"
  obtains c where "addr_canonicalize lower MockApi_default s = Some (Ok c)" "length c = CANONICAL_LENGTH"
    "addr_humanize MockApi_default c =
       (let trimmed = filter (\<lambda>x. x \<noteq> 0) (resize CANONICAL_LENGTH 0 (str_bytes (to_lowercase lower s))) in
        Some (case from_utf8 trimmed of
                None \<Rightarrow> Err (StdError_invalid_utf8 (utf8_error 0 trimmed)) | Some human \<Rightarrow> Ok human))"
proof -
  let ?padded = "resize CANONICAL_LENGTH 0 (str_bytes (to_lowercase lower s))"
  let ?k = "digit_sum ?padded mod CANONICAL_LENGTH"
  have len: "length ?padded = CANONICAL_LENGTH" by (simp add: resize_def)
  have "?k < CANONICAL_LENGTH" by (simp add: CANONICAL_LENGTH_def)
  then obtain r where r: "rotate_left ?k ?padded = Some r" using len by (simp add: rotate_left_def)
  note turned = rotate_left_right [OF r] rotate_left_digit_sum [OF r]
  have "even (length r)" using turned(1) len by (simp add: CANONICAL_LENGTH_def)
  from shuffles_even [OF this] obtain c where
    c: "shuffle_rounds SHUFFLES_ENCODE r = Some c" "length c = length r" by blast
  have size: "length r = CANONICAL_LENGTH" using turned(1) len by (rule trans)
  then have "shuffle_rounds (SHUFFLES_ENCODE + SHUFFLES_DECODE) r = Some r"
    by (rule shuffles_restore [OF twenty_shuffles])
  then have restored: "shuffle_rounds SHUFFLES_DECODE c = Some r" using c by (simp only: shuffles_add Option.bind.simps)
  have k: "rotation ?padded CANONICAL_LENGTH = Some ?k" by (rule rotation_default)
  have "addr_canonicalize lower MockApi_default s = Some (Ok c)"
    using assms by (simp add: addr_canonicalize_def MockApi_default_def Let_def k r c)
  moreover have "rotation r CANONICAL_LENGTH = Some ?k" using turned(3) by (simp add: rotation_default)
  then have "addr_humanize MockApi_default c =
       (let trimmed = filter (\<lambda>x. x \<noteq> 0) ?padded in
        Some (case from_utf8 trimmed of
                None \<Rightarrow> Err (StdError_invalid_utf8 (utf8_error 0 trimmed)) | Some human \<Rightarrow> Ok human))"
    by (simp add: addr_humanize_def MockApi_default_def Let_def restored turned(2) c(2) size split: option.split)
  ultimately show ?thesis using c(2) size that by simp
qed

definition normal_form :: "(string \<Rightarrow> string) \<Rightarrow> string \<Rightarrow> string" where
  "normal_form lower s = filter (\<lambda>c. c \<noteq> CHR 0x00) (to_lowercase lower s)"

lemma addr_roundtrip_text:
  assumes "3 \<le> length s" "length s \<le> CANONICAL_LENGTH"
    and "utf8_valid (str_bytes (to_lowercase lower s))" "length (to_lowercase lower s) \<le> CANONICAL_LENGTH"
  obtains c where "addr_canonicalize lower MockApi_default s = Some (Ok c)" "length c = CANONICAL_LENGTH"
    "addr_humanize MockApi_default c = Some (Ok (normal_form lower s))"
proof -
  obtain c where c: "addr_canonicalize lower MockApi_default s = Some (Ok c)" "length c = CANONICAL_LENGTH"
    "addr_humanize MockApi_default c =
       (let trimmed = filter (\<lambda>x. x \<noteq> 0) (resize CANONICAL_LENGTH 0 (str_bytes (to_lowercase lower s))) in
        Some (case from_utf8 trimmed of
                None \<Rightarrow> Err (StdError_invalid_utf8 (utf8_error 0 trimmed)) | Some human \<Rightarrow> Ok human))"
    using addr_roundtrip_bytes [OF assms(1,2)] by metis
  have "filter (\<lambda>x. x \<noteq> 0) (resize CANONICAL_LENGTH 0 (str_bytes (to_lowercase lower s))) =
      str_bytes (normal_form lower s)"
    using assms(4) by (simp add: filter_resize str_bytes_filter normal_form_def)
  moreover have "utf8_valid (str_bytes (normal_form lower s))"
    using utf8_valid_no_null [OF assms(3)] by (simp add: str_bytes_filter normal_form_def)
  ultimately have "addr_humanize MockApi_default c = Some (Ok (normal_form lower s))"
    using c(3) by (simp add: from_utf8_def)
  with c(1,2) that show ?thesis by blast
qed

lemma ascii_lower_id: "ascii_lower c = c \<longleftrightarrow> \<not> (65 \<le> (of_char c :: nat) \<and> of_char c \<le> (90 :: nat))"
proof (cases "65 \<le> (of_char c :: nat) \<and> of_char c \<le> (90 :: nat)")
  case True
  then have "of_char (ascii_lower c) = (of_char c :: nat) + 32"
    by (simp add: ascii_lower_def Let_def)
  with True show ?thesis by (metis add_cancel_right_right zero_neq_numeral)
qed (auto simp: ascii_lower_def Let_def)

lemma filter_map_id: "filter P (map f s) = s \<longleftrightarrow> list_all (\<lambda>c. P c \<and> f c = c) s"
proof (induction s)
  case (Cons c s)
  have "filter P (map f s) \<noteq> c # s"
    using length_filter_le [of P "map f s"] by (metis Suc_n_not_le_n length_Cons length_map)
  then have "filter P (map f (c # s)) = c # s \<longleftrightarrow> P (f c) \<and> f c = c \<and> filter P (map f s) = s" by simp
  with Cons.IH show ?case by auto
qed simp

lemma normal_form_ascii:
  assumes "is_ascii s"
  shows "normal_form lower s = s \<longleftrightarrow>
    list_all (\<lambda>c. c \<noteq> CHR 0x00 \<and> \<not> (65 \<le> (of_char c :: nat) \<and> of_char c \<le> (90 :: nat))) s"
  using assms by (simp only: normal_form_def to_lowercase_def if_True filter_map_id ascii_lower_id)

section \<open>Supplies\<close>

definition supply_of :: "(string, Uint128) hmap \<Rightarrow> string \<Rightarrow> nat" where
  "supply_of supplies d = (case hm_get supplies d of None \<Rightarrow> 0 | Some a \<Rightarrow> unat a)"

definition denom_sum :: "string \<Rightarrow> Coin list \<Rightarrow> nat" where
  "denom_sum d cs = sum_list (map (\<lambda>c. unat (c_amount c)) (filter (\<lambda>c. c_denom c = d) cs))"

lemma add_assign_value:
  "Uint128_add_assign a b = (if unat a + unat b < 2 ^ 128 then Some (a + b) else None)"
  by (simp add: Uint128_add_assign_def Uint128_add_def chk_add_def)

text \<open>
  The supply of a token is the sum over all accounts, however the map of balances is iterated, and
  the calculation panics exactly if a sum does not fit.
\<close>

lemma add_supplies_exact:
  "(add_supplies cs supplies = None \<longleftrightarrow> (\<exists>d. 2 ^ 128 \<le> supply_of supplies d + denom_sum d cs)) \<and>
   (\<forall>m d. add_supplies cs supplies = Some m \<longrightarrow> supply_of m d = supply_of supplies d + denom_sum d cs)"
  if "\<And>d. supply_of supplies d < 2 ^ 128"
  using that
proof (induction cs arbitrary: supplies)
  case Nil
  then show ?case by (auto simp: denom_sum_def not_le)
next
  case (Cons c cs)
  define a where "a = (case hm_get supplies (c_denom c) of None \<Rightarrow> Uint128_zero | Some a \<Rightarrow> a)"
  have a: "supply_of supplies (c_denom c) = unat a"
    by (simp add: a_def supply_of_def Uint128_zero_def split: option.split)
  show ?case
  proof (cases "unat a + unat (c_amount c) < 2 ^ 128")
    case True
    let ?m = "hm_insert (c_denom c) (a + c_amount c) supplies"
    have m: "supply_of ?m d = supply_of supplies d + denom_sum d [c]" for d
      using True a by (auto simp: supply_of_def denom_sum_def unat_word_ariths)
    have split: "denom_sum d (c # cs) = denom_sum d [c] + denom_sum d cs" for d by (simp add: denom_sum_def)
    have "supply_of ?m d < 2 ^ 128" for d
      using True a Cons.prems [of d] by (cases "d = c_denom c") (simp_all add: m denom_sum_def)
    from Cons.IH [OF this] show ?thesis
      using True by (simp add: m split a_def [symmetric] add_assign_value add.assoc)
  next
    case False
    then have "2 ^ 128 \<le> supply_of supplies (c_denom c) + denom_sum (c_denom c) (c # cs)"
      by (simp add: a denom_sum_def)
    with False show ?thesis by (auto simp: a_def [symmetric] add_assign_value)
  qed
qed

section \<open>Property\<close>

text \<open>
  C37: The mock address API.  Any text of 3 to 54 bytes, whose lower case form is not longer than 54
  bytes, has a canonical address of 54 bytes, and that address is made human readable again as the
  lower case form without null bytes: 20 shuffles and the rotation restore the bytes.  So texts
  with different such forms have different canonical addresses, and validation accepts exactly the
  texts that are their own form; for ASCII these are the ones without capitals and null bytes.  A
  text of another length is rejected with an error.
\<close>

theorem mock_addresses:
  assumes "utf8_valid (str_bytes (to_lowercase lower s))" "length (to_lowercase lower s) \<le> 54"
  shows "if 3 \<le> length s \<and> length s \<le> 54
    then (\<exists>c. addr_canonicalize lower MockApi_default s = Some (Ok c) \<and> length c = 54 \<and>
            addr_humanize MockApi_default c = Some (Ok (normal_form lower s))) \<and>
         addr_validate lower MockApi_default s =
           Some (if normal_form lower s = s then Ok s
                 else Err (StdErr_GenericErr ''Invalid input: address not normalized'')) \<and>
         (is_ascii s \<longrightarrow> (normal_form lower s = s \<longleftrightarrow>
            list_all (\<lambda>c. c \<noteq> CHR 0x00 \<and> \<not> (65 \<le> (of_char c :: nat) \<and> of_char c \<le> (90 :: nat))) s))
    else \<exists>e. addr_validate lower MockApi_default s = Some (Err e)"
proof (cases "3 \<le> length s \<and> length s \<le> 54")
  case True
  then obtain c where c: "addr_canonicalize lower MockApi_default s = Some (Ok c)" "length c = 54"
    "addr_humanize MockApi_default c = Some (Ok (normal_form lower s))"
    using addr_roundtrip_text [of s lower] assms by (auto simp: CANONICAL_LENGTH_def)
  then have "addr_validate lower MockApi_default s =
      Some (if normal_form lower s = s then Ok s
            else Err (StdErr_GenericErr ''Invalid input: address not normalized''))"
    by (auto simp: addr_validate_def StdError_generic_err_def)
  with True c normal_form_ascii [of s lower] show ?thesis by auto
next
  case False
  then show ?thesis
    by (auto simp: addr_validate_def addr_canonicalize_def MockApi_default_def CANONICAL_LENGTH_def)
qed

theorem mock_addresses_witness:
  "addr_validate id MockApi_default ''foobar123'' = Some (Ok ''foobar123'') \<and>
   addr_validate id MockApi_default ''Foobar123'' =
     Some (Err (StdErr_GenericErr ''Invalid input: address not normalized''))"
proof -
  have low: "to_lowercase id ''foobar123'' = ''foobar123''" "to_lowercase id ''Foobar123'' = ''foobar123''" by code_simp+
  have valid: "utf8_valid (str_bytes ''foobar123'')" by code_simp
  have normal: "normal_form id ''foobar123'' = ''foobar123''" "normal_form id ''Foobar123'' = ''foobar123''"
    by code_simp+
  show ?thesis
    using mock_addresses [of id "''foobar123''"] mock_addresses [of id "''Foobar123''"] low valid normal
    by simp
qed

end
