(* ===== verification/GuestLib.thy ===== *)
theory GuestLib
  imports Imports CwStorage
begin

text \<open>
  The part of \<^verbatim>\<open>packages/std\<close> that runs inside a contract: memory regions (\<^verbatim>\<open>memory.rs\<close>), sections
  (\<^verbatim>\<open>sections.rs\<close>), the wrappers around the imports (\<^verbatim>\<open>imports.rs\<close>, \<^verbatim>\<open>import_helpers.rs\<close>), the exports
  (\<^verbatim>\<open>exports.rs\<close>) and the panic handler (\<^verbatim>\<open>panic.rs\<close>), as they are compiled for \<^verbatim>\<open>wasm32\<close>.

  A computation of the contract builds the tree of interactions that the VM of \<open>Imports\<close> runs:
  it is given what follows it (\<open>k\<close>) and the state of the Wasm instance, and each import it calls
  is a node.  The memory and Rust's allocator are the parameter \<open>machine\<close>.  Slices and vectors
  are values; where the code takes the address of one, \<open>place\<close> puts its bytes into memory.  A
  vector that the code keeps is not freed in the model.
\<close>

unbundle bit_operations_syntax

section \<open>The machine\<close>

text \<open>
  \<open>gm_used\<close> are the metering points used up to the next node, \<open>gm_panic_text\<close> is the text of a
  \<^verbatim>\<open>PanicInfo\<close>, and \<open>gm_hooked\<close> says whether the panic handler is installed.
\<close>

record 'w machine =
  gm_checks :: bool
  gm_peek :: "'w \<Rightarrow> nat \<Rightarrow> byte"
  gm_poke :: "nat \<Rightarrow> bytes \<Rightarrow> 'w \<Rightarrow> 'w"
  gm_alloc :: "nat \<Rightarrow> 'w \<Rightarrow> (u32 \<times> 'w) option"
  gm_dealloc :: "u32 \<Rightarrow> nat \<Rightarrow> 'w \<Rightarrow> 'w"
  gm_used :: "'w \<Rightarrow> nat"
  gm_panic_text :: "string \<Rightarrow> string"
  gm_hooked :: "'w \<Rightarrow> bool"
  gm_set_hook :: "'w \<Rightarrow> 'w"

type_synonym ('w, 'a) guest = "('a \<Rightarrow> 'w \<Rightarrow> 'w prog) \<Rightarrow> 'w \<Rightarrow> 'w prog"

definition returnG :: "'a \<Rightarrow> ('w, 'a) guest" where
  "returnG a k w = k a w"

definition bindG :: "('w, 'a) guest \<Rightarrow> ('a \<Rightarrow> ('w, 'b) guest) \<Rightarrow> ('w, 'b) guest" where
  "bindG m f k w = m (\<lambda>a. f a k) w"

definition thenG :: "('w, 'a) guest \<Rightarrow> ('w, 'b) guest \<Rightarrow> ('w, 'b) guest" where
  "thenG m n = bindG m (\<lambda>_. n)"

definition getG :: "('w \<Rightarrow> 'a) \<Rightarrow> ('w, 'a) guest" where
  "getG f k w = k (f w) w"

definition updateG :: "('w \<Rightarrow> 'w) \<Rightarrow> ('w, unit) guest" where
  "updateG f k w = k () (f w)"

text \<open>The instruction \<^verbatim>\<open>unreachable\<close>, which ends a panic and a failed allocation.\<close>

definition unreachableG :: "'w machine \<Rightarrow> ('w, 'a) guest" where
  "unreachableG G k w = Trap (gm_used G w) w ''unreachable''"

definition importG :: "'w machine \<Rightarrow> import_call \<Rightarrow> ('w, Val list) guest" where
  "importG G c k w = Host (gm_used G w) w c (\<lambda>w' vals. k vals w')"

text \<open>The types of the imports' results are checked when the contract is instantiated.\<close>

definition as_u32 :: "Val list \<Rightarrow> u32" where
  "as_u32 vals = (case vals of [I32 v] \<Rightarrow> v | _ \<Rightarrow> 0)"

definition as_u64 :: "Val list \<Rightarrow> u64" where
  "as_u64 vals = (case vals of [I64 v] \<Rightarrow> v | _ \<Rightarrow> 0)"

definition import32 :: "'w machine \<Rightarrow> import_call \<Rightarrow> ('w, u32) guest" where
  "import32 G c = bindG (importG G c) (\<lambda>vals. returnG (as_u32 vals))"

section \<open>Memory\<close>

definition contents :: "'w machine \<Rightarrow> 'w \<Rightarrow> nat \<Rightarrow> nat \<Rightarrow> bytes" where
  "contents G w p n = map (gm_peek G w) [p..<p + n]"

text \<open>Allocations of size zero have a dangling address.\<close>

definition allocG :: "'w machine \<Rightarrow> nat \<Rightarrow> ('w, u32) guest" where
  "allocG G n k w =
     (if n = 0 then k 1 w
      else case gm_alloc G n w of None \<Rightarrow> unreachableG G k w | Some (p, w') \<Rightarrow> k p w')"

definition freeG :: "'w machine \<Rightarrow> u32 \<Rightarrow> nat \<Rightarrow> ('w, unit) guest" where
  "freeG G p n = updateG (\<lambda>w. if n = 0 then w else gm_dealloc G p n w)"

definition place :: "'w machine \<Rightarrow> bytes \<Rightarrow> ('w, u32) guest" where
  "place G data =
     bindG (allocG G (length data)) (\<lambda>p. thenG (updateG (gm_poke G (unat p) data)) (returnG p))"

text \<open>\<^verbatim>\<open>Region\<close> in memory: three little endian words.\<close>

definition le32 :: "u32 \<Rightarrow> bytes" where
  "le32 v = rev (be_bytes 4 (unat v))"

definition un_le32 :: "bytes \<Rightarrow> u32" where
  "un_le32 bs = of_nat (be_val (rev bs))"

definition region_bytes :: "Region \<Rightarrow> bytes" where
  "region_bytes r = le32 (rg_offset r) @ le32 (rg_capacity r) @ le32 (rg_length r)"

definition region_at :: "'w machine \<Rightarrow> 'w \<Rightarrow> nat \<Rightarrow> Region" where
  "region_at G w p =
     \<lparr>rg_offset = un_le32 (contents G w p 4), rg_capacity = un_le32 (contents G w (p + 4) 4),
      rg_length = un_le32 (contents G w (p + 8) 4)\<rparr>"

definition REGION_SIZE :: nat where "REGION_SIZE = 12"

definition build_region_from_components :: "'w machine \<Rightarrow> u32 \<Rightarrow> u32 \<Rightarrow> u32 \<Rightarrow> ('w, u32) guest" where
  "build_region_from_components G offset capacity len =
     bindG (allocG G REGION_SIZE) (\<lambda>p.
     thenG (updateG (gm_poke G (unat p)
              (region_bytes \<lparr>rg_offset = offset, rg_capacity = capacity, rg_length = len\<rparr>)))
     (returnG p))"

definition drop_region :: "'w machine \<Rightarrow> u32 \<Rightarrow> ('w, unit) guest" where
  "drop_region G p = freeG G p REGION_SIZE"

definition build_region :: "'w machine \<Rightarrow> bytes \<Rightarrow> ('w, u32) guest" where
  "build_region G data =
     bindG (place G data) (\<lambda>data_ptr.
     build_region_from_components G data_ptr (of_nat (length data)) (of_nat (length data)))"

definition alloc :: "'w machine \<Rightarrow> nat \<Rightarrow> ('w, u32) guest" where
  "alloc G sz =
     bindG (allocG G sz) (\<lambda>data_ptr. build_region_from_components G data_ptr (of_nat sz) 0)"

definition release_buffer :: "'w machine \<Rightarrow> bytes \<Rightarrow> ('w, u32) guest" where
  "release_buffer G buffer = build_region G buffer"

definition get_optional_region_address :: "u32 option \<Rightarrow> u32" where
  "get_optional_region_address region = (case region of None \<Rightarrow> 0 | Some p \<Rightarrow> p)"

section \<open>Panics\<close>

definition install_panic_handler :: "'w machine \<Rightarrow> ('w, unit) guest" where
  "install_panic_handler G = updateG (gm_set_hook G)"

definition handle_panic :: "'w machine \<Rightarrow> string \<Rightarrow> ('w, unit) guest" where
  "handle_panic G message =
     bindG (build_region G (str_bytes message)) (\<lambda>region_ptr.
     thenG (importG G (Abort region_ptr)) (drop_region G region_ptr))"

definition panicG :: "'w machine \<Rightarrow> string \<Rightarrow> ('w, 'a) guest" where
  "panicG G message =
     bindG (getG (gm_hooked G)) (\<lambda>hooked.
     if hooked then thenG (handle_panic G (gm_panic_text G message)) (unreachableG G) else unreachableG G)"

definition unwrapG :: "'w machine \<Rightarrow> (string, 'a) result \<Rightarrow> ('w, 'a) guest" where
  "unwrapG G r = (case r of Ok a \<Rightarrow> returnG a | Err message \<Rightarrow> panicG G message)"

text \<open>The vector a region describes: its address and capacity, and its bytes.\<close>

definition consume_region_parts :: "'w machine \<Rightarrow> u32 \<Rightarrow> ('w, Region \<times> bytes) guest" where
  "consume_region_parts G ptr =
     (if ptr = 0 then panicG G ''Region pointer is null''
      else
        bindG (getG (\<lambda>w. region_at G w (unat ptr))) (\<lambda>region.
        if rg_offset region = 0 then panicG G ''Region starts at null pointer''
        else
          bindG (getG (\<lambda>w. contents G w (unat (rg_offset region)) (unat (rg_length region)))) (\<lambda>data.
          thenG (drop_region G ptr) (returnG (region, data)))))"

definition consume_region :: "'w machine \<Rightarrow> u32 \<Rightarrow> ('w, bytes) guest" where
  "consume_region G ptr = bindG (consume_region_parts G ptr) (\<lambda>(_, data). returnG data)"

definition consume_string_region_written_by_vm :: "'w machine \<Rightarrow> u32 \<Rightarrow> ('w, string) guest" where
  "consume_string_region_written_by_vm G from =
     bindG (consume_region G from) (\<lambda>data. returnG (bytes_str data))"

section \<open>Sections\<close>

text \<open>\<^verbatim>\<open>usize\<close> has 32 bits; a difference below zero panics, or wraps and then exceeds the length.\<close>

definition split_tail :: "bool \<Rightarrow> bytes \<Rightarrow> (string, bytes \<times> bytes) result" where
  "split_tail checks data =
     (if length data < 4 then Err ''Cannot read section length''
      else
        let tail_len = be_val (drop (length data - 4) data) in
        if length data < 4 + tail_len
        then (if checks then Err ''attempt to subtract with overflow''
              else Err (''`at` split index (is '' @ nat_str (length data + 2 ^ 32 - (4 + tail_len)) @
                        '') should be <= len (is '' @ nat_str (length data) @ '')''))
        else
          let rest_len_end = length data - 4 - tail_len;
              (rest, tail) = (if rest_len_end = 0 then ([], data)
                              else (take rest_len_end data, drop rest_len_end data))
          in Ok (rest, take tail_len tail))"

definition decode_sections2 :: "bool \<Rightarrow> bytes \<Rightarrow> (string, bytes \<times> bytes) result" where
  "decode_sections2 checks data =
     (case split_tail checks data of
        Err e \<Rightarrow> Err e
      | Ok (rest, second) \<Rightarrow>
          (case split_tail checks rest of Err e \<Rightarrow> Err e | Ok (_, first) \<Rightarrow> Ok (first, second)))"

definition force_to_u32 :: "nat \<Rightarrow> u32" where
  "force_to_u32 input = of_nat input"

definition std_encode_sections :: "bytes list \<Rightarrow> bytes" where
  "std_encode_sections sections =
     concat (map (\<lambda>section'. section' @ be_bytes 4 (unat (force_to_u32 (length section')))) sections)"

section \<open>Storage\<close>

definition ExternalStorage_get :: "'w machine \<Rightarrow> bytes \<Rightarrow> ('w, bytes option) guest" where
  "ExternalStorage_get G key =
     bindG (build_region G key) (\<lambda>key_ptr.
     bindG (import32 G (DbRead key_ptr)) (\<lambda>read.
     if read = 0 then thenG (drop_region G key_ptr) (returnG None)
     else
       bindG (consume_region G read) (\<lambda>data.
       thenG (drop_region G key_ptr) (returnG (Some data)))))"

definition EMPTY_VALUE :: string where
  "EMPTY_VALUE = ''TL;DR: Value must not be empty in Storage::set but in most cases you can use Storage::remove instead. Long story: Getting empty values from storage is not well supported at the moment. Some of our internal interfaces cannot differentiate between a non-existent key and an empty value. Right now, you cannot rely on the behaviour of empty values. To protect you from trouble later on, we stop here. Sorry for the inconvenience! We highly welcome you to contribute to CosmWasm, making this more solid one way or the other.''"

definition ExternalStorage_set :: "'w machine \<Rightarrow> bytes \<Rightarrow> bytes \<Rightarrow> ('w, unit) guest" where
  "ExternalStorage_set G key value =
     (if value = [] then panicG G EMPTY_VALUE
      else
        bindG (build_region G key) (\<lambda>key_ptr.
        bindG (build_region G value) (\<lambda>value_ptr.
        thenG (importG G (DbWrite key_ptr value_ptr))
        (thenG (drop_region G value_ptr) (drop_region G key_ptr)))))"

definition ExternalStorage_remove :: "'w machine \<Rightarrow> bytes \<Rightarrow> ('w, unit) guest" where
  "ExternalStorage_remove G key =
     bindG (build_region G key) (\<lambda>key_ptr.
     thenG (importG G (DbRemove key_ptr)) (drop_region G key_ptr))"

definition build_optional_region :: "'w machine \<Rightarrow> bytes option \<Rightarrow> ('w, u32 option) guest" where
  "build_optional_region G data =
     (case data of
        None \<Rightarrow> returnG None
      | Some bytes \<Rightarrow> bindG (build_region G bytes) (\<lambda>p. returnG (Some p)))"

definition drop_optional_region :: "'w machine \<Rightarrow> u32 option \<Rightarrow> ('w, unit) guest" where
  "drop_optional_region G region = (case region of None \<Rightarrow> returnG () | Some p \<Rightarrow> drop_region G p)"

text \<open>\<^verbatim>\<open>range\<close> returns an \<^verbatim>\<open>ExternalIterator\<close>, which is the number of the iterator.\<close>

definition ExternalStorage_range ::
  "'w machine \<Rightarrow> bytes option \<Rightarrow> bytes option \<Rightarrow> Order \<Rightarrow> ('w, u32) guest" where
  "ExternalStorage_range G start end' order =
     bindG (build_optional_region G start) (\<lambda>start_region.
     bindG (build_optional_region G end') (\<lambda>end_region.
     bindG (import32 G (DbScan (get_optional_region_address start_region)
                          (get_optional_region_address end_region) (Order_to_i32 order))) (\<lambda>iterator_id.
     thenG (drop_optional_region G end_region)
     (thenG (drop_optional_region G start_region) (returnG iterator_id)))))"

definition ExternalIterator_next :: "'w machine \<Rightarrow> u32 \<Rightarrow> ('w, Record option) guest" where
  "ExternalIterator_next G iterator_id =
     bindG (import32 G (DbNext iterator_id)) (\<lambda>next_result.
     bindG (consume_region G next_result) (\<lambda>kv.
     bindG (unwrapG G (decode_sections2 (gm_checks G) kv)) (\<lambda>(key, value).
     if length key = 0 then returnG None else returnG (Some (key, value)))))"

section \<open>Addresses and signatures\<close>

definition CANONICAL_ADDRESS_BUFFER_LENGTH :: nat where "CANONICAL_ADDRESS_BUFFER_LENGTH = 64"
definition HUMAN_ADDRESS_BUFFER_LENGTH :: nat where "HUMAN_ADDRESS_BUFFER_LENGTH = 90"

definition ExternalApi_addr_validate :: "'w machine \<Rightarrow> string \<Rightarrow> ('w, Addr StdResult) guest" where
  "ExternalApi_addr_validate G input =
     (if length input > 256 then returnG (Err (StdError_generic_err ''input too long for addr_validate''))
      else
        bindG (build_region G (str_bytes input)) (\<lambda>source_ptr.
        bindG (import32 G (AddrValidate source_ptr)) (\<lambda>result.
        if result \<noteq> 0 then
          bindG (consume_string_region_written_by_vm G result) (\<lambda>error.
          thenG (drop_region G source_ptr)
          (returnG (Err (StdError_generic_err (''addr_validate errored: '' @ error)))))
        else thenG (drop_region G source_ptr) (returnG (Ok input)))))"

definition ExternalApi_addr_canonicalize :: "'w machine \<Rightarrow> string \<Rightarrow> ('w, bytes StdResult) guest" where
  "ExternalApi_addr_canonicalize G input =
     (if length input > 256 then returnG (Err (StdError_generic_err ''input too long for addr_canonicalize''))
      else
        bindG (build_region G (str_bytes input)) (\<lambda>send_ptr.
        bindG (alloc G CANONICAL_ADDRESS_BUFFER_LENGTH) (\<lambda>canon.
        bindG (import32 G (AddrCanonicalize send_ptr canon)) (\<lambda>result.
        if result \<noteq> 0 then
          bindG (consume_string_region_written_by_vm G result) (\<lambda>error.
          thenG (drop_region G send_ptr)
          (returnG (Err (StdError_generic_err (''addr_canonicalize errored: '' @ error)))))
        else
          bindG (consume_region G canon) (\<lambda>out.
          thenG (drop_region G send_ptr) (returnG (Ok out)))))))"

definition ExternalApi_addr_humanize :: "'w machine \<Rightarrow> bytes \<Rightarrow> ('w, Addr StdResult) guest" where
  "ExternalApi_addr_humanize G canonical =
     bindG (build_region G canonical) (\<lambda>send_ptr.
     bindG (alloc G HUMAN_ADDRESS_BUFFER_LENGTH) (\<lambda>human.
     bindG (import32 G (AddrHumanize send_ptr human)) (\<lambda>result.
     if result \<noteq> 0 then
       bindG (consume_string_region_written_by_vm G result) (\<lambda>error.
       thenG (drop_region G send_ptr)
       (returnG (Err (StdError_generic_err (''addr_humanize errored: '' @ error)))))
     else
       bindG (consume_string_region_written_by_vm G human) (\<lambda>address.
       thenG (drop_region G send_ptr) (returnG (Ok address))))))"

text \<open>Three regions for a call with a number as its result.\<close>

definition call_with_three ::
  "'w machine \<Rightarrow> (u32 \<Rightarrow> u32 \<Rightarrow> u32 \<Rightarrow> import_call) \<Rightarrow> bytes \<Rightarrow> bytes \<Rightarrow> bytes \<Rightarrow> ('w, u32) guest" where
  "call_with_three G c a b d =
     bindG (build_region G a) (\<lambda>a_ptr.
     bindG (build_region G b) (\<lambda>b_ptr.
     bindG (build_region G d) (\<lambda>d_ptr.
     bindG (import32 G (c a_ptr b_ptr d_ptr)) (\<lambda>result.
     thenG (drop_region G d_ptr) (thenG (drop_region G b_ptr) (thenG (drop_region G a_ptr) (returnG result)))))))"

definition ExternalApi_secp256k1_verify ::
  "'w machine \<Rightarrow> bytes \<Rightarrow> bytes \<Rightarrow> bytes \<Rightarrow> ('w, (VerificationError, bool) result) guest" where
  "ExternalApi_secp256k1_verify G message_hash signature public_key =
     bindG (call_with_three G Secp256k1Verify message_hash signature public_key) (\<lambda>result.
     if result = 0 then returnG (Ok True)
     else if result = 1 then returnG (Ok False)
     else if result = 2 then panicG G ''MessageTooLong must not happen. This is a bug in the VM.''
     else if result = 3 then returnG (Err VE_InvalidHashFormat)
     else if result = 4 then returnG (Err VE_InvalidSignatureFormat)
     else if result = 5 then returnG (Err VE_InvalidPubkeyFormat)
     else if result = 10 then returnG (Err VE_GenericErr)
     else returnG (Err (VerificationError_unknown_err result)))"

definition from_high_half :: "u64 \<Rightarrow> u32" where
  "from_high_half data = ucast (drop_bit 32 data)"

definition from_low_half :: "u64 \<Rightarrow> u32" where
  "from_low_half data = ucast (data AND 0xFFFFFFFF)"

definition ExternalApi_secp256k1_recover_pubkey ::
  "'w machine \<Rightarrow> bytes \<Rightarrow> bytes \<Rightarrow> byte \<Rightarrow> ('w, (RecoverPubkeyError, bytes) result) guest" where
  "ExternalApi_secp256k1_recover_pubkey G message_hash signature recover_param =
     bindG (build_region G message_hash) (\<lambda>hash_ptr.
     bindG (build_region G signature) (\<lambda>sig_ptr.
     bindG (importG G (Secp256k1RecoverPubkey hash_ptr sig_ptr (ucast recover_param))) (\<lambda>vals.
     let result = as_u64 vals; error_code = from_high_half result; pubkey_ptr = from_low_half result in
     bindG (if error_code = 0 then bindG (consume_region G pubkey_ptr) (\<lambda>pubkey. returnG (Ok pubkey))
            else if error_code = 2 then panicG G ''MessageTooLong must not happen. This is a bug in the VM.''
            else if error_code = 3 then returnG (Err RP_InvalidHashFormat)
            else if error_code = 4 then returnG (Err RP_InvalidSignatureFormat)
            else if error_code = 6 then returnG (Err RP_InvalidRecoveryParam)
            else returnG (Err (RecoverPubkeyError_unknown_err error_code))) (\<lambda>answer.
     thenG (drop_region G sig_ptr) (thenG (drop_region G hash_ptr) (returnG answer))))))"

definition ed25519_answer :: "'w machine \<Rightarrow> u32 \<Rightarrow> ('w, (VerificationError, bool) result) guest" where
  "ed25519_answer G result =
     (if result = 0 then returnG (Ok True)
      else if result = 1 then returnG (Ok False)
      else if result = 2 then panicG G ''Error code 2 unused since CosmWasm 0.15. This is a bug in the VM.''
      else if result = 3 then panicG G ''InvalidHashFormat must not happen. This is a bug in the VM.''
      else if result = 4 then returnG (Err VE_InvalidSignatureFormat)
      else if result = 5 then returnG (Err VE_InvalidPubkeyFormat)
      else if result = 10 then returnG (Err VE_GenericErr)
      else returnG (Err (VerificationError_unknown_err result)))"

definition ExternalApi_ed25519_verify ::
  "'w machine \<Rightarrow> bytes \<Rightarrow> bytes \<Rightarrow> bytes \<Rightarrow> ('w, (VerificationError, bool) result) guest" where
  "ExternalApi_ed25519_verify G message signature public_key =
     bindG (call_with_three G Ed25519Verify message signature public_key) (ed25519_answer G)"

definition ExternalApi_ed25519_batch_verify ::
  "'w machine \<Rightarrow> bytes list \<Rightarrow> bytes list \<Rightarrow> bytes list \<Rightarrow> ('w, (VerificationError, bool) result) guest" where
  "ExternalApi_ed25519_batch_verify G messages signatures public_keys =
     bindG (call_with_three G Ed25519BatchVerify (std_encode_sections messages) (std_encode_sections signatures)
              (std_encode_sections public_keys)) (ed25519_answer G)"

definition ExternalApi_debug :: "'w machine \<Rightarrow> string \<Rightarrow> ('w, unit) guest" where
  "ExternalApi_debug G message =
     bindG (build_region G (str_bytes message)) (\<lambda>region_ptr.
     thenG (importG G (Debug region_ptr)) (drop_region G region_ptr))"

section \<open>Queries\<close>

definition ExternalQuerier_raw_query ::
  "'w machine \<Rightarrow> Binary ContractResult SystemResult serde \<Rightarrow> bytes \<Rightarrow> ('w, Binary ContractResult SystemResult) guest" where
  "ExternalQuerier_raw_query G J bin_request =
     bindG (build_region G bin_request) (\<lambda>request_ptr.
     bindG (import32 G (QueryChain request_ptr)) (\<lambda>response_ptr.
     bindG (consume_region G response_ptr) (\<lambda>response.
     thenG (drop_region G request_ptr)
     (returnG (case std_from_slice J response of
                 Ok answer \<Rightarrow> answer
               | Err parsing_err \<Rightarrow> SystemResult_Err (InvalidResponse (StdError_to_string parsing_err) response))))))"

section \<open>Exports\<close>

text \<open>
  An export runs a computation and returns its values.  In the entry points the contract's function
  is an argument; it is a computation itself, and returns its error as text, which is all that is
  used of it.  The decoders and encoders of the messages are arguments too.
\<close>

definition run_export :: "'w machine \<Rightarrow> ('w, Val list) guest \<Rightarrow> 'w \<Rightarrow> 'w prog" where
  "run_export G m w = m (\<lambda>vals w'. Done (gm_used G w') w' vals) w"

definition export_allocate :: "'w machine \<Rightarrow> u32 \<Rightarrow> ('w, Val list) guest" where
  "export_allocate G sz = bindG (alloc G (unat sz)) (\<lambda>p. returnG [I32 p])"

definition export_deallocate :: "'w machine \<Rightarrow> u32 \<Rightarrow> ('w, Val list) guest" where
  "export_deallocate G pointer =
     bindG (consume_region_parts G pointer) (\<lambda>(region, _).
     thenG (freeG G (rg_offset region) (unat (rg_capacity region))) (returnG []))"

definition try_into_contract_result ::
  "'a StdResult \<Rightarrow> ('a \<Rightarrow> ('w, 'r ContractResult) guest) \<Rightarrow> ('w, 'r ContractResult) guest" where
  "try_into_contract_result r f =
     (case r of Ok val \<Rightarrow> f val | Err err \<Rightarrow> returnG (ContractResult_Err (StdError_to_string err)))"

text \<open>The end of every entry point: \<^verbatim>\<open>to_vec(&res).unwrap()\<close> and the release of the buffer.\<close>

definition return_result :: "'w machine \<Rightarrow> 'r ContractResult serde \<Rightarrow> 'r ContractResult \<Rightarrow> ('w, u32) guest" where
  "return_result G R res =
     bindG (unwrapG G (map_errR (\<lambda>_. ''called `Result::unwrap()` on an `Err` value'') (std_to_vec R res)))
       (release_buffer G)"

definition do_instantiate_inner ::
  "'w machine \<Rightarrow> Env serde \<Rightarrow> MessageInfo serde \<Rightarrow> 'a serde \<Rightarrow>
     (Env \<Rightarrow> MessageInfo \<Rightarrow> 'a \<Rightarrow> ('w, (string, Response) result) guest) \<Rightarrow>
     u32 \<Rightarrow> u32 \<Rightarrow> u32 \<Rightarrow> ('w, Response ContractResult) guest" where
  "do_instantiate_inner G JE JI JM instantiate_fn env_ptr info_ptr msg_ptr =
     bindG (consume_region G env_ptr) (\<lambda>env.
     bindG (consume_region G info_ptr) (\<lambda>info.
     bindG (consume_region G msg_ptr) (\<lambda>msg.
     try_into_contract_result (std_from_slice JE env) (\<lambda>env.
     try_into_contract_result (std_from_slice JI info) (\<lambda>info.
     try_into_contract_result (std_from_slice JM msg) (\<lambda>msg.
     bindG (instantiate_fn env info msg) (\<lambda>r. returnG (ContractResult_from r))))))))"

definition do_instantiate ::
  "'w machine \<Rightarrow> Env serde \<Rightarrow> MessageInfo serde \<Rightarrow> 'a serde \<Rightarrow> Response ContractResult serde \<Rightarrow>
     (Env \<Rightarrow> MessageInfo \<Rightarrow> 'a \<Rightarrow> ('w, (string, Response) result) guest) \<Rightarrow>
     u32 \<Rightarrow> u32 \<Rightarrow> u32 \<Rightarrow> ('w, u32) guest" where
  "do_instantiate G JE JI JM R instantiate_fn env_ptr info_ptr msg_ptr =
     thenG (install_panic_handler G)
     (bindG (do_instantiate_inner G JE JI JM instantiate_fn env_ptr info_ptr msg_ptr) (return_result G R))"

definition do_execute_inner ::
  "'w machine \<Rightarrow> Env serde \<Rightarrow> MessageInfo serde \<Rightarrow> 'a serde \<Rightarrow>
     (Env \<Rightarrow> MessageInfo \<Rightarrow> 'a \<Rightarrow> ('w, (string, Response) result) guest) \<Rightarrow>
     u32 \<Rightarrow> u32 \<Rightarrow> u32 \<Rightarrow> ('w, Response ContractResult) guest" where
  "do_execute_inner G JE JI JM execute_fn env_ptr info_ptr msg_ptr =
     bindG (consume_region G env_ptr) (\<lambda>env.
     bindG (consume_region G info_ptr) (\<lambda>info.
     bindG (consume_region G msg_ptr) (\<lambda>msg.
     try_into_contract_result (std_from_slice JE env) (\<lambda>env.
     try_into_contract_result (std_from_slice JI info) (\<lambda>info.
     try_into_contract_result (std_from_slice JM msg) (\<lambda>msg.
     bindG (execute_fn env info msg) (\<lambda>r. returnG (ContractResult_from r))))))))"

definition do_execute ::
  "'w machine \<Rightarrow> Env serde \<Rightarrow> MessageInfo serde \<Rightarrow> 'a serde \<Rightarrow> Response ContractResult serde \<Rightarrow>
     (Env \<Rightarrow> MessageInfo \<Rightarrow> 'a \<Rightarrow> ('w, (string, Response) result) guest) \<Rightarrow>
     u32 \<Rightarrow> u32 \<Rightarrow> u32 \<Rightarrow> ('w, u32) guest" where
  "do_execute G JE JI JM R execute_fn env_ptr info_ptr msg_ptr =
     thenG (install_panic_handler G)
     (bindG (do_execute_inner G JE JI JM execute_fn env_ptr info_ptr msg_ptr) (return_result G R))"

definition do_migrate_inner ::
  "'w machine \<Rightarrow> Env serde \<Rightarrow> 'a serde \<Rightarrow> (Env \<Rightarrow> 'a \<Rightarrow> ('w, (string, Response) result) guest) \<Rightarrow>
     u32 \<Rightarrow> u32 \<Rightarrow> ('w, Response ContractResult) guest" where
  "do_migrate_inner G JE JM migrate_fn env_ptr msg_ptr =
     bindG (consume_region G env_ptr) (\<lambda>env.
     bindG (consume_region G msg_ptr) (\<lambda>msg.
     try_into_contract_result (std_from_slice JE env) (\<lambda>env.
     try_into_contract_result (std_from_slice JM msg) (\<lambda>msg.
     bindG (migrate_fn env msg) (\<lambda>r. returnG (ContractResult_from r))))))"

definition do_migrate ::
  "'w machine \<Rightarrow> Env serde \<Rightarrow> 'a serde \<Rightarrow> Response ContractResult serde \<Rightarrow>
     (Env \<Rightarrow> 'a \<Rightarrow> ('w, (string, Response) result) guest) \<Rightarrow> u32 \<Rightarrow> u32 \<Rightarrow> ('w, u32) guest" where
  "do_migrate G JE JM R migrate_fn env_ptr msg_ptr =
     thenG (install_panic_handler G)
     (bindG (do_migrate_inner G JE JM migrate_fn env_ptr msg_ptr) (return_result G R))"

definition do_sudo_inner ::
  "'w machine \<Rightarrow> Env serde \<Rightarrow> 'a serde \<Rightarrow> (Env \<Rightarrow> 'a \<Rightarrow> ('w, (string, Response) result) guest) \<Rightarrow>
     u32 \<Rightarrow> u32 \<Rightarrow> ('w, Response ContractResult) guest" where
  "do_sudo_inner G JE JM sudo_fn env_ptr msg_ptr =
     bindG (consume_region G env_ptr) (\<lambda>env.
     bindG (consume_region G msg_ptr) (\<lambda>msg.
     try_into_contract_result (std_from_slice JE env) (\<lambda>env.
     try_into_contract_result (std_from_slice JM msg) (\<lambda>msg.
     bindG (sudo_fn env msg) (\<lambda>r. returnG (ContractResult_from r))))))"

definition do_sudo ::
  "'w machine \<Rightarrow> Env serde \<Rightarrow> 'a serde \<Rightarrow> Response ContractResult serde \<Rightarrow>
     (Env \<Rightarrow> 'a \<Rightarrow> ('w, (string, Response) result) guest) \<Rightarrow> u32 \<Rightarrow> u32 \<Rightarrow> ('w, u32) guest" where
  "do_sudo G JE JM R sudo_fn env_ptr msg_ptr =
     thenG (install_panic_handler G)
     (bindG (do_sudo_inner G JE JM sudo_fn env_ptr msg_ptr) (return_result G R))"

definition do_reply_inner ::
  "'w machine \<Rightarrow> Env serde \<Rightarrow> Reply serde \<Rightarrow> (Env \<Rightarrow> Reply \<Rightarrow> ('w, (string, Response) result) guest) \<Rightarrow>
     u32 \<Rightarrow> u32 \<Rightarrow> ('w, Response ContractResult) guest" where
  "do_reply_inner G JE JM reply_fn env_ptr msg_ptr =
     bindG (consume_region G env_ptr) (\<lambda>env.
     bindG (consume_region G msg_ptr) (\<lambda>msg.
     try_into_contract_result (std_from_slice JE env) (\<lambda>env.
     try_into_contract_result (std_from_slice JM msg) (\<lambda>msg.
     bindG (reply_fn env msg) (\<lambda>r. returnG (ContractResult_from r))))))"

definition do_reply_export ::
  "'w machine \<Rightarrow> Env serde \<Rightarrow> Reply serde \<Rightarrow> Response ContractResult serde \<Rightarrow>
     (Env \<Rightarrow> Reply \<Rightarrow> ('w, (string, Response) result) guest) \<Rightarrow> u32 \<Rightarrow> u32 \<Rightarrow> ('w, u32) guest" where
  "do_reply_export G JE JM R reply_fn env_ptr msg_ptr =
     thenG (install_panic_handler G)
     (bindG (do_reply_inner G JE JM reply_fn env_ptr msg_ptr) (return_result G R))"

definition do_query_inner ::
  "'w machine \<Rightarrow> Env serde \<Rightarrow> 'a serde \<Rightarrow> (Env \<Rightarrow> 'a \<Rightarrow> ('w, (string, Binary) result) guest) \<Rightarrow>
     u32 \<Rightarrow> u32 \<Rightarrow> ('w, Binary ContractResult) guest" where
  "do_query_inner G JE JM query_fn env_ptr msg_ptr =
     bindG (consume_region G env_ptr) (\<lambda>env.
     bindG (consume_region G msg_ptr) (\<lambda>msg.
     try_into_contract_result (std_from_slice JE env) (\<lambda>env.
     try_into_contract_result (std_from_slice JM msg) (\<lambda>msg.
     bindG (query_fn env msg) (\<lambda>r. returnG (ContractResult_from r))))))"

definition do_query ::
  "'w machine \<Rightarrow> Env serde \<Rightarrow> 'a serde \<Rightarrow> Binary ContractResult serde \<Rightarrow>
     (Env \<Rightarrow> 'a \<Rightarrow> ('w, (string, Binary) result) guest) \<Rightarrow> u32 \<Rightarrow> u32 \<Rightarrow> ('w, u32) guest" where
  "do_query G JE JM R query_fn env_ptr msg_ptr =
     thenG (install_panic_handler G)
     (bindG (do_query_inner G JE JM query_fn env_ptr msg_ptr) (return_result G R))"

definition do_ibc_channel_open_inner ::
  "'w machine \<Rightarrow> Env serde \<Rightarrow> 'a serde \<Rightarrow> (Env \<Rightarrow> 'a \<Rightarrow> ('w, (string, 'r) result) guest) \<Rightarrow>
     u32 \<Rightarrow> u32 \<Rightarrow> ('w, 'r ContractResult) guest" where
  "do_ibc_channel_open_inner G JE JM contract_fn env_ptr msg_ptr =
     bindG (consume_region G env_ptr) (\<lambda>env.
     bindG (consume_region G msg_ptr) (\<lambda>msg.
     try_into_contract_result (std_from_slice JE env) (\<lambda>env.
     try_into_contract_result (std_from_slice JM msg) (\<lambda>msg.
     bindG (contract_fn env msg) (\<lambda>r. returnG (ContractResult_from r))))))"

definition do_ibc_channel_open ::
  "'w machine \<Rightarrow> Env serde \<Rightarrow> 'a serde \<Rightarrow> 'r ContractResult serde \<Rightarrow>
     (Env \<Rightarrow> 'a \<Rightarrow> ('w, (string, 'r) result) guest) \<Rightarrow> u32 \<Rightarrow> u32 \<Rightarrow> ('w, u32) guest" where
  "do_ibc_channel_open G JE JM R contract_fn env_ptr msg_ptr =
     thenG (install_panic_handler G)
     (bindG (do_ibc_channel_open_inner G JE JM contract_fn env_ptr msg_ptr) (return_result G R))"

definition do_ibc_channel_connect_inner ::
  "'w machine \<Rightarrow> Env serde \<Rightarrow> 'a serde \<Rightarrow> (Env \<Rightarrow> 'a \<Rightarrow> ('w, (string, 'r) result) guest) \<Rightarrow>
     u32 \<Rightarrow> u32 \<Rightarrow> ('w, 'r ContractResult) guest" where
  "do_ibc_channel_connect_inner G JE JM contract_fn env_ptr msg_ptr =
     bindG (consume_region G env_ptr) (\<lambda>env.
     bindG (consume_region G msg_ptr) (\<lambda>msg.
     try_into_contract_result (std_from_slice JE env) (\<lambda>env.
     try_into_contract_result (std_from_slice JM msg) (\<lambda>msg.
     bindG (contract_fn env msg) (\<lambda>r. returnG (ContractResult_from r))))))"

definition do_ibc_channel_connect ::
  "'w machine \<Rightarrow> Env serde \<Rightarrow> 'a serde \<Rightarrow> 'r ContractResult serde \<Rightarrow>
     (Env \<Rightarrow> 'a \<Rightarrow> ('w, (string, 'r) result) guest) \<Rightarrow> u32 \<Rightarrow> u32 \<Rightarrow> ('w, u32) guest" where
  "do_ibc_channel_connect G JE JM R contract_fn env_ptr msg_ptr =
     thenG (install_panic_handler G)
     (bindG (do_ibc_channel_connect_inner G JE JM contract_fn env_ptr msg_ptr) (return_result G R))"

definition do_ibc_channel_close_inner ::
  "'w machine \<Rightarrow> Env serde \<Rightarrow> 'a serde \<Rightarrow> (Env \<Rightarrow> 'a \<Rightarrow> ('w, (string, 'r) result) guest) \<Rightarrow>
     u32 \<Rightarrow> u32 \<Rightarrow> ('w, 'r ContractResult) guest" where
  "do_ibc_channel_close_inner G JE JM contract_fn env_ptr msg_ptr =
     bindG (consume_region G env_ptr) (\<lambda>env.
     bindG (consume_region G msg_ptr) (\<lambda>msg.
     try_into_contract_result (std_from_slice JE env) (\<lambda>env.
     try_into_contract_result (std_from_slice JM msg) (\<lambda>msg.
     bindG (contract_fn env msg) (\<lambda>r. returnG (ContractResult_from r))))))"

definition do_ibc_channel_close ::
  "'w machine \<Rightarrow> Env serde \<Rightarrow> 'a serde \<Rightarrow> 'r ContractResult serde \<Rightarrow>
     (Env \<Rightarrow> 'a \<Rightarrow> ('w, (string, 'r) result) guest) \<Rightarrow> u32 \<Rightarrow> u32 \<Rightarrow> ('w, u32) guest" where
  "do_ibc_channel_close G JE JM R contract_fn env_ptr msg_ptr =
     thenG (install_panic_handler G)
     (bindG (do_ibc_channel_close_inner G JE JM contract_fn env_ptr msg_ptr) (return_result G R))"

definition do_ibc_packet_receive_inner ::
  "'w machine \<Rightarrow> Env serde \<Rightarrow> 'a serde \<Rightarrow> (Env \<Rightarrow> 'a \<Rightarrow> ('w, (string, 'r) result) guest) \<Rightarrow>
     u32 \<Rightarrow> u32 \<Rightarrow> ('w, 'r ContractResult) guest" where
  "do_ibc_packet_receive_inner G JE JM contract_fn env_ptr msg_ptr =
     bindG (consume_region G env_ptr) (\<lambda>env.
     bindG (consume_region G msg_ptr) (\<lambda>msg.
     try_into_contract_result (std_from_slice JE env) (\<lambda>env.
     try_into_contract_result (std_from_slice JM msg) (\<lambda>msg.
     bindG (contract_fn env msg) (\<lambda>r. returnG (ContractResult_from r))))))"

definition do_ibc_packet_receive ::
  "'w machine \<Rightarrow> Env serde \<Rightarrow> 'a serde \<Rightarrow> 'r ContractResult serde \<Rightarrow>
     (Env \<Rightarrow> 'a \<Rightarrow> ('w, (string, 'r) result) guest) \<Rightarrow> u32 \<Rightarrow> u32 \<Rightarrow> ('w, u32) guest" where
  "do_ibc_packet_receive G JE JM R contract_fn env_ptr msg_ptr =
     thenG (install_panic_handler G)
     (bindG (do_ibc_packet_receive_inner G JE JM contract_fn env_ptr msg_ptr) (return_result G R))"

definition do_ibc_packet_ack_inner ::
  "'w machine \<Rightarrow> Env serde \<Rightarrow> 'a serde \<Rightarrow> (Env \<Rightarrow> 'a \<Rightarrow> ('w, (string, 'r) result) guest) \<Rightarrow>
     u32 \<Rightarrow> u32 \<Rightarrow> ('w, 'r ContractResult) guest" where
  "do_ibc_packet_ack_inner G JE JM contract_fn env_ptr msg_ptr =
     bindG (consume_region G env_ptr) (\<lambda>env.
     bindG (consume_region G msg_ptr) (\<lambda>msg.
     try_into_contract_result (std_from_slice JE env) (\<lambda>env.
     try_into_contract_result (std_from_slice JM msg) (\<lambda>msg.
     bindG (contract_fn env msg) (\<lambda>r. returnG (ContractResult_from r))))))"

definition do_ibc_packet_ack ::
  "'w machine \<Rightarrow> Env serde \<Rightarrow> 'a serde \<Rightarrow> 'r ContractResult serde \<Rightarrow>
     (Env \<Rightarrow> 'a \<Rightarrow> ('w, (string, 'r) result) guest) \<Rightarrow> u32 \<Rightarrow> u32 \<Rightarrow> ('w, u32) guest" where
  "do_ibc_packet_ack G JE JM R contract_fn env_ptr msg_ptr =
     thenG (install_panic_handler G)
     (bindG (do_ibc_packet_ack_inner G JE JM contract_fn env_ptr msg_ptr) (return_result G R))"

definition do_ibc_packet_timeout_inner ::
  "'w machine \<Rightarrow> Env serde \<Rightarrow> 'a serde \<Rightarrow> (Env \<Rightarrow> 'a \<Rightarrow> ('w, (string, 'r) result) guest) \<Rightarrow>
     u32 \<Rightarrow> u32 \<Rightarrow> ('w, 'r ContractResult) guest" where
  "do_ibc_packet_timeout_inner G JE JM contract_fn env_ptr msg_ptr =
     bindG (consume_region G env_ptr) (\<lambda>env.
     bindG (consume_region G msg_ptr) (\<lambda>msg.
     try_into_contract_result (std_from_slice JE env) (\<lambda>env.
     try_into_contract_result (std_from_slice JM msg) (\<lambda>msg.
     bindG (contract_fn env msg) (\<lambda>r. returnG (ContractResult_from r))))))"

definition do_ibc_packet_timeout ::
  "'w machine \<Rightarrow> Env serde \<Rightarrow> 'a serde \<Rightarrow> 'r ContractResult serde \<Rightarrow>
     (Env \<Rightarrow> 'a \<Rightarrow> ('w, (string, 'r) result) guest) \<Rightarrow> u32 \<Rightarrow> u32 \<Rightarrow> ('w, u32) guest" where
  "do_ibc_packet_timeout G JE JM R contract_fn env_ptr msg_ptr =
     thenG (install_panic_handler G)
     (bindG (do_ibc_packet_timeout_inner G JE JM contract_fn env_ptr msg_ptr) (return_result G R))"

end
