(* ===== verification/GuestRuns.thy ===== *)
theory GuestRuns
  imports GuestLib Samples
begin

text \<open>
  What a contract sees through the library of \<open>GuestLib\<close>, when the VM of \<open>Imports\<close> runs it: its
  storage operations are those of the simulator's storage, and its entry point \<^verbatim>\<open>execute\<close> receives
  the arguments of the call and returns the contract's answer.

  The Wasm memory and Rust's allocator are assumed to work as documented (\<open>memory_laws\<close>,
  \<open>allocator_laws\<close>).  For the latter, a \<open>heap_view\<close> names the allocated blocks, the free room, the
  overhead of an allocation, and a bound on the metering points used between two nodes.
\<close>

section \<open>Assumptions on the machine\<close>

record 'w heap_view =
  hv_ok :: "'w \<Rightarrow> bool"
  hv_live :: "'w \<Rightarrow> (nat \<times> nat) set"
  hv_room :: "'w \<Rightarrow> nat"
  hv_slack :: nat
  hv_cost :: nat

definition apart :: "nat \<times> nat \<Rightarrow> nat \<times> nat \<Rightarrow> bool" where
  "apart b c \<longleftrightarrow> fst b + snd b \<le> fst c \<or> fst c + snd c \<le> fst b"

definition memory_laws :: "('m, 'w) wasm_ext \<Rightarrow> 'w machine \<Rightarrow> bool" where
  "memory_laws W G \<longleftrightarrow> (\<forall>w.
     wx_has_memory W w \<and> wx_memory_size W w < 2 ^ 32 \<and>
     (\<forall>off len. wx_get_bytes W w off len =
        (if unat off + unat len \<le> wx_memory_size W w then Some (contents G w (unat off) (unat len)) else None)) \<and>
     (\<forall>off d. wx_set_bytes W off d w = gm_poke G (unat off) d w) \<and>
     (\<forall>p. 4 dvd unat p \<longrightarrow> wx_get_region W w p =
        (if unat p + REGION_SIZE \<le> wx_memory_size W w then Some (region_at G w (unat p)) else None)) \<and>
     (\<forall>p r. 4 dvd unat p \<longrightarrow> wx_set_region W p r w =
        (if unat p + REGION_SIZE \<le> wx_memory_size W w then Some (gm_poke G (unat p) (region_bytes r) w) else None)) \<and>
     (\<forall>a d. wx_memory_size W (gm_poke G a d w) = wx_memory_size W w \<and>
        (\<forall>i. gm_peek G (gm_poke G a d w) i = (if a \<le> i \<and> i < a + length d then d ! (i - a) else gm_peek G w i))))"

definition same_blocks :: "'w machine \<Rightarrow> (nat \<times> nat) set \<Rightarrow> 'w \<Rightarrow> 'w \<Rightarrow> bool" where
  "same_blocks G B w w' \<longleftrightarrow> (\<forall>b \<in> B. contents G w' (fst b) (snd b) = contents G w (fst b) (snd b))"

definition allocator_laws :: "('m, 'w) wasm_ext \<Rightarrow> 'w machine \<Rightarrow> 'w heap_view \<Rightarrow> bool" where
  "allocator_laws W G V \<longleftrightarrow> (\<forall>w. hv_ok V w \<longrightarrow>
     gm_used G w \<le> hv_cost V \<and>
     (\<forall>b \<in> hv_live V w. fst b + snd b \<le> wx_memory_size W w \<and> (\<forall>c \<in> hv_live V w. b \<noteq> c \<longrightarrow> apart b c)) \<and>
     (\<forall>n. 0 < n \<and> n + hv_slack V \<le> hv_room V w \<longrightarrow>
        (\<exists>p w'. gm_alloc G n w = Some (p, w') \<and> hv_room V w \<le> hv_room V w' + n + hv_slack V)) \<and>
     (\<forall>n p w'. 0 < n \<and> gm_alloc G n w = Some (p, w') \<longrightarrow>
        hv_ok V w' \<and> p \<noteq> 0 \<and> 4 dvd unat p \<and> hv_live V w' = insert (unat p, n) (hv_live V w) \<and>
        (unat p, n) \<notin> hv_live V w \<and> same_blocks G (hv_live V w) w w' \<and> gm_hooked G w' = gm_hooked G w) \<and>
     (\<forall>p n. (unat p, n) \<in> hv_live V w \<longrightarrow>
        hv_ok V (gm_dealloc G p n w) \<and> hv_live V (gm_dealloc G p n w) = hv_live V w - {(unat p, n)} \<and>
        hv_room V w \<le> hv_room V (gm_dealloc G p n w) \<and>
        same_blocks G (hv_live V w - {(unat p, n)}) w (gm_dealloc G p n w) \<and>
        gm_hooked G (gm_dealloc G p n w) = gm_hooked G w) \<and>
     (\<forall>a d. hv_ok V (gm_poke G a d w) \<and> hv_live V (gm_poke G a d w) = hv_live V w \<and>
        hv_room V (gm_poke G a d w) = hv_room V w \<and> gm_hooked G (gm_poke G a d w) = gm_hooked G w) \<and>
     (let h = gm_set_hook G w in
        hv_ok V h \<and> hv_live V h = hv_live V w \<and> hv_room V h = hv_room V w \<and>
        same_blocks G (hv_live V w) w h \<and> gm_hooked G h))"

text \<open>The exports the VM calls while an import runs are the library's.\<close>

definition library_exports :: "('m, 'w) wasm_ext \<Rightarrow> 'w machine \<Rightarrow> bool" where
  "library_exports W G \<longleftrightarrow>
     (\<forall>w n. wx_call W w ''allocate'' [I32 n] = Ok (run_export G (export_allocate G n) w)) \<and>
     (\<forall>w p. wx_call W w ''deallocate'' [I32 p] = Ok (run_export G (export_deallocate G p) w))"

definition machine_ok :: "('m, 'w) externs \<Rightarrow> 'w machine \<Rightarrow> 'w heap_view \<Rightarrow> bool" where
  "machine_ok X G V \<longleftrightarrow>
     memory_laws (x_wasm X) G \<and> allocator_laws (x_wasm X) G V \<and> library_exports (x_wasm X) G"

section \<open>What a computation gives\<close>

text \<open>
  \<open>gives H m s a s'\<close>: started in the state \<open>s\<close> of the instance and its host, the computation \<open>m\<close>
  delivers \<open>a\<close> in the state \<open>s'\<close>, whatever follows.
\<close>

type_synonym 'w running = "'w \<times> 'w Environment \<times> Shared"

definition gives ::
  "(import_call \<Rightarrow> ('w, Val list) vmM) \<Rightarrow> ('w, 'a) guest \<Rightarrow> 'w running \<Rightarrow> 'a \<Rightarrow> 'w running \<Rightarrow> bool" where
  "gives H m s a s' \<longleftrightarrow> (\<forall>k. run_prog H (m k (fst s)) (snd s) = run_prog H (k a (fst s')) (snd s'))"

lemma gives_return: "gives H (returnG a) s a s"
  by (simp add: gives_def returnG_def)

lemma gives_bind: "gives H m s a t \<Longrightarrow> gives H (f a) t b u \<Longrightarrow> gives H (bindG m f) s b u"
  by (simp add: gives_def bindG_def)

lemma gives_then: "gives H m s a t \<Longrightarrow> gives H n t b u \<Longrightarrow> gives H (thenG m n) s b u"
  unfolding thenG_def by (rule gives_bind)

lemma gives_get: "gives H (getG f) (w, es) (f w) (w, es)"
  by (simp add: gives_def getG_def)

lemma gives_update: "gives H (updateG f) (w, es) () (f w, es)"
  by (simp add: gives_def updateG_def)

lemma gives_import:
  assumes "en_points e = Some g" "gm_used G w \<le> unat g"
    and "H c (e\<lparr>en_guest := w, en_points := Some (g - of_nat (gm_used G w))\<rparr>, s) = (Ret vals, (e', s'))"
  shows "gives H (importG G c) (w, (e, s)) vals (en_guest e', (e', s'))"
  using assms
  by (simp add: gives_def importG_def charge_def on_env_def get_env_def m_simps)

section \<open>Memory\<close>

lemma memory_facts:
  assumes "memory_laws W G"
  shows "wx_has_memory W w" "wx_memory_size W w < 2 ^ 32"
    "wx_get_bytes W w off len =
       (if unat off + unat len \<le> wx_memory_size W w then Some (contents G w (unat off) (unat len)) else None)"
    "wx_set_bytes W off d w = gm_poke G (unat off) d w"
    "4 dvd unat p \<Longrightarrow> wx_get_region W w p =
       (if unat p + REGION_SIZE \<le> wx_memory_size W w then Some (region_at G w (unat p)) else None)"
    "4 dvd unat p \<Longrightarrow> wx_set_region W p r w =
       (if unat p + REGION_SIZE \<le> wx_memory_size W w then Some (gm_poke G (unat p) (region_bytes r) w) else None)"
    "wx_memory_size W (gm_poke G a d w) = wx_memory_size W w"
    "gm_peek G (gm_poke G a d w) i = (if a \<le> i \<and> i < a + length d then d ! (i - a) else gm_peek G w i)"
  using assms unfolding memory_laws_def by blast+

lemma length_contents [simp]: "length (contents G w p n) = n"
  by (simp add: contents_def)

lemma contents_0 [simp]: "contents G w p 0 = []"
  by (simp add: contents_def)

lemma contents_part:
  assumes "q \<le> p" "p + n \<le> q + m"
  shows "contents G w p n = take n (drop (p - q) (contents G w q m))"
  using assms by (intro nth_equalityI) (simp_all add: contents_def)

lemma contents_poke_in:
  assumes "memory_laws W G" "a \<le> p" "p + n \<le> a + length d"
  shows "contents G (gm_poke G a d w) p n = take n (drop (p - a) d)"
  using assms by (intro nth_equalityI) (simp_all add: contents_def memory_facts(8) [OF assms(1)])

lemma contents_poke_apart:
  assumes "memory_laws W G" "apart (a, length d) (p, n)"
  shows "contents G (gm_poke G a d w) p n = contents G w p n"
  using assms by (intro nth_equalityI) (auto simp: contents_def apart_def memory_facts(8) [OF assms(1)])

lemma le32_facts [simp]: "length (le32 v) = 4" "un_le32 (le32 v) = v"
proof -
  have "unat v < 256 ^ 4" using unsigned_less [of v] by simp
  then show "un_le32 (le32 v) = v" by (simp add: un_le32_def le32_def be_val_be_bytes)
qed (simp add: le32_def)

lemma length_region_bytes [simp]: "length (region_bytes r) = REGION_SIZE"
  by (simp add: region_bytes_def REGION_SIZE_def)

lemma region_at_poke:
  assumes "memory_laws W G"
  shows "region_at G (gm_poke G p (region_bytes r) w) p = r"
proof -
  have "contents G (gm_poke G p (region_bytes r) w) p 4 = le32 (rg_offset r)"
    "contents G (gm_poke G p (region_bytes r) w) (p + 4) 4 = le32 (rg_capacity r)"
    "contents G (gm_poke G p (region_bytes r) w) (p + 8) 4 = le32 (rg_length r)"
    by (simp_all add: contents_poke_in [OF assms] REGION_SIZE_def) (simp_all add: region_bytes_def)
  then show ?thesis by (simp add: region_at_def)
qed

lemma region_at_same:
  assumes "contents G w' p REGION_SIZE = contents G w p REGION_SIZE"
  shows "region_at G w' p = region_at G w p"
proof -
  have "contents G v (p + i) 4 = take 4 (drop i (contents G v p REGION_SIZE))" if "i \<le> 8" for i v
    using contents_part [of p "p + i" 4 REGION_SIZE G v] that by (simp add: REGION_SIZE_def)
  from this [of 0] this [of 4] this [of 8] assms show ?thesis by (simp add: region_at_def)
qed

section \<open>Blocks\<close>

lemma allocator_facts:
  assumes "allocator_laws W G V" "hv_ok V w"
  shows "gm_used G w \<le> hv_cost V"
    "b \<in> hv_live V w \<Longrightarrow> fst b + snd b \<le> wx_memory_size W w"
    "b \<in> hv_live V w \<Longrightarrow> c \<in> hv_live V w \<Longrightarrow> b \<noteq> c \<Longrightarrow> apart b c"
    "0 < n \<Longrightarrow> n + hv_slack V \<le> hv_room V w \<Longrightarrow>
       \<exists>p w'. gm_alloc G n w = Some (p, w') \<and> hv_room V w \<le> hv_room V w' + n + hv_slack V"
    "0 < n \<Longrightarrow> gm_alloc G n w = Some (p, w') \<Longrightarrow>
       hv_ok V w' \<and> p \<noteq> 0 \<and> 4 dvd unat p \<and> hv_live V w' = insert (unat p, n) (hv_live V w) \<and>
       (unat p, n) \<notin> hv_live V w \<and> same_blocks G (hv_live V w) w w' \<and> gm_hooked G w' = gm_hooked G w"
    "(unat p, n) \<in> hv_live V w \<Longrightarrow>
       hv_ok V (gm_dealloc G p n w) \<and> hv_live V (gm_dealloc G p n w) = hv_live V w - {(unat p, n)} \<and>
       hv_room V w \<le> hv_room V (gm_dealloc G p n w) \<and>
       same_blocks G (hv_live V w - {(unat p, n)}) w (gm_dealloc G p n w) \<and>
       gm_hooked G (gm_dealloc G p n w) = gm_hooked G w"
    "hv_ok V (gm_poke G a d w) \<and> hv_live V (gm_poke G a d w) = hv_live V w \<and>
       hv_room V (gm_poke G a d w) = hv_room V w \<and> gm_hooked G (gm_poke G a d w) = gm_hooked G w"
    "hv_ok V (gm_set_hook G w) \<and> hv_live V (gm_set_hook G w) = hv_live V w \<and>
       hv_room V (gm_set_hook G w) = hv_room V w \<and> same_blocks G (hv_live V w) w (gm_set_hook G w) \<and>
       gm_hooked G (gm_set_hook G w)"
proof -
  note law = assms(1) [unfolded allocator_laws_def Let_def, THEN spec, THEN mp, OF assms(2)]
  note parts = law [THEN conjunct2] law [THEN conjunct2, THEN conjunct2]
    law [THEN conjunct2, THEN conjunct2, THEN conjunct2]
    law [THEN conjunct2, THEN conjunct2, THEN conjunct2, THEN conjunct2]
    law [THEN conjunct2, THEN conjunct2, THEN conjunct2, THEN conjunct2, THEN conjunct2]
    law [THEN conjunct2, THEN conjunct2, THEN conjunct2, THEN conjunct2, THEN conjunct2, THEN conjunct2]
  show "gm_used G w \<le> hv_cost V" by (rule law [THEN conjunct1])
  show "b \<in> hv_live V w \<Longrightarrow> fst b + snd b \<le> wx_memory_size W w"
    "b \<in> hv_live V w \<Longrightarrow> c \<in> hv_live V w \<Longrightarrow> b \<noteq> c \<Longrightarrow> apart b c"
    using parts(1) [THEN conjunct1] by blast+
  show "0 < n \<Longrightarrow> n + hv_slack V \<le> hv_room V w \<Longrightarrow>
      \<exists>p w'. gm_alloc G n w = Some (p, w') \<and> hv_room V w \<le> hv_room V w' + n + hv_slack V"
    by (rule parts(2) [THEN conjunct1, THEN spec, THEN mp]) (rule conjI)
  show "0 < n \<Longrightarrow> gm_alloc G n w = Some (p, w') \<Longrightarrow>
      hv_ok V w' \<and> p \<noteq> 0 \<and> 4 dvd unat p \<and> hv_live V w' = insert (unat p, n) (hv_live V w) \<and>
      (unat p, n) \<notin> hv_live V w \<and> same_blocks G (hv_live V w) w w' \<and> gm_hooked G w' = gm_hooked G w"
    by (rule parts(3) [THEN conjunct1, THEN spec, THEN spec, THEN spec, THEN mp]) (rule conjI)
  show "(unat p, n) \<in> hv_live V w \<Longrightarrow>
      hv_ok V (gm_dealloc G p n w) \<and> hv_live V (gm_dealloc G p n w) = hv_live V w - {(unat p, n)} \<and>
      hv_room V w \<le> hv_room V (gm_dealloc G p n w) \<and>
      same_blocks G (hv_live V w - {(unat p, n)}) w (gm_dealloc G p n w) \<and>
      gm_hooked G (gm_dealloc G p n w) = gm_hooked G w"
    by (rule parts(4) [THEN conjunct1, THEN spec, THEN spec, THEN mp])
  show "hv_ok V (gm_poke G a d w) \<and> hv_live V (gm_poke G a d w) = hv_live V w \<and>
      hv_room V (gm_poke G a d w) = hv_room V w \<and> gm_hooked G (gm_poke G a d w) = gm_hooked G w"
    by (rule parts(5) [THEN conjunct1, THEN spec, THEN spec])
  show "hv_ok V (gm_set_hook G w) \<and> hv_live V (gm_set_hook G w) = hv_live V w \<and>
      hv_room V (gm_set_hook G w) = hv_room V w \<and> same_blocks G (hv_live V w) w (gm_set_hook G w) \<and>
      gm_hooked G (gm_set_hook G w)"
    by (rule parts(6))
qed

definition keeps_blocks :: "'w machine \<Rightarrow> 'w heap_view \<Rightarrow> 'w \<Rightarrow> 'w \<Rightarrow> bool" where
  "keeps_blocks G V w w' \<longleftrightarrow>
     hv_ok V w' \<and> hv_live V w \<subseteq> hv_live V w' \<and> same_blocks G (hv_live V w) w w'"

lemma keeps_blocks_refl: "hv_ok V w \<Longrightarrow> keeps_blocks G V w w"
  by (simp add: keeps_blocks_def same_blocks_def)

lemma keeps_blocks_trans: "keeps_blocks G V u v \<Longrightarrow> keeps_blocks G V v w \<Longrightarrow> keeps_blocks G V u w"
  by (auto simp: keeps_blocks_def same_blocks_def) (metis fst_conv snd_conv subsetD)

text \<open>Writing into a block that was allocated later, and freeing one, keeps the earlier blocks.\<close>

lemma keeps_blocks_poke:
  assumes laws: "memory_laws W G" "allocator_laws W G V"
    and w: "keeps_blocks G V u w" "b \<in> hv_live V w" "b \<notin> hv_live V u"
    and inside: "fst b \<le> a" "a + length d \<le> fst b + snd b"
  shows "keeps_blocks G V u (gm_poke G a d w)"
proof -
  have ok: "hv_ok V w" using w(1) by (simp add: keeps_blocks_def)
  have "apart (a, length d) c" if "c \<in> hv_live V u" for c
  proof -
    have "c \<in> hv_live V w" "b \<noteq> c" using that w by (auto simp: keeps_blocks_def)
    then have "apart b c" using allocator_facts(3) [OF laws(2) ok] w(2) by blast
    then show ?thesis using inside by (auto simp: apart_def)
  qed
  then show ?thesis
    using w(1) allocator_facts(7) [OF laws(2) ok, of a d]
    by (auto simp: keeps_blocks_def same_blocks_def contents_poke_apart [OF laws(1)])
qed

lemma keeps_blocks_dealloc:
  assumes "allocator_laws W G V" "keeps_blocks G V u w" "(unat p, n) \<in> hv_live V w" "(unat p, n) \<notin> hv_live V u"
  shows "keeps_blocks G V u (gm_dealloc G p n w)"
proof -
  have ok: "hv_ok V w" and sub: "hv_live V u \<subseteq> hv_live V w - {(unat p, n)}" and same: "same_blocks G (hv_live V u) u w"
    using assms(2,4) by (auto simp: keeps_blocks_def)
  note freed = allocator_facts(6) [OF assms(1) ok assms(3)]
  have "same_blocks G (hv_live V u) u (gm_dealloc G p n w)"
    unfolding same_blocks_def
  proof
    fix b assume b: "b \<in> hv_live V u"
    then have "contents G (gm_dealloc G p n w) (fst b) (snd b) = contents G w (fst b) (snd b)"
      using freed sub unfolding same_blocks_def by blast
    also have "\<dots> = contents G u (fst b) (snd b)" using same b unfolding same_blocks_def by blast
    finally show "contents G (gm_dealloc G p n w) (fst b) (snd b) = contents G u (fst b) (snd b)" .
  qed
  with freed sub show ?thesis by (simp add: keeps_blocks_def)
qed

section \<open>Regions\<close>

text \<open>
  At \<open>p\<close> there is a region of the given capacity, in a block of its own, whose bytes are \<open>data\<close>;
  its buffer is a block too, unless it is empty.
\<close>

definition region_holds :: "'w machine \<Rightarrow> 'w heap_view \<Rightarrow> 'w \<Rightarrow> u32 \<Rightarrow> nat \<Rightarrow> bytes \<Rightarrow> bool" where
  "region_holds G V w p cap data \<longleftrightarrow>
     p \<noteq> 0 \<and> 4 dvd unat p \<and> (unat p, REGION_SIZE) \<in> hv_live V w \<and>
     (let r = region_at G w (unat p) in
        rg_offset r \<noteq> 0 \<and> unat (rg_capacity r) = cap \<and> unat (rg_length r) = length data \<and> length data \<le> cap \<and>
        (if cap = 0 then rg_offset r = 1
         else (unat (rg_offset r), cap) \<in> hv_live V w \<and> (unat (rg_offset r), cap) \<noteq> (unat p, REGION_SIZE)) \<and>
        contents G w (unat (rg_offset r)) (length data) = data)"

lemma contents_kept:
  assumes "keeps_blocks G V w w'" "(q, m) \<in> hv_live V w" "q \<le> p" "p + n \<le> q + m"
  shows "contents G w' p n = contents G w p n"
proof -
  have "contents G w' q m = contents G w q m" using assms(1,2) by (auto simp: keeps_blocks_def same_blocks_def)
  then show ?thesis using contents_part [OF assms(3,4), of G] by metis
qed

lemma region_holds_kept:
  assumes "keeps_blocks G V w w'" "region_holds G V w p cap data"
  shows "region_holds G V w' p cap data"
proof -
  let ?r = "region_at G w (unat p)"
  have live: "hv_live V w \<subseteq> hv_live V w'" using assms(1) by (simp add: keeps_blocks_def)
  have box: "(unat p, REGION_SIZE) \<in> hv_live V w" using assms(2) by (simp add: region_holds_def Let_def)
  have r: "region_at G w' (unat p) = ?r"
    by (rule region_at_same) (rule contents_kept [OF assms(1) box]; simp)
  have "contents G w' (unat (rg_offset ?r)) (length data) = contents G w (unat (rg_offset ?r)) (length data)"
  proof (cases "cap = 0")
    case True
    then show ?thesis using assms(2) by (simp add: region_holds_def Let_def)
  next
    case False
    then have "(unat (rg_offset ?r), cap) \<in> hv_live V w" "length data \<le> cap"
      using assms(2) by (simp_all add: region_holds_def Let_def)
    then show ?thesis using contents_kept [OF assms(1)] by simp
  qed
  then show ?thesis
    using assms(2) live by (auto simp: region_holds_def Let_def r split: if_splits)
qed

lemma gives_allocG:
  assumes "allocator_laws W G V" "hv_ok V w" "n + hv_slack V \<le> hv_room V w"
  obtains p w' where "gives H (allocG G n) (w, es) p (w', es)" "p \<noteq> 0" "keeps_blocks G V w w'"
    "hv_room V w \<le> hv_room V w' + n + hv_slack V"
    "if n = 0 then p = 1 else 4 dvd unat p \<and> (unat p, n) \<in> hv_live V w' \<and> (unat p, n) \<notin> hv_live V w"
proof (cases "n = 0")
  case True
  then have "gives H (allocG G n) (w, es) 1 (w, es)" by (simp add: gives_def allocG_def)
  with that [of 1 w] True assms(2) show ?thesis by (simp add: keeps_blocks_refl)
next
  case False
  then obtain p w' where a: "gm_alloc G n w = Some (p, w')" "hv_room V w \<le> hv_room V w' + n + hv_slack V"
    using allocator_facts(4) [OF assms(1,2), of n] assms(3) by auto
  note facts = allocator_facts(5) [OF assms(1,2) _ a(1)]
  have "gives H (allocG G n) (w, es) p (w', es)" using False a(1) by (simp add: gives_def allocG_def)
  moreover have "keeps_blocks G V w w'" using facts False by (auto simp: keeps_blocks_def)
  ultimately show ?thesis using that [of p w'] a(2) facts False by simp
qed

text \<open>A region around a buffer that is there already.\<close>

lemma gives_region:
  assumes laws: "memory_laws W G" "allocator_laws W G V" and w: "hv_ok V w"
    and room: "REGION_SIZE + hv_slack V \<le> hv_room V w"
    and off: "off \<noteq> 0" "if cap = 0 then off = 1 else (unat off, cap) \<in> hv_live V w"
    and data: "length data \<le> cap" "contents G w (unat off) (length data) = data"
  obtains p w' where
    "gives H (build_region_from_components G off (of_nat cap) (of_nat (length data))) (w, es) p (w', es)"
    "region_holds G V w' p cap data" "keeps_blocks G V w w'" "(unat p, REGION_SIZE) \<notin> hv_live V w"
    "hv_room V w \<le> hv_room V w' + REGION_SIZE + hv_slack V" "rg_offset (region_at G w' (unat p)) = off"
proof -
  obtain p v where v: "gives H (allocG G REGION_SIZE) (w, es) p (v, es)" "p \<noteq> 0" "keeps_blocks G V w v"
    "hv_room V w \<le> hv_room V v + REGION_SIZE + hv_slack V"
    "4 dvd unat p" "(unat p, REGION_SIZE) \<in> hv_live V v" "(unat p, REGION_SIZE) \<notin> hv_live V w"
    by (rule gives_allocG [OF laws(2) w room, where H = H and es = es]) (simp add: REGION_SIZE_def)
  define r where "r = \<lparr>rg_offset = off, rg_capacity = of_nat cap, rg_length = of_nat (length data)\<rparr>"
  let ?w = "gm_poke G (unat p) (region_bytes r) v"
  have v_ok: "hv_ok V v" using v(3) by (simp add: keeps_blocks_def)
  have kept: "keeps_blocks G V w ?w"
    by (rule keeps_blocks_poke [OF laws v(3) v(6,7)]) simp_all
  have "cap < 2 ^ 32"
  proof (cases "cap = 0")
    case False
    then have "unat off + cap \<le> wx_memory_size W w" using allocator_facts(2) [OF laws(2) w] off(2) by force
    then show ?thesis using memory_facts(2) [OF laws(1), of w] by simp
  qed simp
  then have sizes: "unat (of_nat cap :: u32) = cap" "unat (of_nat (length data) :: u32) = length data"
    using data(1) by (simp_all add: unat_of_nat)
  have live: "hv_live V ?w = hv_live V v" using allocator_facts(7) [OF laws(2) v_ok] by blast
  have "contents G ?w (unat off) (length data) = data"
  proof (cases "cap = 0")
    case True
    then show ?thesis using data by simp
  next
    case False
    then show ?thesis using contents_kept [OF kept, of "unat off" cap] off(2) data by simp
  qed
  moreover have "if cap = 0 then off = 1 else (unat off, cap) \<in> hv_live V ?w \<and> (unat off, cap) \<noteq> (unat p, REGION_SIZE)"
    using off(2) v(3,7) live by (auto simp: keeps_blocks_def)
  moreover have fields: "rg_offset r = off" "rg_capacity r = of_nat cap" "rg_length r = of_nat (length data)"
    by (simp_all add: r_def)
  ultimately have "region_holds G V ?w p cap data"
    using v(2,5,6) off(1) data(1) unfolding region_holds_def region_at_poke [OF laws(1)] Let_def fields sizes live
    by (intro conjI) simp_all
  moreover have "gives H (build_region_from_components G off (of_nat cap) (of_nat (length data))) (w, es) p (?w, es)"
    unfolding build_region_from_components_def r_def
    by (intro gives_bind [OF v(1)] gives_then [OF gives_update] gives_return)
  moreover have "hv_room V ?w = hv_room V v" using allocator_facts(7) [OF laws(2) v_ok] by blast
  ultimately show ?thesis using that [of p ?w] kept v(4,7) fields(1) by (simp add: region_at_poke [OF laws(1)])
qed

lemma gives_build_region:
  assumes laws: "memory_laws W G" "allocator_laws W G V" and w: "hv_ok V w"
    and room: "length data + REGION_SIZE + 2 * hv_slack V \<le> hv_room V w"
  obtains p w' where "gives H (build_region G data) (w, es) p (w', es)"
    "region_holds G V w' p (length data) data" "keeps_blocks G V w w'" "(unat p, REGION_SIZE) \<notin> hv_live V w"
    "hv_room V w \<le> hv_room V w' + length data + REGION_SIZE + 2 * hv_slack V"
proof -
  obtain q v where v: "gives H (allocG G (length data)) (w, es) q (v, es)" "q \<noteq> 0" "keeps_blocks G V w v"
    "hv_room V w \<le> hv_room V v + length data + hv_slack V"
    "if length data = 0 then q = 1 else 4 dvd unat q \<and> (unat q, length data) \<in> hv_live V v \<and> (unat q, length data) \<notin> hv_live V w"
    using gives_allocG [OF laws(2) w, of "length data" H es] room by auto
  let ?v = "gm_poke G (unat q) data v"
  have v_ok: "hv_ok V v" using v(3) by (simp add: keeps_blocks_def)
  note poked = allocator_facts(7) [OF laws(2) v_ok, of "unat q" data]
  have kept: "keeps_blocks G V w ?v"
  proof (cases "length data = 0")
    case True
    then have "same_blocks G (hv_live V w) v ?v"
      by (auto simp: same_blocks_def contents_def memory_facts(8) [OF laws(1)])
    then show ?thesis using v(3) poked by (auto simp: keeps_blocks_def same_blocks_def)
  next
    case False
    then show ?thesis
      using keeps_blocks_poke [OF laws v(3), of "(unat q, length data)" "unat q" data] v(5) by simp
  qed
  have stored: "contents G ?v (unat q) (length data) = data" by (simp add: contents_poke_in [OF laws(1)])
  have block: "if length data = 0 then q = 1 else (unat q, length data) \<in> hv_live V ?v" using v(5) poked by simp
  have ok: "hv_ok V ?v" and fits: "REGION_SIZE + hv_slack V \<le> hv_room V ?v" using poked v(4) room by simp_all
  obtain p w' where p:
    "gives H (build_region_from_components G q (of_nat (length data)) (of_nat (length data))) (?v, es) p (w', es)"
    "region_holds G V w' p (length data) data" "keeps_blocks G V ?v w'" "(unat p, REGION_SIZE) \<notin> hv_live V ?v"
    "hv_room V ?v \<le> hv_room V w' + REGION_SIZE + hv_slack V"
    by (rule gives_region [OF laws ok fits v(2) block order_refl stored])
  have "gives H (place G data) (w, es) q (?v, es)"
    unfolding place_def by (rule gives_bind [OF v(1)], rule gives_then [OF gives_update], rule gives_return)
  then have "gives H (build_region G data) (w, es) p (w', es)"
    unfolding build_region_def using p(1) by (rule gives_bind)
  moreover have "(unat p, REGION_SIZE) \<notin> hv_live V w" using p(4) kept by (auto simp: keeps_blocks_def)
  moreover have "hv_room V w \<le> hv_room V w' + length data + REGION_SIZE + 2 * hv_slack V"
    using v(4) p(5) poked by simp
  ultimately show ?thesis using that p(2) keeps_blocks_trans [OF kept p(3)] by blast
qed

lemma gives_alloc:
  assumes laws: "memory_laws W G" "allocator_laws W G V" and w: "hv_ok V w"
    and room: "n + REGION_SIZE + 2 * hv_slack V \<le> hv_room V w"
  obtains p w' where "gives H (alloc G n) (w, es) p (w', es)"
    "region_holds G V w' p n []" "keeps_blocks G V w w'" "(unat p, REGION_SIZE) \<notin> hv_live V w"
    "n = 0 \<or> (unat (rg_offset (region_at G w' (unat p))), n) \<notin> hv_live V w"
    "hv_room V w \<le> hv_room V w' + n + REGION_SIZE + 2 * hv_slack V"
proof -
  have "n + hv_slack V \<le> hv_room V w" using room by simp
  then obtain q v where v: "gives H (allocG G n) (w, es) q (v, es)" "q \<noteq> 0" "keeps_blocks G V w v"
    "hv_room V w \<le> hv_room V v + n + hv_slack V"
    "if n = 0 then q = 1 else 4 dvd unat q \<and> (unat q, n) \<in> hv_live V v \<and> (unat q, n) \<notin> hv_live V w"
    by (rule gives_allocG [OF laws(2) w])
  have v_ok: "hv_ok V v" using v(3) by (simp add: keeps_blocks_def)
  have "REGION_SIZE + hv_slack V \<le> hv_room V v" using v(4) room by simp
  moreover have "if n = 0 then q = 1 else (unat q, n) \<in> hv_live V v" using v(5) by simp
  moreover have "length ([] :: bytes) \<le> n" "contents G v (unat q) (length ([] :: bytes)) = []" by simp_all
  ultimately obtain p w' where p:
    "gives H (build_region_from_components G q (of_nat n) (of_nat (length ([] :: bytes)))) (v, es) p (w', es)"
    "region_holds G V w' p n []" "keeps_blocks G V v w'" "(unat p, REGION_SIZE) \<notin> hv_live V v"
    "hv_room V v \<le> hv_room V w' + REGION_SIZE + hv_slack V"
    "rg_offset (region_at G w' (unat p)) = q"
    using gives_region [OF laws v_ok _ v(2), of n "[]" H es] by metis
  have "gives H (alloc G n) (w, es) p (w', es)"
    unfolding alloc_def using v(1) p(1) by (intro gives_bind [OF v(1)]) simp
  moreover have "(unat p, REGION_SIZE) \<notin> hv_live V w" using p(4) v(3) by (auto simp: keeps_blocks_def)
  moreover have "n = 0 \<or> (unat (rg_offset (region_at G w' (unat p))), n) \<notin> hv_live V w"
    using v(5) p(6) by (cases "n = 0") simp_all
  moreover have "hv_room V w \<le> hv_room V w' + n + REGION_SIZE + 2 * hv_slack V" using v(4) p(5) by simp
  ultimately show ?thesis using that p(2) keeps_blocks_trans [OF v(3) p(3)] by blast
qed

lemma gives_drop_region: "gives H (drop_region G p) (w, es) () (gm_dealloc G p REGION_SIZE w, es)"
  using gives_update [of H "\<lambda>w. gm_dealloc G p REGION_SIZE w" w es]
  by (simp add: drop_region_def freeG_def REGION_SIZE_def)

lemma gives_consume_region:
  assumes "region_holds G V w p cap data"
  shows "gives H (consume_region G p) (w, es) data (gm_dealloc G p REGION_SIZE w, es)"
proof -
  let ?r = "region_at G w (unat p)"
  have r: "p \<noteq> 0" "rg_offset ?r \<noteq> 0" "contents G w (unat (rg_offset ?r)) (unat (rg_length ?r)) = data"
    using assms by (simp_all add: region_holds_def Let_def)
  have "gives H (consume_region_parts G p) (w, es) (?r, data) (gm_dealloc G p REGION_SIZE w, es)"
    using r gives_drop_region [of H G p w es]
    by (simp add: gives_def consume_region_parts_def bindG_def thenG_def getG_def returnG_def)
  then show ?thesis
    unfolding consume_region_def by (rule gives_bind) (simp add: gives_return)
qed

section \<open>Regions as the VM sees them\<close>

lemma region_in_memory:
  assumes "memory_laws W G" "allocator_laws W G V" "hv_ok V w" "region_holds G V w p cap data"
  shows "get_region W w p = Ok (region_at G w (unat p))"
    "unat (rg_offset (region_at G w (unat p))) + cap \<le> wx_memory_size W w"
proof -
  let ?r = "region_at G w (unat p)"
  have p: "4 dvd unat p" "(unat p, REGION_SIZE) \<in> hv_live V w" "rg_offset ?r \<noteq> 0"
    "unat (rg_capacity ?r) = cap" "unat (rg_length ?r) = length data" "length data \<le> cap"
    using assms(4) by (simp_all add: region_holds_def Let_def)
  have box: "unat p + REGION_SIZE \<le> wx_memory_size W w" using allocator_facts(2) [OF assms(2,3) p(2)] by simp
  show fits: "unat (rg_offset ?r) + cap \<le> wx_memory_size W w"
  proof (cases "cap = 0")
    case True
    then show ?thesis using assms(4) box by (simp add: region_holds_def Let_def REGION_SIZE_def)
  next
    case False
    then have "(unat (rg_offset ?r), cap) \<in> hv_live V w" using assms(4) by (simp add: region_holds_def Let_def)
    from allocator_facts(2) [OF assms(2,3) this] show ?thesis by simp
  qed
  have "\<not> rg_length ?r > rg_capacity ?r" using p(4-6) by (simp add: word_less_nat_alt)
  moreover have "\<not> rg_capacity ?r > - 1 - rg_offset ?r"
  proof -
    have "unat (- 1 - rg_offset ?r) = 2 ^ 32 - 1 - unat (rg_offset ?r)"
      by (subst unat_sub) (simp_all add: unsigned_minus_1_eq_mask mask_eq_exp_minus_1)
    then show ?thesis using fits memory_facts(2) [OF assms(1), of w] p(4) by (simp add: word_less_nat_alt)
  qed
  ultimately show "get_region W w p = Ok ?r"
    using p(1,3) box by (simp add: get_region_def memory_facts(5) [OF assms(1) p(1)] validate_region_def)
qed

lemma read_region_run:
  assumes "machine_ok X G V" "hv_ok V (en_guest e)" "region_holds G V (en_guest e) p cap data"
    and "length data \<le> max_length" "max_length < 2 ^ 32"
  shows "read_region X p max_length (e, s) = (Ret data, (e, s))"
proof -
  let ?w = "en_guest e" let ?r = "region_at G ?w (unat p)"
  have laws: "memory_laws (x_wasm X) G" "allocator_laws (x_wasm X) G V" using assms(1) by (simp_all add: machine_ok_def)
  note region = region_in_memory [OF laws assms(2,3)]
  have r: "unat (rg_length ?r) = length data" "length data \<le> cap" "contents G ?w (unat (rg_offset ?r)) (length data) = data"
    using assms(3) by (simp_all add: region_holds_def Let_def)
  have "\<not> rg_length ?r > of_nat max_length"
    using r(1) assms(4,5) by (simp add: word_less_nat_alt unat_of_nat)
  then have "read_region_mem (x_wasm X) ?w p max_length = Ok data"
    using region r assms(5)
    by (simp add: read_region_mem_def to_u32_def memory_facts(3) [OF laws(1)])
  then show ?thesis
    by (simp add: read_region_def memory_def get_env_def m_simps memory_facts(1) [OF laws(1)])
qed

lemma keeps_blocks_poke_Nil:
  assumes "memory_laws W G" "allocator_laws W G V" "keeps_blocks G V u w"
  shows "keeps_blocks G V u (gm_poke G a [] w)"
proof -
  have "hv_ok V w" using assms(3) by (simp add: keeps_blocks_def)
  moreover have "contents G (gm_poke G a [] w) p n = contents G w p n" for p n
    by (auto simp: contents_def memory_facts(8) [OF assms(1)])
  ultimately show ?thesis
    using assms(3) allocator_facts(7) [OF assms(2), of w a "[]"] by (simp add: keeps_blocks_def same_blocks_def)
qed

lemma write_region_run:
  assumes machine: "machine_ok X G V" and w: "region_holds G V (en_guest e) p cap old" "length data \<le> cap"
    and base: "keeps_blocks G V u (en_guest e)" "(unat p, REGION_SIZE) \<notin> hv_live V u"
      "cap = 0 \<or> (unat (rg_offset (region_at G (en_guest e) (unat p))), cap) \<notin> hv_live V u"
  obtains w' where "write_region X p data (e, s) = (Ret (), (e\<lparr>en_guest := w'\<rparr>, s))"
    "region_holds G V w' p cap data" "keeps_blocks G V u w'" "hv_room V w' = hv_room V (en_guest e)"
    "rg_offset (region_at G w' (unat p)) = rg_offset (region_at G (en_guest e) (unat p))"
proof -
  let ?w = "en_guest e" let ?r = "region_at G ?w (unat p)"
  have laws: "memory_laws (x_wasm X) G" "allocator_laws (x_wasm X) G V" using machine by (simp_all add: machine_ok_def)
  have ok: "hv_ok V ?w" using base(1) by (simp add: keeps_blocks_def)
  note region = region_in_memory [OF laws ok w(1)]
  have p: "p \<noteq> 0" "4 dvd unat p" "(unat p, REGION_SIZE) \<in> hv_live V ?w" "rg_offset ?r \<noteq> 0" "unat (rg_capacity ?r) = cap"
    "if cap = 0 then rg_offset ?r = 1
     else (unat (rg_offset ?r), cap) \<in> hv_live V ?w \<and> (unat (rg_offset ?r), cap) \<noteq> (unat p, REGION_SIZE)"
    using w(1) unfolding region_holds_def Let_def by blast+
  let ?w1 = "gm_poke G (unat (rg_offset ?r)) data ?w"
  let ?r' = "?r\<lparr>rg_length := of_nat (length data)\<rparr>"
  let ?w2 = "gm_poke G (unat p) (region_bytes ?r') ?w1"
  note poked = allocator_facts(7) [OF laws(2) ok, of "unat (rg_offset ?r)" data]
  have poked2: "hv_ok V ?w2 \<and> hv_live V ?w2 = hv_live V ?w1 \<and> hv_room V ?w2 = hv_room V ?w1"
    using allocator_facts(7) [OF laws(2), of ?w1] poked by blast
  have kept1: "keeps_blocks G V u ?w1"
  proof (cases "cap = 0")
    case True
    then show ?thesis using w(2) keeps_blocks_poke_Nil [OF laws base(1)] by simp
  next
    case False
    with base(3) p(6) have "(unat (rg_offset ?r), cap) \<in> hv_live V ?w" "(unat (rg_offset ?r), cap) \<notin> hv_live V u" by auto
    from keeps_blocks_poke [OF laws base(1) this] w(2) show ?thesis by simp
  qed
  have kept2: "keeps_blocks G V u ?w2"
    by (rule keeps_blocks_poke [OF laws kept1 _ base(2)]) (use p(3) poked in simp_all)
  have "cap < 2 ^ 32" using region(2) memory_facts(2) [OF laws(1), of ?w] by simp
  then have len: "unat (of_nat (length data) :: u32) = length data" using w(2) by (simp add: unat_of_nat)
  have "contents G ?w2 (unat (rg_offset ?r)) (length data) = data"
  proof (cases "cap = 0")
    case True
    then show ?thesis using w(2) by simp
  next
    case False
    then have "apart (unat p, REGION_SIZE) (unat (rg_offset ?r), cap)"
      using allocator_facts(3) [OF laws(2) ok p(3)] p(6) by auto
    then have "apart (unat p, length (region_bytes ?r')) (unat (rg_offset ?r), length data)"
      using w(2) by (auto simp: apart_def)
    then show ?thesis by (simp add: contents_poke_apart [OF laws(1)] contents_poke_in [OF laws(1)])
  qed
  moreover have fields: "rg_offset ?r' = rg_offset ?r" "rg_capacity ?r' = rg_capacity ?r"
    "rg_length ?r' = of_nat (length data)" by simp_all
  have live: "hv_live V ?w2 = hv_live V ?w" using poked poked2 by simp
  ultimately have "region_holds G V ?w2 p cap data"
    using p w(2) len
    unfolding region_holds_def region_at_poke [OF laws(1)] Let_def fields live by blast
  moreover have "wx_get_bytes (x_wasm X) ?w (rg_offset ?r) (rg_capacity ?r) \<noteq> None"
    using region(2) p(5) by (simp add: memory_facts(3) [OF laws(1)])
  moreover have "unat p + REGION_SIZE \<le> wx_memory_size (x_wasm X) ?w1"
    using allocator_facts(2) [OF laws(2) ok p(3)] by (simp add: memory_facts(7) [OF laws(1)])
  ultimately have "write_region_mem (x_wasm X) p data ?w = (Ok ?w2, ?w2)"
    using region(1) w(2) p(5)
    by (auto simp: write_region_mem_def set_region_def Let_def memory_facts(4) [OF laws(1)]
        memory_facts(6) [OF laws(1) p(2)])
  then have "write_region X p data (e, s) = (Ret (), (e\<lparr>en_guest := ?w2\<rparr>, s))"
    by (simp add: write_region_def memory_def get_env_def on_env_def m_simps memory_facts(1) [OF laws(1)])
  moreover have "hv_room V ?w2 = hv_room V ?w" using poked poked2 by simp
  moreover have "rg_offset (region_at G ?w2 (unat p)) = rg_offset ?r" by (simp add: region_at_poke [OF laws(1)])
  ultimately show ?thesis using that kept2 \<open>region_holds G V ?w2 p cap data\<close> by blast
qed

section \<open>Allocating for the host\<close>

definition funded :: "'w heap_view \<Rightarrow> nat \<Rightarrow> 'w Environment \<Rightarrow> bool" where
  "funded V n e \<longleftrightarrow> (\<exists>g. en_points e = Some g \<and> n * hv_cost V \<le> unat g)"

text \<open>Only the contract's memory and its metering points differ.\<close>

definition advanced :: "'w Environment \<Rightarrow> 'w Environment \<Rightarrow> bool" where
  "advanced e e' \<longleftrightarrow> e' = e\<lparr>en_guest := en_guest e', en_points := en_points e'\<rparr>"

lemma advanced_refl: "advanced e e"
  by (simp add: advanced_def)

lemma advanced_trans: "advanced e f \<Longrightarrow> advanced f g \<Longrightarrow> advanced e g"
  by (cases e, cases f, cases g) (simp add: advanced_def)

lemma advanced_fields:
  assumes "advanced e e'"
  shows "en_storage e' = en_storage e" "en_iterators e' = en_iterators e"
    "en_iterator_id_ctr e' = en_iterator_id_ctr e" "en_storage_readonly e' = en_storage_readonly e"
    "load_storage (e', s) = load_storage (e, s)"
proof -
  show "en_storage e' = en_storage e" "en_iterators e' = en_iterators e"
    "en_iterator_id_ctr e' = en_iterator_id_ctr e" "en_storage_readonly e' = en_storage_readonly e"
    using assms by (cases e; cases e'; simp add: advanced_def)+
  then show "load_storage (e', s) = load_storage (e, s)"
    by (simp add: load_storage_def split: StorageRef.split)
qed

lemma charge_run:
  assumes "funded V (Suc n) e" "used \<le> hv_cost V"
  obtains e' where "charge used w (e, s) = (Ret True, (e', s))" "advanced e e'" "en_guest e' = w" "funded V n e'"
    "e' = e\<lparr>en_guest := w, en_points := en_points e'\<rparr>"
proof -
  obtain g where g: "en_points e = Some g" "Suc n * hv_cost V \<le> unat g" using assms(1) by (auto simp: funded_def)
  let ?e = "e\<lparr>en_guest := w, en_points := Some (g - of_nat used)\<rparr>"
  have fits: "used \<le> unat g" using g(2) assms(2) by simp
  moreover have "unat g < 2 ^ 64" using unsigned_less [of g] by simp
  ultimately have "used < 2 ^ 64" by (rule order_le_less_trans)
  then have "unat (of_nat used :: u64) = used" by (simp add: unat_of_nat)
  then have "unat (g - of_nat used) = unat g - used" using fits by (simp add: unat_sub word_le_nat_alt)
  then have "funded V n ?e" using g(2) assms(2) by (simp add: funded_def)
  moreover have "charge used w (e, s) = (Ret True, (?e, s))"
    using g(1) fits by (simp add: charge_def on_env_def get_env_def m_simps)
  ultimately show ?thesis using that [of ?e] by (simp add: advanced_def)
qed

lemma allocate_run:
  assumes machine: "machine_ok X G V" and ok: "hv_ok V (en_guest e)" and gas: "funded V (Suc m) e"
    and room: "unat sz + REGION_SIZE + 2 * hv_slack V \<le> hv_room V (en_guest e)"
  obtains p e' where "call_function1 (vm_call X (Suc k)) ''allocate'' [I32 sz] (e, s) = (Ret (I32 p), (e', s))"
    "advanced e e'" "funded V m e'" "region_holds G V (en_guest e') p (unat sz) []"
    "keeps_blocks G V (en_guest e) (en_guest e')" "(unat p, REGION_SIZE) \<notin> hv_live V (en_guest e)"
    "unat sz = 0 \<or> (unat (rg_offset (region_at G (en_guest e') (unat p))), unat sz) \<notin> hv_live V (en_guest e)"
    "hv_room V (en_guest e) \<le> hv_room V (en_guest e') + unat sz + REGION_SIZE + 2 * hv_slack V"
proof -
  let ?w = "en_guest e" let ?H = "env_imports X (vm_call X k) (query_raw X (vm_call X k))"
  have laws: "memory_laws (x_wasm X) G" "allocator_laws (x_wasm X) G V" using machine by (simp_all add: machine_ok_def)
  obtain p w' where p: "gives ?H (alloc G (unat sz)) (?w, (e, s)) p (w', (e, s))"
    "region_holds G V w' p (unat sz) []" "keeps_blocks G V ?w w'" "(unat p, REGION_SIZE) \<notin> hv_live V ?w"
    "unat sz = 0 \<or> (unat (rg_offset (region_at G w' (unat p))), unat sz) \<notin> hv_live V ?w"
    "hv_room V ?w \<le> hv_room V w' + unat sz + REGION_SIZE + 2 * hv_slack V"
    by (rule gives_alloc [OF laws ok room])
  have "hv_ok V w'" using p(3) by (simp add: keeps_blocks_def)
  then have "gm_used G w' \<le> hv_cost V" by (rule allocator_facts(1) [OF laws(2)])
  from charge_run [OF gas this, of w' s] obtain e' where
    e': "charge (gm_used G w') w' (e, s) = (Ret True, (e', s))" "advanced e e'" "en_guest e' = w'" "funded V m e'"
    by metis
  have "gives ?H (export_allocate G sz) (?w, (e, s)) [I32 p] (w', (e, s))"
    unfolding export_allocate_def using p(1) gives_return by (rule gives_bind)
  then have "run_prog ?H (run_export G (export_allocate G sz) ?w) (e, s) = (Ret [I32 p], (e', s))"
    using e'(1) by (simp add: gives_def run_export_def m_simps)
  moreover have "wx_call (x_wasm X) ?w ''allocate'' [I32 sz] = Ok (run_export G (export_allocate G sz) ?w)"
    using machine by (simp add: machine_ok_def library_exports_def)
  ultimately have "vm_call X (Suc k) ''allocate'' [I32 sz] (e, s) = (Ret [I32 p], (e', s))"
    by (simp add: vm_call.simps call_function_def get_env_def m_simps)
  then have "call_function1 (vm_call X (Suc k)) ''allocate'' [I32 sz] (e, s) = (Ret (I32 p), (e', s))"
    by (simp add: call_function1_def m_simps)
  with that p(2-6) e'(2-4) show ?thesis by blast
qed

lemma write_to_contract_run:
  assumes machine: "machine_ok X G V" and ok: "hv_ok V (en_guest e)" and gas: "funded V (Suc m) e"
    and room: "length data + REGION_SIZE + 2 * hv_slack V \<le> hv_room V (en_guest e)" and size: "length data < 2 ^ 32"
  obtains p e' where "write_to_contract X (vm_call X (Suc k)) data (e, s) = (Ret p, (e', s))"
    "advanced e e'" "funded V m e'" "region_holds G V (en_guest e') p (length data) data"
    "keeps_blocks G V (en_guest e) (en_guest e')" "(unat p, REGION_SIZE) \<notin> hv_live V (en_guest e)"
    "hv_room V (en_guest e) \<le> hv_room V (en_guest e') + length data + REGION_SIZE + 2 * hv_slack V"
    "length data = 0 \<or> (unat (rg_offset (region_at G (en_guest e') (unat p))), length data) \<notin> hv_live V (en_guest e)"
proof -
  have sz: "unat (of_nat (length data) :: u32) = length data" using size by (simp add: unat_of_nat)
  obtain p f where f: "call_function1 (vm_call X (Suc k)) ''allocate'' [I32 (of_nat (length data))] (e, s) = (Ret (I32 p), (f, s))"
    "advanced e f" "funded V m f" "region_holds G V (en_guest f) p (length data) []"
    "keeps_blocks G V (en_guest e) (en_guest f)" "(unat p, REGION_SIZE) \<notin> hv_live V (en_guest e)"
    "length data = 0 \<or> (unat (rg_offset (region_at G (en_guest f) (unat p))), length data) \<notin> hv_live V (en_guest e)"
    "hv_room V (en_guest e) \<le> hv_room V (en_guest f) + length data + REGION_SIZE + 2 * hv_slack V"
    using allocate_run [OF machine ok gas, of "of_nat (length data)" k s] room unfolding sz by metis
  obtain w' where w': "write_region X p data (f, s) = (Ret (), (f\<lparr>en_guest := w'\<rparr>, s))"
    "region_holds G V w' p (length data) data" "keeps_blocks G V (en_guest e) w'" "hv_room V w' = hv_room V (en_guest f)"
    "rg_offset (region_at G w' (unat p)) = rg_offset (region_at G (en_guest f) (unat p))"
    by (rule write_region_run [OF machine f(4) order_refl f(5,6,7)])
  have "p \<noteq> 0" using f(4) by (simp add: region_holds_def)
  then have "write_to_contract X (vm_call X (Suc k)) data (e, s) = (Ret p, (f\<lparr>en_guest := w'\<rparr>, s))"
    using size f(1) w'(1) by (simp add: write_to_contract_def to_u32_def ref_to_u32_def m_simps)
  moreover have "advanced e (f\<lparr>en_guest := w'\<rparr>)" using f(2) by (cases e; cases f) (simp add: advanced_def)
  moreover have "funded V m (f\<lparr>en_guest := w'\<rparr>)" using f(3) by (simp add: funded_def)
  ultimately show ?thesis using that [of p "f\<lparr>en_guest := w'\<rparr>"] w' f(6,7,8) by simp
qed

section \<open>Storage operations\<close>

lemma with_storage_run:
  assumes "load_storage (e, s) = Some ms" "cb ms = Some (r, ms')"
  obtains e' s' where "with_storage_from_context cb (e, s) = (Ret r, (e', s'))"
    "load_storage (e', s') = Some ms'" "en_guest e' = en_guest e" "en_points e' = en_points e"
    "en_storage_readonly e' = en_storage_readonly e"
proof -
  obtain e' s' where store: "store_storage ms' (e, s) = (e', s')" by (metis surj_pair)
  have "with_storage_from_context cb (e, s) = (Ret r, (e', s'))"
    using assms store by (simp add: with_storage_from_context_def m_simps)
  moreover have "load_storage (e', s') = Some ms' \<and> en_guest e' = en_guest e \<and> en_points e' = en_points e \<and>
      en_storage_readonly e' = en_storage_readonly e"
  proof (cases "en_storage e")
    case (SharedStorage a)
    then obtain cs where "as_contract_states (sh_states s) a = Some cs"
      using assms(1) by (auto simp: load_storage_def contract_state_get_def)
    then show ?thesis
      using store SharedStorage
      by (auto simp: store_storage_def Let_def contract_storage_update_def contract_state_insert_def
          load_storage_def contract_state_get_def)
  next
    case (PrivateStorage m)
    then show ?thesis using store by (auto simp: store_storage_def Let_def load_storage_def)
  qed
  ultimately show ?thesis using that by blast
qed

lemma settle_free:
  assumes "en_points e = Some g"
  shows "settle X (Ok a, GasInfo_free) (e, s) = (Ret a, (e, s))"
  using process_gas_info_free [OF assms, of X s] by (simp add: settle_def m_simps)

lemma gives_import_charged:
  assumes "charge (gm_used G w) w (e, s) = (Ret True, (e1, s))" "H c (e1, s) = (Ret vals, (e', s'))"
  shows "gives H (importG G c) (w, (e, s)) vals (en_guest e', (e', s'))"
  using assms by (simp add: gives_def importG_def get_env_def m_simps)

text \<open>Where an operation leads: to a storage \<open>ms\<close>, with memory and points for what was not used.\<close>

definition op_room :: "'w heap_view \<Rightarrow> nat \<Rightarrow> nat" where
  "op_room V L = 2 * (L + REGION_SIZE + 2 * hv_slack V)"

definition reached ::
  "'w machine \<Rightarrow> 'w heap_view \<Rightarrow> nat \<Rightarrow> nat \<Rightarrow> 'w running \<Rightarrow> RpcMockStorage \<Rightarrow> 'w running \<Rightarrow> bool" where
  "reached G V L n st ms st' \<longleftrightarrow>
     keeps_blocks G V (fst st) (fst st') \<and> funded V n (fst (snd st')) \<and> load_storage (snd st') = Some ms \<and>
     en_storage_readonly (fst (snd st')) = en_storage_readonly (fst (snd st)) \<and>
     hv_room V (fst st) \<le> hv_room V (fst st') + op_room V L"

definition small_values :: "nat \<Rightarrow> RpcMockStorage \<Rightarrow> bool" where
  "small_values L ms \<longleftrightarrow> (\<forall>k v. bt_get (ms_inner ms) k = Some v \<longrightarrow> length v \<le> L)"

lemma db_limits: "MAX_LENGTH_DB_KEY = 65536" "MAX_LENGTH_DB_VALUE = 131072"
  by (simp_all add: MAX_LENGTH_DB_KEY_def MAX_LENGTH_DB_VALUE_def KI_def)

text \<open>The host's side of \<^verbatim>\<open>db_read\<close>: the value is in a new region of the contract, or there is none.\<close>

lemma db_read_run:
  assumes machine: "machine_ok X G V" and ok: "hv_ok V (en_guest e)" and gas: "funded V (Suc n) e"
    and key: "region_holds G V (en_guest e) p (length key) key" "length key \<le> MAX_LENGTH_DB_KEY"
    and ms: "load_storage (e, s) = Some ms" "small_values L ms" "L < 2 ^ 32"
    and room: "L + REGION_SIZE + 2 * hv_slack V \<le> hv_room V (en_guest e)"
  obtains r e' s' where "do_db_read X (vm_call X (Suc k)) p (e, s) = (Ret r, (e', s'))"
    "keeps_blocks G V (en_guest e) (en_guest e')" "funded V n e'" "load_storage (e', s') = Some ms"
    "en_storage_readonly e' = en_storage_readonly e"
    "hv_room V (en_guest e) \<le> hv_room V (en_guest e') + L + REGION_SIZE + 2 * hv_slack V"
    "case bt_get (ms_inner ms) key of None \<Rightarrow> r = 0
     | Some v \<Rightarrow> region_holds G V (en_guest e') r (length v) v \<and> (unat r, REGION_SIZE) \<notin> hv_live V (en_guest e)"
proof -
  have read: "read_region X p MAX_LENGTH_DB_KEY (e, s) = (Ret key, (e, s))"
    by (rule read_region_run [OF machine ok key]) (simp add: db_limits)
  obtain e2 s2 where e2:
    "with_storage_from_context (\<lambda>store. Some (RpcMockStorage_get store key, store)) (e, s) = (Ret (RpcMockStorage_get ms key), (e2, s2))"
    "load_storage (e2, s2) = Some ms" "en_guest e2 = en_guest e" "en_points e2 = en_points e"
    "en_storage_readonly e2 = en_storage_readonly e"
    by (rule with_storage_run [OF ms(1), of "\<lambda>store. Some (RpcMockStorage_get store key, store)"]) (rule refl)
  have gas2: "funded V (Suc n) e2" using gas e2(4) by (simp add: funded_def)
  then obtain g where g: "en_points e2 = Some g" by (auto simp: funded_def)
  have settled: "settle X (RpcMockStorage_get ms key) (e2, s2) = (Ret (bt_get (ms_inner ms) key), (e2, s2))"
    unfolding RpcMockStorage_get_def by (rule settle_free [OF g])
  have upto: "do_db_read X (vm_call X (Suc k)) p (e, s) =
      (case bt_get (ms_inner ms) key of None \<Rightarrow> returnM 0 | Some v \<Rightarrow> write_to_contract X (vm_call X (Suc k)) v) (e2, s2)"
    by (simp add: do_db_read_def bindM_def read e2(1) settled split: option.split)
  show ?thesis
  proof (cases "bt_get (ms_inner ms) key")
    case None
    have "do_db_read X (vm_call X (Suc k)) p (e, s) = (Ret 0, (e2, s2))" using upto None by (simp add: m_simps)
    moreover have "funded V n e2" using gas2 by (auto simp: funded_def)
    moreover have "keeps_blocks G V (en_guest e) (en_guest e2)" using ok e2(3) by (simp add: keeps_blocks_refl)
    ultimately show ?thesis using that [of 0 e2 s2] None e2 by simp
  next
    case (Some v)
    then have v: "length v \<le> L" using ms(2) by (auto simp: small_values_def)
    have ok2: "hv_ok V (en_guest e2)" and room2: "length v + REGION_SIZE + 2 * hv_slack V \<le> hv_room V (en_guest e2)"
      and len: "length v < 2 ^ 32"
      using ok room v ms(3) e2(3) by simp_all
    obtain q e3 where q:
      "write_to_contract X (vm_call X (Suc k)) v (e2, s2) = (Ret q, (e3, s2))"
      "advanced e2 e3" "funded V n e3" "region_holds G V (en_guest e3) q (length v) v"
      "keeps_blocks G V (en_guest e2) (en_guest e3)" "(unat q, REGION_SIZE) \<notin> hv_live V (en_guest e2)"
      "hv_room V (en_guest e2) \<le> hv_room V (en_guest e3) + length v + REGION_SIZE + 2 * hv_slack V"
      "length v = 0 \<or> (unat (rg_offset (region_at G (en_guest e3) (unat q))), length v) \<notin> hv_live V (en_guest e2)"
      by (rule write_to_contract_run [OF machine ok2 gas2 room2 len])
    have "do_db_read X (vm_call X (Suc k)) p (e, s) = (Ret q, (e3, s2))" using upto Some q(1) by simp
    moreover have "hv_room V (en_guest e) \<le> hv_room V (en_guest e3) + L + REGION_SIZE + 2 * hv_slack V"
      using q(7) v e2(3) by simp
    moreover have "load_storage (e3, s2) = Some ms" "en_storage_readonly e3 = en_storage_readonly e"
      using advanced_fields(4,5) [OF q(2)] e2(2,5) by simp_all
    ultimately show ?thesis using that [of q e3 s2] Some q(3-6) e2(3) by simp
  qed
qed

lemma keeps_blocks_ok: "keeps_blocks G V w w' \<Longrightarrow> hv_ok V w'"
  by (simp add: keeps_blocks_def)

lemma machine_laws:
  assumes "machine_ok X G V"
  shows "memory_laws (x_wasm X) G" "allocator_laws (x_wasm X) G V" "library_exports (x_wasm X) G"
  using assms by (simp_all add: machine_ok_def)

lemma region_box: "region_holds G V w p cap data \<Longrightarrow> (unat p, REGION_SIZE) \<in> hv_live V w"
  by (simp add: region_holds_def)

text \<open>Freeing a region that was made after \<open>u\<close>.\<close>

lemma dealloc_region:
  assumes "machine_ok X G V" "keeps_blocks G V u w" "region_holds G V w p cap data" "(unat p, REGION_SIZE) \<notin> hv_live V u"
  shows "keeps_blocks G V u (gm_dealloc G p REGION_SIZE w)" "hv_room V w \<le> hv_room V (gm_dealloc G p REGION_SIZE w)"
proof -
  note laws = machine_laws [OF assms(1)]
  show "keeps_blocks G V u (gm_dealloc G p REGION_SIZE w)"
    by (rule keeps_blocks_dealloc [OF laws(2) assms(2) region_box [OF assms(3)] assms(4)])
  show "hv_room V w \<le> hv_room V (gm_dealloc G p REGION_SIZE w)"
    using allocator_facts(6) [OF laws(2) keeps_blocks_ok [OF assms(2)] region_box [OF assms(3)]] by simp
qed

text \<open>Up to the call of an import with a region for its first argument.\<close>

lemma gives_import32:
  assumes "charge (gm_used G w) w (e, s) = (Ret True, (e1, s))" "H c (e1, s) = (Ret [I32 r], (e', s'))"
  shows "gives H (import32 G c) (w, (e, s)) r (en_guest e', (e', s'))"
proof -
  have "gives H (returnG (as_u32 [I32 r])) (en_guest e', (e', s')) r (en_guest e', (e', s'))"
    using gives_return [of H r] by (simp add: as_u32_def)
  then show ?thesis unfolding import32_def by (rule gives_bind [OF gives_import_charged [where H = H and c = c, OF assms]])
qed

lemma gives_get_storage:
  assumes machine: "machine_ok X G V" and w: "hv_ok V w" "funded V (Suc (Suc n)) e" "op_room V L \<le> hv_room V w"
    and ms: "load_storage (e, s) = Some ms" "small_values L ms" and L: "length key \<le> L" "L \<le> MAX_LENGTH_DB_KEY"
  obtains st' where
    "gives (env_imports X (vm_call X (Suc k)) Q) (ExternalStorage_get G key) (w, (e, s)) (bt_get (ms_inner ms) key) st'"
    "reached G V L n (w, (e, s)) ms st'"
proof -
  let ?H = "env_imports X (vm_call X (Suc k)) Q"
  note laws = machine_laws [OF machine]
  have room: "length key + REGION_SIZE + 2 * hv_slack V \<le> hv_room V w" using w(3) L(1) by (simp add: op_room_def)
  obtain p w1 where p: "gives ?H (build_region G key) (w, (e, s)) p (w1, (e, s))"
    "region_holds G V w1 p (length key) key" "keeps_blocks G V w w1" "(unat p, REGION_SIZE) \<notin> hv_live V w"
    "hv_room V w \<le> hv_room V w1 + length key + REGION_SIZE + 2 * hv_slack V"
    by (rule gives_build_region [OF laws(1,2) w(1) room])
  have ok1: "hv_ok V w1" by (rule keeps_blocks_ok [OF p(3)])
  obtain e1 where e1: "charge (gm_used G w1) w1 (e, s) = (Ret True, (e1, s))" "advanced e e1" "en_guest e1 = w1"
    "funded V (Suc n) e1" "e1 = e\<lparr>en_guest := w1, en_points := en_points e1\<rparr>"
    by (rule charge_run [OF w(2) allocator_facts(1) [OF laws(2) ok1]])
  have ok: "hv_ok V (en_guest e1)" and key: "region_holds G V (en_guest e1) p (length key) key"
    using ok1 p(2) e1(3) by simp_all
  have len: "length key \<le> MAX_LENGTH_DB_KEY" "L < 2 ^ 32" using L by (simp_all add: db_limits)
  have load: "load_storage (e1, s) = Some ms" using advanced_fields(5) [OF e1(2)] ms(1) by simp
  have room1: "L + REGION_SIZE + 2 * hv_slack V \<le> hv_room V (en_guest e1)"
    using p(5) w(3) L(1) e1(3) by (simp add: op_room_def)
  obtain r e2 s2 where r: "do_db_read X (vm_call X (Suc k)) p (e1, s) = (Ret r, (e2, s2))"
    "keeps_blocks G V (en_guest e1) (en_guest e2)" "funded V n e2" "load_storage (e2, s2) = Some ms"
    "en_storage_readonly e2 = en_storage_readonly e1"
    "hv_room V (en_guest e1) \<le> hv_room V (en_guest e2) + L + REGION_SIZE + 2 * hv_slack V"
    "case bt_get (ms_inner ms) key of None \<Rightarrow> r = 0
     | Some v \<Rightarrow> region_holds G V (en_guest e2) r (length v) v \<and> (unat r, REGION_SIZE) \<notin> hv_live V (en_guest e1)"
    by (rule db_read_run [OF machine ok e1(4) key len(1) load ms(2) len(2) room1])
  let ?w2 = "en_guest e2"
  have kept2: "keeps_blocks G V w1 ?w2" using r(2) e1(3) by simp
  have "?H (DbRead p) (e1, s) = (Ret [I32 r], (e2, s2))" using r(1) by (simp add: env_imports_def ret32_def m_simps)
  note read = gives_import32 [where H = ?H and c = "DbRead p", OF e1(1) this]
  have readonly: "en_storage_readonly e2 = en_storage_readonly e" using r(5) advanced_fields(4) [OF e1(2)] by simp
  have box: "region_holds G V ?w2 p (length key) key" by (rule region_holds_kept [OF kept2 p(2)])
  have total: "hv_room V w \<le> hv_room V ?w2 + op_room V L" using p(5) r(6) e1(3) L(1) by (simp add: op_room_def)
  show ?thesis
  proof (cases "bt_get (ms_inner ms) key")
    case None
    then have "r = 0" using r(7) by simp
    let ?w3 = "gm_dealloc G p REGION_SIZE ?w2"
    have "gives ?H (ExternalStorage_get G key) (w, (e, s)) None (?w3, (e2, s2))"
      unfolding ExternalStorage_get_def
      by (rule gives_bind [OF p(1)], rule gives_bind [OF read])
        (simp add: \<open>r = 0\<close> gives_then [OF gives_drop_region gives_return])
    moreover have "reached G V L n (w, (e, s)) ms (?w3, (e2, s2))"
      using dealloc_region [OF machine keeps_blocks_trans [OF p(3) kept2] box p(4)] r(3,4) readonly total
      by (simp add: reached_def)
    ultimately show ?thesis using that None by simp
  next
    case (Some v)
    then have q: "region_holds G V ?w2 r (length v) v" "(unat r, REGION_SIZE) \<notin> hv_live V w1"
      using r(7) e1(3) by simp_all
    let ?w3 = "gm_dealloc G r REGION_SIZE ?w2" let ?w4 = "gm_dealloc G p REGION_SIZE ?w3"
    have "r \<noteq> 0" using q(1) by (simp add: region_holds_def)
    then have "gives ?H (ExternalStorage_get G key) (w, (e, s)) (Some v) (?w4, (e2, s2))"
      unfolding ExternalStorage_get_def
      by (intro gives_bind [OF p(1)], intro gives_bind [OF read], simp)
        (rule gives_bind [OF gives_consume_region [OF q(1)]], rule gives_then [OF gives_drop_region gives_return])
    moreover have "reached G V L n (w, (e, s)) ms (?w4, (e2, s2))"
    proof -
      note kept3 = dealloc_region [OF machine kept2 q]
      have box3: "region_holds G V ?w3 p (length key) key" by (rule region_holds_kept [OF kept3(1) p(2)])
      show ?thesis
        using dealloc_region [OF machine keeps_blocks_trans [OF p(3) kept3(1)] box3 p(4)] kept3(2) r(3,4) readonly total
        by (simp add: reached_def)
    qed
    ultimately show ?thesis using that Some by simp
  qed
qed

text \<open>The host's side of the two writes: the contract's memory is only read.\<close>

lemma db_write_run:
  assumes machine: "machine_ok X G V" and ok: "hv_ok V (en_guest e)" and gas: "funded V n e" "\<not> en_storage_readonly e"
    and key: "region_holds G V (en_guest e) p (length key) key" "length key \<le> MAX_LENGTH_DB_KEY"
    and val: "region_holds G V (en_guest e) q (length value) value" "length value \<le> MAX_LENGTH_DB_VALUE"
    and ms: "load_storage (e, s) = Some ms"
  obtains e' s' where "do_db_write X p q (e, s) = (Ret (), (e', s'))"
    "load_storage (e', s') = Some (ms\<lparr>ms_inner := bt_insert key value (ms_inner ms)\<rparr>)"
    "en_guest e' = en_guest e" "en_points e' = en_points e" "en_storage_readonly e' = en_storage_readonly e"
proof -
  have read: "read_region X p MAX_LENGTH_DB_KEY (e, s) = (Ret key, (e, s))"
    "read_region X q MAX_LENGTH_DB_VALUE (e, s) = (Ret value, (e, s))"
    by (rule read_region_run [OF machine ok key], simp add: db_limits)
      (rule read_region_run [OF machine ok val], simp add: db_limits)
  obtain e2 s2 where e2:
    "with_storage_from_context (\<lambda>store. Some (RpcMockStorage_set key value store)) (e, s) =
       (Ret (Ok (), GasInfo_free), (e2, s2))"
    "load_storage (e2, s2) = Some (ms\<lparr>ms_inner := bt_insert key value (ms_inner ms)\<rparr>)" "en_guest e2 = en_guest e"
    "en_points e2 = en_points e" "en_storage_readonly e2 = en_storage_readonly e"
    by (rule with_storage_run [OF ms, of "\<lambda>store. Some (RpcMockStorage_set key value store)"])
      (simp add: RpcMockStorage_set_def)
  obtain g where g: "en_points e2 = Some g" using gas(1) e2(4) by (auto simp: funded_def)
  have "do_db_write X p q (e, s) = (Ret (), (e2, s2))"
    using gas(2) by (simp add: do_db_write_def bindM_def get_env_def getM_def read e2(1) settle_free [OF g])
  with that e2(2-5) show ?thesis by blast
qed

lemma db_remove_run:
  assumes machine: "machine_ok X G V" and ok: "hv_ok V (en_guest e)" and gas: "funded V n e" "\<not> en_storage_readonly e"
    and key: "region_holds G V (en_guest e) p (length key) key" "length key \<le> MAX_LENGTH_DB_KEY"
    and ms: "load_storage (e, s) = Some ms"
  obtains e' s' where "do_db_remove X p (e, s) = (Ret (), (e', s'))"
    "load_storage (e', s') = Some (ms\<lparr>ms_inner := bt_remove key (ms_inner ms)\<rparr>)"
    "en_guest e' = en_guest e" "en_points e' = en_points e" "en_storage_readonly e' = en_storage_readonly e"
proof -
  have read: "read_region X p MAX_LENGTH_DB_KEY (e, s) = (Ret key, (e, s))"
    by (rule read_region_run [OF machine ok key]) (simp add: db_limits)
  obtain e2 s2 where e2:
    "with_storage_from_context (\<lambda>store. Some (RpcMockStorage_remove key store)) (e, s) =
       (Ret (Ok (), GasInfo_free), (e2, s2))"
    "load_storage (e2, s2) = Some (ms\<lparr>ms_inner := bt_remove key (ms_inner ms)\<rparr>)" "en_guest e2 = en_guest e"
    "en_points e2 = en_points e" "en_storage_readonly e2 = en_storage_readonly e"
    by (rule with_storage_run [OF ms, of "\<lambda>store. Some (RpcMockStorage_remove key store)"])
      (simp add: RpcMockStorage_remove_def)
  obtain g where g: "en_points e2 = Some g" using gas(1) e2(4) by (auto simp: funded_def)
  have "do_db_remove X p (e, s) = (Ret (), (e2, s2))"
    using gas(2) by (simp add: do_db_remove_def bindM_def get_env_def getM_def read e2(1) settle_free [OF g])
  with that e2(2-5) show ?thesis by blast
qed

lemma funded_less: "funded V (Suc n) e \<Longrightarrow> funded V n e"
  by (auto simp: funded_def)

lemma gives_remove_storage:
  assumes machine: "machine_ok X G V" and w: "hv_ok V w" "funded V (Suc (Suc n)) e" "op_room V L \<le> hv_room V w"
    and ms: "load_storage (e, s) = Some ms" "\<not> en_storage_readonly e" and L: "length key \<le> L" "L \<le> MAX_LENGTH_DB_KEY"
  obtains st' where
    "gives (env_imports X (vm_call X (Suc k)) Q) (ExternalStorage_remove G key) (w, (e, s)) () st'"
    "reached G V L n (w, (e, s)) (ms\<lparr>ms_inner := bt_remove key (ms_inner ms)\<rparr>) st'"
proof -
  let ?H = "env_imports X (vm_call X (Suc k)) Q"
  note laws = machine_laws [OF machine]
  have room: "length key + REGION_SIZE + 2 * hv_slack V \<le> hv_room V w" using w(3) L(1) by (simp add: op_room_def)
  obtain p w1 where p: "gives ?H (build_region G key) (w, (e, s)) p (w1, (e, s))"
    "region_holds G V w1 p (length key) key" "keeps_blocks G V w w1" "(unat p, REGION_SIZE) \<notin> hv_live V w"
    "hv_room V w \<le> hv_room V w1 + length key + REGION_SIZE + 2 * hv_slack V"
    by (rule gives_build_region [OF laws(1,2) w(1) room])
  have ok1: "hv_ok V w1" by (rule keeps_blocks_ok [OF p(3)])
  obtain e1 where e1: "charge (gm_used G w1) w1 (e, s) = (Ret True, (e1, s))" "advanced e e1" "en_guest e1 = w1"
    "funded V (Suc n) e1" "e1 = e\<lparr>en_guest := w1, en_points := en_points e1\<rparr>"
    by (rule charge_run [OF w(2) allocator_facts(1) [OF laws(2) ok1]])
  note same = advanced_fields(4) [OF e1(2)] advanced_fields(5) [OF e1(2), of s]
  have pre: "hv_ok V (en_guest e1)" "\<not> en_storage_readonly e1" "region_holds G V (en_guest e1) p (length key) key"
    "length key \<le> MAX_LENGTH_DB_KEY" "load_storage (e1, s) = Some ms"
    using ok1 p(2) e1(3) same ms L by simp_all
  obtain e2 s2 where e2: "do_db_remove X p (e1, s) = (Ret (), (e2, s2))"
    "load_storage (e2, s2) = Some (ms\<lparr>ms_inner := bt_remove key (ms_inner ms)\<rparr>)"
    "en_guest e2 = en_guest e1" "en_points e2 = en_points e1" "en_storage_readonly e2 = en_storage_readonly e1"
    by (rule db_remove_run [OF machine pre(1) e1(4) pre(2-5)])
  have "?H (DbRemove p) (e1, s) = (Ret [], (e2, s2))" using e2(1) by (simp add: env_imports_def ret0_def m_simps)
  from gives_import_charged [where H = ?H and c = "DbRemove p", OF e1(1) this]
  have call: "gives ?H (importG G (DbRemove p)) (w1, (e, s)) [] (w1, (e2, s2))" using e2(3) e1(3) by simp
  have "gives ?H (ExternalStorage_remove G key) (w, (e, s)) () (gm_dealloc G p REGION_SIZE w1, (e2, s2))"
    unfolding ExternalStorage_remove_def
    by (rule gives_bind [OF p(1)], rule gives_then [OF call], rule gives_drop_region)
  moreover have "funded V n e2" using funded_less [OF e1(4)] e2(4) by (simp add: funded_def)
  then have "reached G V L n (w, (e, s)) (ms\<lparr>ms_inner := bt_remove key (ms_inner ms)\<rparr>)
      (gm_dealloc G p REGION_SIZE w1, (e2, s2))"
    using dealloc_region [OF machine p(3,2,4)] e2(2,5) same p(5) L(1) by (simp add: reached_def op_room_def)
  ultimately show ?thesis by (rule that)
qed

lemma gives_set_storage:
  assumes machine: "machine_ok X G V" and w: "hv_ok V w" "funded V (Suc (Suc n)) e" "op_room V L \<le> hv_room V w"
    and ms: "load_storage (e, s) = Some ms" "\<not> en_storage_readonly e"
    and L: "length key \<le> L" "length value \<le> L" "L \<le> MAX_LENGTH_DB_KEY" "value \<noteq> []"
  obtains st' where
    "gives (env_imports X (vm_call X (Suc k)) Q) (ExternalStorage_set G key value) (w, (e, s)) () st'"
    "reached G V L n (w, (e, s)) (ms\<lparr>ms_inner := bt_insert key value (ms_inner ms)\<rparr>) st'"
proof -
  let ?H = "env_imports X (vm_call X (Suc k)) Q"
  note laws = machine_laws [OF machine]
  have room: "length key + REGION_SIZE + 2 * hv_slack V \<le> hv_room V w" using w(3) L(1) by (simp add: op_room_def)
  obtain p w1 where p: "gives ?H (build_region G key) (w, (e, s)) p (w1, (e, s))"
    "region_holds G V w1 p (length key) key" "keeps_blocks G V w w1" "(unat p, REGION_SIZE) \<notin> hv_live V w"
    "hv_room V w \<le> hv_room V w1 + length key + REGION_SIZE + 2 * hv_slack V"
    by (rule gives_build_region [OF laws(1,2) w(1) room])
  have room1: "length value + REGION_SIZE + 2 * hv_slack V \<le> hv_room V w1"
    using p(5) w(3) L(1,2) by (simp add: op_room_def)
  obtain q w2 where q: "gives ?H (build_region G value) (w1, (e, s)) q (w2, (e, s))"
    "region_holds G V w2 q (length value) value" "keeps_blocks G V w1 w2" "(unat q, REGION_SIZE) \<notin> hv_live V w1"
    "hv_room V w1 \<le> hv_room V w2 + length value + REGION_SIZE + 2 * hv_slack V"
    by (rule gives_build_region [OF laws(1,2) keeps_blocks_ok [OF p(3)] room1])
  have ok2: "hv_ok V w2" by (rule keeps_blocks_ok [OF q(3)])
  obtain e1 where e1: "charge (gm_used G w2) w2 (e, s) = (Ret True, (e1, s))" "advanced e e1" "en_guest e1 = w2"
    "funded V (Suc n) e1" "e1 = e\<lparr>en_guest := w2, en_points := en_points e1\<rparr>"
    by (rule charge_run [OF w(2) allocator_facts(1) [OF laws(2) ok2]])
  note same = advanced_fields(4) [OF e1(2)] advanced_fields(5) [OF e1(2), of s]
  have pre: "hv_ok V (en_guest e1)" "\<not> en_storage_readonly e1" "region_holds G V (en_guest e1) p (length key) key"
    "length key \<le> MAX_LENGTH_DB_KEY" "region_holds G V (en_guest e1) q (length value) value"
    "length value \<le> MAX_LENGTH_DB_VALUE" "load_storage (e1, s) = Some ms"
    using ok2 region_holds_kept [OF q(3) p(2)] q(2) e1(3) same ms L by (simp_all add: db_limits)
  obtain e2 s2 where e2: "do_db_write X p q (e1, s) = (Ret (), (e2, s2))"
    "load_storage (e2, s2) = Some (ms\<lparr>ms_inner := bt_insert key value (ms_inner ms)\<rparr>)"
    "en_guest e2 = en_guest e1" "en_points e2 = en_points e1" "en_storage_readonly e2 = en_storage_readonly e1"
    by (rule db_write_run [OF machine pre(1) e1(4) pre(2-7)])
  have "?H (DbWrite p q) (e1, s) = (Ret [], (e2, s2))" using e2(1) by (simp add: env_imports_def ret0_def m_simps)
  from gives_import_charged [where H = ?H and c = "DbWrite p q", OF e1(1) this]
  have call: "gives ?H (importG G (DbWrite p q)) (w2, (e, s)) [] (w2, (e2, s2))" using e2(3) e1(3) by simp
  let ?w3 = "gm_dealloc G q REGION_SIZE w2" let ?w4 = "gm_dealloc G p REGION_SIZE ?w3"
  have "gives ?H (ExternalStorage_set G key value) (w, (e, s)) () (?w4, (e2, s2))"
    unfolding ExternalStorage_set_def using L(4)
    by simp (rule gives_bind [OF p(1)], rule gives_bind [OF q(1)], rule gives_then [OF call],
        rule gives_then [OF gives_drop_region gives_drop_region])
  moreover have "reached G V L n (w, (e, s)) (ms\<lparr>ms_inner := bt_insert key value (ms_inner ms)\<rparr>) (?w4, (e2, s2))"
  proof -
    note kept3 = dealloc_region [OF machine q(3,2,4)]
    have box: "region_holds G V ?w3 p (length key) key" by (rule region_holds_kept [OF kept3(1) p(2)])
    have "funded V n e2" using funded_less [OF e1(4)] e2(4) by (simp add: funded_def)
    then show ?thesis
      using dealloc_region [OF machine keeps_blocks_trans [OF p(3) kept3(1)] box p(4)] kept3(2) e2(2,5) same
        p(5) q(5) L(1,2) by (simp add: reached_def op_room_def)
  qed
  ultimately show ?thesis by (rule that)
qed

section \<open>Contracts over the storage\<close>

text \<open>
  A contract's function that uses the storage: what it does next depends on what it has read.
  \<open>run_contract\<close> is the function written with the library, \<open>eval_contract\<close> what it means for the
  map of the stored values.  \<open>fits L c n\<close>: it makes at most \<open>n\<close> operations as long as it reads
  values of at most \<open>L\<close> bytes, its own keys and values have at most \<open>L\<close> bytes, and it writes no empty
  value.
\<close>

datatype 'r contract =
    Answer 'r
  | Get_then bytes "bytes option \<Rightarrow> 'r contract"
  | Set_then bytes bytes "'r contract"
  | Remove_then bytes "'r contract"

primrec run_contract :: "'w machine \<Rightarrow> 'r contract \<Rightarrow> ('w, 'r) guest" where
  "run_contract G (Answer r) = returnG r"
| "run_contract G (Get_then key f) = bindG (ExternalStorage_get G key) (\<lambda>v. run_contract G (f v))"
| "run_contract G (Set_then key value c) = thenG (ExternalStorage_set G key value) (run_contract G c)"
| "run_contract G (Remove_then key c) = thenG (ExternalStorage_remove G key) (run_contract G c)"

primrec eval_contract :: "'r contract \<Rightarrow> (bytes \<rightharpoonup> bytes) \<Rightarrow> 'r \<times> (bytes \<rightharpoonup> bytes)" where
  "eval_contract (Answer r) m = (r, m)"
| "eval_contract (Get_then key f) m = eval_contract (f (m key)) m"
| "eval_contract (Set_then key value c) m = eval_contract c (m(key \<mapsto> value))"
| "eval_contract (Remove_then key c) m = eval_contract c (m(key := None))"

primrec fits :: "nat \<Rightarrow> 'r contract \<Rightarrow> nat \<Rightarrow> bool" where
  "fits L (Answer r) n = True"
| "fits L (Get_then key f) n =
     (0 < n \<and> length key \<le> L \<and> (\<forall>v. (case v of None \<Rightarrow> True | Some d \<Rightarrow> length d \<le> L) \<longrightarrow> fits L (f v) (n - 1)))"
| "fits L (Set_then key value c) n =
     (0 < n \<and> length key \<le> L \<and> length value \<le> L \<and> value \<noteq> [] \<and> fits L c (n - 1))"
| "fits L (Remove_then key c) n = (0 < n \<and> length key \<le> L \<and> fits L c (n - 1))"

text \<open>The state in which a contract can make \<open>n\<close> further operations, and more after that.\<close>

definition stocked ::
  "'w machine \<Rightarrow> 'w heap_view \<Rightarrow> nat \<Rightarrow> nat \<Rightarrow> nat \<Rightarrow> nat \<Rightarrow> 'w running \<Rightarrow> RpcMockStorage \<Rightarrow> bool" where
  "stocked G V L n room gas st ms \<longleftrightarrow>
     hv_ok V (fst st) \<and> n * op_room V L + room \<le> hv_room V (fst st) \<and> funded V (2 * n + gas) (fst (snd st)) \<and>
     load_storage (snd st) = Some ms \<and> small_values L ms \<and> \<not> en_storage_readonly (fst (snd st))"

lemma stocked_reached:
  assumes "stocked G V L (Suc n) room gas st ms" "reached G V L (2 * n + gas) st ms' st'" "small_values L ms'"
  shows "stocked G V L n room gas st' ms'"
  using assms by (auto simp: stocked_def reached_def keeps_blocks_def)

lemma small_values_update:
  assumes "small_values L ms"
  shows "length value \<le> L \<Longrightarrow> small_values L (ms\<lparr>ms_inner := bt_insert key value (ms_inner ms)\<rparr>)"
    and "small_values L (ms\<lparr>ms_inner := bt_remove key (ms_inner ms)\<rparr>)"
  using assms by (auto simp: small_values_def bt_get_insert bt_get_remove split: if_splits)

lemma stocked_Suc:
  assumes "stocked G V L (Suc n) room gas (w, (e, s)) ms"
  shows "hv_ok V w" "funded V (Suc (Suc (2 * n + gas))) e" "op_room V L \<le> hv_room V w"
    "load_storage (e, s) = Some ms" "small_values L ms" "\<not> en_storage_readonly e"
  using assms by (simp_all add: stocked_def)

lemma gives_contract:
  assumes machine: "machine_ok X G V" and L: "L \<le> MAX_LENGTH_DB_KEY"
  shows "fits L c n \<Longrightarrow> stocked G V L n room gas st ms \<Longrightarrow>
    \<exists>st' ms'. gives (env_imports X (vm_call X (Suc k)) Q) (run_contract G c) st
        (fst (eval_contract c (bt_get (ms_inner ms)))) st' \<and>
      stocked G V L 0 room gas st' ms' \<and> keeps_blocks G V (fst st) (fst st') \<and>
      bt_get (ms_inner ms') = snd (eval_contract c (bt_get (ms_inner ms)))"
proof (induction c arbitrary: n st ms)
  case (Answer r)
  have "stocked G V L 0 room gas st ms" using Answer.prems(2) by (auto simp: stocked_def funded_def add_mult_distrib)
  moreover have "keeps_blocks G V (fst st) (fst st)"
    using Answer.prems(2) by (simp add: stocked_def keeps_blocks_refl)
  ultimately show ?case
    by (intro exI [of _ st] exI [of _ ms]) (simp add: gives_return)
next
  case (Get_then key f)
  obtain w e s where st: "st = (w, (e, s))" by (cases st) auto
  obtain m where n: "n = Suc m" using Get_then.prems(1) by (cases n) auto
  note pre = stocked_Suc [OF Get_then.prems(2) [unfolded n st]]
  have key: "length key \<le> L" using Get_then.prems(1) by simp
  obtain st1 where st1:
    "gives (env_imports X (vm_call X (Suc k)) Q) (ExternalStorage_get G key) (w, (e, s)) (bt_get (ms_inner ms) key) st1"
    "reached G V L (2 * m + gas) (w, (e, s)) ms st1"
    by (rule gives_get_storage [OF machine pre(1-5) key L])
  have small: "case bt_get (ms_inner ms) key of None \<Rightarrow> True | Some d \<Rightarrow> length d \<le> L"
    using pre(5) by (auto simp: small_values_def split: option.split)
  have fit: "fits L (f (bt_get (ms_inner ms) key)) m" using Get_then.prems(1) small n by (simp del: split_paired_All)
  have "stocked G V L m room gas st1 ms"
    by (rule stocked_reached [OF _ st1(2) pre(5)]) (use Get_then.prems(2) n st in simp)
  from Get_then.IH [OF _ fit this] obtain st' ms' where rest:
    "gives (env_imports X (vm_call X (Suc k)) Q) (run_contract G (f (bt_get (ms_inner ms) key))) st1
       (fst (eval_contract (f (bt_get (ms_inner ms) key)) (bt_get (ms_inner ms)))) st'"
    "stocked G V L 0 room gas st' ms'" "keeps_blocks G V (fst st1) (fst st')"
    "bt_get (ms_inner ms') = snd (eval_contract (f (bt_get (ms_inner ms) key)) (bt_get (ms_inner ms)))"
    by blast
  have "keeps_blocks G V w (fst st1)" using st1(2) by (simp add: reached_def)
  then show ?case
    using gives_bind [OF st1(1), of "\<lambda>v. run_contract G (f v)", OF rest(1)] rest(2,4) keeps_blocks_trans [OF _ rest(3)] st
    by (intro exI [of _ st'] exI [of _ ms']) simp
next
  case (Set_then key data c)
  obtain w e s where st: "st = (w, (e, s))" by (cases st) auto
  obtain m where n: "n = Suc m" using Set_then.prems(1) by (cases n) auto
  note pre = stocked_Suc [OF Set_then.prems(2) [unfolded n st]]
  have kv: "length key \<le> L" "length data \<le> L" "data \<noteq> []" and fit: "fits L c m"
    using Set_then.prems(1) n by simp_all
  let ?ms = "ms\<lparr>ms_inner := bt_insert key data (ms_inner ms)\<rparr>"
  obtain st1 where st1:
    "gives (env_imports X (vm_call X (Suc k)) Q) (ExternalStorage_set G key data) (w, (e, s)) () st1"
    "reached G V L (2 * m + gas) (w, (e, s)) ?ms st1"
    by (rule gives_set_storage [OF machine pre(1-4,6) kv(1,2) L kv(3)])
  have "stocked G V L m room gas st1 ?ms"
    by (rule stocked_reached [OF _ st1(2) small_values_update(1) [OF pre(5) kv(2)]])
      (use Set_then.prems(2) n st in simp)
  from Set_then.IH [OF fit this] obtain st' ms' where rest:
    "gives (env_imports X (vm_call X (Suc k)) Q) (run_contract G c) st1
       (fst (eval_contract c (bt_get (ms_inner ?ms)))) st'"
    "stocked G V L 0 room gas st' ms'" "keeps_blocks G V (fst st1) (fst st')"
    "bt_get (ms_inner ms') = snd (eval_contract c (bt_get (ms_inner ?ms)))"
    by blast
  have "keeps_blocks G V w (fst st1)" using st1(2) by (simp add: reached_def)
  then show ?case
    using gives_then [OF st1(1) rest(1)] rest(2,4) keeps_blocks_trans [OF _ rest(3)] st
    by (intro exI [of _ st'] exI [of _ ms']) (simp add: bt_get_insert)
next
  case (Remove_then key c)
  obtain w e s where st: "st = (w, (e, s))" by (cases st) auto
  obtain m where n: "n = Suc m" using Remove_then.prems(1) by (cases n) auto
  note pre = stocked_Suc [OF Remove_then.prems(2) [unfolded n st]]
  have key: "length key \<le> L" and fit: "fits L c m" using Remove_then.prems(1) n by simp_all
  let ?ms = "ms\<lparr>ms_inner := bt_remove key (ms_inner ms)\<rparr>"
  obtain st1 where st1:
    "gives (env_imports X (vm_call X (Suc k)) Q) (ExternalStorage_remove G key) (w, (e, s)) () st1"
    "reached G V L (2 * m + gas) (w, (e, s)) ?ms st1"
    by (rule gives_remove_storage [OF machine pre(1-4,6) key L])
  have "stocked G V L m room gas st1 ?ms"
    by (rule stocked_reached [OF _ st1(2) small_values_update(2) [OF pre(5)]]) (use Remove_then.prems(2) n st in simp)
  from Remove_then.IH [OF fit this] obtain st' ms' where rest:
    "gives (env_imports X (vm_call X (Suc k)) Q) (run_contract G c) st1
       (fst (eval_contract c (bt_get (ms_inner ?ms)))) st'"
    "stocked G V L 0 room gas st' ms'" "keeps_blocks G V (fst st1) (fst st')"
    "bt_get (ms_inner ms') = snd (eval_contract c (bt_get (ms_inner ?ms)))"
    by blast
  have "keeps_blocks G V w (fst st1)" using st1(2) by (simp add: reached_def)
  then show ?case
    using gives_then [OF st1(1) rest(1)] rest(2,4) keeps_blocks_trans [OF _ rest(3)] st
    by (intro exI [of _ st'] exI [of _ ms']) (simp add: bt_get_remove)
qed

section \<open>The arguments of an entry point\<close>

text \<open>
  The regions of a call's arguments.  Each region is freed by itself, so it is no block of those
  after it.
\<close>

definition region_block :: "'w machine \<Rightarrow> 'w \<Rightarrow> u32 \<Rightarrow> nat \<times> nat" where
  "region_block G w p =
     (unat (rg_offset (region_at G w (unat p))), unat (rg_capacity (region_at G w (unat p))))"

fun regions_hold :: "'w machine \<Rightarrow> 'w heap_view \<Rightarrow> 'w \<Rightarrow> u32 list \<Rightarrow> bytes list \<Rightarrow> bool" where
  "regions_hold G V w [] [] = True"
| "regions_hold G V w (p # ps) (d # ds) =
     (region_holds G V w p (length d) d \<and>
      (\<forall>q \<in> set ps. q \<noteq> p \<and> region_block G w q \<noteq> (unat p, REGION_SIZE)) \<and>
      regions_hold G V w ps ds)"
| "regions_hold G V w ps ds = False"

fun_cases regions_hold_ConsE: "regions_hold G V w ps (d # ds)"

lemma region_at_kept:
  assumes "keeps_blocks G V w w'" "region_holds G V w p cap data"
  shows "region_at G w' (unat p) = region_at G w (unat p)"
  by (rule region_at_same) (rule contents_kept [OF assms(1) region_box [OF assms(2)]]; simp)

lemma regions_hold_region: "regions_hold G V w ps ds \<Longrightarrow> q \<in> set ps \<Longrightarrow> \<exists>d. region_holds G V w q (length d) d"
  by (induction G V w ps ds rule: regions_hold.induct) auto

lemma regions_hold_kept:
  assumes "keeps_blocks G V w w'"
  shows "regions_hold G V w ps ds \<Longrightarrow> regions_hold G V w' ps ds"
proof (induction ps ds rule: list_induct2')
  case (4 p ps d ds)
  have "region_block G w' q = region_block G w q" if "q \<in> set ps" for q
    using regions_hold_region [of G V w ps ds q] region_at_kept [OF assms] 4 that by (auto simp: region_block_def)
  then show ?case using 4 region_holds_kept [OF assms] by auto
qed simp_all

text \<open>Freeing one region keeps the others.\<close>

lemma region_holds_dealloc:
  assumes laws: "allocator_laws W G V" and w: "hv_ok V w" "(unat p, REGION_SIZE) \<in> hv_live V w"
    and q: "region_holds G V w q (length d) d" "q \<noteq> p" "region_block G w q \<noteq> (unat p, REGION_SIZE)"
  shows "region_holds G V (gm_dealloc G p REGION_SIZE w) q (length d) d"
    "region_at G (gm_dealloc G p REGION_SIZE w) (unat q) = region_at G w (unat q)"
proof -
  let ?w = "gm_dealloc G p REGION_SIZE w" let ?r = "region_at G w (unat q)"
  have freed: "hv_live V ?w = hv_live V w - {(unat p, REGION_SIZE)}" "same_blocks G (hv_live V ?w) w ?w"
    using allocator_facts(6) [OF laws w] by simp_all
  have same: "contents G ?w (fst b) (snd b) = contents G w (fst b) (snd b)" if "b \<in> hv_live V ?w" for b
    using freed(2) that by (simp add: same_blocks_def)
  have box: "(unat q, REGION_SIZE) \<in> hv_live V ?w"
    using region_box [OF q(1)] q(2) freed(1) by (simp add: word_unat_eq_iff)
  show r: "region_at G ?w (unat q) = ?r"
    by (rule region_at_same) (use same [OF box] in simp)
  have cap: "unat (rg_capacity ?r) = length d" using q(1) by (simp add: region_holds_def Let_def)
  show "region_holds G V ?w q (length d) d"
  proof (cases "length d = 0")
    case True
    then show ?thesis using q(1) box by (simp add: region_holds_def Let_def r)
  next
    case False
    then have "(unat (rg_offset ?r), length d) \<in> hv_live V ?w"
      using q(1,3) cap freed(1) by (simp add: region_holds_def Let_def region_block_def)
    then show ?thesis using q(1) box same [of "(unat (rg_offset ?r), length d)"]
      by (simp add: region_holds_def Let_def r split: if_splits)
  qed
qed

lemma regions_hold_dealloc:
  assumes laws: "allocator_laws W G V" and w: "hv_ok V w" "(unat p, REGION_SIZE) \<in> hv_live V w"
  shows "regions_hold G V w ps ds \<Longrightarrow> \<forall>q \<in> set ps. q \<noteq> p \<and> region_block G w q \<noteq> (unat p, REGION_SIZE) \<Longrightarrow>
    regions_hold G V (gm_dealloc G p REGION_SIZE w) ps ds"
proof (induction ps ds rule: list_induct2')
  case (4 q ps d ds)
  note kept = region_holds_dealloc [OF laws w]
  have "region_block G (gm_dealloc G p REGION_SIZE w) q' = region_block G w q'" if "q' \<in> set ps" for q'
    using regions_hold_region [of G V w ps ds q'] kept(2) [of q'] 4 that by (auto simp: region_block_def)
  then show ?case using 4 kept(1) by auto
qed simp_all

text \<open>An entry point takes its first argument.\<close>

lemma gives_consume_first:
  assumes machine: "machine_ok X G V" and w: "hv_ok V w" "regions_hold G V w (p # ps) (d # ds)"
  obtains w' where "gives H (consume_region G p) (w, es) d (w', es)" "hv_ok V w'" "regions_hold G V w' ps ds"
    "hv_room V w \<le> hv_room V w'"
proof -
  note laws = machine_laws [OF machine]
  have p: "region_holds G V w p (length d) d" using w(2) by simp
  note freed = allocator_facts(6) [OF laws(2) w(1) region_box [OF p]]
  have "regions_hold G V (gm_dealloc G p REGION_SIZE w) ps ds"
    by (rule regions_hold_dealloc [OF laws(2) w(1) region_box [OF p]]) (use w(2) in simp_all)
  with that gives_consume_region [OF p] freed show ?thesis by blast
qed

definition args_room :: "'w heap_view \<Rightarrow> bytes list \<Rightarrow> nat" where
  "args_room V args = (\<Sum>d \<leftarrow> args. length d + REGION_SIZE + 2 * hv_slack V)"

lemma write_args_Cons:
  assumes "write_to_contract X call d s = (Ret p, s1)" "write_args X call ds s1 = (Ret vals, s2)"
  shows "write_args X call (d # ds) s = (Ret (I32 p # vals), s2)"
proof -
  have "write_args X call (d # ds) s =
      bindM (write_to_contract X call d) (\<lambda>p. bindM (write_args X call ds) (\<lambda>rest. returnM (I32 p # rest))) s"
    by (simp add: write_to_contract_def allocate_def bindM_assoc if_distribR
        thenM_def if_distrib [where f = "\<lambda>m. bindM m _"] cong: if_cong)
  then show ?thesis using assms by (simp add: m_simps)
qed

text \<open>\<^verbatim>\<open>call_raw\<close> passes its arguments in regions.\<close>

lemma write_args_run:
  assumes machine: "machine_ok X G V"
  shows "hv_ok V (en_guest e) \<Longrightarrow> funded V (length args + m) e \<Longrightarrow> args_room V args \<le> hv_room V (en_guest e) \<Longrightarrow>
    list_all (\<lambda>d. length d < 2 ^ 32) args \<Longrightarrow>
    \<exists>ps e'. write_args X (vm_call X (Suc k)) args (e, s) = (Ret (map I32 ps), (e', s)) \<and>
      advanced e e' \<and> funded V m e' \<and> regions_hold G V (en_guest e') ps args \<and>
      keeps_blocks G V (en_guest e) (en_guest e') \<and>
      hv_room V (en_guest e) \<le> hv_room V (en_guest e') + args_room V args \<and>
      (\<forall>q \<in> set ps. (unat q, REGION_SIZE) \<notin> hv_live V (en_guest e) \<and>
         (snd (region_block G (en_guest e') q) = 0 \<or> region_block G (en_guest e') q \<notin> hv_live V (en_guest e)))"
proof (induction args arbitrary: e)
  case Nil
  then show ?case by (auto simp: args_room_def advanced_refl keeps_blocks_refl m_simps)
next
  case (Cons d ds)
  have pre: "funded V (Suc (length ds + m)) e" "length d + REGION_SIZE + 2 * hv_slack V \<le> hv_room V (en_guest e)" "length d < 2 ^ 32"
    using Cons.prems by (simp_all add: args_room_def)
  obtain p f where f: "write_to_contract X (vm_call X (Suc k)) d (e, s) = (Ret p, (f, s))"
    "advanced e f" "funded V (length ds + m) f" "region_holds G V (en_guest f) p (length d) d"
    "keeps_blocks G V (en_guest e) (en_guest f)" "(unat p, REGION_SIZE) \<notin> hv_live V (en_guest e)"
    "hv_room V (en_guest e) \<le> hv_room V (en_guest f) + length d + REGION_SIZE + 2 * hv_slack V"
    "length d = 0 \<or> (unat (rg_offset (region_at G (en_guest f) (unat p))), length d) \<notin> hv_live V (en_guest e)"
    by (rule write_to_contract_run [OF machine Cons.prems(1) pre])
  have "args_room V ds \<le> hv_room V (en_guest f)" using f(7) Cons.prems(3) by (simp add: args_room_def)
  with Cons.IH [OF keeps_blocks_ok [OF f(5)] f(3)] Cons.prems(4) obtain ps e' where rest:
    "write_args X (vm_call X (Suc k)) ds (f, s) = (Ret (map I32 ps), (e', s))"
    "advanced f e'" "funded V m e'" "regions_hold G V (en_guest e') ps ds" "keeps_blocks G V (en_guest f) (en_guest e')"
    "hv_room V (en_guest f) \<le> hv_room V (en_guest e') + args_room V ds"
    "\<forall>q \<in> set ps. (unat q, REGION_SIZE) \<notin> hv_live V (en_guest f) \<and>
       (snd (region_block G (en_guest e') q) = 0 \<or> region_block G (en_guest e') q \<notin> hv_live V (en_guest f))"
    by auto
  have p: "region_holds G V (en_guest e') p (length d) d" by (rule region_holds_kept [OF rest(5) f(4)])
  have block: "region_block G (en_guest e') p = (unat (rg_offset (region_at G (en_guest f) (unat p))), length d)"
    using region_at_kept [OF rest(5) f(4)] p by (simp add: region_block_def region_holds_def Let_def)
  have "q \<noteq> p \<and> region_block G (en_guest e') q \<noteq> (unat p, REGION_SIZE)" if "q \<in> set ps" for q
    using rest(7) that region_box [OF f(4)] by (auto simp: REGION_SIZE_def)
  then have hold: "regions_hold G V (en_guest e') (p # ps) (d # ds)" using p rest(4) by simp
  have live: "hv_live V (en_guest e) \<subseteq> hv_live V (en_guest f)" using f(5) by (simp add: keeps_blocks_def)
  have fresh: "\<forall>q \<in> set (p # ps). (unat q, REGION_SIZE) \<notin> hv_live V (en_guest e) \<and>
      (snd (region_block G (en_guest e') q) = 0 \<or> region_block G (en_guest e') q \<notin> hv_live V (en_guest e))"
    using f(6,8) block rest(7) live by auto
  show ?case
    using write_args_Cons [OF f(1) rest(1)] advanced_trans [OF f(2) rest(2)] rest(3) hold
      keeps_blocks_trans [OF f(5) rest(5)] f(7) rest(6) fresh
    by (intro exI [of _ "p # ps"] exI [of _ e']) (simp add: args_room_def)
qed

section \<open>Executing a contract\<close>

lemma export_run:
  assumes machine: "machine_ok X G V"
    and run: "gives (env_imports X (vm_call X k) (query_raw X (vm_call X k))) c (en_guest e, (e, s)) vals (w', (e1, s1))"
    and export: "wx_call (x_wasm X) (en_guest e) name args = Ok (run_export G c (en_guest e))"
    and w': "hv_ok V w'" "funded V (Suc n) e1"
  obtains e' where "vm_call X (Suc k) name args (e, s) = (Ret vals, (e', s1))" "advanced e1 e'" "en_guest e' = w'" "funded V n e'"
proof -
  have "gm_used G w' \<le> hv_cost V" by (rule allocator_facts(1) [OF machine_laws(2) [OF machine] w'(1)])
  with w'(2) obtain e' where e': "charge (gm_used G w') w' (e1, s1) = (Ret True, (e', s1))" "advanced e1 e'" "en_guest e' = w'"
    "funded V n e'" "e' = e1\<lparr>en_guest := w', en_points := en_points e'\<rparr>"
    by (rule charge_run)
  have "run_prog (env_imports X (vm_call X k) (query_raw X (vm_call X k))) (run_export G c (en_guest e)) (e, s) = (Ret vals, (e', s1))"
    using run e'(1) by (simp add: gives_def run_export_def m_simps)
  then have "vm_call X (Suc k) name args (e, s) = (Ret vals, (e', s1))"
    using export by (simp add: vm_call.simps call_function_def get_env_def m_simps)
  with that e' show ?thesis by blast
qed

lemma deallocate_run:
  assumes machine: "machine_ok X G V" and e: "hv_ok V (en_guest e)" "funded V (Suc n) e"
    and p: "region_holds G V (en_guest e) p cap data"
  obtains e' where "deallocate (vm_call X (Suc k)) p (e, s) = (Ret (), (e', s))" "advanced e e'" "hv_ok V (en_guest e')"
proof -
  note laws = machine_laws [OF machine]
  let ?w = "en_guest e" let ?r = "region_at G ?w (unat p)" let ?w1 = "gm_dealloc G p REGION_SIZE ?w"
  let ?w2 = "if unat (rg_capacity ?r) = 0 then ?w1 else gm_dealloc G (rg_offset ?r) (unat (rg_capacity ?r)) ?w1"
  let ?H = "env_imports X (vm_call X k) (query_raw X (vm_call X k))"
  note freed = allocator_facts(6) [OF laws(2) e(1) region_box [OF p]]
  have r: "p \<noteq> 0" "rg_offset ?r \<noteq> 0" "unat (rg_capacity ?r) = cap"
    "cap \<noteq> 0 \<Longrightarrow> (unat (rg_offset ?r), cap) \<in> hv_live V ?w1"
    using p freed by (auto simp: region_holds_def Let_def)
  have parts: "gives ?H (consume_region_parts G p) (?w, (e, s)) (?r, data) (?w1, (e, s))"
    using p r gives_drop_region [of ?H G p ?w "(e, s)"]
    by (simp add: gives_def consume_region_parts_def bindG_def thenG_def getG_def returnG_def region_holds_def Let_def)
  have free: "gives ?H (thenG (freeG G (rg_offset ?r) (unat (rg_capacity ?r))) (returnG [])) (?w1, (e, s)) [] (?w2, (e, s))"
    unfolding freeG_def
    by (rule gives_then [OF gives_update gives_return [where a = "[]"]])
  have run: "gives ?H (export_deallocate G p) (?w, (e, s)) [] (?w2, (e, s))"
    unfolding export_deallocate_def by (rule gives_bind [OF parts]) (simp only: prod.case, rule free)
  have export: "wx_call (x_wasm X) ?w ''deallocate'' [I32 p] = Ok (run_export G (export_deallocate G p) ?w)"
    using laws(3) by (simp add: library_exports_def)
  have ok: "hv_ok V ?w2"
    using freed r(3,4) allocator_facts(6) [OF laws(2), of ?w1 "rg_offset ?r" cap] by auto
  obtain e' where "vm_call X (Suc k) ''deallocate'' [I32 p] (e, s) = (Ret [], (e', s))" "advanced e e'" "en_guest e' = ?w2"
    "funded V n e'"
    by (rule export_run [OF machine run export ok e(2)])
  with that ok show ?thesis by (simp add: deallocate_def call_function0_def m_simps)
qed

lemma stocked_memory:
  "stocked G V L n room gas (w, es) ms \<Longrightarrow> hv_ok V w' \<Longrightarrow> hv_room V w \<le> hv_room V w' \<Longrightarrow>
     stocked G V L n room gas (w', es) ms"
  by (simp add: stocked_def)

text \<open>
  What \<^verbatim>\<open>do_execute\<close> does for a contract's function over the storage: it decodes the arguments,
  runs the function and returns a region with the encoded answer.
\<close>

lemma gives_execute:
  assumes machine: "machine_ok X G V" and L: "L \<le> MAX_LENGTH_DB_KEY"
    and decoded: "std_from_slice JE env = Ok E" "std_from_slice JI info = Ok I" "std_from_slice JM msg = Ok M"
    and c: "fits L (c E I M) n" "eval_contract (c E I M) (bt_get (ms_inner ms)) = (r, m)"
    and out: "std_to_vec R (ContractResult_from r) = Ok out"
    and w: "regions_hold G V w [pe, pi, pm] [env, info, msg]"
      "stocked G V L n (length out + REGION_SIZE + 2 * hv_slack V) gas (w, es) ms"
  obtains p w' es' ms' where
    "gives (env_imports X (vm_call X (Suc k)) Q)
       (do_execute G JE JI JM R (\<lambda>e i a. run_contract G (c e i a)) pe pi pm) (w, es) p (w', es')"
    "region_holds G V w' p (length out) out" "hv_ok V w'" "funded V gas (fst es')"
    "load_storage es' = Some ms'" "bt_get (ms_inner ms') = m"
proof -
  note laws = machine_laws [OF machine]
  let ?H = "env_imports X (vm_call X (Suc k)) Q"
  have ok: "hv_ok V w" using w(2) by (simp add: stocked_def)
  let ?h = "gm_set_hook G w"
  note hook = allocator_facts(8) [OF laws(2) ok]
  have "keeps_blocks G V w ?h" using hook by (simp add: keeps_blocks_def)
  note regions = regions_hold_kept [OF this w(1)]
  obtain w1 where w1: "gives ?H (consume_region G pe) (?h, es) env (w1, es)" "hv_ok V w1"
    "regions_hold G V w1 [pi, pm] [info, msg]" "hv_room V ?h \<le> hv_room V w1"
    by (rule gives_consume_first [OF machine _ regions]) (use hook in simp)
  obtain w2 where w2: "gives ?H (consume_region G pi) (w1, es) info (w2, es)" "hv_ok V w2"
    "regions_hold G V w2 [pm] [msg]" "hv_room V w1 \<le> hv_room V w2"
    by (rule gives_consume_first [OF machine w1(2,3)])
  obtain w3 where w3: "gives ?H (consume_region G pm) (w2, es) msg (w3, es)" "hv_ok V w3"
    "regions_hold G V w3 [] []" "hv_room V w2 \<le> hv_room V w3"
    by (rule gives_consume_first [OF machine w2(2,3)])
  have "hv_room V w \<le> hv_room V w3" using hook w1(4) w2(4) w3(4) by simp
  then have stock3: "stocked G V L n (length out + REGION_SIZE + 2 * hv_slack V) gas (w3, es) ms"
    by (rule stocked_memory [OF w(2) w3(2)])
  obtain st' ms' where st': "gives ?H (run_contract G (c E I M)) (w3, es) r st'"
    "stocked G V L 0 (length out + REGION_SIZE + 2 * hv_slack V) gas st' ms'" "bt_get (ms_inner ms') = m"
    using gives_contract [OF machine L c(1) stock3, of k Q] c(2) by auto
  obtain w4 es' where w4: "st' = (w4, es')" by (cases st')
  have stock4: "hv_ok V w4" "length out + REGION_SIZE + 2 * hv_slack V \<le> hv_room V w4" "funded V gas (fst es')"
    "load_storage es' = Some ms'"
    using st'(2) by (simp_all add: stocked_def w4)
  obtain p w' where p: "gives ?H (build_region G out) (w4, es') p (w', es')" "region_holds G V w' p (length out) out"
    "keeps_blocks G V w4 w'" "(unat p, REGION_SIZE) \<notin> hv_live V w4"
    "hv_room V w4 \<le> hv_room V w' + length out + REGION_SIZE + 2 * hv_slack V"
    by (rule gives_build_region [OF laws(1,2) stock4(1,2)])
  have "gives ?H (do_execute_inner G JE JI JM (\<lambda>e i a. run_contract G (c e i a)) pe pi pm) (?h, es)
      (ContractResult_from r) (w4, es')"
    unfolding do_execute_inner_def
    by (rule gives_bind [OF w1(1)], rule gives_bind [OF w2(1)], rule gives_bind [OF w3(1)])
      (simp add: try_into_contract_result_def decoded gives_bind [OF st'(1) [unfolded w4]] gives_return)
  moreover have "gives ?H (return_result G R (ContractResult_from r)) (w4, es') p (w', es')"
    unfolding return_result_def out release_buffer_def
    by (rule gives_bind [where a = out and t = "(w4, es')"]) (simp_all add: map_errR_def unwrapG_def gives_return p(1))
  ultimately have "gives ?H (do_execute G JE JI JM R (\<lambda>e i a. run_contract G (c e i a)) pe pi pm) (w, es) p (w', es')"
    unfolding do_execute_def install_panic_handler_def
    by (intro gives_then [OF gives_update] gives_bind)
  with that p(2) keeps_blocks_ok [OF p(3)] stock4(3,4) st'(3) show ?thesis by blast
qed

text \<open>The export that \<^verbatim>\<open>entry_point\<close> generates for a contract's \<^verbatim>\<open>execute\<close>.\<close>

definition exports_execute ::
  "('m, 'w) wasm_ext \<Rightarrow> 'w machine \<Rightarrow> Env serde \<Rightarrow> MessageInfo serde \<Rightarrow> 'a serde \<Rightarrow> Response ContractResult serde \<Rightarrow>
     (Env \<Rightarrow> MessageInfo \<Rightarrow> 'a \<Rightarrow> ('w, (string, Response) result) guest) \<Rightarrow> bool" where
  "exports_execute W G JE JI JM R f \<longleftrightarrow>
     (\<forall>w a b d. wx_call W w ''execute'' [I32 a, I32 b, I32 d] =
        Ok (run_export G (bindG (do_execute G JE JI JM R f a b d) (\<lambda>p. returnG [I32 p])) w))"

text \<open>The room and the metering points a call needs: for its arguments, the operations and the answer.\<close>

definition execute_room :: "'w heap_view \<Rightarrow> nat \<Rightarrow> nat \<Rightarrow> bytes list \<Rightarrow> bytes \<Rightarrow> nat" where
  "execute_room V L n args out =
     args_room V args + n * op_room V L + (length out + REGION_SIZE + 2 * hv_slack V)"

lemma regions_hold_length: "regions_hold G V w ps ds \<Longrightarrow> length ps = length ds"
  by (induction G V w ps ds rule: regions_hold.induct) auto

lemma limits32: "READ_LIMIT < 2 ^ 32"
  by (simp add: READ_LIMIT_def MI_def KI_def)


section \<open>A machine\<close>

text \<open>
  A memory of 16 MiB with an allocator that never reuses a block, and a contract that counts in
  one stored byte by the step its message gives.
\<close>

record bump =
  bp_mem :: "nat \<Rightarrow> byte"
  bp_next :: nat
  bp_live :: "(nat \<times> nat) set"
  bp_hook :: bool

definition BUMP_SIZE :: nat where "BUMP_SIZE = 16777216"

definition bump_alloc :: "nat \<Rightarrow> bump \<Rightarrow> (u32 \<times> bump) option" where
  "bump_alloc n w =
     (let p = bp_next w; q = p + 4 * ((n + 3) div 4) in
      if q \<le> BUMP_SIZE then Some (of_nat p, w\<lparr>bp_next := q, bp_live := insert (p, n) (bp_live w)\<rparr>) else None)"

definition bump_machine :: "bump machine" where
  "bump_machine =
     \<lparr>gm_checks = True, gm_peek = bp_mem,
      gm_poke = (\<lambda>a d. bp_mem_update (\<lambda>m i. if a \<le> i \<and> i < a + length d then d ! (i - a) else m i)),
      gm_alloc = bump_alloc, gm_dealloc = (\<lambda>p n. bp_live_update (\<lambda>B. B - {(unat p, n)})),
      gm_used = (\<lambda>_. 10), gm_panic_text = id, gm_hooked = bp_hook, gm_set_hook = bp_hook_update (\<lambda>_. True)\<rparr>"

definition bump_ok :: "bump \<Rightarrow> bool" where
  "bump_ok w \<longleftrightarrow>
     0 < bp_next w \<and> 4 dvd bp_next w \<and> bp_next w \<le> BUMP_SIZE \<and>
     (\<forall>b \<in> bp_live w. 0 < snd b \<and> fst b + snd b \<le> bp_next w \<and> (\<forall>c \<in> bp_live w. b \<noteq> c \<longrightarrow> apart b c))"

definition bump_view :: "bump heap_view" where
  "bump_view =
     \<lparr>hv_ok = bump_ok, hv_live = bp_live, hv_room = (\<lambda>w. BUMP_SIZE - bp_next w), hv_slack = 3, hv_cost = 10\<rparr>"

definition count_steps :: "Env \<Rightarrow> MessageInfo \<Rightarrow> byte \<Rightarrow> (string, Response) result contract" where
  "count_steps env info step =
     Get_then [1] (\<lambda>v.
       if step = 0 then Answer (Err ''no step'')
       else Set_then [1] [(case v of Some [n] \<Rightarrow> n | _ \<Rightarrow> 0) + step] (Answer (Ok Response_new)))"

definition env_codec :: "Env serde" where
  "env_codec =
     \<lparr>sd_to_vec = (\<lambda>_. Ok [0]),
      sd_from_slice = (\<lambda>_. Ok \<lparr>env_block = \<lparr>bi_height = 7, bi_time = 0, bi_chain_id = ''test-1''\<rparr>,
        env_transaction = None, env_contract = \<lparr>ci_address = ''vault''\<rparr>\<rparr>),
      sd_type_name = ''Env''\<rparr>"

definition info_codec :: "MessageInfo serde" where
  "info_codec =
     \<lparr>sd_to_vec = (\<lambda>i. Ok (str_bytes (mi_sender i))),
      sd_from_slice = (\<lambda>b. Ok \<lparr>mi_sender = bytes_str b, mi_funds = []\<rparr>), sd_type_name = ''MessageInfo''\<rparr>"

definition step_codec :: "byte serde" where
  "step_codec =
     \<lparr>sd_to_vec = (\<lambda>n. Ok [n]), sd_from_slice = (\<lambda>b. case b of [n] \<Rightarrow> Ok n | _ \<Rightarrow> Err ''not a step''),
      sd_type_name = ''u8''\<rparr>"

definition answer_codec :: "Response ContractResult serde" where
  "answer_codec =
     \<lparr>sd_to_vec = (\<lambda>r. case r of ContractResult_Ok _ \<Rightarrow> Ok [0] | ContractResult_Err e \<Rightarrow> Ok (1 # str_bytes e)),
      sd_from_slice = (\<lambda>b. if b = [0] then Ok (ContractResult_Ok Response_new) else Ok (ContractResult_Err (bytes_str (tl b)))),
      sd_type_name = ''ContractResult''\<rparr>"

definition bump_call :: "bump \<Rightarrow> string \<Rightarrow> Val list \<Rightarrow> (string, bump prog) result" where
  "bump_call w name args =
     (let G = bump_machine in
      case args of
        [I32 a] \<Rightarrow>
          if name = ''allocate'' then Ok (run_export G (export_allocate G a) w)
          else if name = ''deallocate'' then Ok (run_export G (export_deallocate G a) w)
          else Err name
      | [I32 a, I32 b, I32 d] \<Rightarrow>
          if name = ''execute''
          then Ok (run_export G (bindG (do_execute G env_codec info_codec step_codec answer_codec
                 (\<lambda>E I M. run_contract G (count_steps E I M)) a b d) (\<lambda>p. returnG [I32 p])) w)
          else Err name
      | _ \<Rightarrow> Err name)"

definition bump_start :: bump where
  "bump_start = \<lparr>bp_mem = (\<lambda>_. 0), bp_next = 1024, bp_live = {}, bp_hook = False\<rparr>"

definition bump_wasm :: "(bytes, bump) wasm_ext" where
  "bump_wasm =
     \<lparr>wx_compile = Ok, wx_instantiate = (\<lambda>_. Ok bump_start), wx_call = bump_call, wx_has_memory = (\<lambda>_. True),
      wx_memory_size = (\<lambda>_. BUMP_SIZE),
      wx_get_region = (\<lambda>w p. if unat p + REGION_SIZE \<le> BUMP_SIZE then Some (region_at bump_machine w (unat p)) else None),
      wx_set_region = (\<lambda>p r w. if unat p + REGION_SIZE \<le> BUMP_SIZE
        then Some (gm_poke bump_machine (unat p) (region_bytes r) w) else None),
      wx_get_bytes = (\<lambda>w off len. if unat off + unat len \<le> BUMP_SIZE
        then Some (contents bump_machine w (unat off) (unat len)) else None),
      wx_set_bytes = (\<lambda>off. gm_poke bump_machine (unat off)),
      wx_val_string = (\<lambda>_. ''value'')\<rparr>"

definition bump_x :: "(bytes, bump) externs" where
  "bump_x =
     \<lparr>x_checks = True, x_client = sample_ext, x_serde = sample_serde, x_wasm = bump_wasm,
      x_crypto = sample_crypto, x_bech32 = sample_bech32, x_sha256 = id,
      x_pb_instantiate_response = str_bytes, x_pb_execute_response = []\<rparr>"

lemma bump_machine_sel [simp]:
  "gm_peek bump_machine = bp_mem" "gm_alloc bump_machine = bump_alloc" "gm_used bump_machine w = 10"
  "gm_poke bump_machine a d = bp_mem_update (\<lambda>m i. if a \<le> i \<and> i < a + length d then d ! (i - a) else m i)"
  "gm_dealloc bump_machine p n = bp_live_update (\<lambda>B. B - {(unat p, n)})" "gm_hooked bump_machine = bp_hook"
  "gm_set_hook bump_machine = bp_hook_update (\<lambda>_. True)"
  by (simp_all add: bump_machine_def)

lemma bump_view_sel [simp]:
  "hv_ok bump_view = bump_ok" "hv_live bump_view = bp_live" "hv_room bump_view w = BUMP_SIZE - bp_next w"
  "hv_slack bump_view = 3" "hv_cost bump_view = 10"
  by (simp_all add: bump_view_def)

lemma bump_memory: "memory_laws bump_wasm bump_machine"
  by (simp add: memory_laws_def bump_wasm_def BUMP_SIZE_def)

lemma bump_alloc_ok:
  assumes "bump_ok w" "0 < n" "bump_alloc n w = Some (p, w')"
  shows "bump_ok w' \<and> p \<noteq> 0 \<and> 4 dvd unat p \<and> bp_live w' = insert (unat p, n) (bp_live w) \<and>
    (unat p, n) \<notin> bp_live w \<and> bp_mem w' = bp_mem w \<and> bp_hook w' = bp_hook w"
proof -
  let ?p = "bp_next w" let ?q = "?p + 4 * ((n + 3) div 4)"
  have w: "0 < ?p" "4 dvd ?p" "?p \<le> BUMP_SIZE" "\<And>b. b \<in> bp_live w \<Longrightarrow> 0 < snd b \<and> fst b + snd b \<le> ?p"
    "\<And>b c. b \<in> bp_live w \<Longrightarrow> c \<in> bp_live w \<Longrightarrow> b \<noteq> c \<Longrightarrow> apart b c"
    using assms(1) by (auto simp: bump_ok_def)
  have w': "?q \<le> BUMP_SIZE" "p = of_nat ?p" "w' = w\<lparr>bp_next := ?q, bp_live := insert (?p, n) (bp_live w)\<rparr>"
    using assms(3) by (simp_all add: bump_alloc_def Let_def split: if_splits)
  have p: "unat p = ?p" using w(3) w'(2) by (simp add: unat_of_nat BUMP_SIZE_def)
  have "n \<le> 4 * ((n + 3) div 4)" by linarith
  then have end_: "?p + n \<le> ?q" by simp
  have "apart (?p, n) b" "apart b (?p, n)" if "b \<in> bp_live w" for b using w(4) [OF that] by (auto simp: apart_def)
  moreover have "0 < snd b \<and> fst b + snd b \<le> ?q" if "b \<in> insert (?p, n) (bp_live w)" for b
    using that end_ w(4) [of b] assms(2) by auto
  moreover have "4 dvd ?q" using w(2) by simp
  ultimately have "bump_ok w'" using w(1,5) w'(1) by (auto simp: bump_ok_def w'(3))
  moreover have "p \<noteq> 0" using p w(1) by auto
  moreover have "(unat p, n) \<notin> bp_live w" using w(4) [of "(?p, n)"] assms(2) by (auto simp: p)
  ultimately show ?thesis using p w(2) by (simp add: w'(3))
qed

lemma bump_contents: "bp_mem w' = bp_mem w \<Longrightarrow> contents bump_machine w' a n = contents bump_machine w a n"
  by (simp add: contents_def)

lemma bump_room:
  assumes "0 < n" "n + 3 \<le> BUMP_SIZE - bp_next w"
  shows "\<exists>p w'. bump_alloc n w = Some (p, w') \<and> BUMP_SIZE - bp_next w \<le> BUMP_SIZE - bp_next w' + n + 3"
proof -
  have "4 * ((n + 3) div 4) \<le> n + 3" by simp
  then show ?thesis using assms by (auto simp: bump_alloc_def Let_def)
qed

lemma bump_freed: "bump_ok w \<Longrightarrow> bump_ok (bp_live_update (\<lambda>B. B - C) w)"
  by (simp add: bump_ok_def)

lemma bump_written: "bump_ok (bp_mem_update f w) = bump_ok w" "bump_ok (bp_hook_update g w) = bump_ok w"
  by (simp_all add: bump_ok_def)

lemma bump_allocator: "allocator_laws bump_wasm bump_machine bump_view"
  unfolding allocator_laws_def Let_def
proof (intro allI impI, goal_cases)
  case (1 w)
  let ?G = bump_machine let ?V = bump_view
  have ok: "bump_ok w" using 1 by simp
  have same: "same_blocks ?G B w w'" if "bp_mem w' = bp_mem w" for B w'
    by (simp add: same_blocks_def bump_contents [OF that])
  have blocks: "\<forall>b \<in> hv_live ?V w. fst b + snd b \<le> wx_memory_size bump_wasm w \<and>
      (\<forall>c \<in> hv_live ?V w. b \<noteq> c \<longrightarrow> apart b c)"
    using ok by (auto simp: bump_ok_def bump_wasm_def)
  have room: "\<forall>n. 0 < n \<and> n + hv_slack ?V \<le> hv_room ?V w \<longrightarrow>
      (\<exists>p w'. gm_alloc ?G n w = Some (p, w') \<and> hv_room ?V w \<le> hv_room ?V w' + n + hv_slack ?V)"
    using bump_room [of _ w] by simp
  have new: "\<forall>n p w'. 0 < n \<and> gm_alloc ?G n w = Some (p, w') \<longrightarrow>
      hv_ok ?V w' \<and> p \<noteq> 0 \<and> 4 dvd unat p \<and> hv_live ?V w' = insert (unat p, n) (hv_live ?V w) \<and>
      (unat p, n) \<notin> hv_live ?V w \<and> same_blocks ?G (hv_live ?V w) w w' \<and> gm_hooked ?G w' = gm_hooked ?G w"
  proof (intro allI impI, elim conjE)
    fix n p w' assume "0 < n" "gm_alloc ?G n w = Some (p, w')"
    with bump_alloc_ok [OF ok, of n p w'] same [of w']
    show "hv_ok ?V w' \<and> p \<noteq> 0 \<and> 4 dvd unat p \<and> hv_live ?V w' = insert (unat p, n) (hv_live ?V w) \<and>
      (unat p, n) \<notin> hv_live ?V w \<and> same_blocks ?G (hv_live ?V w) w w' \<and> gm_hooked ?G w' = gm_hooked ?G w"
      by simp
  qed
  show ?case
    by (intro conjI blocks room new)
      (simp_all add: ok bump_freed bump_written same)
qed

lemma bump_machine_ok: "machine_ok bump_x bump_machine bump_view"
proof -
  have "x_wasm bump_x = bump_wasm" by (simp add: bump_x_def)
  moreover have "library_exports bump_wasm bump_machine"
    by (simp add: library_exports_def bump_wasm_def bump_call_def)
  ultimately show ?thesis using bump_memory bump_allocator by (simp add: machine_ok_def)
qed

lemma bump_execute:
  "exports_execute (x_wasm bump_x) bump_machine env_codec info_codec step_codec answer_codec
     (\<lambda>E I M. run_contract bump_machine (count_steps E I M))"
  by (simp add: exports_execute_def bump_x_def bump_wasm_def bump_call_def)

definition vault_shared :: Shared where
  "vault_shared =
     \<lparr>sh_states = sample_states\<lparr>as_contract_states := [''vault'' \<mapsto> \<lparr>cs_code = WASM_MAGIC, cs_storage = [([1], [7])]\<rparr>]\<rparr>,
      sh_debug_log = DebugLog_new, sh_world = sample_world\<rparr>"

definition vault_environment :: "bump Environment" where
  "vault_environment = Environment_new sample_api 1000000 False (SharedStorage ''vault'') bump_start"

lemma vault_storage:
  "load_storage (vault_environment, vault_shared) =
     Some \<lparr>ms_inner = [([1], [7])], ms_iterators = Map.empty, ms_iterator_id_ctr = 0\<rparr>"
  by (simp add: load_storage_def vault_environment_def Environment_new_def vault_shared_def contract_state_get_def)


end
